(* ===== verification/Prelude.thy ===== *)
theory Prelude
  imports Complex_Main "HOL-Library.Char_ord" "HOL-Library.List_Lexorder"
    "HOL-Library.Product_Lexorder"
begin

text \<open>
  Shared vocabulary of the development. It holds the Python exceptions the modelled code raises
  and the sequencing of computations that may raise, the ASCII part of the string methods the
  code calls, the untyped values of its dictionaries and JSON objects, tables of a relational
  store with their SELECT, UPDATE and rowcount, and the locales through which every state
  machine of the development gets its reachable-state theorems.
\<close>

named_theorems raises \<open>which results a computation that may raise can have\<close>
named_theorems table_simps \<open>how updates of one table act on its columns\<close>

section \<open>Exceptions\<close>

text \<open>
  One constructor per exception class the modelled code raises or catches. A reason code is
  kept where the class has one, and the message where the code or a caller reads it.
  \<open>IntegrityError\<close> is the exception of the SQLite binding, with SQLite's own message.
\<close>

datatype exc =
    ValueError string
  | TypeError string
  | RuntimeError string
  | InvalidOperation
  | AssertionError string
  | IntegrityError string
  | PersistenceError string
  | RiskLimitExceededError string
  | DatabaseWriteError string
  | AccountBusyError string
  | InvalidOrderTransition string string
  | ReservationReleaseBlocked string
  | KeyError string
  | CandleStoreFullError string
  | ProtocolError string string
  | StrategyCatalogError string
  | TickRoutingError string string
  | TickBackpressure string string
  | ExecutionCapabilityError string
  | StrategyDataError string
  | CandleConflictError string
  | JournalConflictError string
  | WarmupCheckpointConflict string
  | CandleDecisionCommitConflict string
  | StructError string

text \<open>A computation that may raise, followed by the rest of the function.\<close>

definition and_then :: "exc + 'a \<Rightarrow> ('a \<Rightarrow> exc + 'b) \<Rightarrow> exc + 'b" where
  "and_then m f = (case m of Inl e \<Rightarrow> Inl e | Inr x \<Rightarrow> f x)"

lemma and_then_Inl [simp]: "and_then (Inl e) f = Inl e"
  by (simp add: and_then_def)

lemma and_then_Inr [simp]: "and_then (Inr x) f = f x"
  by (simp add: and_then_def)

lemma and_then_eq_Inr [raises]:
  "and_then m f = Inr y \<longleftrightarrow> (\<exists>x. m = Inr x \<and> f x = Inr y)"
  by (cases m) auto

lemma and_then_eq_Inl [raises]:
  "and_then m f = Inl e \<longleftrightarrow> m = Inl e \<or> (\<exists>x. m = Inr x \<and> f x = Inl e)"
  by (cases m) auto

lemma and_then_assoc: "and_then (and_then m f) g = and_then m (\<lambda>x. and_then (f x) g)"
  by (cases m) auto

text \<open>\<open>if c: raise e\<close> in front of the rest of a function.\<close>

definition raise_if :: "bool \<Rightarrow> exc \<Rightarrow> exc + unit" where
  "raise_if c e = (if c then Inl e else Inr ())"

lemma raise_if_eq_Inr [raises, simp]: "raise_if c e = Inr u \<longleftrightarrow> \<not> c"
  by (simp add: raise_if_def)

lemma raise_if_eq_Inl [raises, simp]: "raise_if c e = Inl e' \<longleftrightarrow> c \<and> e' = e"
  by (auto simp add: raise_if_def)

lemma raise_if_False [simp]: "raise_if False e = Inr ()"
  by (simp add: raise_if_def)

lemma raise_if_True [simp]: "raise_if True e = Inl e"
  by (simp add: raise_if_def)

section \<open>Strings\<close>

text \<open>
  Python text restricted to ASCII: \<open>str.strip\<close>, \<open>str.upper\<close>, \<open>str.isalpha\<close>,
  \<open>str.startswith\<close> and \<open>a in b\<close>.
\<close>

definition char_code :: "char \<Rightarrow> nat" where
  "char_code c = of_char c"

definition is_space :: "char \<Rightarrow> bool" where
  "is_space c \<longleftrightarrow> (9 \<le> char_code c \<and> char_code c \<le> 13) \<or> (28 \<le> char_code c \<and> char_code c \<le> 32)"

definition lstrip :: "string \<Rightarrow> string" where
  "lstrip s = dropWhile is_space s"

definition strip :: "string \<Rightarrow> string" where
  "strip s = rev (lstrip (rev (lstrip s)))"

definition is_lower :: "char \<Rightarrow> bool" where
  "is_lower c \<longleftrightarrow> 97 \<le> char_code c \<and> char_code c \<le> 122"

definition is_upper :: "char \<Rightarrow> bool" where
  "is_upper c \<longleftrightarrow> 65 \<le> char_code c \<and> char_code c \<le> 90"

definition upper_char :: "char \<Rightarrow> char" where
  "upper_char c = (if is_lower c then char_of (char_code c - 32) else c)"

definition upper :: "string \<Rightarrow> string" where
  "upper s = map upper_char s"

definition isalpha :: "string \<Rightarrow> bool" where
  "isalpha s \<longleftrightarrow> s \<noteq> [] \<and> list_all (\<lambda>c. is_lower c \<or> is_upper c) s"

definition startswith :: "string \<Rightarrow> string \<Rightarrow> bool" where
  "startswith s p \<longleftrightarrow> take (length p) s = p"

fun occurs_in :: "string \<Rightarrow> string \<Rightarrow> bool" where
  "occurs_in p [] \<longleftrightarrow> p = []"
| "occurs_in p (c # cs) \<longleftrightarrow> startswith (c # cs) p \<or> occurs_in p cs"

text \<open>\<open>not value.strip()\<close>, the emptiness test of the validated dataclasses.\<close>

definition blank :: "string \<Rightarrow> bool" where
  "blank s \<longleftrightarrow> strip s = []"

text \<open>Evaluation of these functions on literals.\<close>

lemmas string_eval = blank_def strip_def lstrip_def is_space_def char_code_def upper_def
  upper_char_def is_lower_def is_upper_def isalpha_def startswith_def

lemma char_code_upper: "is_lower c \<Longrightarrow> char_code (upper_char c) = char_code c - 32"
  by (auto simp: upper_char_def char_code_def is_lower_def)

lemma not_lower_upper_char [simp]: "\<not> is_lower (upper_char c)"
proof (cases "is_lower c")
  case True
  then show ?thesis
    using char_code_upper [OF True] by (auto simp: is_lower_def)
next
  case False
  then show ?thesis by (simp add: upper_char_def)
qed

lemma upper_char_idem [simp]: "upper_char (upper_char c) = upper_char c"
  by (simp add: upper_char_def [of "upper_char c"])

lemma upper_idem [simp]: "upper (upper s) = upper s"
  by (simp add: upper_def)

lemma length_upper [simp]: "length (upper s) = length s"
  by (simp add: upper_def)

lemma is_upper_not_space: "is_upper c \<Longrightarrow> \<not> is_space c"
  by (auto simp: is_upper_def is_space_def)

lemma is_lower_not_space: "is_lower c \<Longrightarrow> \<not> is_space c"
  by (auto simp: is_lower_def is_space_def)

lemma lstrip_no_space: "list_all (\<lambda>c. \<not> is_space c) s \<Longrightarrow> lstrip s = s"
  by (cases s) (simp_all add: lstrip_def)

lemma strip_no_space: "list_all (\<lambda>c. \<not> is_space c) s \<Longrightarrow> strip s = s"
  by (simp add: strip_def lstrip_no_space)

lemma isalpha_no_space: "isalpha s \<Longrightarrow> list_all (\<lambda>c. \<not> is_space c) s"
  by (auto simp: isalpha_def list_all_iff is_upper_not_space is_lower_not_space)

section \<open>Chains of checks\<close>

text \<open>The reason of the first condition of a chain that holds.\<close>

fun first_conflict :: "(bool \<times> string) list \<Rightarrow> string option" where
  "first_conflict [] = None"
| "first_conflict ((c, reason) # r) = (if c then Some reason else first_conflict r)"

section \<open>Untyped values\<close>

text \<open>
  The values a Python dictionary, a decoded JSON object or an SQL row can hold. A dictionary is
  an association list; \<open>payload.get(name)\<close> is \<open>get_item\<close>, which gives \<open>PNone\<close> where the
  key is absent. \<open>bool\<close> is a separate constructor, so that the code's explicit exclusion of
  \<open>bool\<close> where it wants \<open>int\<close> is visible.
\<close>

datatype pyval =
    PNone
  | PBool bool
  | PInt int
  | PFloat rat
  | PStr string
  | PList "pyval list"
  | PDict "(string \<times> pyval) list"

type_synonym payload = "(string \<times> pyval) list"

definition get_item :: "payload \<Rightarrow> string \<Rightarrow> pyval" where
  "get_item p k = (case map_of p k of None \<Rightarrow> PNone | Some v \<Rightarrow> v)"

definition get_default :: "payload \<Rightarrow> string \<Rightarrow> pyval \<Rightarrow> pyval" where
  "get_default p k d = (case map_of p k of None \<Rightarrow> d | Some v \<Rightarrow> v)"

lemma get_item_Nil [simp]: "get_item [] k = PNone"
  by (simp add: get_item_def)

lemma get_item_Cons [simp]:
  "get_item ((k', v) # p) k = (if k = k' then v else get_item p k)"
  by (simp add: get_item_def)

lemma get_default_Nil [simp]: "get_default [] k d = d"
  by (simp add: get_default_def)

lemma get_default_Cons [simp]:
  "get_default ((k', v) # p) k d = (if k = k' then v else get_default p k d)"
  by (simp add: get_default_def)

fun is_str :: "pyval \<Rightarrow> bool" where
  "is_str (PStr s) = True"
| "is_str _ = False"

fun is_int :: "pyval \<Rightarrow> bool" where
  "is_int (PInt i) = True"
| "is_int _ = False"

fun the_str :: "pyval \<Rightarrow> string" where
  "the_str (PStr s) = s"
| "the_str _ = []"

fun the_int :: "pyval \<Rightarrow> int" where
  "the_int (PInt i) = i"
| "the_int _ = 0"

text \<open>An optional value as \<open>None\<close> or the value.\<close>

definition opt_val :: "('a \<Rightarrow> pyval) \<Rightarrow> 'a option \<Rightarrow> pyval" where
  "opt_val f x = (case x of None \<Rightarrow> PNone | Some y \<Rightarrow> f y)"

lemma opt_val_simps [simp]: "opt_val f None = PNone" "opt_val f (Some y) = f y"
  by (simp_all add: opt_val_def)

section \<open>Tables\<close>

text \<open>
  A table is the list of its rows. \<open>SELECT ... fetchone()\<close> is \<^const>\<open>List.find\<close>,
  \<open>UPDATE ... WHERE P\<close> is \<open>update_where P f\<close> and its \<open>rowcount\<close> is \<open>row_count P\<close>.
\<close>

definition update_where :: "('r \<Rightarrow> bool) \<Rightarrow> ('r \<Rightarrow> 'r) \<Rightarrow> 'r list \<Rightarrow> 'r list" where
  "update_where P f t = map (\<lambda>r. if P r then f r else r) t"

definition row_count :: "('r \<Rightarrow> bool) \<Rightarrow> 'r list \<Rightarrow> nat" where
  "row_count P t = length (filter P t)"

text \<open>\<open>COALESCE(new, old)\<close> on a nullable column.\<close>

definition coalesce :: "'a option \<Rightarrow> 'a option \<Rightarrow> 'a option" where
  "coalesce a b = (case a of None \<Rightarrow> b | Some x \<Rightarrow> Some x)"

lemma coalesce_simps [simp]: "coalesce None b = b" "coalesce (Some x) b = Some x"
  by (simp_all add: coalesce_def)

lemma length_update_where [simp]: "length (update_where P f t) = length t"
  by (simp add: update_where_def)

lemma update_where_Nil [simp]: "update_where P f [] = []"
  by (simp add: update_where_def)

lemma update_where_append [simp]:
  "update_where P f (t @ u) = update_where P f t @ update_where P f u"
  by (simp add: update_where_def)

lemma map_update_where [table_simps]:
  "(\<And>r. g (f r) = g r) \<Longrightarrow> map g (update_where P f t) = map g t"
  by (simp add: update_where_def)

lemma nth_update_where:
  "i < length t \<Longrightarrow> update_where P f t ! i = (if P (t ! i) then f (t ! i) else t ! i)"
  by (simp add: update_where_def)

lemma in_set_update_where:
  "r \<in> set (update_where P f t) \<longleftrightarrow> (\<exists>s\<in>set t. r = (if P s then f s else s))"
  by (auto simp: update_where_def)

lemma list_all2_update_where:
  "list_all2 R (update_where P f t) (update_where Q g u) \<longleftrightarrow>
     list_all2 (\<lambda>x y. R (if P x then f x else x) (if Q y then g y else y)) t u"
  by (simp add: update_where_def list_all2_map1 list_all2_map2)

lemma list_all2_update_where1:
  "list_all2 R (update_where P f t) u \<longleftrightarrow> list_all2 (\<lambda>x y. R (if P x then f x else x) y) t u"
  by (simp add: update_where_def list_all2_map1)

lemma list_all2_update_where2:
  "list_all2 R t (update_where Q g u) \<longleftrightarrow> list_all2 (\<lambda>x y. R x (if Q y then g y else y)) t u"
  by (simp add: update_where_def list_all2_map2)

lemma list_all_update_where:
  "list_all R (update_where P f t) \<longleftrightarrow> list_all (\<lambda>x. R (if P x then f x else x)) t"
  by (simp add: update_where_def list.pred_map comp_def)

lemma find_SomeD: "List.find P t = Some r \<Longrightarrow> r \<in> set t \<and> P r"
  by (auto simp: find_Some_iff)

lemma find_distinct:
  assumes "distinct (map key t)" and "r \<in> set t" and "key r = k"
  shows "List.find (\<lambda>x. key x = k) t = Some r"
  using assms
proof (induction t)
  case Nil
  then show ?case by simp
next
  case (Cons x t)
  then show ?case by (cases "x = r") auto
qed

lemma find_update_where_same:
  assumes "\<And>r. key (f r) = key r"
  shows "List.find (\<lambda>r. key r = k) (update_where P f t) =
    map_option (\<lambda>r. if P r then f r else r) (List.find (\<lambda>r. key r = k) t)"
  by (induction t) (auto simp: update_where_def assms)

lemma find_update_where_other:
  assumes "\<And>r. key (f r) = key r" and "\<And>r. P r \<Longrightarrow> key r \<noteq> k"
  shows "List.find (\<lambda>r. key r = k) (update_where P f t) = List.find (\<lambda>r. key r = k) t"
  using assms by (induction t) (auto simp: update_where_def)

lemma filter_key_unique:
  "distinct (map key t) \<Longrightarrow> r \<in> set t \<Longrightarrow> Q r \<Longrightarrow> filter (\<lambda>x. key x = key r \<and> Q x) t = [r]"
  by (induction t) (auto simp: filter_empty_conv image_iff)

lemma list_all2_partner: "list_all2 P t u \<Longrightarrow> r \<in> set t \<Longrightarrow> \<exists>s\<in>set u. P r s"
  by (induction rule: list_all2_induct) auto

lemma row_count_one_ex: "row_count P t = 1 \<Longrightarrow> \<exists>r\<in>set t. P r"
  by (auto simp: row_count_def length_Suc_conv filter_eq_Cons_iff)

lemma row_count_0: "row_count P t = 0 \<longleftrightarrow> (\<forall>r\<in>set t. \<not> P r)"
  by (simp add: row_count_def filter_empty_conv)

text \<open>
  Rows are never deleted from the financial tables: \<open>extends R t u\<close> says that the rows of
  \<open>t\<close> are the first rows of \<open>u\<close>, each related to its earlier version by \<open>R\<close>.
\<close>

definition extends :: "('r \<Rightarrow> 'r \<Rightarrow> bool) \<Rightarrow> 'r list \<Rightarrow> 'r list \<Rightarrow> bool" where
  "extends R t u \<longleftrightarrow> list_all2 R t (take (length t) u)"

lemma extends_length: "extends R t u \<Longrightarrow> length t \<le> length u"
  by (auto simp: extends_def dest: list_all2_lengthD)

lemma extends_nth: "extends R t u \<Longrightarrow> i < length t \<Longrightarrow> R (t ! i) (u ! i)"
  using extends_length [of R t u] by (auto simp: extends_def dest: list_all2_nthD)

lemma extendsI:
  assumes "length t \<le> length u" and "\<And>i. i < length t \<Longrightarrow> R (t ! i) (u ! i)"
  shows "extends R t u"
  using assms by (auto simp: extends_def list_all2_conv_all_nth)

lemma extends_refl: "(\<And>r. R r r) \<Longrightarrow> extends R t t"
  by (simp add: extends_def list_all2_refl)

lemma extends_trans:
  assumes "\<And>a b c. R a b \<Longrightarrow> R b c \<Longrightarrow> R a c" and "extends R t u" and "extends R u v"
  shows "extends R t v"
proof (rule extendsI)
  show "length t \<le> length v"
    using extends_length [OF assms(2)] extends_length [OF assms(3)] by simp
next
  fix i assume "i < length t"
  then show "R (t ! i) (v ! i)"
    using extends_length [OF assms(2)] extends_nth [OF assms(2), of i]
      extends_nth [OF assms(3), of i] assms(1) [of "t ! i" "u ! i" "v ! i"] by simp
qed

lemma extends_snoc: "(\<And>r. R r r) \<Longrightarrow> extends R t (t @ [x])"
  by (simp add: extends_def list_all2_refl)

lemma extends_update_where:
  "(\<And>r. r \<in> set t \<Longrightarrow> R r (if P r then f r else r)) \<Longrightarrow> extends R t (update_where P f t)"
  by (rule extendsI) (simp_all add: nth_update_where)

lemma extends_in_set: "extends R t u \<Longrightarrow> r \<in> set t \<Longrightarrow> \<exists>r'\<in>set u. R r r'"
  by (metis extends_length extends_nth in_set_conv_nth order_less_le_trans)

section \<open>State machines\<close>

text \<open>
  A machine is its start states and its steps. \<open>reach\<close> is the set of states its runs visit.
  \<open>invariant_system\<close> is the contract a component proves once per operation and whose
  conclusion every property of its reachable states rests on; \<open>history_system\<close> adds what no
  run undoes; \<open>simulation\<close> is the contract of a functional refinement; \<open>lifecycle\<close> is that
  of a state machine with final states.
\<close>

inductive reach :: "('s \<Rightarrow> bool) \<Rightarrow> ('s \<Rightarrow> 's \<Rightarrow> bool) \<Rightarrow> 's \<Rightarrow> bool"
  for init :: "'s \<Rightarrow> bool" and step :: "'s \<Rightarrow> 's \<Rightarrow> bool" where
  reach_init: "init s \<Longrightarrow> reach init step s"
| reach_step: "reach init step s \<Longrightarrow> step s t \<Longrightarrow> reach init step t"

locale invariant_system =
  fixes init :: "'s \<Rightarrow> bool"
    and step :: "'s \<Rightarrow> 's \<Rightarrow> bool"
    and inv :: "'s \<Rightarrow> bool"
  assumes inv_init: "init s \<Longrightarrow> inv s"
    and inv_step: "inv s \<Longrightarrow> step s t \<Longrightarrow> inv t"
begin

lemma reach_inv: "reach init step s \<Longrightarrow> inv s"
  by (induction rule: reach.induct) (auto intro: inv_init inv_step)

lemma steps_inv: "step\<^sup>*\<^sup>* s t \<Longrightarrow> inv s \<Longrightarrow> inv t"
  by (induction rule: rtranclp_induct) (auto intro: inv_step)

end

locale simulation = invariant_system init step inv
  for init :: "'s \<Rightarrow> bool" and step :: "'s \<Rightarrow> 's \<Rightarrow> bool" and inv :: "'s \<Rightarrow> bool" +
  fixes abs :: "'s \<Rightarrow> 'a"
    and ainit :: "'a \<Rightarrow> bool"
    and astep :: "'a \<Rightarrow> 'a \<Rightarrow> bool"
  assumes abs_init: "init s \<Longrightarrow> ainit (abs s)"
    and abs_step: "inv s \<Longrightarrow> step s t \<Longrightarrow> astep\<^sup>*\<^sup>* (abs s) (abs t)"
begin

lemma reach_astep_star: "reach ainit astep a \<Longrightarrow> astep\<^sup>*\<^sup>* a b \<Longrightarrow> reach ainit astep b"
  by (rotate_tac 1, induction rule: rtranclp_induct) (auto intro: reach_step)

lemma reach_abs: "reach init step s \<Longrightarrow> reach ainit astep (abs s)"
proof (induction rule: reach.induct)
  case (reach_init s)
  then show ?case by (auto intro: reach.reach_init abs_init)
next
  case (reach_step s t)
  then have "astep\<^sup>*\<^sup>* (abs s) (abs t)"
    by (auto intro: abs_step reach_inv)
  with reach_step.IH show ?case by (rule reach_astep_star)
qed

end

locale history_system = invariant_system init step inv
  for init :: "'s \<Rightarrow> bool" and step :: "'s \<Rightarrow> 's \<Rightarrow> bool" and inv :: "'s \<Rightarrow> bool" +
  fixes hist :: "'s \<Rightarrow> 's \<Rightarrow> bool"
  assumes hist_refl: "hist s s"
    and hist_trans: "hist s t \<Longrightarrow> hist t u \<Longrightarrow> hist s u"
    and hist_step: "inv s \<Longrightarrow> step s t \<Longrightarrow> hist s t"
begin

lemma steps_hist: "step\<^sup>*\<^sup>* s t \<Longrightarrow> inv s \<Longrightarrow> hist s t"
proof (induction rule: rtranclp_induct)
  case base
  show ?case by (rule hist_refl)
next
  case (step t u)
  then have "inv t" using steps_inv by blast
  with step show ?case by (blast intro: hist_trans hist_step)
qed

lemma reach_hist: "reach init step s \<Longrightarrow> step\<^sup>*\<^sup>* s t \<Longrightarrow> hist s t"
  by (blast intro: steps_hist reach_inv)

end

locale lifecycle =
  fixes successors :: "'s \<Rightarrow> 's list"
    and final :: "'s \<Rightarrow> bool"
  assumes final_stuck: "final s \<Longrightarrow> successors s = []"
begin

lemma path_from_final: "(\<lambda>a b. b \<in> set (successors a))\<^sup>*\<^sup>* s t \<Longrightarrow> final s \<Longrightarrow> t = s"
  by (induction rule: rtranclp_induct) (auto simp: final_stuck)

lemma step_from_nonfinal: "t \<in> set (successors s) \<Longrightarrow> \<not> final s"
  by (auto simp: final_stuck)

end

end
