(* ===== verification/DateTime.thy ===== *)
theory DateTime
  imports Prelude "HOL-Library.Monad_Syntax"
begin

text \<open>
  The part of Python's \<open>datetime\<close> the program uses: the fields of a timestamp with its UTC
  offset in minutes (\<open>None\<close> for a naive one), the instant it denotes in microseconds, the text
  \<open>isoformat()\<close> writes into \<open>TEXT\<close> columns and JSON payloads, and \<open>fromisoformat()\<close> on the
  shapes \<open>isoformat()\<close> writes (and the \<open>Z\<close> suffix). The lemmas show that reading back what
  was written gives the same timestamp.
\<close>

record datetime =
  year :: nat
  month :: nat
  day :: nat
  hour :: nat
  minute :: nat
  second :: nat
  microsecond :: nat
  utc_offset :: "int option"

definition is_leap :: "nat \<Rightarrow> bool" where
  "is_leap y \<longleftrightarrow> y mod 4 = 0 \<and> (y mod 100 \<noteq> 0 \<or> y mod 400 = 0)"

definition days_in_month :: "nat \<Rightarrow> nat \<Rightarrow> nat" where
  "days_in_month y m =
     (if m = 2 then (if is_leap y then 29 else 28)
      else if m = 4 \<or> m = 6 \<or> m = 9 \<or> m = 11 then 30 else 31)"

definition valid_datetime :: "datetime \<Rightarrow> bool" where
  "valid_datetime t \<longleftrightarrow>
     1 \<le> year t \<and> year t \<le> 9999 \<and> 1 \<le> month t \<and> month t \<le> 12 \<and>
     1 \<le> day t \<and> day t \<le> days_in_month (year t) (month t) \<and>
     hour t < 24 \<and> minute t < 60 \<and> second t < 60 \<and> microsecond t < 1000000 \<and>
     (case utc_offset t of None \<Rightarrow> True | Some z \<Rightarrow> -1440 < z \<and> z < 1440)"

text \<open>A timestamp in UTC, as \<open>datetime(y, mo, d, h, mi, s, us, tzinfo=UTC)\<close>.\<close>

definition utc :: "nat \<Rightarrow> nat \<Rightarrow> nat \<Rightarrow> nat \<Rightarrow> nat \<Rightarrow> nat \<Rightarrow> nat \<Rightarrow> datetime" where
  "utc y mo d h mi s us = \<lparr>year = y, month = mo, day = d, hour = h, minute = mi, second = s,
     microsecond = us, utc_offset = Some 0\<rparr>"

section \<open>Instants\<close>

definition days_before_year :: "nat \<Rightarrow> nat" where
  "days_before_year y = (let p = y - 1 in p * 365 + p div 4 - p div 100 + p div 400)"

definition days_before_month :: "nat \<Rightarrow> nat \<Rightarrow> nat" where
  "days_before_month y m = sum_list (map (days_in_month y) [1..<m])"

definition toordinal :: "datetime \<Rightarrow> nat" where
  "toordinal t = days_before_year (year t) + days_before_month (year t) (month t) + day t"

text \<open>Microseconds since the first day of year 1, in UTC for an aware timestamp.\<close>

definition instant :: "datetime \<Rightarrow> int" where
  "instant t =
     ((int (toordinal t) * 24 + int (hour t)) * 3600 + int (minute t) * 60 + int (second t)
        - (case utc_offset t of None \<Rightarrow> 0 | Some z \<Rightarrow> z * 60)) * 1000000
     + int (microsecond t)"

text \<open>\<open>(a - b).total_seconds()\<close> for two aware timestamps.\<close>

definition total_seconds_between :: "datetime \<Rightarrow> datetime \<Rightarrow> rat" where
  "total_seconds_between a b = of_int (instant a - instant b) / 1000000"

section \<open>Text\<close>

definition digit :: "nat \<Rightarrow> char" where
  "digit n = char_of (48 + n)"

definition is_digit :: "char \<Rightarrow> bool" where
  "is_digit c \<longleftrightarrow> 48 \<le> char_code c \<and> char_code c \<le> 57"

fun digits :: "nat \<Rightarrow> nat \<Rightarrow> string" where
  "digits 0 n = []"
| "digits (Suc w) n = digits w (n div 10) @ [digit (n mod 10)]"

definition offset_text :: "int option \<Rightarrow> string" where
  "offset_text z = (case z of None \<Rightarrow> []
     | Some m \<Rightarrow> (if m < 0 then ''-'' else ''+'') @ digits 2 (nat (\<bar>m\<bar> div 60)) @ '':'' @
         digits 2 (nat (\<bar>m\<bar> mod 60)))"

definition fraction_text :: "nat \<Rightarrow> string" where
  "fraction_text us = (if us = 0 then [] else ''.'' @ digits 6 us)"

definition isoformat :: "datetime \<Rightarrow> string" where
  "isoformat t = digits 4 (year t) @ ''-'' @ digits 2 (month t) @ ''-'' @ digits 2 (day t) @
     ''T'' @ digits 2 (hour t) @ '':'' @ digits 2 (minute t) @ '':'' @ digits 2 (second t) @
     fraction_text (microsecond t) @ offset_text (utc_offset t)"

fun read_digits :: "nat \<Rightarrow> string \<Rightarrow> nat option" where
  "read_digits a [] = Some a"
| "read_digits a (c # cs) =
     (if is_digit c then read_digits (a * 10 + (char_code c - 48)) cs else None)"

definition read_num :: "nat \<Rightarrow> string \<Rightarrow> (nat \<times> string) option" where
  "read_num w s = (if length s < w then None
     else map_option (\<lambda>n. (n, drop w s)) (read_digits 0 (take w s)))"

fun expect :: "char \<Rightarrow> string \<Rightarrow> string option" where
  "expect c [] = None"
| "expect c (x # xs) = (if x = c then Some xs else None)"

definition read_fraction :: "string \<Rightarrow> (nat \<times> string) option" where
  "read_fraction s = (case s of [] \<Rightarrow> Some (0, s)
     | c # r \<Rightarrow> if c = CHR ''.'' then read_num 6 r else Some (0, s))"

definition read_hhmm :: "string \<Rightarrow> int option" where
  "read_hhmm s = do {
     (h, s1) \<leftarrow> read_num 2 s;
     s2 \<leftarrow> expect (CHR '':'') s1;
     (m, s3) \<leftarrow> read_num 2 s2;
     if s3 = [] \<and> m < 60 then Some (int h * 60 + int m) else None
   }"

definition read_offset :: "string \<Rightarrow> int option option" where
  "read_offset s = (case s of [] \<Rightarrow> Some None
     | c # r \<Rightarrow> if c = CHR ''Z'' then (if r = [] then Some (Some 0) else None)
         else if c = CHR ''+'' then map_option Some (read_hhmm r)
         else if c = CHR ''-'' then map_option (\<lambda>z. Some (- z)) (read_hhmm r)
         else None)"

definition read_iso :: "string \<Rightarrow> datetime option" where
  "read_iso s = do {
     (y, s1) \<leftarrow> read_num 4 s;
     s2 \<leftarrow> expect (CHR ''-'') s1;
     (mo, s3) \<leftarrow> read_num 2 s2;
     s4 \<leftarrow> expect (CHR ''-'') s3;
     (d, s5) \<leftarrow> read_num 2 s4;
     s6 \<leftarrow> expect (CHR ''T'') s5;
     (h, s7) \<leftarrow> read_num 2 s6;
     s8 \<leftarrow> expect (CHR '':'') s7;
     (mi, s9) \<leftarrow> read_num 2 s8;
     s10 \<leftarrow> expect (CHR '':'') s9;
     (sec, s11) \<leftarrow> read_num 2 s10;
     (us, s12) \<leftarrow> read_fraction s11;
     z \<leftarrow> read_offset s12;
     Some \<lparr>year = y, month = mo, day = d, hour = h, minute = mi, second = sec,
       microsecond = us, utc_offset = z\<rparr>
   }"

definition fromisoformat :: "string \<Rightarrow> exc + datetime" where
  "fromisoformat s = (case read_iso s of
     None \<Rightarrow> Inl (ValueError ''Invalid isoformat string'')
   | Some t \<Rightarrow> if valid_datetime t then Inr t
       else Inl (ValueError ''Invalid isoformat string''))"

section \<open>Writing and reading back\<close>

lemma length_digits [simp]: "length (digits w n) = w"
  by (induction w arbitrary: n) auto

lemma char_code_digit [simp]: "n < 10 \<Longrightarrow> char_code (digit n) = 48 + n"
  by (simp add: char_code_def digit_def)

lemma is_digit_digit [simp]: "n < 10 \<Longrightarrow> is_digit (digit n)"
  by (simp add: is_digit_def)

lemma read_digits_append:
  "read_digits a (xs @ ys) = Option.bind (read_digits a xs) (\<lambda>b. read_digits b ys)"
  by (induction xs arbitrary: a) auto

lemma read_digits_digits: "read_digits a (digits w n) = Some (a * 10 ^ w + n mod 10 ^ w)"
proof (induction w arbitrary: n)
  case 0
  show ?case by simp
next
  case (Suc w)
  have "n mod 10 ^ Suc w = (n div 10) mod 10 ^ w * 10 + n mod 10"
    by (simp add: mod_mult2_eq mult.commute)
  then show ?case
    by (simp add: read_digits_append Suc algebra_simps)
qed

lemma read_num_digits: "n < 10 ^ w \<Longrightarrow> read_num w (digits w n @ s) = Some (n, s)"
  by (simp add: read_num_def read_digits_digits)

lemmas read_num_sizes = read_num_digits [of _ 2, simplified] read_num_digits [of _ 4, simplified]
  read_num_digits [of _ 6, simplified] read_num_digits [of _ 2 "[]", simplified]

lemma days_in_month_le: "days_in_month y m \<le> 31"
  by (simp add: days_in_month_def)

lemma read_hhmm_text:
  assumes "0 \<le> z" and "z < 1440"
  shows "read_hhmm (digits 2 (nat (z div 60)) @ CHR '':'' # digits 2 (nat (z mod 60))) = Some z"
proof -
  have "nat (z div 60) < 100" and "nat (z mod 60) < 100" and "nat (z mod 60) < 60" and "0 \<le> z div 60"
    using assms by auto
  then show ?thesis
    using assms unfolding read_hhmm_def
    by (simp add: read_num_sizes del: nat_less_iff)
qed

lemma read_offset_text:
  assumes "case z of None \<Rightarrow> True | Some m \<Rightarrow> -1440 < m \<and> m < 1440"
  shows "read_offset (offset_text z) = Some z"
proof (cases z)
  case None
  then show ?thesis by (simp add: offset_text_def read_offset_def)
next
  case (Some m)
  with assms have "0 \<le> \<bar>m\<bar>" and "\<bar>m\<bar> < 1440" by auto
  from read_hhmm_text [OF this] Some show ?thesis
    by (auto simp: offset_text_def read_offset_def)
qed

lemma read_fraction_text:
  assumes "us < 1000000"
  shows "read_fraction (fraction_text us @ offset_text z) =
    Some (us, offset_text z)"
proof (cases "us = 0")
  case True
  then show ?thesis
    by (auto simp: fraction_text_def read_fraction_def offset_text_def split: option.splits)
next
  case False
  with assms show ?thesis by (simp add: fraction_text_def read_fraction_def read_num_sizes)
qed

lemma read_iso_isoformat:
  assumes "valid_datetime t"
  shows "read_iso (isoformat t) = Some t"
proof -
  have "day t \<le> 31"
    using assms days_in_month_le [of "year t" "month t"] by (simp add: valid_datetime_def)
  then have "year t < 10000" "month t < 100" "day t < 100" "hour t < 100" "minute t < 100"
      "second t < 100" "microsecond t < 1000000"
    using assms by (simp_all add: valid_datetime_def)
  moreover have "case utc_offset t of None \<Rightarrow> True | Some m \<Rightarrow> -1440 < m \<and> m < 1440"
    using assms by (simp add: valid_datetime_def)
  ultimately show ?thesis
    unfolding read_iso_def isoformat_def
    by (simp add: read_num_sizes read_fraction_text read_offset_text)
qed

lemma fromisoformat_isoformat [simp]:
  "valid_datetime t \<Longrightarrow> fromisoformat (isoformat t) = Inr t"
  by (simp add: fromisoformat_def read_iso_isoformat)

lemma fromisoformat_valid: "fromisoformat s = Inr t \<Longrightarrow> valid_datetime t"
  by (auto simp: fromisoformat_def split: option.splits if_splits)

section \<open>UTC timestamps\<close>

definition require_aware_utc :: "datetime \<Rightarrow> string \<Rightarrow> exc + unit" where
  "require_aware_utc t field = (case utc_offset t of
     None \<Rightarrow> Inl (ValueError (field @ '' must be timezone-aware''))
   | Some z \<Rightarrow> raise_if (z \<noteq> 0) (ValueError (field @ '' must be UTC'')))"

definition is_utc :: "datetime \<Rightarrow> bool" where
  "is_utc t \<longleftrightarrow> utc_offset t = Some 0"

lemma require_aware_utc_eq_Inr [raises]: "require_aware_utc t field = Inr u \<longleftrightarrow> is_utc t"
  by (auto simp: require_aware_utc_def is_utc_def split: option.splits)

lemma require_aware_utc_ok [simp]: "is_utc t \<Longrightarrow> require_aware_utc t field = Inr ()"
  by (simp add: require_aware_utc_eq_Inr)

end
