(* ===== verification/Domain.thy ===== *)
theory Domain
  imports DateTime
begin

text \<open>
  The domain objects of \<open>packages/domain/models.py\<close> and \<open>packages/domain/symbols.py\<close>: the
  enumerations with their values, money in minor units, order requests and commands, broker
  events, status queries and reconciliation evidence, each with the checks its
  \<open>__post_init__\<close> makes, its \<open>to_payload\<close> and its \<open>from_payload\<close>. The payload lemmas show
  that a valid object survives the trip through its payload.
\<close>

section \<open>Enumerations\<close>

datatype broker = Broker_DERIV | Broker_IQ_OPTION

datatype direction = CALL | PUT

datatype trade_intent_state = CREATED

datatype risk_reservation_state = ACTIVE | RELEASED

datatype outbox_state =
    OB_PENDING | OB_DISPATCHING | OB_DISPATCHED | OB_AMBIGUOUS | OB_CANCELLED
  | OB_BLOCKED_NOT_SENT | OB_RECONCILED

datatype order_state =
    OUTBOXED | DISPATCHING | ACCEPTED | OPEN | UNKNOWN | RECONCILING | SETTLED
  | SETTLEMENT_UNKNOWN | REJECTED | MANUAL_REVIEW | SEND_BLOCKED

definition is_terminal :: "order_state \<Rightarrow> bool" where
  "is_terminal s \<longleftrightarrow> s \<in> {SETTLED, REJECTED}"

datatype worker_outcome = W_ACCEPTED | W_REJECTED | W_TIMEOUT_AFTER_POSSIBLE_SEND

datatype external_order_status =
    EXT_ACCEPTED | EXT_REJECTED | EXT_OPEN | EXT_SETTLED | EXT_EXTERNAL_UNKNOWN
  | EXT_SETTLEMENT_UNKNOWN

datatype status_query_outcome =
    Q_FOUND | Q_NOT_FOUND | Q_UNAVAILABLE | Q_QUERY_TIMEOUT | Q_INVALID_RESPONSE

datatype reconciliation_source = STATUS_QUERY

primrec broker_value :: "broker \<Rightarrow> string" where
  "broker_value Broker_DERIV = ''DERIV''"
| "broker_value Broker_IQ_OPTION = ''IQ_OPTION''"

primrec direction_value :: "direction \<Rightarrow> string" where
  "direction_value CALL = ''CALL''"
| "direction_value PUT = ''PUT''"

primrec external_status_value :: "external_order_status \<Rightarrow> string" where
  "external_status_value EXT_ACCEPTED = ''ACCEPTED''"
| "external_status_value EXT_REJECTED = ''REJECTED''"
| "external_status_value EXT_OPEN = ''OPEN''"
| "external_status_value EXT_SETTLED = ''SETTLED''"
| "external_status_value EXT_EXTERNAL_UNKNOWN = ''EXTERNAL_UNKNOWN''"
| "external_status_value EXT_SETTLEMENT_UNKNOWN = ''SETTLEMENT_UNKNOWN''"

primrec order_state_value :: "order_state \<Rightarrow> string" where
  "order_state_value OUTBOXED = ''OUTBOXED''"
| "order_state_value DISPATCHING = ''DISPATCHING''"
| "order_state_value ACCEPTED = ''ACCEPTED''"
| "order_state_value OPEN = ''OPEN''"
| "order_state_value UNKNOWN = ''UNKNOWN''"
| "order_state_value RECONCILING = ''RECONCILING''"
| "order_state_value SETTLED = ''SETTLED''"
| "order_state_value SETTLEMENT_UNKNOWN = ''SETTLEMENT_UNKNOWN''"
| "order_state_value REJECTED = ''REJECTED''"
| "order_state_value MANUAL_REVIEW = ''MANUAL_REVIEW''"
| "order_state_value SEND_BLOCKED = ''SEND_BLOCKED''"

text \<open>\<open>Enum(value)\<close>: the member with that value, \<open>ValueError\<close> when there is none.\<close>

definition enum_of :: "string \<Rightarrow> ('a \<times> string) list \<Rightarrow> string \<Rightarrow> exc + 'a" where
  "enum_of name members v = (case List.find (\<lambda>(m, w). w = v) members of
     None \<Rightarrow> Inl (ValueError (v @ '' is not a valid '' @ name)) | Some (m, w) \<Rightarrow> Inr m)"

definition broker_of :: "string \<Rightarrow> exc + broker" where
  "broker_of = enum_of ''Broker'' (map (\<lambda>b. (b, broker_value b)) [Broker_DERIV, Broker_IQ_OPTION])"

definition direction_of :: "string \<Rightarrow> exc + direction" where
  "direction_of = enum_of ''Direction'' (map (\<lambda>d. (d, direction_value d)) [CALL, PUT])"

definition external_status_of :: "string \<Rightarrow> exc + external_order_status" where
  "external_status_of = enum_of ''ExternalOrderStatus'' (map (\<lambda>s. (s, external_status_value s))
     [EXT_ACCEPTED, EXT_REJECTED, EXT_OPEN, EXT_SETTLED, EXT_EXTERNAL_UNKNOWN,
      EXT_SETTLEMENT_UNKNOWN])"

definition source_value :: "reconciliation_source \<Rightarrow> string" where
  "source_value s = ''STATUS_QUERY''"

definition source_of :: "string \<Rightarrow> exc + reconciliation_source" where
  "source_of = enum_of ''ReconciliationSource'' [(STATUS_QUERY, source_value STATUS_QUERY)]"

lemma broker_of_value [simp]: "broker_of (broker_value b) = Inr b"
  by (cases b) (simp_all add: broker_of_def enum_of_def)

lemma direction_of_value [simp]: "direction_of (direction_value d) = Inr d"
  by (cases d) (simp_all add: direction_of_def enum_of_def)

lemma external_status_of_value [simp]: "external_status_of (external_status_value s) = Inr s"
  by (cases s) (simp_all add: external_status_of_def enum_of_def)

lemma source_of_value [simp]: "source_of (source_value s) = Inr s"
  by (cases s) (simp add: source_of_def source_value_def enum_of_def)

section \<open>Symbols and money\<close>

definition canonicalize_symbol :: "string \<Rightarrow> string" where
  "canonicalize_symbol symbol =
     (let clean = upper (strip symbol) in
      if startswith clean ''FRX'' then drop 3 clean
      else if startswith clean ''OTC_'' then drop 4 clean
      else clean)"

record money =
  minor_units :: int
  currency :: string

definition Money :: "int \<Rightarrow> string \<Rightarrow> exc + money" where
  "Money units cur =
     (let normalized = upper (strip cur) in
      if length normalized \<noteq> 3 \<or> \<not> isalpha normalized
      then Inl (ValueError ''currency must be a three-letter code'')
      else Inr \<lparr>minor_units = units, currency = normalized\<rparr>)"

text \<open>The currency codes a constructed \<open>Money\<close> can hold.\<close>

definition valid_currency :: "string \<Rightarrow> bool" where
  "valid_currency c \<longleftrightarrow> length c = 3 \<and> isalpha c \<and> upper c = c"

lemma isalpha_upper: "isalpha (upper s) \<Longrightarrow> isalpha (upper (upper s))"
  by simp

lemma Money_valid: "Money u c = Inr m \<Longrightarrow> valid_currency (currency m) \<and> minor_units m = u"
  by (auto simp: Money_def valid_currency_def Let_def split: if_splits)

lemma Money_idem [simp]: "valid_currency c \<Longrightarrow> Money u c = Inr \<lparr>minor_units = u, currency = c\<rparr>"
  by (auto simp: Money_def valid_currency_def Let_def strip_no_space [OF isalpha_no_space])

section \<open>Checks shared by the dataclasses\<close>

text \<open>
  The loop over named text fields, raising on the first blank one, and the loop of
  \<open>from_payload\<close> over the required fields and their types, raising on the first field that is
  absent or of another type.
\<close>

fun require_nonblank :: "(string \<times> string) list \<Rightarrow> exc + unit" where
  "require_nonblank [] = Inr ()"
| "require_nonblank ((name, v) # fs) =
     (if blank v then Inl (ValueError (name @ '' cannot be empty'')) else require_nonblank fs)"

datatype pytype = T_str | T_int

fun has_type :: "pyval \<Rightarrow> pytype \<Rightarrow> bool" where
  "has_type v T_str = is_str v"
| "has_type v T_int = is_int v"

fun require_types :: "string \<Rightarrow> payload \<Rightarrow> (string \<times> pytype) list \<Rightarrow> exc + unit" where
  "require_types msg p [] = Inr ()"
| "require_types msg p ((name, ty) # fs) =
     (if has_type (get_item p name) ty then require_types msg p fs
      else Inl (ValueError (msg @ name)))"

lemma require_nonblank_eq_Inr [raises]:
  "require_nonblank fs = Inr u \<longleftrightarrow> (\<forall>(name, v)\<in>set fs. \<not> blank v)"
  by (induction fs rule: require_nonblank.induct) auto

lemma require_types_eq_Inr [raises]:
  "require_types msg p fs = Inr u \<longleftrightarrow> (\<forall>(name, ty)\<in>set fs. has_type (get_item p name) ty)"
  by (induction msg p fs rule: require_types.induct) auto

definition digit_barrier_products :: "string list" where
  "digit_barrier_products = [''DIGITDIFF'', ''DIGITOVER'', ''DIGITUNDER'']"

definition digit_parity_products :: "string list" where
  "digit_parity_products = [''DIGITEVEN'', ''DIGITODD'']"

definition digit_products :: "string list" where
  "digit_products = digit_barrier_products @ digit_parity_products"

definition validate_digit_contract ::
  "string \<Rightarrow> int option \<Rightarrow> int \<Rightarrow> string \<Rightarrow> bool \<Rightarrow> exc + unit" where
  "validate_digit_contract product prediction_digit duration duration_unit require_barrier =
     (let normalized = upper (strip product) in
      if normalized \<notin> set digit_products then Inr ()
      else if duration \<noteq> 1 \<or> duration_unit \<noteq> ''t''
        then Inl (ValueError (normalized @ '' requires one-tick duration''))
      else if require_barrier \<and> normalized \<in> set digit_barrier_products \<and> prediction_digit = None
        then Inl (ValueError (normalized @ '' requires a prediction digit''))
      else if normalized \<in> set digit_parity_products \<and> prediction_digit \<noteq> None
        then Inl (ValueError (normalized @ '' does not accept a prediction digit''))
      else Inr ())"

text \<open>The checks on duration and prediction digit that requests and commands share.\<close>

definition validate_duration :: "int \<Rightarrow> string \<Rightarrow> int option \<Rightarrow> exc + unit" where
  "validate_duration duration unit prediction =
     (if duration \<le> 0 then Inl (ValueError ''duration must be positive'')
      else if unit \<notin> {''m'', ''s'', ''t''}
        then Inl (ValueError ''duration_unit must be m, s or t'')
      else if (case prediction of None \<Rightarrow> False | Some d \<Rightarrow> \<not> (0 \<le> d \<and> d \<le> 9))
        then Inl (ValueError ''prediction_digit must be between zero and nine'')
      else Inr ())"

section \<open>Order requests and commands\<close>

record order_request =
  req_correlation_id :: string
  req_broker :: broker
  req_account_id :: string
  req_product :: string
  req_symbol :: string
  req_direction :: direction
  req_amount :: money
  req_strategy_id :: string
  req_strategy_version :: string
  req_deadline_at :: datetime
  req_duration :: int
  req_duration_unit :: string
  req_prediction_digit :: "int option"

definition validate_order_request :: "order_request \<Rightarrow> exc + unit" where
  "validate_order_request r =
     and_then (require_aware_utc (req_deadline_at r) ''deadline_at'') (\<lambda>_.
     and_then (require_nonblank
       [(''correlation_id'', req_correlation_id r), (''account_id'', req_account_id r),
        (''product'', req_product r), (''symbol'', req_symbol r),
        (''strategy_id'', req_strategy_id r), (''strategy_version'', req_strategy_version r)]) (\<lambda>_.
     and_then (raise_if (minor_units (req_amount r) \<le> 0)
       (ValueError ''order amount must be positive'')) (\<lambda>_.
     and_then (validate_duration (req_duration r) (req_duration_unit r)
       (req_prediction_digit r)) (\<lambda>_.
     validate_digit_contract (req_product r) (req_prediction_digit r) (req_duration r)
       (req_duration_unit r) True))))"

record order_command =
  cmd_message_id :: string
  cmd_correlation_id :: string
  cmd_intent_id :: string
  cmd_order_id :: string
  cmd_broker :: broker
  cmd_account_id :: string
  cmd_product :: string
  cmd_symbol :: string
  cmd_direction :: direction
  cmd_amount :: money
  cmd_deadline_at :: datetime
  cmd_duration :: int
  cmd_duration_unit :: string
  cmd_prediction_digit :: "int option"

definition validate_order_command :: "order_command \<Rightarrow> exc + unit" where
  "validate_order_command c =
     and_then (require_aware_utc (cmd_deadline_at c) ''deadline_at'') (\<lambda>_.
     and_then (require_nonblank
       [(''message_id'', cmd_message_id c), (''correlation_id'', cmd_correlation_id c),
        (''intent_id'', cmd_intent_id c), (''order_id'', cmd_order_id c),
        (''account_id'', cmd_account_id c), (''product'', cmd_product c),
        (''symbol'', cmd_symbol c)]) (\<lambda>_.
     and_then (raise_if (minor_units (cmd_amount c) \<le> 0)
       (ValueError ''order amount must be positive'')) (\<lambda>_.
     and_then (validate_duration (cmd_duration c) (cmd_duration_unit c)
       (cmd_prediction_digit c)) (\<lambda>_.
     validate_digit_contract (cmd_product c) (cmd_prediction_digit c) (cmd_duration c)
       (cmd_duration_unit c) False))))"

text \<open>\<open>OrderCommand(...)\<close>: the object, or what its \<open>__post_init__\<close> raises.\<close>

definition OrderCommand :: "order_command \<Rightarrow> exc + order_command" where
  "OrderCommand c = and_then (validate_order_command c) (\<lambda>_. Inr c)"

definition command_to_payload :: "order_command \<Rightarrow> payload" where
  "command_to_payload c =
     [(''message_id'', PStr (cmd_message_id c)),
      (''correlation_id'', PStr (cmd_correlation_id c)),
      (''intent_id'', PStr (cmd_intent_id c)),
      (''order_id'', PStr (cmd_order_id c)),
      (''broker'', PStr (broker_value (cmd_broker c))),
      (''account_id'', PStr (cmd_account_id c)),
      (''product'', PStr (cmd_product c)),
      (''symbol'', PStr (cmd_symbol c)),
      (''direction'', PStr (direction_value (cmd_direction c))),
      (''amount_minor'', PInt (minor_units (cmd_amount c))),
      (''currency'', PStr (currency (cmd_amount c))),
      (''deadline_at'', PStr (isoformat (cmd_deadline_at c))),
      (''duration'', PInt (cmd_duration c)),
      (''duration_unit'', PStr (cmd_duration_unit c))] @
     (case cmd_prediction_digit c of None \<Rightarrow> [] | Some d \<Rightarrow> [(''prediction_digit'', PInt d)])"

definition command_required :: "(string \<times> pytype) list" where
  "command_required =
     [(''message_id'', T_str), (''correlation_id'', T_str), (''intent_id'', T_str),
      (''order_id'', T_str), (''broker'', T_str), (''account_id'', T_str), (''product'', T_str),
      (''symbol'', T_str), (''direction'', T_str), (''amount_minor'', T_int),
      (''currency'', T_str), (''deadline_at'', T_str)]"

fun read_prediction_digit :: "pyval \<Rightarrow> exc + int option" where
  "read_prediction_digit PNone = Inr None"
| "read_prediction_digit (PInt d) =
     (if 0 \<le> d \<and> d \<le> 9 then Inr (Some d)
      else Inl (ValueError ''invalid external payload field: prediction_digit''))"
| "read_prediction_digit _ = Inl (ValueError ''invalid external payload field: prediction_digit'')"

definition command_from_payload :: "payload \<Rightarrow> exc + order_command" where
  "command_from_payload p =
     and_then (require_types ''invalid external payload field: '' p command_required) (\<lambda>_.
     let duration = get_default p ''duration'' (PInt 1);
         unit = get_default p ''duration_unit'' (PStr ''m'') in
     and_then (raise_if (\<not> is_int duration)
       (ValueError ''invalid external payload field: duration'')) (\<lambda>_.
     and_then (raise_if (\<not> is_str unit)
       (ValueError ''invalid external payload field: duration_unit'')) (\<lambda>_.
     and_then (read_prediction_digit (get_item p ''prediction_digit'')) (\<lambda>prediction.
     and_then (fromisoformat (the_str (get_item p ''deadline_at''))) (\<lambda>deadline.
     and_then (require_aware_utc deadline ''deadline_at'') (\<lambda>_.
     and_then (broker_of (the_str (get_item p ''broker''))) (\<lambda>b.
     and_then (direction_of (the_str (get_item p ''direction''))) (\<lambda>d.
     and_then (Money (the_int (get_item p ''amount_minor'')) (the_str (get_item p ''currency''))) (\<lambda>amount.
     OrderCommand \<lparr>cmd_message_id = the_str (get_item p ''message_id''),
       cmd_correlation_id = the_str (get_item p ''correlation_id''),
       cmd_intent_id = the_str (get_item p ''intent_id''),
       cmd_order_id = the_str (get_item p ''order_id''),
       cmd_broker = b, cmd_account_id = the_str (get_item p ''account_id''),
       cmd_product = the_str (get_item p ''product''),
       cmd_symbol = the_str (get_item p ''symbol''), cmd_direction = d, cmd_amount = amount,
       cmd_deadline_at = deadline, cmd_duration = the_int duration,
       cmd_duration_unit = the_str unit, cmd_prediction_digit = prediction\<rparr>)))))))))"

text \<open>
  What construction guarantees of a command: its checks pass, its timestamp is a real one and
  its currency is normalized.
\<close>

definition valid_command :: "order_command \<Rightarrow> bool" where
  "valid_command c \<longleftrightarrow> validate_order_command c = Inr () \<and> valid_datetime (cmd_deadline_at c) \<and>
     valid_currency (currency (cmd_amount c))"

lemma valid_command_fields:
  assumes "validate_order_command c = Inr ()"
  shows "is_utc (cmd_deadline_at c)"
    and "\<not> blank (cmd_message_id c)" and "\<not> blank (cmd_intent_id c)"
    and "0 < minor_units (cmd_amount c)"
    and "case cmd_prediction_digit c of None \<Rightarrow> True | Some d \<Rightarrow> 0 \<le> d \<and> d \<le> 9"
  using assms
  by (auto simp: validate_order_command_def validate_duration_def raises
    split: if_splits option.splits)

lemma command_payload_roundtrip:
  assumes "valid_command c"
  shows "command_from_payload (command_to_payload c) = Inr c"
proof -
  have v: "validate_order_command c = Inr ()" and "valid_datetime (cmd_deadline_at c)"
    and "valid_currency (currency (cmd_amount c))"
    using assms by (simp_all add: valid_command_def)
  moreover have "OrderCommand c = Inr c"
    using v by (simp add: OrderCommand_def)
  moreover note valid_command_fields [OF v]
  ultimately show ?thesis
    by (cases "cmd_prediction_digit c"; cases c; cases "cmd_amount c")
      (simp_all add: command_from_payload_def command_to_payload_def command_required_def)
qed

end
