(* ===== verification/Decimals.thy ===== *)
theory Decimals
  imports DateTime
begin

text \<open>
  Python's \<open>decimal\<close> as the program uses it, under the default context: a finite \<open>Decimal\<close> is
  the rational number it denotes, an arithmetic result is rounded half-even to 28 significant
  digits, and \<open>quantize(Decimal("1"))\<close> raises \<open>InvalidOperation\<close> when the result needs more
  than 28 digits. The bounds on the exponent range of a \<open>Decimal\<close> are not modelled. The lemmas
  bound the rounding error.
\<close>

section \<open>Reading decimal text\<close>

text \<open>\<open>Decimal(text)\<close>: a finite value, an infinity or NaN, or \<open>None\<close> for \<open>InvalidOperation\<close>.\<close>

datatype decimal = Finite rat | Special

definition drop_sign :: "string \<Rightarrow> string" where
  "drop_sign s = (case s of [] \<Rightarrow> [] | c # r \<Rightarrow> if c = CHR ''+'' \<or> c = CHR ''-'' then r else s)"

definition sign_of :: "string \<Rightarrow> rat" where
  "sign_of s = (case s of [] \<Rightarrow> 1 | c # r \<Rightarrow> if c = CHR ''-'' then -1 else 1)"

definition pow10 :: "int \<Rightarrow> rat" where
  "pow10 e = (if 0 \<le> e then 10 ^ nat e else 1 / 10 ^ nat (- e))"

definition read_mantissa :: "string \<Rightarrow> rat option" where
  "read_mantissa m =
     (let a = takeWhile is_digit m; b = dropWhile is_digit m in
      case b of
        [] \<Rightarrow> if a = [] then None else map_option of_nat (read_digits 0 a)
      | c # r \<Rightarrow> if c = CHR ''.'' \<and> a @ r \<noteq> []
          then map_option (\<lambda>n. of_nat n * pow10 (- int (length r))) (read_digits 0 (a @ r))
          else None)"

definition read_exponent :: "string \<Rightarrow> int option" where
  "read_exponent x = (case x of [] \<Rightarrow> Some 0
     | c # r \<Rightarrow> if drop_sign r = [] then None
         else map_option (\<lambda>n. (if sign_of r < 0 then - int n else int n))
           (read_digits 0 (drop_sign r)))"

definition Decimal_of :: "string \<Rightarrow> decimal option" where
  "Decimal_of s =
     (let text = filter (\<lambda>c. c \<noteq> CHR ''_'') (strip s); body = upper (drop_sign text) in
      if body = ''INF'' \<or> body = ''INFINITY'' \<or>
         (startswith body ''NAN'' \<and> list_all is_digit (drop 3 body)) \<or>
         (startswith body ''SNAN'' \<and> list_all is_digit (drop 4 body))
      then Some Special
      else case (read_mantissa (takeWhile (\<lambda>c. c \<noteq> CHR ''E'') body),
                 read_exponent (dropWhile (\<lambda>c. c \<noteq> CHR ''E'') body)) of
          (Some m, Some x) \<Rightarrow> Some (Finite (sign_of text * m * pow10 x))
        | _ \<Rightarrow> None)"

lemmas decimal_eval = Decimal_of_def read_mantissa_def read_exponent_def drop_sign_def sign_of_def
  pow10_def is_digit_def

section \<open>Rounding\<close>

definition round_half_even :: "rat \<Rightarrow> int" where
  "round_half_even q = (let f = \<lfloor>q\<rfloor>; r = q - of_int f in
     if r < 1 / 2 then f else if 1 / 2 < r then f + 1 else if even f then f else f + 1)"

definition round_half_up :: "rat \<Rightarrow> int" where
  "round_half_up q = (if 0 \<le> q then \<lfloor>q + 1 / 2\<rfloor> else - \<lfloor>- q + 1 / 2\<rfloor>)"

text \<open>The number of decimal digits of a natural number.\<close>

fun num_digits :: "nat \<Rightarrow> nat" where
  "num_digits n = (if n < 10 then 1 else Suc (num_digits (n div 10)))"

declare num_digits.simps [simp del]

text \<open>The exponent of the leading digit of a positive number.\<close>

definition adjusted :: "rat \<Rightarrow> int" where
  "adjusted q = (case quotient_of q of (a, b) \<Rightarrow>
     let e = int (num_digits (nat a)) - int (num_digits (nat b)) in
     if pow10 e \<le> q then e else e - 1)"

text \<open>The result of an operation in a context of 28 digits.\<close>

definition ctx :: "rat \<Rightarrow> rat" where
  "ctx q = (if q = 0 then 0
     else let u = pow10 (adjusted \<bar>q\<bar> - 27) in
       sgn q * (u * of_int (round_half_even (\<bar>q\<bar> / u))))"

definition dec_div :: "rat \<Rightarrow> rat \<Rightarrow> rat" where
  "dec_div a b = ctx (a / b)"

definition quantize_one :: "(rat \<Rightarrow> int) \<Rightarrow> rat \<Rightarrow> exc + int" where
  "quantize_one rounding q =
     (if \<bar>rounding q\<bar> < 10 ^ 28 then Inr (rounding q) else Inl InvalidOperation)"

section \<open>Error bounds\<close>

lemma pow10_pos [simp]: "0 < pow10 e"
  by (simp add: pow10_def)

lemma pow10_nonzero [simp]: "pow10 e \<noteq> 0"
  using pow10_pos [of e] by (metis less_irrefl)

lemma pow10_powi: "pow10 e = 10 powi e"
  by (simp add: pow10_def power_int_def field_simps)

lemma pow10_add: "pow10 (a + b) = pow10 a * pow10 b"
  by (simp add: pow10_powi power_int_add)

lemma num_digits_bounds: "10 ^ (num_digits n - 1) \<le> max 1 n \<and> n < 10 ^ num_digits n"
proof (induction n rule: num_digits.induct)
  case (1 n)
  show ?case
  proof (cases "n < 10")
    case True
    then show ?thesis by (simp add: num_digits.simps [of n])
  next
    case False
    have step: "num_digits n = Suc (num_digits (n div 10))"
      using False by (simp add: num_digits.simps [of n])
    obtain k where k: "num_digits (n div 10) = Suc k"
      by (metis num_digits.simps One_nat_def)
    have "10 ^ k \<le> max 1 (n div 10)" and up: "n div 10 < 10 ^ Suc k"
      using 1 False k by auto
    then have "10 ^ k \<le> n div 10" using False by auto
    then have "10 ^ Suc k \<le> n" by simp
    moreover have "n < 10 ^ Suc (Suc k)" using up by simp
    ultimately show ?thesis using step k by simp
  qed
qed

lemma num_digits_pos: "0 < num_digits n"
  by (simp add: num_digits.simps [of n])

lemma of_int_num_digits:
  assumes "0 < a"
  shows "pow10 (int (num_digits (nat a)) - 1) \<le> of_int a" and "of_int a < pow10 (int (num_digits (nat a)))"
proof -
  obtain k where k: "num_digits (nat a) = Suc k"
    using num_digits_pos [of "nat a"] by (cases "num_digits (nat a)") auto
  have b: "10 ^ k \<le> nat a" "nat a < 10 ^ Suc k"
    using num_digits_bounds [of "nat a"] assms k by auto
  then have "(10::int) ^ k \<le> a" "a < 10 ^ Suc k"
    using assms by (simp_all add: le_nat_iff nat_less_iff)
  then have "(10::rat) ^ k \<le> of_int a" "of_int a < (10::rat) ^ Suc k"
    by (metis of_int_le_iff of_int_power of_int_numeral,
        metis of_int_less_iff of_int_power of_int_numeral)
  then show "pow10 (int (num_digits (nat a)) - 1) \<le> of_int a" "of_int a < pow10 (int (num_digits (nat a)))"
    by (simp_all add: pow10_def k nat_add_distrib)
qed

lemma adjusted_le:
  assumes "0 < q"
  shows "pow10 (adjusted q) \<le> q"
proof -
  obtain a b where ab: "quotient_of q = (a, b)" by (cases "quotient_of q")
  have "0 < b" using quotient_of_denom_pos [OF ab] .
  have q: "q = of_int a / of_int b" using quotient_of_div [OF ab] .
  have "0 < a" using assms q \<open>0 < b\<close> by (simp add: zero_less_divide_iff)
  let ?m = "int (num_digits (nat a))" and ?n = "int (num_digits (nat b))"
  have "pow10 (?m - ?n - 1) * of_int b \<le> pow10 (?m - ?n - 1) * pow10 ?n"
    using of_int_num_digits(2) [OF \<open>0 < b\<close>] by (simp add: mult_left_mono)
  also have "\<dots> = pow10 (?m - 1)" by (simp add: pow10_add [symmetric])
  also have "\<dots> \<le> of_int a" by (rule of_int_num_digits(1) [OF \<open>0 < a\<close>])
  finally have "pow10 (?m - ?n - 1) \<le> q"
    using \<open>0 < b\<close> by (simp add: q field_simps)
  then show ?thesis by (simp add: adjusted_def ab Let_def)
qed

lemma round_half_even_error: "\<bar>of_int (round_half_even q) - q\<bar> \<le> 1 / 2"
proof -
  define f where "f = \<lfloor>q\<rfloor>"
  have f: "of_int f \<le> q" "q < of_int f + 1"
    unfolding f_def by linarith+
  have "round_half_even q = f \<and> q - of_int f \<le> 1 / 2 \<or>
        round_half_even q = f + 1 \<and> 1 / 2 \<le> q - of_int f"
    unfolding round_half_even_def Let_def f_def by auto
  then show ?thesis
    using f by (auto simp: abs_le_iff)
qed

text \<open>Rounding to 28 digits moves a number by less than one part in ten to the 27.\<close>

lemma ctx_error: "\<bar>ctx q - q\<bar> \<le> \<bar>q\<bar> / 10 ^ 27"
proof (cases "q = 0")
  case True
  then show ?thesis by (simp add: ctx_def)
next
  case False
  define u where "u = pow10 (adjusted \<bar>q\<bar> - 27)"
  have up: "0 < u" by (simp add: u_def)
  have small: "u * 10 ^ 27 \<le> \<bar>q\<bar>"
  proof -
    have "u * 10 ^ 27 = pow10 (adjusted \<bar>q\<bar>)"
      using pow10_add [of "adjusted \<bar>q\<bar> - 27" 27] by (simp add: u_def pow10_def)
    then show ?thesis using adjusted_le [of "\<bar>q\<bar>"] False by simp
  qed
  have "\<bar>of_int (round_half_even (\<bar>q\<bar> / u)) - \<bar>q\<bar> / u\<bar> \<le> 1"
    using round_half_even_error [of "\<bar>q\<bar> / u"] by linarith
  then have "u * \<bar>of_int (round_half_even (\<bar>q\<bar> / u)) - \<bar>q\<bar> / u\<bar> \<le> u"
    using up by simp
  moreover have "u * of_int (round_half_even (\<bar>q\<bar> / u)) - \<bar>q\<bar> =
      u * (of_int (round_half_even (\<bar>q\<bar> / u)) - \<bar>q\<bar> / u)"
    using up by (simp add: right_diff_distrib)
  ultimately have "\<bar>u * of_int (round_half_even (\<bar>q\<bar> / u)) - \<bar>q\<bar>\<bar> \<le> u"
    using up by (simp add: abs_mult)
  moreover have "ctx q - q = sgn q * (u * of_int (round_half_even (\<bar>q\<bar> / u)) - \<bar>q\<bar>)"
    using False by (simp add: ctx_def u_def Let_def right_diff_distrib sgn_mult_abs)
  ultimately have "\<bar>ctx q - q\<bar> \<le> u"
    using False by (simp add: abs_mult abs_sgn_eq)
  also have "u \<le> \<bar>q\<bar> / 10 ^ 27" using small by (simp add: field_simps)
  finally show ?thesis .
qed

lemma round_half_even_of_int [simp]: "round_half_even (of_int z) = z"
  by (simp add: round_half_even_def)

text \<open>An integer of at most 28 digits is exact.\<close>

lemma ctx_of_int:
  assumes "\<bar>n\<bar> < 10 ^ 28"
  shows "ctx (of_int n) = of_int n"
proof (cases "n = 0")
  case True
  then show ?thesis by (simp add: ctx_def)
next
  case False
  let ?q = "\<bar>of_int n\<bar> :: rat"
  have "?q < 10 ^ 28"
    using assms by (metis of_int_abs of_int_less_iff of_int_numeral of_int_power)
  moreover have "pow10 (adjusted ?q) \<le> ?q" using adjusted_le [of ?q] False by simp
  ultimately have "pow10 (adjusted ?q) < pow10 28" by (simp add: pow10_def)
  then have "adjusted ?q < 28"
    unfolding pow10_powi using power_int_increasing [of 28 "adjusted ?q" "10 :: rat"] by force
  then have k: "adjusted ?q - 27 = - int (nat (27 - adjusted ?q))" by simp
  define k where "k = nat (27 - adjusted ?q)"
  define u where "u = pow10 (adjusted ?q - 27)"
  have u: "u = 1 / 10 ^ k" unfolding u_def k k_def [symmetric] by (simp add: pow10_def)
  have "?q / u = of_int (\<bar>n\<bar> * 10 ^ k)" by (simp add: u)
  then have "u * of_int (round_half_even (?q / u)) = u * of_int (\<bar>n\<bar> * 10 ^ k)"
    by (simp only: round_half_even_of_int)
  then have "u * of_int (round_half_even (?q / u)) = ?q" by (simp add: u)
  then show ?thesis
    using False unfolding ctx_def Let_def u_def [symmetric] by (simp add: sgn_mult_abs)
qed

end
