(* ===== verification/Allocation.thy ===== *)
theory Allocation
  imports Domain Decimals
begin

text \<open>
  The stake progression of \<open>packages/portfolio_allocation/martingale.py\<close> and the digit risk
  configuration of \<open>apps/core/digit_risk_config.py\<close>. The progression is pure arithmetic on
  \<open>Decimal\<close>; the lemmas bound every stake it returns and show what a recovery stake recovers.
  A field the code declares as \<open>int\<close>, \<open>bool\<close>, \<open>str\<close> or \<open>frozenset\<close> has that type here, so
  the tests of the code on the runtime type of such a field are not repeated; a \<open>float\<close> is a
  rational or one of the special values.
\<close>

section \<open>The progression\<close>

record martingale_config =
  mc_base_stake :: money
  mc_multiplier :: rat
  mc_max_steps :: int
  mc_max_stake :: money
  mc_daily_stop_loss :: money

definition BoundedMartingaleConfig ::
  "money \<Rightarrow> decimal \<Rightarrow> int \<Rightarrow> money \<Rightarrow> money \<Rightarrow> exc + martingale_config" where
  "BoundedMartingaleConfig base multiplier steps max_stake stop =
     and_then (raise_if (currency base \<noteq> currency max_stake)
       (ValueError ''martingale stake currencies must match'')) (\<lambda>_.
     and_then (raise_if (currency base \<noteq> currency stop)
       (ValueError ''martingale stop-loss currency must match'')) (\<lambda>_.
     and_then (raise_if (minor_units base \<le> 0)
       (ValueError ''martingale base stake must be positive'')) (\<lambda>_.
     and_then (raise_if (minor_units max_stake < minor_units base)
       (ValueError ''martingale max stake cannot be below base stake'')) (\<lambda>_.
     and_then (raise_if (minor_units stop \<le> 0)
       (ValueError ''martingale daily stop loss must be positive'')) (\<lambda>_.
     and_then (raise_if (minor_units max_stake > minor_units stop)
       (ValueError ''martingale max stake cannot exceed daily stop loss'')) (\<lambda>_.
     case multiplier of
       Special \<Rightarrow> Inl (ValueError ''martingale multiplier must be between 1.10 and 3.00'')
     | Finite m \<Rightarrow>
         if \<not> (110 / 100 \<le> m \<and> m \<le> 3)
         then Inl (ValueError ''martingale multiplier must be between 1.10 and 3.00'')
         else if \<not> (1 \<le> steps \<and> steps \<le> 4)
         then Inl (ValueError ''martingale max steps must be between 1 and 4'')
         else Inr \<lparr>mc_base_stake = base, mc_multiplier = m, mc_max_steps = steps,
           mc_max_stake = max_stake, mc_daily_stop_loss = stop\<rparr>))))))"

text \<open>A \<open>BoundedMartingaleState\<close> is its step.\<close>

definition BoundedMartingaleState :: "int \<Rightarrow> exc + int" where
  "BoundedMartingaleState step = (if step < 0
     then Inl (ValueError ''martingale step must be a non-negative integer'') else Inr step)"

definition required_stake :: "rat \<Rightarrow> int \<Rightarrow> exc + int" where
  "required_stake net_profit_ratio target = quantize_one ceiling (dec_div (of_int target) net_profit_ratio)"

definition recovery_stake ::
  "martingale_config \<Rightarrow> int \<Rightarrow> int \<Rightarrow> decimal \<Rightarrow> int \<Rightarrow> exc + money" where
  "recovery_stake cfg step outstanding net_profit_ratio remaining_budget =
     (if step \<le> 0 \<or> outstanding \<le> 0 then Inr (mc_base_stake cfg)
      else if step > mc_max_steps cfg
      then Inl (ValueError ''martingale state exceeds configured max steps'')
      else case net_profit_ratio of
        Special \<Rightarrow> Inl (ValueError ''martingale quote net profit ratio must be positive'')
      | Finite ratio \<Rightarrow>
          if ratio \<le> 0
          then Inl (ValueError ''martingale quote net profit ratio must be positive'')
          else
            let hard_cap = min (minor_units (mc_max_stake cfg)) remaining_budget;
                base = minor_units (mc_base_stake cfg);
                cur = currency (mc_base_stake cfg) in
            if hard_cap \<le> 0
            then Inl (ValueError ''martingale recovery has no remaining loss budget'')
            else
              and_then (required_stake ratio outstanding) (\<lambda>required.
              let full_recovery = max base required in
              if full_recovery \<le> hard_cap then Money full_recovery cur
              else
                let remaining_attempts = mc_max_steps cfg - step + 1 in
                and_then (quantize_one ceiling
                  (dec_div (of_int outstanding) (of_int remaining_attempts))) (\<lambda>target_slice.
                and_then (required_stake ratio target_slice) (\<lambda>sliced.
                let divided_recovery = max base sliced in
                if divided_recovery \<le> hard_cap then Money divided_recovery cur
                else Inl (ValueError ''martingale recovery exceeds configured safety limits'')))))"

definition stake_for_step :: "martingale_config \<Rightarrow> int \<Rightarrow> exc + money" where
  "stake_for_step cfg step =
     (if step > mc_max_steps cfg
      then Inl (ValueError ''martingale state exceeds configured max steps'')
      else
        and_then (quantize_one round_half_up
          (ctx (of_int (minor_units (mc_base_stake cfg)) * ctx (mc_multiplier cfg ^ nat step)))) (\<lambda>calculated.
        Money (min calculated (minor_units (mc_max_stake cfg))) (currency (mc_base_stake cfg))))"

fun stakes_for_steps :: "martingale_config \<Rightarrow> int list \<Rightarrow> exc + money list" where
  "stakes_for_steps cfg [] = Inr []"
| "stakes_for_steps cfg (s # r) =
     and_then (stake_for_step cfg s) (\<lambda>m. and_then (stakes_for_steps cfg r) (\<lambda>ms. Inr (m # ms)))"

record martingale_projection =
  mp_stakes :: "money list"
  mp_maximum_sequence_loss :: money

definition project :: "martingale_config \<Rightarrow> exc + martingale_projection" where
  "project cfg =
     and_then (stakes_for_steps cfg [0..mc_max_steps cfg]) (\<lambda>stakes.
     and_then (Money (sum_list (map minor_units stakes)) (currency (mc_base_stake cfg))) (\<lambda>total.
     Inr \<lparr>mp_stakes = stakes, mp_maximum_sequence_loss = total\<rparr>))"

definition after_settlement :: "martingale_config \<Rightarrow> int \<Rightarrow> int \<Rightarrow> int" where
  "after_settlement cfg step realized_pnl =
     (if realized_pnl \<ge> 0 \<or> step \<ge> mc_max_steps cfg then 0 else step + 1)"

section \<open>The digit configuration\<close>

definition DERIV_SYNTHETIC_INDEX_ALLOWLIST :: "string list" where
  "DERIV_SYNTHETIC_INDEX_ALLOWLIST = [''R_10'', ''R_25'', ''R_50'', ''R_75'', ''R_100'',
     ''1HZ10V'', ''1HZ15V'', ''1HZ25V'', ''1HZ30V'', ''1HZ50V'', ''1HZ75V'', ''1HZ90V'', ''1HZ100V'']"

definition DERIV_BOUNDED_STAKE_PRODUCTS :: "string list" where
  "DERIV_BOUNDED_STAKE_PRODUCTS =
     [''DIGITDIFF'', ''DIGITOVER'', ''DIGITUNDER'', ''DIGITEVEN'', ''DIGITODD'']"

definition DERIV_DIGIT_STRATEGY_ALLOWLIST :: "string list" where
  "DERIV_DIGIT_STRATEGY_ALLOWLIST = [''tail-probability-edge'', ''selective-differs-edge'',
     ''parity-regime-edge'', ''payout-routed-differs-session'']"

definition DERIV_DEFAULT_DIGIT_STRATEGY_IDS :: "string list" where
  "DERIV_DEFAULT_DIGIT_STRATEGY_IDS =
     [''tail-probability-edge'', ''selective-differs-edge'', ''parity-regime-edge'']"

datatype selection_mode = SINGLE | MULTI | STRESS

record digit_risk_config =
  dc_stake_minor_units :: int
  dc_daily_stop_loss_minor_units :: int
  dc_daily_take_profit_minor_units :: int
  dc_max_consecutive_losses :: int
  dc_cooldown_seconds_after_loss :: decimal
  dc_min_quantum_confidence_pct :: decimal
  dc_selected_symbol :: string
  dc_currency :: string
  dc_auto_select_symbol :: bool
  dc_active_strategy_id :: string
  dc_enabled_strategy_ids :: "string list"
  dc_selection_mode :: selection_mode
  dc_stress_test_all_strategies_enabled :: bool
  dc_martingale_enabled :: bool
  dc_martingale_multiplier :: decimal
  dc_martingale_max_steps :: int
  dc_martingale_max_stake_minor_units :: int
  dc_performance_ratchet_cap_pp :: decimal
  dc_performance_window_trades :: int
  dc_performance_window_hours :: decimal
  dc_martingale_pin_timeout_seconds :: decimal

definition DigitRiskConfig :: digit_risk_config where
  "DigitRiskConfig = \<lparr>
     dc_stake_minor_units = 100, dc_daily_stop_loss_minor_units = 5000,
     dc_daily_take_profit_minor_units = 3000, dc_max_consecutive_losses = 1,
     dc_cooldown_seconds_after_loss = Finite 30, dc_min_quantum_confidence_pct = Finite (925 / 10),
     dc_selected_symbol = ''R_100'', dc_currency = ''USD'', dc_auto_select_symbol = True,
     dc_active_strategy_id = ''tail-probability-edge'',
     dc_enabled_strategy_ids = DERIV_DEFAULT_DIGIT_STRATEGY_IDS, dc_selection_mode = SINGLE,
     dc_stress_test_all_strategies_enabled = False, dc_martingale_enabled = False,
     dc_martingale_multiplier = Finite 2, dc_martingale_max_steps = 2,
     dc_martingale_max_stake_minor_units = 400, dc_performance_ratchet_cap_pp = Finite 1,
     dc_performance_window_trades = 20, dc_performance_window_hours = Finite 24,
     dc_martingale_pin_timeout_seconds = Finite 300\<rparr>"

definition bounded_martingale_config :: "digit_risk_config \<Rightarrow> exc + martingale_config" where
  "bounded_martingale_config c =
     and_then (Money (dc_stake_minor_units c) (dc_currency c)) (\<lambda>base.
     and_then (Money (dc_martingale_max_stake_minor_units c) (dc_currency c)) (\<lambda>max_stake.
     and_then (Money (dc_daily_stop_loss_minor_units c) (dc_currency c)) (\<lambda>stop.
     BoundedMartingaleConfig base (dc_martingale_multiplier c) (dc_martingale_max_steps c)
       max_stake stop)))"

definition is_bounded_digit_product :: "string \<Rightarrow> bool" where
  "is_bounded_digit_product product \<longleftrightarrow>
     upper (strip product) \<in> set DERIV_BOUNDED_STAKE_PRODUCTS"

definition projected_martingale_stakes :: "digit_risk_config \<Rightarrow> exc + int list" where
  "projected_martingale_stakes c =
     (if \<not> dc_martingale_enabled c then Inr [dc_stake_minor_units c]
      else and_then (bounded_martingale_config c) (\<lambda>cfg.
        and_then (project cfg) (\<lambda>p. Inr (map minor_units (mp_stakes p)))))"

text \<open>\<open>x.is_finite()\<close> (or \<open>isfinite(x)\<close>) and a test on the value.\<close>

definition finite_and :: "(rat \<Rightarrow> bool) \<Rightarrow> decimal \<Rightarrow> bool" where
  "finite_and P x = (case x of Finite q \<Rightarrow> P q | Special \<Rightarrow> False)"

definition digit_risk_faults :: "digit_risk_config \<Rightarrow> (bool \<times> string) list" where
  "digit_risk_faults c =
     [(dc_stake_minor_units c < 35, ''DIGIT_RISK_STAKE_BELOW_MINIMUM''),
      (dc_daily_stop_loss_minor_units c \<le> 0, ''DIGIT_RISK_STOP_LOSS_INVALID''),
      (dc_daily_take_profit_minor_units c \<le> 0, ''DIGIT_RISK_TAKE_PROFIT_INVALID''),
      (\<not> (1 \<le> dc_max_consecutive_losses c \<and> dc_max_consecutive_losses c \<le> 5),
         ''DIGIT_RISK_CONSECUTIVE_LOSSES_INVALID''),
      (\<not> finite_and (\<lambda>x. 0 < x) (dc_cooldown_seconds_after_loss c), ''DIGIT_RISK_COOLDOWN_INVALID''),
      (\<not> finite_and (\<lambda>x. 80 \<le> x \<and> x \<le> 99) (dc_min_quantum_confidence_pct c),
         ''DIGIT_RISK_CONFIDENCE_INVALID''),
      (dc_selected_symbol c \<notin> set DERIV_SYNTHETIC_INDEX_ALLOWLIST, ''DIGIT_RISK_SYMBOL_NOT_ALLOWED''),
      (dc_currency c \<noteq> ''USD'', ''DIGIT_RISK_CURRENCY_NOT_SUPPORTED''),
      (dc_active_strategy_id c \<noteq> [] \<and>
         dc_active_strategy_id c \<notin> set DERIV_DIGIT_STRATEGY_ALLOWLIST, ''DIGIT_RISK_STRATEGY_NOT_ALLOWED''),
      (\<not> set (dc_enabled_strategy_ids c) \<subseteq> set DERIV_DIGIT_STRATEGY_ALLOWLIST,
         ''DIGIT_RISK_STRATEGY_SELECTION_INVALID''),
      (\<not> finite_and (\<lambda>x. 110 / 100 \<le> x \<and> x \<le> 3) (dc_martingale_multiplier c),
         ''DIGIT_MARTINGALE_MULTIPLIER_INVALID''),
      (\<not> (1 \<le> dc_martingale_max_steps c \<and> dc_martingale_max_steps c \<le> 4),
         ''DIGIT_MARTINGALE_STEPS_INVALID''),
      (dc_martingale_max_stake_minor_units c \<le> 0 \<or>
         dc_martingale_max_stake_minor_units c > dc_daily_stop_loss_minor_units c,
         ''DIGIT_MARTINGALE_MAX_STAKE_INVALID''),
      (dc_martingale_enabled c \<and> dc_martingale_max_stake_minor_units c < dc_stake_minor_units c,
         ''DIGIT_MARTINGALE_MAX_STAKE_INVALID''),
      (dc_martingale_enabled c \<and> dc_max_consecutive_losses c < dc_martingale_max_steps c + 1,
         ''DIGIT_MARTINGALE_LOSS_LIMIT_TOO_LOW''),
      (\<not> finite_and (\<lambda>x. 0 \<le> x \<and> x \<le> 10) (dc_performance_ratchet_cap_pp c),
         ''DIGIT_PERFORMANCE_RATCHET_CAP_INVALID''),
      (\<not> (1 \<le> dc_performance_window_trades c \<and> dc_performance_window_trades c \<le> 1000),
         ''DIGIT_PERFORMANCE_WINDOW_INVALID''),
      (\<not> finite_and (\<lambda>x. 0 < x) (dc_performance_window_hours c), ''DIGIT_PERFORMANCE_WINDOW_INVALID''),
      (\<not> finite_and (\<lambda>x. 0 < x) (dc_martingale_pin_timeout_seconds c),
         ''DIGIT_MARTINGALE_PIN_TIMEOUT_INVALID'')]"

definition validate_digit_risk_config :: "digit_risk_config \<Rightarrow> bool \<times> string option" where
  "validate_digit_risk_config c = (case first_conflict (digit_risk_faults c) of
     None \<Rightarrow> (True, None) | Some reason \<Rightarrow> (False, Some reason))"

abbreviation valid_digit_config :: "digit_risk_config \<Rightarrow> bool" where
  "valid_digit_config c \<equiv> fst (validate_digit_risk_config c)"

section \<open>What a recovery stake is worth\<close>

text \<open>The relative error one rounding to 28 digits can have.\<close>

definition rounding_error :: rat where
  "rounding_error = 1 / 10 ^ 27"

lemma rounding_error_bounds: "0 < rounding_error" "rounding_error < 1"
  by (simp_all add: rounding_error_def)

lemma dec_div_lower:
  assumes "0 \<le> a" and "0 < b"
  shows "a / b * (1 - rounding_error) \<le> dec_div a b"
proof -
  have "0 \<le> a / b" using assms by simp
  moreover have "\<bar>ctx (a / b) - a / b\<bar> \<le> \<bar>a / b\<bar> * rounding_error"
    using ctx_error [of "a / b"] by (simp add: rounding_error_def)
  ultimately have "a / b - ctx (a / b) \<le> a / b * rounding_error" 
    by (simp only: abs_of_nonneg abs_le_iff) linarith
  then show ?thesis unfolding dec_div_def right_diff_distrib by linarith
qed

lemma quantize_ceiling: "quantize_one ceiling q = Inr n \<Longrightarrow> q \<le> of_int n"
  by (auto simp: quantize_one_def split: if_splits)

lemma required_stake_covers:
  assumes "required_stake r t = Inr n" and "0 < r" and "0 \<le> t"
  shows "of_int t * (1 - rounding_error) \<le> of_int n * r"
proof -
  have "of_int t / r * (1 - rounding_error) \<le> of_int n"
    using dec_div_lower [of "of_int t" r] quantize_ceiling [OF assms(1) [unfolded required_stake_def]] assms(2,3)
    by simp
  then have "of_int t / r * (1 - rounding_error) * r \<le> of_int n * r"
    using assms(2) by (intro mult_right_mono) auto
  then show ?thesis using assms(2) by simp
qed

lemma Money_InrD: "Money u c = Inr m \<Longrightarrow> minor_units m = u"
  by (auto simp: Money_def Let_def split: if_splits)

lemma recovery_stake_InrD:
  assumes "recovery_stake cfg step outstanding ratio budget = Inr m" and "0 < step" and "0 < outstanding"
  shows "\<exists>r target n. ratio = Finite r \<and> 0 < r \<and> step \<le> mc_max_steps cfg \<and> required_stake r target = Inr n \<and>
    minor_units m = max (minor_units (mc_base_stake cfg)) n \<and>
    minor_units m \<le> minor_units (mc_max_stake cfg) \<and> minor_units m \<le> budget \<and>
    (target = outstanding \<or> quantize_one ceiling
       (dec_div (of_int outstanding) (of_int (mc_max_steps cfg - step + 1))) = Inr target)"
proof (cases ratio)
  case Special
  then show ?thesis using assms by (simp add: recovery_stake_def split: if_splits)
next
  case (Finite r)
  let ?base = "minor_units (mc_base_stake cfg)"
    and ?cap = "min (minor_units (mc_max_stake cfg)) budget"
  have r: "0 < r" "step \<le> mc_max_steps cfg"
    using assms Finite by (auto simp: recovery_stake_def split: if_splits)
  obtain n where n: "required_stake r outstanding = Inr n"
    using assms Finite by (auto simp: recovery_stake_def Let_def raises split: if_splits)
  show ?thesis
  proof (cases "max ?base n \<le> ?cap")
    case True
    then have "minor_units m = max ?base n"
      using assms Finite n by (auto simp: recovery_stake_def Let_def dest!: Money_InrD split: if_splits)
    with True Finite r n show ?thesis by auto
  next
    case False
    then obtain target k where t: "quantize_one ceiling
          (dec_div (of_int outstanding) (of_int (mc_max_steps cfg - step + 1))) = Inr target"
        "required_stake r target = Inr k" "max ?base k \<le> ?cap"
        "minor_units m = max ?base k"
      using assms Finite n by (auto simp: recovery_stake_def Let_def raises simp del: of_int_add of_int_diff
          dest!: Money_InrD split: if_splits)
    with Finite r show ?thesis by auto
  qed
qed

lemma recovery_share:
  assumes "recovery_stake cfg step outstanding (Finite r) budget = Inr m" and "0 < step" and "0 < outstanding"
  shows "of_int outstanding / of_int (mc_max_steps cfg - step + 1) * (1 - 2 * rounding_error) \<le>
    of_int (minor_units m) * r"
proof -
  let ?k = "of_int (mc_max_steps cfg - step + 1) :: rat"
  obtain target n where t: "0 < r" "step \<le> mc_max_steps cfg" "required_stake r target = Inr n"
      "n \<le> minor_units m" "target = outstanding \<or> quantize_one ceiling
        (dec_div (of_int outstanding) ?k) = Inr target"
    using recovery_stake_InrD [OF assms] by auto
  have k: "1 \<le> ?k" using t(2) by simp
  have pos: "0 < of_int outstanding / ?k" using k assms(3) by (simp del: of_int_add of_int_diff)
  have share: "of_int outstanding / ?k * (1 - rounding_error) \<le> of_int target"
    using t(5)
  proof
    assume "target = outstanding"
    moreover have "of_int outstanding / ?k \<le> of_int outstanding"
      using k assms(3) by (simp add: divide_le_eq del: of_int_add of_int_diff)
    moreover have "of_int outstanding / ?k * (1 - rounding_error) \<le> of_int outstanding / ?k"
      using mult_left_mono [OF _ less_imp_le [OF pos], of "1 - rounding_error" 1] rounding_error_bounds by simp
    ultimately show ?thesis by simp
  next
    assume "quantize_one ceiling (dec_div (of_int outstanding) ?k) = Inr target"
    from quantize_ceiling [OF this] show ?thesis
      using dec_div_lower [of "of_int outstanding" ?k] k assms(3) by simp
  qed
  have "0 < of_int outstanding / ?k * (1 - rounding_error)"
    by (rule mult_pos_pos [OF pos]) (use rounding_error_bounds in simp)
  with share have "0 \<le> target" by (metis of_int_0_le_iff less_le_not_le order_trans nle_le)
  have "of_int outstanding / ?k * (1 - 2 * rounding_error) \<le> of_int outstanding / ?k * ((1 - rounding_error) * (1 - rounding_error))"
    using pos by (intro mult_left_mono) (simp_all add: algebra_simps del: of_int_add of_int_diff)
  also have "\<dots> = (of_int outstanding / ?k * (1 - rounding_error)) * (1 - rounding_error)" by simp
  also have "\<dots> \<le> of_int target * (1 - rounding_error)" using share rounding_error_bounds by (intro mult_right_mono) auto
  also have "\<dots> \<le> of_int n * r" by (rule required_stake_covers [OF t(3,1) \<open>0 \<le> target\<close>])
  also have "\<dots> \<le> of_int (minor_units m) * r" using t(1,4) by (intro mult_right_mono) auto
  finally show ?thesis .
qed

lemma progression_of:
  assumes "bounded_martingale_config c = Inr cfg"
  shows "minor_units (mc_base_stake cfg) = dc_stake_minor_units c"
    "minor_units (mc_max_stake cfg) = dc_martingale_max_stake_minor_units c"
    "mc_max_steps cfg = dc_martingale_max_steps c"
  using assms by (cases "dc_martingale_multiplier c"; auto simp: bounded_martingale_config_def
      BoundedMartingaleConfig_def raises dest!: Money_InrD split: if_splits)+

text \<open>A configuration that passes the check has a progression.\<close>

lemma valid_digit_configD:
  assumes "valid_digit_config c"
  shows "35 \<le> dc_stake_minor_units c" "0 < dc_daily_stop_loss_minor_units c"
    "0 < dc_daily_take_profit_minor_units c" "1 \<le> dc_martingale_max_steps c" "dc_martingale_max_steps c \<le> 4"
    "0 < dc_martingale_max_stake_minor_units c"
    "dc_martingale_max_stake_minor_units c \<le> dc_daily_stop_loss_minor_units c" "dc_currency c = ''USD''"
    "dc_martingale_enabled c \<Longrightarrow> dc_stake_minor_units c \<le> dc_martingale_max_stake_minor_units c"
    "dc_martingale_enabled c \<Longrightarrow> dc_martingale_max_steps c < dc_max_consecutive_losses c"
    "finite_and (\<lambda>x. 110 / 100 \<le> x \<and> x \<le> 3) (dc_martingale_multiplier c)"
    "finite_and (\<lambda>x. 0 < x) (dc_cooldown_seconds_after_loss c)"
  using assms by (auto simp: validate_digit_risk_config_def digit_risk_faults_def split: option.splits if_splits)

lemma valid_config_has_progression:
  assumes "valid_digit_config c" and "dc_martingale_enabled c"
  shows "\<exists>cfg. bounded_martingale_config c = Inr cfg"
  using valid_digit_configD [OF assms(1)] assms(2)
  by (auto simp: bounded_martingale_config_def BoundedMartingaleConfig_def Money_def string_eval
      finite_and_def split: decimal.splits)

end
