(* ===== verification/Evidence.thy ===== *)
theory Evidence
  imports Domain Decimals
begin

text \<open>
  The facts a broker worker reports, from \<open>packages/domain/models.py\<close> and
  \<open>packages/protocol/messages.py\<close>: broker events, status queries, reconciliation evidence and
  negative (not-found) evidence, with the checks of their constructors and their payloads.
  SHA-256 over the canonical JSON text is not computed here: the definitions that need it take
  the function from a payload to its digest as the argument \<open>sha\<close>.
\<close>

section \<open>Broker events\<close>

record broker_event =
  be_event_id :: string
  be_intent_id :: string
  be_new_state :: order_state
  be_occurred_at :: datetime
  be_broker_order_id :: "string option"
  be_realized_pnl_minor :: "int option"

definition validate_broker_event :: "broker_event \<Rightarrow> exc + unit" where
  "validate_broker_event e =
     and_then (require_aware_utc (be_occurred_at e) ''occurred_at'') (\<lambda>_.
     and_then (raise_if (be_event_id e = [] \<or> be_intent_id e = [])
       (ValueError ''event_id and intent_id are required'')) (\<lambda>_.
     raise_if (be_realized_pnl_minor e \<noteq> None \<and> be_new_state e \<noteq> SETTLED)
       (ValueError ''realized P&L is only valid for SETTLED events'')))"

record broker_order_event =
  ev_event_id :: string
  ev_event_version :: int
  ev_broker :: broker
  ev_account_id :: string
  ev_client_order_ref :: string
  ev_broker_order_id :: string
  ev_correlation_id :: string
  ev_external_sequence :: "int option"
  ev_external_status :: external_order_status
  ev_occurred_at :: datetime
  ev_observed_at :: datetime
  ev_product :: string
  ev_symbol :: string
  ev_direction :: direction
  ev_amount :: money
  ev_result_minor :: "int option"
  ev_result_currency :: "string option"
  ev_evidence_hash :: string
  ev_seconds_remaining :: "int option"
  ev_current_spot :: "string option"

definition canonical_payload :: "broker_order_event \<Rightarrow> payload" where
  "canonical_payload e =
     [(''event_id'', PStr (ev_event_id e)),
      (''event_version'', PInt (ev_event_version e)),
      (''broker'', PStr (broker_value (ev_broker e))),
      (''account_id'', PStr (ev_account_id e)),
      (''client_order_ref'', PStr (ev_client_order_ref e)),
      (''broker_order_id'', PStr (ev_broker_order_id e)),
      (''correlation_id'', PStr (ev_correlation_id e)),
      (''external_sequence'', opt_val PInt (ev_external_sequence e)),
      (''external_status'', PStr (external_status_value (ev_external_status e))),
      (''occurred_at'', PStr (isoformat (ev_occurred_at e))),
      (''observed_at'', PStr (isoformat (ev_observed_at e))),
      (''product'', PStr (ev_product e)),
      (''symbol'', PStr (ev_symbol e)),
      (''direction'', PStr (direction_value (ev_direction e))),
      (''amount_minor'', PInt (minor_units (ev_amount e))),
      (''currency'', PStr (currency (ev_amount e))),
      (''result_minor'', opt_val PInt (ev_result_minor e)),
      (''result_currency'', opt_val PStr (ev_result_currency e))] @
     (case ev_seconds_remaining e of None \<Rightarrow> [] | Some n \<Rightarrow> [(''seconds_remaining'', PInt n)]) @
     (case ev_current_spot e of None \<Rightarrow> [] | Some s \<Rightarrow> [(''current_spot'', PStr s)])"

definition normalize_result_currency :: "string option \<Rightarrow> exc + string option" where
  "normalize_result_currency rc = (case rc of None \<Rightarrow> Inr None
     | Some c \<Rightarrow> (let normalized = upper (strip c) in
         if length normalized \<noteq> 3 \<or> \<not> isalpha normalized
         then Inl (ValueError ''result_currency must be a three-letter code'')
         else Inr (Some normalized)))"

text \<open>\<open>BrokerOrderEvent(...)\<close> with the checks of \<open>__post_init__\<close> in their order.\<close>

definition BrokerOrderEvent ::
  "(payload \<Rightarrow> string) \<Rightarrow> broker_order_event \<Rightarrow> exc + broker_order_event" where
  "BrokerOrderEvent sha e0 =
     and_then (require_aware_utc (ev_occurred_at e0) ''occurred_at'') (\<lambda>_.
     and_then (require_aware_utc (ev_observed_at e0) ''observed_at'') (\<lambda>_.
     and_then (require_nonblank
       [(''event_id'', ev_event_id e0), (''account_id'', ev_account_id e0),
        (''client_order_ref'', ev_client_order_ref e0),
        (''broker_order_id'', ev_broker_order_id e0),
        (''correlation_id'', ev_correlation_id e0), (''product'', ev_product e0),
        (''symbol'', ev_symbol e0), (''evidence_hash'', ev_evidence_hash e0)]) (\<lambda>_.
     and_then (raise_if (ev_event_version e0 \<le> 0)
       (ValueError ''event_version must be a positive integer'')) (\<lambda>_.
     and_then (raise_if (case ev_external_sequence e0 of None \<Rightarrow> False | Some n \<Rightarrow> n \<le> 0)
       (ValueError ''external_sequence must be a positive integer or null'')) (\<lambda>_.
     and_then (raise_if (minor_units (ev_amount e0) \<le> 0)
       (ValueError ''event amount must be positive'')) (\<lambda>_.
     and_then (if ev_external_status e0 = EXT_SETTLED
        then raise_if (ev_result_minor e0 = None \<or> ev_result_currency e0 = None)
          (ValueError ''SETTLED event requires result amount and currency'')
        else raise_if (ev_result_minor e0 \<noteq> None \<or> ev_result_currency e0 \<noteq> None)
          (ValueError ''result is only valid for SETTLED event'')) (\<lambda>_.
     and_then (normalize_result_currency (ev_result_currency e0)) (\<lambda>rc.
     let e = e0\<lparr>ev_result_currency := rc\<rparr> in
     and_then (raise_if (ev_external_status e = EXT_EXTERNAL_UNKNOWN)
       (ValueError ''EXTERNAL_UNKNOWN is not a lifecycle event'')) (\<lambda>_.
     and_then (raise_if (case ev_seconds_remaining e of None \<Rightarrow> False | Some n \<Rightarrow> n < 0)
       (ValueError ''seconds_remaining must be a non-negative integer or null'')) (\<lambda>_.
     and_then (raise_if (case ev_current_spot e of None \<Rightarrow> False | Some s \<Rightarrow> Decimal_of s = None)
       (ValueError ''current_spot must be a decimal string or null'')) (\<lambda>_.
     and_then (raise_if (ev_evidence_hash e \<noteq> sha (canonical_payload e))
       (ValueError ''broker event evidence_hash does not match canonical payload'')) (\<lambda>_.
     Inr e))))))))))))"

definition event_to_payload :: "broker_order_event \<Rightarrow> payload" where
  "event_to_payload e = canonical_payload e @ [(''evidence_hash'', PStr (ev_evidence_hash e))]"

definition event_required :: "(string \<times> pytype) list" where
  "event_required =
     [(''event_id'', T_str), (''event_version'', T_int), (''broker'', T_str),
      (''account_id'', T_str), (''client_order_ref'', T_str), (''broker_order_id'', T_str),
      (''correlation_id'', T_str), (''external_status'', T_str), (''occurred_at'', T_str),
      (''observed_at'', T_str), (''product'', T_str), (''symbol'', T_str), (''direction'', T_str),
      (''amount_minor'', T_int), (''currency'', T_str), (''evidence_hash'', T_str)]"

text \<open>An optional payload field of the given type: absent and null both read as \<open>None\<close>.\<close>

fun optional_int :: "string \<Rightarrow> pyval \<Rightarrow> exc + int option" where
  "optional_int msg PNone = Inr None"
| "optional_int msg (PInt i) = Inr (Some i)"
| "optional_int msg _ = Inl (ValueError msg)"

fun optional_str :: "string \<Rightarrow> pyval \<Rightarrow> exc + string option" where
  "optional_str msg PNone = Inr None"
| "optional_str msg (PStr s) = Inr (Some s)"
| "optional_str msg _ = Inl (ValueError msg)"

lemma optional_int_opt_val [simp]: "optional_int msg (opt_val PInt x) = Inr x"
  by (cases x) simp_all

lemma optional_str_opt_val [simp]: "optional_str msg (opt_val PStr x) = Inr x"
  by (cases x) simp_all

definition event_from_payload :: "(payload \<Rightarrow> string) \<Rightarrow> payload \<Rightarrow> exc + broker_order_event" where
  "event_from_payload sha p =
     and_then (require_types ''invalid broker event field: '' p event_required) (\<lambda>_.
     and_then (optional_int ''invalid broker event field: external_sequence''
       (get_item p ''external_sequence'')) (\<lambda>sequence.
     and_then (optional_int ''invalid broker event field: result_minor''
       (get_item p ''result_minor'')) (\<lambda>result_minor.
     and_then (optional_str ''invalid broker event field: result_currency''
       (get_item p ''result_currency'')) (\<lambda>result_currency.
     and_then (optional_int ''invalid broker event field: seconds_remaining''
       (get_item p ''seconds_remaining'')) (\<lambda>seconds_remaining.
     and_then (optional_str ''invalid broker event field: current_spot''
       (get_item p ''current_spot'')) (\<lambda>current_spot.
     and_then (broker_of (the_str (get_item p ''broker''))) (\<lambda>b.
     and_then (external_status_of (the_str (get_item p ''external_status''))) (\<lambda>status.
     and_then (fromisoformat (the_str (get_item p ''occurred_at''))) (\<lambda>occurred.
     and_then (fromisoformat (the_str (get_item p ''observed_at''))) (\<lambda>observed.
     and_then (direction_of (the_str (get_item p ''direction''))) (\<lambda>d.
     and_then (Money (the_int (get_item p ''amount_minor'')) (the_str (get_item p ''currency''))) (\<lambda>amount.
     BrokerOrderEvent sha \<lparr>ev_event_id = the_str (get_item p ''event_id''),
       ev_event_version = the_int (get_item p ''event_version''), ev_broker = b,
       ev_account_id = the_str (get_item p ''account_id''),
       ev_client_order_ref = the_str (get_item p ''client_order_ref''),
       ev_broker_order_id = the_str (get_item p ''broker_order_id''),
       ev_correlation_id = the_str (get_item p ''correlation_id''),
       ev_external_sequence = sequence, ev_external_status = status,
       ev_occurred_at = occurred, ev_observed_at = observed,
       ev_product = the_str (get_item p ''product''),
       ev_symbol = the_str (get_item p ''symbol''), ev_direction = d, ev_amount = amount,
       ev_result_minor = result_minor, ev_result_currency = result_currency,
       ev_evidence_hash = the_str (get_item p ''evidence_hash''),
       ev_seconds_remaining = seconds_remaining, ev_current_spot = current_spot\<rparr>))))))))))))"

text \<open>What construction guarantees of an event.\<close>

definition valid_event :: "(payload \<Rightarrow> string) \<Rightarrow> broker_order_event \<Rightarrow> bool" where
  "valid_event sha e \<longleftrightarrow> BrokerOrderEvent sha e = Inr e \<and> valid_datetime (ev_occurred_at e) \<and>
     valid_datetime (ev_observed_at e) \<and> valid_currency (currency (ev_amount e))"

lemma BrokerOrderEvent_result:
  assumes "BrokerOrderEvent sha e0 = Inr e"
  shows "ev_external_status e = EXT_SETTLED \<longleftrightarrow> ev_result_minor e \<noteq> None"
    and "ev_external_status e \<noteq> EXT_EXTERNAL_UNKNOWN"
    and "ev_evidence_hash e = sha (canonical_payload e)"
    and "\<not> blank (ev_event_id e)"
    and "0 < minor_units (ev_amount e)"
    and "case ev_external_sequence e of None \<Rightarrow> True | Some n \<Rightarrow> 0 < n"
  using assms
  by (auto simp: BrokerOrderEvent_def raises Let_def normalize_result_currency_def
    split: if_splits option.splits)

lemma get_item_append:
  "get_item (p @ q) k = (if map_of p k = None then get_item q k else get_item p k)"
  by (simp add: get_item_def map_add_def split: option.splits)

lemma event_payload_roundtrip:
  assumes "valid_event sha e"
  shows "event_from_payload sha (event_to_payload e) = Inr e"
proof -
  have "valid_datetime (ev_occurred_at e)" and "valid_datetime (ev_observed_at e)"
    and "valid_currency (currency (ev_amount e))" and "BrokerOrderEvent sha e = Inr e"
    using assms by (simp_all add: valid_event_def)
  then show ?thesis
    by (cases "ev_seconds_remaining e"; cases "ev_current_spot e"; cases e; cases "ev_amount e")
      (simp_all add: event_from_payload_def event_to_payload_def canonical_payload_def
        event_required_def)
qed

section \<open>Status queries\<close>

record order_status_query =
  q_correlation_id :: string
  q_intent_id :: string
  q_order_id :: string
  q_client_order_ref :: string
  q_broker :: broker
  q_account_id :: string
  q_product :: string
  q_symbol :: string
  q_direction :: direction
  q_amount :: money
  q_broker_order_id :: "string option"
  q_submitted_at :: "datetime option"

definition OrderStatusQuery :: "order_status_query \<Rightarrow> exc + order_status_query" where
  "OrderStatusQuery q =
     and_then (require_nonblank
       [(''correlation_id'', q_correlation_id q), (''intent_id'', q_intent_id q),
        (''order_id'', q_order_id q), (''client_order_ref'', q_client_order_ref q),
        (''account_id'', q_account_id q), (''product'', q_product q),
        (''symbol'', q_symbol q)]) (\<lambda>_.
     and_then (raise_if (case q_broker_order_id q of None \<Rightarrow> False | Some b \<Rightarrow> blank b)
       (ValueError ''broker_order_id cannot be blank'')) (\<lambda>_.
     and_then (case q_submitted_at q of None \<Rightarrow> Inr ()
        | Some t \<Rightarrow> require_aware_utc t ''submitted_at'') (\<lambda>_.
     and_then (raise_if (minor_units (q_amount q) \<le> 0)
       (ValueError ''order amount must be positive'')) (\<lambda>_. Inr q))))"

definition query_to_payload :: "order_status_query \<Rightarrow> payload" where
  "query_to_payload q =
     [(''intent_id'', PStr (q_intent_id q)),
      (''order_id'', PStr (q_order_id q)),
      (''client_order_ref'', PStr (q_client_order_ref q)),
      (''broker'', PStr (broker_value (q_broker q))),
      (''account_id'', PStr (q_account_id q)),
      (''product'', PStr (q_product q)),
      (''symbol'', PStr (q_symbol q)),
      (''direction'', PStr (direction_value (q_direction q))),
      (''amount_minor'', PInt (minor_units (q_amount q))),
      (''currency'', PStr (currency (q_amount q))),
      (''broker_order_id'', opt_val PStr (q_broker_order_id q)),
      (''submitted_at'', opt_val (\<lambda>t. PStr (isoformat t)) (q_submitted_at q))]"

definition query_required :: "(string \<times> pytype) list" where
  "query_required =
     [(''intent_id'', T_str), (''order_id'', T_str), (''client_order_ref'', T_str),
      (''broker'', T_str), (''account_id'', T_str), (''product'', T_str), (''symbol'', T_str),
      (''direction'', T_str), (''amount_minor'', T_int), (''currency'', T_str)]"

definition query_from_payload :: "payload \<Rightarrow> string \<Rightarrow> exc + order_status_query" where
  "query_from_payload p correlation =
     and_then (require_types ''invalid status query field: '' p query_required) (\<lambda>_.
     and_then (optional_str ''invalid status query field: broker_order_id''
       (get_item p ''broker_order_id'')) (\<lambda>broker_order_id.
     and_then (optional_str ''invalid status query field: submitted_at''
       (get_item p ''submitted_at'')) (\<lambda>submitted_raw.
     and_then (broker_of (the_str (get_item p ''broker''))) (\<lambda>b.
     and_then (direction_of (the_str (get_item p ''direction''))) (\<lambda>d.
     and_then (Money (the_int (get_item p ''amount_minor'')) (the_str (get_item p ''currency''))) (\<lambda>amount.
     and_then (case submitted_raw of None \<Rightarrow> Inr None
        | Some s \<Rightarrow> and_then (fromisoformat s) (\<lambda>t. Inr (Some t))) (\<lambda>submitted.
     OrderStatusQuery \<lparr>q_correlation_id = correlation,
       q_intent_id = the_str (get_item p ''intent_id''),
       q_order_id = the_str (get_item p ''order_id''),
       q_client_order_ref = the_str (get_item p ''client_order_ref''), q_broker = b,
       q_account_id = the_str (get_item p ''account_id''),
       q_product = the_str (get_item p ''product''),
       q_symbol = the_str (get_item p ''symbol''), q_direction = d, q_amount = amount,
       q_broker_order_id = broker_order_id, q_submitted_at = submitted\<rparr>)))))))"

definition valid_query :: "order_status_query \<Rightarrow> bool" where
  "valid_query q \<longleftrightarrow> OrderStatusQuery q = Inr q \<and> valid_currency (currency (q_amount q)) \<and>
     (case q_submitted_at q of None \<Rightarrow> True | Some t \<Rightarrow> valid_datetime t)"

lemma query_payload_roundtrip:
  assumes "valid_query q"
  shows "query_from_payload (query_to_payload q) (q_correlation_id q) = Inr q"
proof -
  have "valid_currency (currency (q_amount q))" and "OrderStatusQuery q = Inr q"
    and "case q_submitted_at q of None \<Rightarrow> True | Some t \<Rightarrow> valid_datetime t"
    using assms by (simp_all add: valid_query_def)
  then show ?thesis
    by (cases "q_submitted_at q"; cases q; cases "q_amount q")
      (simp_all add: query_from_payload_def query_to_payload_def query_required_def)
qed

section \<open>Reconciliation evidence\<close>

record reconciliation_evidence =
  re_evidence_id :: string
  re_source :: reconciliation_source
  re_observed_at :: datetime
  re_client_order_ref :: string
  re_broker_order_id :: "string option"
  re_external_status :: external_order_status
  re_broker :: broker
  re_account_id :: string
  re_product :: string
  re_symbol :: string
  re_direction :: direction
  re_amount :: money
  re_evidence_version :: int
  re_realized_pnl_minor :: "int option"
  re_raw_reference_hash :: "string option"

definition ReconciliationEvidence :: "reconciliation_evidence \<Rightarrow> exc + reconciliation_evidence" where
  "ReconciliationEvidence e =
     and_then (require_aware_utc (re_observed_at e) ''observed_at'') (\<lambda>_.
     and_then (require_nonblank
       [(''evidence_id'', re_evidence_id e), (''client_order_ref'', re_client_order_ref e),
        (''account_id'', re_account_id e), (''product'', re_product e),
        (''symbol'', re_symbol e)]) (\<lambda>_.
     and_then (raise_if (case re_broker_order_id e of None \<Rightarrow> False | Some b \<Rightarrow> blank b)
       (ValueError ''broker_order_id cannot be blank'')) (\<lambda>_.
     and_then (raise_if (re_evidence_version e \<le> 0)
       (ValueError ''evidence_version must be a positive integer'')) (\<lambda>_.
     and_then (if re_external_status e = EXT_SETTLED
        then raise_if (re_realized_pnl_minor e = None)
          (ValueError ''SETTLED evidence requires realized P&L'')
        else raise_if (re_realized_pnl_minor e \<noteq> None)
          (ValueError ''realized P&L is only valid for SETTLED evidence'')) (\<lambda>_.
     and_then (raise_if (case re_raw_reference_hash e of None \<Rightarrow> False | Some x \<Rightarrow> blank x)
       (ValueError ''raw_reference_hash cannot be blank'')) (\<lambda>_. Inr e))))))"

definition evidence_to_payload :: "reconciliation_evidence \<Rightarrow> payload" where
  "evidence_to_payload e =
     [(''evidence_id'', PStr (re_evidence_id e)),
      (''source'', PStr (source_value (re_source e))),
      (''observed_at'', PStr (isoformat (re_observed_at e))),
      (''client_order_ref'', PStr (re_client_order_ref e)),
      (''broker_order_id'', opt_val PStr (re_broker_order_id e)),
      (''external_status'', PStr (external_status_value (re_external_status e))),
      (''broker'', PStr (broker_value (re_broker e))),
      (''account_id'', PStr (re_account_id e)),
      (''product'', PStr (re_product e)),
      (''symbol'', PStr (re_symbol e)),
      (''direction'', PStr (direction_value (re_direction e))),
      (''amount_minor'', PInt (minor_units (re_amount e))),
      (''currency'', PStr (currency (re_amount e))),
      (''evidence_version'', PInt (re_evidence_version e)),
      (''realized_pnl_minor'', opt_val PInt (re_realized_pnl_minor e)),
      (''raw_reference_hash'', opt_val PStr (re_raw_reference_hash e))]"

definition evidence_required :: "(string \<times> pytype) list" where
  "evidence_required =
     [(''evidence_id'', T_str), (''source'', T_str), (''observed_at'', T_str),
      (''client_order_ref'', T_str), (''external_status'', T_str), (''broker'', T_str),
      (''account_id'', T_str), (''product'', T_str), (''symbol'', T_str), (''direction'', T_str),
      (''amount_minor'', T_int), (''currency'', T_str), (''evidence_version'', T_int)]"

definition evidence_from_payload :: "payload \<Rightarrow> exc + reconciliation_evidence" where
  "evidence_from_payload p =
     and_then (require_types ''invalid reconciliation evidence field: '' p evidence_required) (\<lambda>_.
     and_then (optional_str ''invalid reconciliation evidence field: broker_order_id''
       (get_item p ''broker_order_id'')) (\<lambda>broker_order_id.
     and_then (optional_int ''invalid reconciliation evidence field: realized_pnl_minor''
       (get_item p ''realized_pnl_minor'')) (\<lambda>pnl.
     and_then (optional_str ''invalid reconciliation evidence field: raw_reference_hash''
       (get_item p ''raw_reference_hash'')) (\<lambda>raw_hash.
     and_then (fromisoformat (the_str (get_item p ''observed_at''))) (\<lambda>observed.
     and_then (source_of (the_str (get_item p ''source''))) (\<lambda>src.
     and_then (external_status_of (the_str (get_item p ''external_status''))) (\<lambda>status.
     and_then (broker_of (the_str (get_item p ''broker''))) (\<lambda>b.
     and_then (direction_of (the_str (get_item p ''direction''))) (\<lambda>d.
     and_then (Money (the_int (get_item p ''amount_minor'')) (the_str (get_item p ''currency''))) (\<lambda>amount.
     ReconciliationEvidence \<lparr>re_evidence_id = the_str (get_item p ''evidence_id''),
       re_source = src, re_observed_at = observed,
       re_client_order_ref = the_str (get_item p ''client_order_ref''),
       re_broker_order_id = broker_order_id, re_external_status = status, re_broker = b,
       re_account_id = the_str (get_item p ''account_id''),
       re_product = the_str (get_item p ''product''),
       re_symbol = the_str (get_item p ''symbol''), re_direction = d, re_amount = amount,
       re_evidence_version = the_int (get_item p ''evidence_version''),
       re_realized_pnl_minor = pnl, re_raw_reference_hash = raw_hash\<rparr>))))))))))"

definition valid_evidence :: "reconciliation_evidence \<Rightarrow> bool" where
  "valid_evidence e \<longleftrightarrow> ReconciliationEvidence e = Inr e \<and> valid_datetime (re_observed_at e) \<and>
     valid_currency (currency (re_amount e))"

lemma evidence_payload_roundtrip:
  assumes "valid_evidence e"
  shows "evidence_from_payload (evidence_to_payload e) = Inr e"
proof -
  have "valid_currency (currency (re_amount e))" and "ReconciliationEvidence e = Inr e"
    and "valid_datetime (re_observed_at e)"
    using assms by (simp_all add: valid_evidence_def)
  then show ?thesis
    by (cases e; cases "re_amount e")
      (simp_all add: evidence_from_payload_def evidence_to_payload_def evidence_required_def)
qed

lemma ReconciliationEvidence_result:
  assumes "ReconciliationEvidence e = Inr e"
  shows "re_external_status e = EXT_SETTLED \<longleftrightarrow> re_realized_pnl_minor e \<noteq> None"
  using assms by (auto simp: ReconciliationEvidence_def raises split: if_splits)

text \<open>Negative evidence: which broker sources were searched without finding the order.\<close>

record not_found_evidence =
  nf_observed_at :: datetime
  nf_statement_checked :: bool
  nf_portfolio_checked :: bool

definition confirms_both_sources :: "not_found_evidence \<Rightarrow> bool" where
  "confirms_both_sources e \<longleftrightarrow> nf_statement_checked e \<and> nf_portfolio_checked e"

end
