(* ===== verification/Database.thy ===== *)
theory Database
  imports Evidence
begin

text \<open>
  The schema of \<open>state.db\<close> after the migrations of \<open>packages/persistence/migrations.py\<close>: one
  record per table row with its columns, the database as the record of its tables, and the
  insertion into each table with the constraints the schema declares (primary key, \<open>UNIQUE\<close>,
  the partial unique index on active reservations, \<open>REFERENCES\<close> and \<open>CHECK\<close>; foreign keys
  are enforced by \<open>connect_database\<close>). A violated constraint is an \<open>IntegrityError\<close>
  with SQLite's message. Where several constraints of one statement are violated at once, the
  model reports the first in declaration order.
\<close>

section \<open>Rows\<close>

record trade_intent_row =
  ti_intent_id :: string
  ti_correlation_id :: string
  ti_broker :: broker
  ti_account_id :: string
  ti_product :: string
  ti_symbol :: string
  ti_direction :: direction
  ti_amount_minor :: int
  ti_currency :: string
  ti_status :: trade_intent_state
  ti_created_at :: string
  ti_strategy_id :: string
  ti_strategy_version :: string

record risk_reservation_row =
  rr_reservation_id :: string
  rr_intent_id :: string
  rr_broker :: broker
  rr_account_id :: string
  rr_amount_minor :: int
  rr_currency :: string
  rr_state :: risk_reservation_state
  rr_created_at :: string
  rr_released_at :: "string option"
  rr_release_reason :: "string option"
  rr_reconciliation_evidence :: "string option"
  rr_release_count :: int

record outbox_row =
  om_message_id :: string
  om_correlation_id :: string
  om_intent_id :: string
  om_message_type :: string
  om_payload :: payload
  om_state :: outbox_state
  om_created_at :: string
  om_available_at :: string
  om_dispatch_started_at :: "string option"
  om_dispatched_at :: "string option"
  om_attempt_count :: int
  om_state_reason :: "string option"

record order_row =
  ord_order_id :: string
  ord_intent_id :: string
  ord_broker :: broker
  ord_account_id :: string
  ord_broker_order_id :: "string option"
  ord_state :: order_state
  ord_correlation_id :: string
  ord_realized_pnl_minor :: "int option"
  ord_created_at :: string
  ord_updated_at :: string
  ord_resolution_source :: "string option"
  ord_resolution_evidence_id :: "string option"
  ord_resolved_at :: "string option"
  ord_last_external_sequence :: "int option"
  ord_last_broker_event_id :: "string option"
  ord_pnl_application_count :: int

record processed_event_row =
  poe_event_id :: string
  poe_intent_id :: string
  poe_new_state :: order_state
  poe_occurred_at :: string
  poe_processed_at :: string

record evidence_row =
  rev_evidence_id :: string
  rev_order_id :: string
  rev_source :: string
  rev_observed_at :: string
  rev_client_order_ref :: string
  rev_broker_order_id :: "string option"
  rev_external_status :: external_order_status
  rev_broker :: broker
  rev_account_id :: string
  rev_product :: string
  rev_symbol :: string
  rev_direction :: direction
  rev_amount_minor :: int
  rev_currency :: string
  rev_realized_pnl_minor :: "int option"
  rev_raw_reference_hash :: "string option"
  rev_evidence_version :: int
  rev_canonical_hash :: string
  rev_received_at :: string

record attempt_row =
  ra_attempt_id :: string
  ra_order_id :: string
  ra_correlation_id :: string
  ra_started_at :: string
  ra_completed_at :: "string option"
  ra_result :: string
  ra_reason_code :: "string option"
  ra_evidence_id :: "string option"

record event_row =
  boe_event_id :: string
  boe_order_id :: "string option"
  boe_event_version :: int
  boe_broker :: broker
  boe_account_id :: string
  boe_client_order_ref :: string
  boe_broker_order_id :: string
  boe_correlation_id :: string
  boe_external_sequence :: "int option"
  boe_external_status :: external_order_status
  boe_occurred_at :: string
  boe_observed_at :: string
  boe_product :: string
  boe_symbol :: string
  boe_direction :: direction
  boe_amount_minor :: int
  boe_currency :: string
  boe_result_minor :: "int option"
  boe_result_currency :: "string option"
  boe_evidence_hash :: string
  boe_processing_result :: string
  boe_reason_code :: "string option"
  boe_conflict_count :: int
  boe_last_conflicting_hash :: "string option"
  boe_created_at :: string

text \<open>
  The singleton row of \<open>digit_risk_runtime\<close>. \<open>cooldown_seconds\<close> is the value of the decimal
  text the column holds.
\<close>

record digit_runtime_row =
  drr_config_fingerprint :: string
  drr_currency :: string
  drr_martingale_enabled :: bool
  drr_martingale_max_steps :: int
  drr_max_consecutive_losses :: int
  drr_cooldown_seconds :: rat
  drr_daily_pnl_minor :: int
  drr_consecutive_losses :: int
  drr_martingale_step :: int
  drr_pinned_symbol :: "string option"
  drr_cumulative_sequence_loss_minor :: int
  drr_cooldown_started_at :: "string option"
  drr_last_order_id :: "string option"
  drr_last_settlement_id :: "string option"
  drr_updated_at :: string
  drr_session_started_at :: "string option"

record sprt_row =
  sm_strategy_key :: string
  sm_p0 :: string
  sm_p1 :: string
  sm_alpha :: string
  sm_beta :: string
  sm_llr :: string
  sm_n :: int
  sm_wins :: int
  sm_decision :: string
  sm_status :: string
  sm_updated_at :: string

record outcome_row =
  oq_id :: int
  oq_strategy_key :: string
  oq_ts :: int
  oq_won :: bool
  oq_payout_pct :: string
  oq_created_at :: string
  oq_status :: string

record state_db =
  trade_intents :: "trade_intent_row list"
  risk_reservations :: "risk_reservation_row list"
  outbox_messages :: "outbox_row list"
  orders :: "order_row list"
  processed_order_events :: "processed_event_row list"
  evidences :: "evidence_row list"
  reconciliation_attempts :: "attempt_row list"
  broker_order_events :: "event_row list"
  digit_risk_runtime :: "digit_runtime_row option"
  sprt_monitors :: "sprt_row list"
  outcomes_queue :: "outcome_row list"
  outcomes_sequence :: int

text \<open>The database right after the migrations ran on a new file.\<close>

definition empty_db :: state_db where
  "empty_db = \<lparr>trade_intents = [], risk_reservations = [], outbox_messages = [], orders = [],
     processed_order_events = [], evidences = [], reconciliation_attempts = [],
     broker_order_events = [], digit_risk_runtime = None, sprt_monitors = [],
     outcomes_queue = [], outcomes_sequence = 0\<rparr>"

section \<open>Constrained insertion\<close>

definition constraint :: "bool \<Rightarrow> string \<Rightarrow> exc + unit" where
  "constraint holds msg = raise_if (\<not> holds) (IntegrityError msg)"

lemma constraint_eq_Inr [raises, simp]: "constraint c m = Inr u \<longleftrightarrow> c"
  by (simp add: constraint_def)

lemma constraint_True [simp]: "constraint True m = Inr ()"
  by (simp add: constraint_def)

definition insert_trade_intent :: "trade_intent_row \<Rightarrow> state_db \<Rightarrow> exc + state_db" where
  "insert_trade_intent r db =
     and_then (constraint (0 < ti_amount_minor r) ''CHECK constraint failed: amount_minor > 0'') (\<lambda>_.
     and_then (constraint (length (ti_currency r) = 3)
       ''CHECK constraint failed: length(currency) = 3'') (\<lambda>_.
     and_then (constraint (ti_intent_id r \<notin> set (map ti_intent_id (trade_intents db)))
       ''UNIQUE constraint failed: trade_intents.intent_id'') (\<lambda>_.
     Inr (db\<lparr>trade_intents := trade_intents db @ [r]\<rparr>))))"

definition active_scopes :: "risk_reservation_row list \<Rightarrow> (broker \<times> string) list" where
  "active_scopes t = map (\<lambda>r. (rr_broker r, rr_account_id r)) (filter (\<lambda>r. rr_state r = ACTIVE) t)"

lemma active_scopes_simps [simp]:
  "active_scopes [] = []"
  "active_scopes (r # t) = (if rr_state r = ACTIVE then [(rr_broker r, rr_account_id r)] else []) @
     active_scopes t"
  by (simp_all add: active_scopes_def)

definition busy_message :: string where
  "busy_message =
     ''UNIQUE constraint failed: risk_reservations.broker, risk_reservations.account_id''"

definition insert_reservation :: "risk_reservation_row \<Rightarrow> state_db \<Rightarrow> exc + state_db" where
  "insert_reservation r db =
     and_then (constraint (0 < rr_amount_minor r) ''CHECK constraint failed: amount_minor > 0'') (\<lambda>_.
     and_then (constraint (length (rr_currency r) = 3)
       ''CHECK constraint failed: length(currency) = 3'') (\<lambda>_.
     and_then (constraint (rr_reservation_id r \<notin> set (map rr_reservation_id (risk_reservations db)))
       ''UNIQUE constraint failed: risk_reservations.reservation_id'') (\<lambda>_.
     and_then (constraint (rr_intent_id r \<notin> set (map rr_intent_id (risk_reservations db)))
       ''UNIQUE constraint failed: risk_reservations.intent_id'') (\<lambda>_.
     and_then (constraint (rr_state r = ACTIVE \<longrightarrow>
        (rr_broker r, rr_account_id r) \<notin> set (active_scopes (risk_reservations db))) busy_message) (\<lambda>_.
     and_then (constraint (rr_intent_id r \<in> set (map ti_intent_id (trade_intents db)))
       ''FOREIGN KEY constraint failed'') (\<lambda>_.
     Inr (db\<lparr>risk_reservations := risk_reservations db @ [r]\<rparr>)))))))"

definition insert_outbox :: "outbox_row \<Rightarrow> state_db \<Rightarrow> exc + state_db" where
  "insert_outbox r db =
     and_then (constraint (0 \<le> om_attempt_count r) ''CHECK constraint failed: attempt_count >= 0'') (\<lambda>_.
     and_then (constraint (om_message_id r \<notin> set (map om_message_id (outbox_messages db)))
       ''UNIQUE constraint failed: outbox_messages.message_id'') (\<lambda>_.
     and_then (constraint (om_intent_id r \<notin> set (map om_intent_id (outbox_messages db)))
       ''UNIQUE constraint failed: outbox_messages.intent_id'') (\<lambda>_.
     and_then (constraint (om_intent_id r \<in> set (map ti_intent_id (trade_intents db)))
       ''FOREIGN KEY constraint failed'') (\<lambda>_.
     Inr (db\<lparr>outbox_messages := outbox_messages db @ [r]\<rparr>)))))"

definition insert_order :: "order_row \<Rightarrow> state_db \<Rightarrow> exc + state_db" where
  "insert_order r db =
     and_then (constraint (ord_order_id r \<notin> set (map ord_order_id (orders db)))
       ''UNIQUE constraint failed: orders.order_id'') (\<lambda>_.
     and_then (constraint (ord_intent_id r \<notin> set (map ord_intent_id (orders db)))
       ''UNIQUE constraint failed: orders.intent_id'') (\<lambda>_.
     and_then (constraint (ord_intent_id r \<in> set (map ti_intent_id (trade_intents db)))
       ''FOREIGN KEY constraint failed'') (\<lambda>_.
     Inr (db\<lparr>orders := orders db @ [r]\<rparr>))))"

definition insert_processed_event :: "processed_event_row \<Rightarrow> state_db \<Rightarrow> exc + state_db" where
  "insert_processed_event r db =
     and_then (constraint (poe_event_id r \<notin> set (map poe_event_id (processed_order_events db)))
       ''UNIQUE constraint failed: processed_order_events.event_id'') (\<lambda>_.
     and_then (constraint (poe_intent_id r \<in> set (map ti_intent_id (trade_intents db)))
       ''FOREIGN KEY constraint failed'') (\<lambda>_.
     Inr (db\<lparr>processed_order_events := processed_order_events db @ [r]\<rparr>)))"

definition insert_evidence :: "evidence_row \<Rightarrow> state_db \<Rightarrow> exc + state_db" where
  "insert_evidence r db =
     and_then (constraint (0 < rev_amount_minor r) ''CHECK constraint failed: amount_minor > 0'') (\<lambda>_.
     and_then (constraint (length (rev_currency r) = 3)
       ''CHECK constraint failed: length(currency) = 3'') (\<lambda>_.
     and_then (constraint (0 < rev_evidence_version r)
       ''CHECK constraint failed: evidence_version > 0'') (\<lambda>_.
     and_then (constraint (rev_evidence_id r \<notin> set (map rev_evidence_id (evidences db)))
       ''UNIQUE constraint failed: reconciliation_evidence.evidence_id'') (\<lambda>_.
     and_then (constraint (rev_order_id r \<in> set (map ord_order_id (orders db)))
       ''FOREIGN KEY constraint failed'') (\<lambda>_.
     Inr (db\<lparr>evidences := evidences db @ [r]\<rparr>))))))"

definition insert_attempt :: "attempt_row \<Rightarrow> state_db \<Rightarrow> exc + state_db" where
  "insert_attempt r db =
     and_then (constraint (ra_attempt_id r \<notin> set (map ra_attempt_id (reconciliation_attempts db)))
       ''UNIQUE constraint failed: reconciliation_attempts.attempt_id'') (\<lambda>_.
     and_then (constraint (ra_order_id r \<in> set (map ord_order_id (orders db)))
       ''FOREIGN KEY constraint failed'') (\<lambda>_.
     Inr (db\<lparr>reconciliation_attempts := reconciliation_attempts db @ [r]\<rparr>)))"

definition insert_event :: "event_row \<Rightarrow> state_db \<Rightarrow> exc + state_db" where
  "insert_event r db =
     and_then (constraint (0 < boe_event_version r) ''CHECK constraint failed: event_version > 0'') (\<lambda>_.
     and_then (constraint (case boe_external_sequence r of None \<Rightarrow> True | Some n \<Rightarrow> 0 < n)
       ''CHECK constraint failed: external_sequence > 0'') (\<lambda>_.
     and_then (constraint (0 < boe_amount_minor r) ''CHECK constraint failed: amount_minor > 0'') (\<lambda>_.
     and_then (constraint (length (boe_currency r) = 3)
       ''CHECK constraint failed: length(currency) = 3'') (\<lambda>_.
     and_then (constraint (boe_event_id r \<notin> set (map boe_event_id (broker_order_events db)))
       ''UNIQUE constraint failed: broker_order_events.event_id'') (\<lambda>_.
     and_then (constraint (case boe_order_id r of None \<Rightarrow> True
        | Some oid \<Rightarrow> oid \<in> set (map ord_order_id (orders db))) ''FOREIGN KEY constraint failed'') (\<lambda>_.
     Inr (db\<lparr>broker_order_events := broker_order_events db @ [r]\<rparr>)))))))"

text \<open>
  The \<open>CHECK\<close>s of \<open>digit_risk_runtime\<close>, which SQLite makes on \<open>INSERT\<close> and \<open>UPDATE\<close>
  alike.
\<close>

definition runtime_checks :: "digit_runtime_row \<Rightarrow> bool" where
  "runtime_checks r \<longleftrightarrow> length (drr_currency r) = 3 \<and>
     1 \<le> drr_martingale_max_steps r \<and> drr_martingale_max_steps r \<le> 4 \<and>
     1 \<le> drr_max_consecutive_losses r \<and> drr_max_consecutive_losses r \<le> 5 \<and>
     0 \<le> drr_consecutive_losses r \<and> 0 \<le> drr_martingale_step r \<and>
     0 \<le> drr_cumulative_sequence_loss_minor r"

definition put_runtime :: "digit_runtime_row \<Rightarrow> state_db \<Rightarrow> exc + state_db" where
  "put_runtime r db =
     and_then (constraint (runtime_checks r) ''CHECK constraint failed: digit_risk_runtime'') (\<lambda>_.
     Inr (db\<lparr>digit_risk_runtime := Some r\<rparr>))"

lemmas insert_defs = insert_trade_intent_def insert_reservation_def insert_outbox_def
  insert_order_def insert_processed_event_def insert_evidence_def insert_attempt_def
  insert_event_def put_runtime_def

section \<open>Health of the critical database\<close>

datatype database_health_status = HEALTHY | DEGRADED | FAILED

datatype database_failure_reason =
    DB_NOT_CHECKED | DB_OPEN_FAILED | DB_INTEGRITY_FAILED | DB_WRITE_FAILED | DB_MIGRATION_FAILED
  | DB_LOCK_FAILED | DB_MISSING_UNEXPECTED

record database_health =
  dh_status :: database_health_status
  dh_reason :: "database_failure_reason option"

definition DatabaseHealth :: database_health where
  "DatabaseHealth = \<lparr>dh_status = DEGRADED, dh_reason = Some DB_NOT_CHECKED\<rparr>"

definition mark_healthy :: "database_health \<Rightarrow> database_health" where
  "mark_healthy h = \<lparr>dh_status = HEALTHY, dh_reason = None\<rparr>"

definition mark_failed :: "database_failure_reason \<Rightarrow> database_health \<Rightarrow> database_health" where
  "mark_failed reason h = \<lparr>dh_status = FAILED, dh_reason = Some reason\<rparr>"

end
