(* ===== verification/HealthGate.thy ===== *)
theory HealthGate
  imports Database "HOL-Library.AList"
begin

text \<open>
  The health gate of the Core (\<open>apps/core/health.py\<close>): a set of global blockers and one of
  blockers per broker and account, in front of every new order. The health of the database is
  shared with the writer, so it is an argument here. The locale at the end is the contract the
  components that block, clear and consult the gate rely on: how each operation acts on the set
  of reasons that apply to an account. The events the gate emits are not modelled.
\<close>

section \<open>State\<close>

type_synonym gate_scope = "string \<times> string"

record gate =
  hg_blockers :: "string set"
  hg_scoped :: "(gate_scope \<times> string set) list"

record health_state =
  hs_is_open :: bool
  hs_reason_code :: "string option"

definition HealthGate :: gate where
  "HealthGate = \<lparr>hg_blockers = {}, hg_scoped = []\<rparr>"

definition PRIORITY :: "string list" where
  "PRIORITY = [''DB_NOT_CHECKED'', ''DB_SCHEMA_CORRUPT'', ''DB_JOURNAL_CORRUPT'',
     ''DB_FOREIGN_KEY_VIOLATION'', ''DB_CHECKPOINT_FAILED'', ''DB_WRITE_FAILED'',
     ''HG_SAFE_STOP'', ''HG_DAILY_STOP_REACHED'', ''HG_DAILY_TAKE_PROFIT_REACHED'',
     ''HG_COOLDOWN_ACTIVE'', ''HG_AUTH_AGENT_UNAVAILABLE'', ''HG_LEASE_EXPIRED'',
     ''HG_LEASE_REVOKED'', ''HG_ORDER_EVENT_CONFLICT'', ''HG_ORDER_EVENT_GAP'',
     ''HG_BROKER_EVENT_BACKPRESSURE'', ''HG_RECONCILIATION_CONFLICT'',
     ''HG_SETTLEMENT_REQUIRED'', ''HG_SETTLEMENT_UNKNOWN'', ''HG_ORDER_UNKNOWN'',
     ''HG_EXPOSURE_UNKNOWN'', ''HG_EXPOSURE_CURRENCY_MISMATCH'',
     ''HG_RECONCILIATION_UNAVAILABLE'', ''HG_RECONCILIATION_REQUIRED'',
     ''HG_WORKER_INCOMPATIBLE'', ''HG_WORKER_CIRCUIT_OPEN'', ''HG_WORKER_DISCONNECTED'',
     ''HG_WORKER_NOT_READY'', ''HG_MARKET_DATA_DISCONNECTED'', ''MD_CLOCK_UNTRUSTED'']"

fun failure_value :: "database_failure_reason \<Rightarrow> string" where
  "failure_value DB_NOT_CHECKED = ''DB_NOT_CHECKED''"
| "failure_value DB_OPEN_FAILED = ''DB_OPEN_FAILED''"
| "failure_value DB_INTEGRITY_FAILED = ''DB_INTEGRITY_FAILED''"
| "failure_value DB_WRITE_FAILED = ''DB_WRITE_FAILED''"
| "failure_value DB_MIGRATION_FAILED = ''DB_MIGRATION_FAILED''"
| "failure_value DB_LOCK_FAILED = ''DB_LOCK_FAILED''"
| "failure_value DB_MISSING_UNEXPECTED = ''DB_MISSING_UNEXPECTED''"

section \<open>Reading the gate\<close>

definition scope_reasons :: "gate \<Rightarrow> gate_scope \<Rightarrow> string set" where
  "scope_reasons g k = (case map_of (hg_scoped g) k of None \<Rightarrow> {} | Some s \<Rightarrow> s)"

definition state_from_reasons :: "string set \<Rightarrow> health_state" where
  "state_from_reasons reasons =
     (if reasons = {} then \<lparr>hs_is_open = True, hs_reason_code = None\<rparr>
      else \<lparr>hs_is_open = False, hs_reason_code =
        (case List.find (\<lambda>c. c \<in> reasons) PRIORITY of Some c \<Rightarrow> Some c | None \<Rightarrow> Some (Min reasons))\<rparr>)"

definition database_state :: "database_health option \<Rightarrow> health_state option" where
  "database_state dh = (case dh of None \<Rightarrow> None
     | Some h \<Rightarrow> if dh_status h \<noteq> HEALTHY
         then Some \<lparr>hs_is_open = False, hs_reason_code = Some (failure_value
           (case dh_reason h of None \<Rightarrow> DB_NOT_CHECKED | Some r \<Rightarrow> r))\<rparr>
         else None)"

definition global_state :: "database_health option \<Rightarrow> gate \<Rightarrow> health_state" where
  "global_state dh g = (case database_state dh of Some s \<Rightarrow> s
     | None \<Rightarrow> state_from_reasons (hg_blockers g))"

definition gate_state :: "database_health option \<Rightarrow> gate \<Rightarrow> health_state" where
  "gate_state dh g = (case database_state dh of Some s \<Rightarrow> s
     | None \<Rightarrow> state_from_reasons (hg_blockers g \<union> \<Union> (set (map snd (hg_scoped g)))))"

definition state_for :: "database_health option \<Rightarrow> string \<Rightarrow> string \<Rightarrow> gate \<Rightarrow> health_state" where
  "state_for dh brk account_id g = (case database_state dh of Some s \<Rightarrow> s
     | None \<Rightarrow>
         if hg_blockers g \<noteq> {} then state_from_reasons (hg_blockers g)
         else state_from_reasons (scope_reasons g (upper brk, account_id) \<union>
           (if account_id \<noteq> ''market-data'' then scope_reasons g (upper brk, ''market-data'') else {})))"

definition can_enter_order ::
  "database_health option \<Rightarrow> string \<Rightarrow> string \<Rightarrow> gate \<Rightarrow> bool \<times> string option" where
  "can_enter_order dh brk account_id g =
     (let g_state = global_state dh g; s_state = state_for dh brk account_id g in
      if \<not> hs_is_open g_state then (False, hs_reason_code g_state)
      else if \<not> hs_is_open s_state then (False, hs_reason_code s_state)
      else (True, None))"

definition gate_contains :: "string \<Rightarrow> gate \<Rightarrow> bool" where
  "gate_contains reason g \<longleftrightarrow> reason \<in> hg_blockers g \<or> list_ex (\<lambda>(k, s). reason \<in> s) (hg_scoped g)"

text \<open>The message of the error carries the reason code, \<open>None\<close> in Python's text where absent.\<close>

definition gate_error :: "string option \<Rightarrow> exc" where
  "gate_error reason = RuntimeError (''Health Gate blocked: '' @
     (case reason of None \<Rightarrow> ''None'' | Some r \<Rightarrow> r))"

definition ensure_open ::
  "database_health option \<Rightarrow> string option \<Rightarrow> string option \<Rightarrow> gate \<Rightarrow> exc + unit" where
  "ensure_open dh brk account_id g = (case (brk, account_id) of
     (Some b, Some a) \<Rightarrow> (case can_enter_order dh b a g of
       (opened, reason) \<Rightarrow> if opened then Inr () else Inl (gate_error reason))
   | (None, None) \<Rightarrow> if hs_is_open (global_state dh g) then Inr ()
       else Inl (gate_error (hs_reason_code (global_state dh g)))
   | _ \<Rightarrow> Inl (ValueError ''broker and account_id scope must be provided together''))"

record gate_snapshot =
  gs_global_state :: health_state
  gs_scoped_states :: "(gate_scope \<times> health_state) list"
  gs_active_blockers :: "string list"

definition get_snapshot :: "database_health option \<Rightarrow> gate \<Rightarrow> gate_snapshot" where
  "get_snapshot dh g = \<lparr>gs_global_state = global_state dh g,
     gs_scoped_states = map (\<lambda>(k, s). (k, state_for dh (fst k) (snd k) g)) (hg_scoped g),
     gs_active_blockers = sorted_list_of_set
       (hg_blockers g \<union> \<Union> (set (map snd (hg_scoped g))))\<rparr>"

section \<open>Changing the gate\<close>

definition block :: "string \<Rightarrow> gate \<Rightarrow> gate" where
  "block reason g = g\<lparr>hg_blockers := insert reason (hg_blockers g)\<rparr>"

definition clear_if :: "string \<Rightarrow> gate \<Rightarrow> gate" where
  "clear_if reason g = \<lparr>hg_blockers = hg_blockers g - {reason},
     hg_scoped = map (\<lambda>(k, s). (k, s - {reason})) (hg_scoped g)\<rparr>"

definition block_scope :: "string \<Rightarrow> string \<Rightarrow> string \<Rightarrow> gate \<Rightarrow> gate" where
  "block_scope brk account_id reason g =
     (let k = (upper brk, account_id) in
      g\<lparr>hg_scoped := AList.update k (insert reason (scope_reasons g k)) (hg_scoped g)\<rparr>)"

definition clear_scope :: "string \<Rightarrow> string \<Rightarrow> string \<Rightarrow> gate \<Rightarrow> gate" where
  "clear_scope brk account_id reason g =
     (let k = (upper brk, account_id) in
      case map_of (hg_scoped g) k of
        None \<Rightarrow> g
      | Some s \<Rightarrow>
          if s - {reason} = {} then g\<lparr>hg_scoped := AList.delete k (hg_scoped g)\<rparr>
          else g\<lparr>hg_scoped := AList.update k (s - {reason}) (hg_scoped g)\<rparr>)"

definition register_broker_health ::
  "string \<Rightarrow> string \<Rightarrow> bool \<Rightarrow> string option \<Rightarrow> gate \<Rightarrow> gate" where
  "register_broker_health brk account_id is_ready reason_code g =
     (if is_ready then (case reason_code of
          Some r \<Rightarrow> clear_scope brk account_id r g
        | None \<Rightarrow> clear_scope brk account_id ''HG_WORKER_NOT_READY''
            (clear_scope brk account_id ''HG_WORKER_DISCONNECTED'' g))
      else block_scope brk account_id (case reason_code of
          Some r \<Rightarrow> if r = [] then ''HG_WORKER_DISCONNECTED'' else r
        | None \<Rightarrow> ''HG_WORKER_DISCONNECTED'') g)"

definition fail_database ::
  "database_failure_reason \<Rightarrow> database_health option \<times> gate \<Rightarrow> database_health option \<times> gate" where
  "fail_database reason = (\<lambda>(dh, g). (map_option (mark_failed reason) dh, block (failure_value reason) g))"

section \<open>The reasons that apply to an account\<close>

text \<open>
  What the gate promises, as a set: the global blockers, those of the account, and for a
  financial account those of the market data of its broker.
\<close>

definition covers :: "string \<Rightarrow> string \<Rightarrow> string \<Rightarrow> string \<Rightarrow> bool" where
  "covers b a brk account_id \<longleftrightarrow> upper b = upper brk \<and> (a = account_id \<or> a = ''market-data'')"

definition gate_reasons :: "gate \<Rightarrow> string \<Rightarrow> string \<Rightarrow> string set" where
  "gate_reasons g brk account_id = hg_blockers g \<union> scope_reasons g (upper brk, account_id) \<union>
     scope_reasons g (upper brk, ''market-data'')"

lemma state_from_reasons_open: "hs_is_open (state_from_reasons r) \<longleftrightarrow> r = {}"
  by (simp add: state_from_reasons_def)

lemma database_state_None: "database_state dh = None \<longleftrightarrow> (\<forall>h. dh = Some h \<longrightarrow> dh_status h = HEALTHY)"
  by (auto simp: database_state_def split: option.splits)

lemma database_state_closed: "database_state dh = Some s \<Longrightarrow> \<not> hs_is_open s"
  by (auto simp: database_state_def split: option.splits if_splits)

text \<open>The answer of the gate is the emptiness of that set, behind a healthy database.\<close>

lemma can_enter_iff:
  "fst (can_enter_order dh brk account_id g) \<longleftrightarrow>
     (\<forall>h. dh = Some h \<longrightarrow> dh_status h = HEALTHY) \<and> gate_reasons g brk account_id = {}"
proof (cases "database_state dh")
  case None
  then have "\<forall>h. dh = Some h \<longrightarrow> dh_status h = HEALTHY" by (simp add: database_state_None)
  with None show ?thesis
    by (auto simp: can_enter_order_def Let_def global_state_def state_for_def state_from_reasons_open
        gate_reasons_def)
next
  case (Some s)
  then have "\<not> (\<forall>h. dh = Some h \<longrightarrow> dh_status h = HEALTHY)"
    unfolding database_state_None [symmetric] by simp
  with Some show ?thesis
    using database_state_closed [OF Some] by (simp add: can_enter_order_def Let_def global_state_def)
qed

lemma ensure_open_iff:
  "ensure_open dh (Some brk) (Some account_id) g = Inr () \<longleftrightarrow>
     (\<forall>h. dh = Some h \<longrightarrow> dh_status h = HEALTHY) \<and> gate_reasons g brk account_id = {}"
  unfolding can_enter_iff [symmetric] by (auto simp: ensure_open_def split: prod.splits)

lemma gate_reasons_initial: "gate_reasons HealthGate brk account_id = {}"
  by (simp add: gate_reasons_def HealthGate_def scope_reasons_def)

lemma gate_reasons_block: "gate_reasons (block r g) brk account_id = insert r (gate_reasons g brk account_id)"
  by (auto simp: gate_reasons_def block_def scope_reasons_def)

lemma scope_reasons_clear_if: "scope_reasons (clear_if r g) k = scope_reasons g k - {r}"
  by (auto simp: scope_reasons_def clear_if_def map_of_map split: option.splits)

lemma gate_reasons_clear_if: "gate_reasons (clear_if r g) brk account_id = gate_reasons g brk account_id - {r}"
  by (auto simp: gate_reasons_def scope_reasons_clear_if) (auto simp: clear_if_def)

lemma scope_reasons_block_scope:
  "scope_reasons (block_scope b a r g) k =
     (if k = (upper b, a) then insert r (scope_reasons g k) else scope_reasons g k)"
  by (auto simp: block_scope_def Let_def scope_reasons_def update_conv')

lemma gate_reasons_block_scope:
  "gate_reasons (block_scope b a r g) brk account_id =
     (if covers b a brk account_id then insert r (gate_reasons g brk account_id)
      else gate_reasons g brk account_id)"
  by (auto simp: gate_reasons_def scope_reasons_block_scope covers_def)
    (auto simp: block_scope_def Let_def)

lemma scope_reasons_clear_scope:
  "scope_reasons (clear_scope b a r g) k =
     (if k = (upper b, a) then scope_reasons g k - {r} else scope_reasons g k)"
  by (auto simp: clear_scope_def Let_def scope_reasons_def update_conv' delete_conv'
      split: option.splits if_splits)

lemma hg_blockers_clear_scope: "hg_blockers (clear_scope b a r g) = hg_blockers g"
  by (simp add: clear_scope_def Let_def split: option.splits)

lemma gate_reasons_clear_scope:
  "gate_reasons (clear_scope b a r g) brk account_id \<subseteq> gate_reasons g brk account_id"
  "gate_reasons g brk account_id \<subseteq> insert r (gate_reasons (clear_scope b a r g) brk account_id)"
  by (auto simp: gate_reasons_def scope_reasons_clear_scope hg_blockers_clear_scope split: if_splits)

section \<open>The contract of the gate\<close>

text \<open>
  A client blocks, clears and asks. The laws give the effect of each operation on the reasons of
  an account, from which the client concludes what the gate will answer.
\<close>

locale entry_gate =
  fixes reasons :: "'g \<Rightarrow> string \<Rightarrow> string \<Rightarrow> string set"
    and add_global :: "string \<Rightarrow> 'g \<Rightarrow> 'g"
    and add_scoped :: "string \<Rightarrow> string \<Rightarrow> string \<Rightarrow> 'g \<Rightarrow> 'g"
    and remove_all :: "string \<Rightarrow> 'g \<Rightarrow> 'g"
    and remove_scoped :: "string \<Rightarrow> string \<Rightarrow> string \<Rightarrow> 'g \<Rightarrow> 'g"
  assumes add_global_reasons: "reasons (add_global r g) b a = insert r (reasons g b a)"
    and add_scoped_reasons: "r \<in> reasons (add_scoped b a r g) b a"
    and add_scoped_mono: "reasons g b' a' \<subseteq> reasons (add_scoped b a r g) b' a'"
    and remove_all_reasons: "reasons (remove_all r g) b a = reasons g b a - {r}"
    and remove_scoped_others: "q \<in> reasons g b a \<Longrightarrow> q \<noteq> r \<Longrightarrow> q \<in> reasons (remove_scoped b' a' r g) b a"
begin

lemma block_stays:
  assumes "r \<in> reasons g b a" and "q \<noteq> r"
  shows "r \<in> reasons (remove_all q g) b a" "r \<in> reasons (remove_scoped b' a' q g) b a"
    "r \<in> reasons (add_global q g) b a" "r \<in> reasons (add_scoped b' a' q g) b a"
  using assms subsetD [OF add_scoped_mono] remove_scoped_others
  by (auto simp: remove_all_reasons add_global_reasons)

lemma cleared_for_good: "r \<notin> reasons (remove_all r (add_global r g)) b a"
  by (simp add: remove_all_reasons)

lemma clear_undoes_block: "r \<notin> reasons g b a \<Longrightarrow> reasons (remove_all r (add_global r g)) b a = reasons g b a"
  by (simp add: remove_all_reasons add_global_reasons)

end

interpretation core_gate: entry_gate gate_reasons block block_scope clear_if clear_scope
proof
  show "r \<in> gate_reasons (block_scope b a r g) b a" for r b a g
    by (simp add: gate_reasons_block_scope covers_def)
  show "gate_reasons g b' a' \<subseteq> gate_reasons (block_scope b a r g) b' a'" for g b' a' b a r
    by (auto simp: gate_reasons_block_scope)
  show "q \<in> gate_reasons (clear_scope b' a' r g) b a"
    if "q \<in> gate_reasons g b a" "q \<noteq> r" for q g b a r b' a'
    using that gate_reasons_clear_scope(2) [of g b a r b' a'] by blast
qed (simp_all add: gate_reasons_block gate_reasons_clear_if)

end
