(* ===== verification/Writer.thy ===== *)
theory Writer
  imports Database
begin

text \<open>
  \<open>SingleDatabaseWriter\<close> of \<open>packages/persistence/writer.py\<close>, the only component that changes
  the financial state: the transaction wrapper with its rollback and its mapping of exceptions,
  the order state machine and the release of a reservation, and the operations of the outbox
  path, from persisting an intent with its reservation to recovery after a crash. Each operation
  is a function from the database to an exception or a result with the new database
  (\<open>op_...\<close>), and the public method runs it in a transaction. The clock readings
  (\<open>utc_now()\<close>) are arguments.
\<close>

section \<open>The writer and its transactions\<close>

text \<open>
  The writer holds the database, the shared database health and the optional fault injector,
  which may raise at a named stage.
\<close>

record writer =
  w_db :: state_db
  w_health :: database_health
  w_fault :: "string \<Rightarrow> exc option"

fun is_persistence_error :: "exc \<Rightarrow> bool" where
  "is_persistence_error (PersistenceError m) = True"
| "is_persistence_error (RiskLimitExceededError r) = True"
| "is_persistence_error (DatabaseWriteError m) = True"
| "is_persistence_error (AccountBusyError m) = True"
| "is_persistence_error (InvalidOrderTransition a b) = True"
| "is_persistence_error (ReservationReleaseBlocked m) = True"
| "is_persistence_error _ = False"

definition mark_write_failed :: "writer \<Rightarrow> writer" where
  "mark_write_failed w = w\<lparr>w_health := mark_failed DB_WRITE_FAILED (w_health w)\<rparr>"

text \<open>
  \<open>_transaction\<close>: commit the new database on success; on an exception roll back, that is keep
  the old database, and raise the exception the code raises in its place.
\<close>

definition transaction :: "(state_db \<Rightarrow> exc + ('a \<times> state_db)) \<Rightarrow> writer \<Rightarrow> (exc + 'a) \<times> writer" where
  "transaction operation w = (case operation (w_db w) of
     Inr (result, db) \<Rightarrow> (Inr result, w\<lparr>w_db := db\<rparr>)
   | Inl e \<Rightarrow> (case e of
       IntegrityError msg \<Rightarrow>
         (if occurs_in ''risk_reservations.broker, risk_reservations.account_id'' msg
          then (Inl (AccountBusyError ''account already has active exposure''), w)
          else (Inl (PersistenceError ''database integrity constraint rejected the write''), w))
     | _ \<Rightarrow> if is_persistence_error e then (Inl e, w)
         else (Inl (DatabaseWriteError ''critical database transaction failed''),
           mark_write_failed w)))"

definition inject :: "(string \<Rightarrow> exc option) \<Rightarrow> string \<Rightarrow> state_db \<Rightarrow> exc + state_db" where
  "inject fault stage db = (case fault stage of None \<Rightarrow> Inr db | Some e \<Rightarrow> Inl e)"

lemma inject_eq_Inr [raises]: "inject fault stage db = Inr db' \<longleftrightarrow> fault stage = None \<and> db' = db"
  by (auto simp: inject_def split: option.splits)

section \<open>The order state machine\<close>

fun allowed_transitions :: "order_state \<Rightarrow> order_state list" where
  "allowed_transitions OUTBOXED = [DISPATCHING, REJECTED]"
| "allowed_transitions DISPATCHING = [ACCEPTED, REJECTED, UNKNOWN, SEND_BLOCKED]"
| "allowed_transitions ACCEPTED = [OPEN, SETTLED, SETTLEMENT_UNKNOWN]"
| "allowed_transitions OPEN = [SETTLED, SETTLEMENT_UNKNOWN]"
| "allowed_transitions UNKNOWN = [RECONCILING]"
| "allowed_transitions RECONCILING =
     [ACCEPTED, OPEN, SETTLED, REJECTED, MANUAL_REVIEW, SETTLEMENT_UNKNOWN]"
| "allowed_transitions SETTLEMENT_UNKNOWN = [RECONCILING, MANUAL_REVIEW]"
| "allowed_transitions MANUAL_REVIEW = [RECONCILING]"
| "allowed_transitions SETTLED = []"
| "allowed_transitions REJECTED = []"
| "allowed_transitions SEND_BLOCKED = []"

definition order_of_intent :: "state_db \<Rightarrow> string \<Rightarrow> order_row option" where
  "order_of_intent db iid = List.find (\<lambda>x. ord_intent_id x = iid) (orders db)"

definition order_by_id :: "state_db \<Rightarrow> string \<Rightarrow> order_row option" where
  "order_by_id db oid = List.find (\<lambda>x. ord_order_id x = oid) (orders db)"

definition intent_by_id :: "state_db \<Rightarrow> string \<Rightarrow> trade_intent_row option" where
  "intent_by_id db iid = List.find (\<lambda>x. ti_intent_id x = iid) (trade_intents db)"

text \<open>The row \<open>UPDATE orders SET state = ...\<close> of \<open>_transition_order\<close> leaves.\<close>

definition moved_order ::
  "order_state \<Rightarrow> datetime \<Rightarrow> string option \<Rightarrow> int option \<Rightarrow> order_row \<Rightarrow> order_row" where
  "moved_order new_state changed_at broker_order_id pnl x = x\<lparr>
     ord_state := new_state,
     ord_broker_order_id := coalesce broker_order_id (ord_broker_order_id x),
     ord_realized_pnl_minor := coalesce pnl (ord_realized_pnl_minor x),
     ord_pnl_application_count := ord_pnl_application_count x +
       (if new_state = SETTLED \<and> pnl \<noteq> None then 1 else 0),
     ord_updated_at := isoformat changed_at\<rparr>"

definition transition_order ::
  "string \<Rightarrow> order_state \<Rightarrow> datetime \<Rightarrow> string option \<Rightarrow> int option \<Rightarrow> state_db \<Rightarrow> exc + state_db" where
  "transition_order iid new_state changed_at broker_order_id pnl db =
     (case order_of_intent db iid of
        None \<Rightarrow> Inl (PersistenceError ''order not found'')
      | Some row \<Rightarrow>
          if ord_state row = new_state then Inr db
          else if new_state \<notin> set (allowed_transitions (ord_state row))
          then Inl (InvalidOrderTransition (order_state_value (ord_state row))
            (order_state_value new_state))
          else Inr (db\<lparr>orders := update_where (\<lambda>x. ord_intent_id x = iid)
            (moved_order new_state changed_at broker_order_id pnl) (orders db)\<rparr>))"

definition released_row :: "datetime \<Rightarrow> string \<Rightarrow> string option \<Rightarrow> risk_reservation_row \<Rightarrow>
    risk_reservation_row" where
  "released_row released_at reason evidence r = r\<lparr>
     rr_state := RELEASED,
     rr_released_at := Some (isoformat released_at),
     rr_release_reason := Some reason,
     rr_reconciliation_evidence := evidence,
     rr_release_count := rr_release_count r + 1\<rparr>"

definition release_for_intent ::
  "string \<Rightarrow> datetime \<Rightarrow> string \<Rightarrow> string option \<Rightarrow> state_db \<Rightarrow> state_db" where
  "release_for_intent iid released_at reason evidence db = db\<lparr>risk_reservations :=
     update_where (\<lambda>r. rr_intent_id r = iid \<and> rr_state r = ACTIVE)
       (released_row released_at reason evidence) (risk_reservations db)\<rparr>"

section \<open>Intent, reservation, outbox and order in one transaction\<close>

definition active_total :: "string \<Rightarrow> state_db \<Rightarrow> int" where
  "active_total cur db = sum_list (map rr_amount_minor
     (filter (\<lambda>r. rr_state r = ACTIVE \<and> rr_currency r = cur) (risk_reservations db)))"

text \<open>The join of reservations and intents, summed over the rows with the same canonical symbol.\<close>

definition active_symbol_total :: "string \<Rightarrow> string \<Rightarrow> state_db \<Rightarrow> int" where
  "active_symbol_total cur request_symbol db = sum_list
     [rr_amount_minor r. r \<leftarrow> risk_reservations db, t \<leftarrow> trade_intents db,
        ti_intent_id t = rr_intent_id r \<and> rr_state r = ACTIVE \<and> rr_currency r = cur \<and>
        canonicalize_symbol (ti_symbol t) = request_symbol]"

definition new_intent_row :: "order_request \<Rightarrow> string \<Rightarrow> datetime \<Rightarrow> trade_intent_row" where
  "new_intent_row request intent_id created_at = \<lparr>
     ti_intent_id = intent_id, ti_correlation_id = req_correlation_id request,
     ti_broker = req_broker request, ti_account_id = req_account_id request,
     ti_product = req_product request, ti_symbol = req_symbol request,
     ti_direction = req_direction request, ti_amount_minor = minor_units (req_amount request),
     ti_currency = currency (req_amount request), ti_status = CREATED,
     ti_created_at = isoformat created_at, ti_strategy_id = req_strategy_id request,
     ti_strategy_version = req_strategy_version request\<rparr>"

definition new_reservation_row ::
  "order_request \<Rightarrow> string \<Rightarrow> string \<Rightarrow> datetime \<Rightarrow> risk_reservation_row" where
  "new_reservation_row request reservation_id intent_id created_at = \<lparr>
     rr_reservation_id = reservation_id, rr_intent_id = intent_id,
     rr_broker = req_broker request, rr_account_id = req_account_id request,
     rr_amount_minor = minor_units (req_amount request),
     rr_currency = currency (req_amount request), rr_state = ACTIVE,
     rr_created_at = isoformat created_at, rr_released_at = None, rr_release_reason = None,
     rr_reconciliation_evidence = None, rr_release_count = 0\<rparr>"

definition new_outbox_row ::
  "order_request \<Rightarrow> order_command \<Rightarrow> string \<Rightarrow> datetime \<Rightarrow> outbox_row" where
  "new_outbox_row request command intent_id created_at = \<lparr>
     om_message_id = cmd_message_id command, om_correlation_id = req_correlation_id request,
     om_intent_id = intent_id, om_message_type = ''OrderCommand'',
     om_payload = command_to_payload command, om_state = OB_PENDING,
     om_created_at = isoformat created_at, om_available_at = isoformat created_at,
     om_dispatch_started_at = None, om_dispatched_at = None, om_attempt_count = 0,
     om_state_reason = None\<rparr>"

definition new_order_row :: "order_request \<Rightarrow> string \<Rightarrow> string \<Rightarrow> datetime \<Rightarrow> order_row" where
  "new_order_row request order_id intent_id created_at = \<lparr>
     ord_order_id = order_id, ord_intent_id = intent_id, ord_broker = req_broker request,
     ord_account_id = req_account_id request, ord_broker_order_id = None,
     ord_state = OUTBOXED, ord_correlation_id = req_correlation_id request,
     ord_realized_pnl_minor = None, ord_created_at = isoformat created_at,
     ord_updated_at = isoformat created_at, ord_resolution_source = None,
     ord_resolution_evidence_id = None, ord_resolved_at = None,
     ord_last_external_sequence = None, ord_last_broker_event_id = None,
     ord_pnl_application_count = 0\<rparr>"

text \<open>The checks made under the write lock before any row is inserted.\<close>

definition persist_limits ::
  "order_request \<Rightarrow> int option \<Rightarrow> int option \<Rightarrow> string option \<Rightarrow> state_db \<Rightarrow> exc + unit" where
  "persist_limits request global_max symbol_max reference_currency db =
     (let units = minor_units (req_amount request); cur = currency (req_amount request) in
      and_then (raise_if (case reference_currency of None \<Rightarrow> False | Some c \<Rightarrow> cur \<noteq> c)
        (RiskLimitExceededError ''HG_EXPOSURE_CURRENCY_MISMATCH'')) (\<lambda>_.
      and_then (raise_if (case global_max of None \<Rightarrow> False
          | Some g \<Rightarrow> active_total cur db + units > g)
        (RiskLimitExceededError ''HG_GLOBAL_EXPOSURE_EXCEEDED'')) (\<lambda>_.
      raise_if (case symbol_max of None \<Rightarrow> False
          | Some g \<Rightarrow> active_symbol_total cur (canonicalize_symbol (req_symbol request)) db + units > g)
        (RiskLimitExceededError ''HG_SYMBOL_EXPOSURE_LIMIT_EXCEEDED''))))"

definition op_persist ::
  "(string \<Rightarrow> exc option) \<Rightarrow> order_request \<Rightarrow> order_command \<Rightarrow> string \<Rightarrow> string \<Rightarrow> string \<Rightarrow>
   datetime \<Rightarrow> int option \<Rightarrow> int option \<Rightarrow> string option \<Rightarrow> state_db \<Rightarrow> exc + (unit \<times> state_db)" where
  "op_persist fault request command intent_id reservation_id order_id created_at
     global_max symbol_max reference_currency db =
     and_then (persist_limits request global_max symbol_max reference_currency db) (\<lambda>_.
     and_then (insert_trade_intent (new_intent_row request intent_id created_at) db) (\<lambda>db1.
     and_then (inject fault ''after_intent'' db1) (\<lambda>db2.
     and_then (insert_reservation
       (new_reservation_row request reservation_id intent_id created_at) db2) (\<lambda>db3.
     and_then (inject fault ''after_reservation'' db3) (\<lambda>db4.
     and_then (insert_outbox (new_outbox_row request command intent_id created_at) db4) (\<lambda>db5.
     and_then (inject fault ''after_outbox'' db5) (\<lambda>db6.
     and_then (insert_order (new_order_row request order_id intent_id created_at) db6) (\<lambda>db7.
     and_then (inject fault ''before_commit'' db7) (\<lambda>db8. Inr ((), db8))))))))))"

definition persist_intent_reservation_outbox where
  "persist_intent_reservation_outbox request command intent_id reservation_id order_id created_at
     global_max symbol_max reference_currency w =
     transaction (op_persist (w_fault w) request command intent_id reservation_id order_id
       created_at global_max symbol_max reference_currency) w"

text \<open>\<open>list_active_reservations\<close>: the rows the risk ledger reads, oldest first.\<close>

definition list_active_reservations :: "state_db \<Rightarrow> payload list" where
  "list_active_reservations db = map (\<lambda>(r, t).
       [(''reservation_id'', PStr (rr_reservation_id r)),
        (''broker'', PStr (broker_value (rr_broker r))),
        (''account_id'', PStr (rr_account_id r)),
        (''amount_minor'', PInt (rr_amount_minor r)),
        (''currency'', PStr (rr_currency r)),
        (''symbol'', PStr (ti_symbol t))])
     (sort_key (\<lambda>(r, t). (rr_created_at r, rr_reservation_id r))
       [(r, t). r \<leftarrow> risk_reservations db, t \<leftarrow> trade_intents db,
          ti_intent_id t = rr_intent_id r \<and> rr_state r = ACTIVE])"

section \<open>Claiming and dispatching\<close>

definition scope_matches :: "string option \<Rightarrow> string option \<Rightarrow> order_row \<Rightarrow> bool" where
  "scope_matches brk account_id x = (case (brk, account_id) of
     (Some b, Some a) \<Rightarrow> broker_value (ord_broker x) = b \<and> ord_account_id x = a
   | (Some b, None) \<Rightarrow> broker_value (ord_broker x) = b
   | (None, _) \<Rightarrow> True)"

text \<open>
  The rows of the claim query, in the order of \<open>ORDER BY om.created_at, om.message_id\<close>. The
  comparison of \<open>available_at\<close> with the clock is one of texts, as in the query.
\<close>

definition claim_rows ::
  "datetime \<Rightarrow> string option \<Rightarrow> string option \<Rightarrow> state_db \<Rightarrow> (outbox_row \<times> order_row) list" where
  "claim_rows claimed_at brk account_id db =
     sort_key (\<lambda>(m, x). (om_created_at m, om_message_id m))
       [(m, x). m \<leftarrow> outbox_messages db, x \<leftarrow> orders db,
          ord_intent_id x = om_intent_id m \<and> om_state m = OB_PENDING \<and>
          om_available_at m \<le> isoformat claimed_at \<and> scope_matches brk account_id x]"

definition setdefault :: "payload \<Rightarrow> string \<Rightarrow> pyval \<Rightarrow> payload" where
  "setdefault p k v = (case map_of p k of None \<Rightarrow> p @ [(k, v)] | Some _ \<Rightarrow> p)"

definition claimed_row :: "datetime \<Rightarrow> outbox_row \<Rightarrow> outbox_row" where
  "claimed_row claimed_at m = m\<lparr>om_state := OB_DISPATCHING,
     om_dispatch_started_at := Some (isoformat claimed_at),
     om_attempt_count := om_attempt_count m + 1\<rparr>"

definition op_claim_next_message ::
  "datetime \<Rightarrow> string option \<Rightarrow> string option \<Rightarrow> state_db \<Rightarrow> exc + (order_command option \<times> state_db)" where
  "op_claim_next_message claimed_at brk account_id db =
     (case claim_rows claimed_at brk account_id db of
        [] \<Rightarrow> Inr (None, db)
      | (m, x) # _ \<Rightarrow>
          let hit = (\<lambda>y. om_message_id y = om_message_id m \<and> om_state y = OB_PENDING);
              db1 = db\<lparr>outbox_messages := update_where hit (claimed_row claimed_at)
                (outbox_messages db)\<rparr> in
          if row_count hit (outbox_messages db) \<noteq> 1 then Inr (None, db1)
          else and_then (transition_order (om_intent_id m) DISPATCHING claimed_at None None db1) (\<lambda>db2.
            and_then (command_from_payload (setdefault (om_payload m) ''order_id''
              (PStr (ord_order_id x)))) (\<lambda>command.
            Inr (Some command, db2))))"

definition claim_next_message where
  "claim_next_message claimed_at brk account_id w =
     transaction (op_claim_next_message claimed_at brk account_id) w"

definition outbox_by_id :: "state_db \<Rightarrow> string \<Rightarrow> outbox_row option" where
  "outbox_by_id db mid = List.find (\<lambda>m. om_message_id m = mid) (outbox_messages db)"

text \<open>What each worker outcome becomes: the outbox state, the order state and the reason.\<close>

definition dispatch_states ::
  "string \<Rightarrow> string option \<Rightarrow> exc + (outbox_state \<times> order_state \<times> string option)" where
  "dispatch_states outcome reason_code =
     (if outcome = ''ACCEPTED'' then Inr (OB_DISPATCHED, ACCEPTED, None)
      else if outcome = ''REJECTED'' then Inr (OB_DISPATCHED, REJECTED,
        Some (case reason_code of None \<Rightarrow> ''BROKER_REJECTED''
          | Some r \<Rightarrow> if r = [] then ''BROKER_REJECTED'' else r))
      else if outcome = ''TIMEOUT_AFTER_POSSIBLE_SEND'' then Inr (OB_AMBIGUOUS, UNKNOWN,
        Some (case reason_code of None \<Rightarrow> ''POSSIBLE_SEND_TIMEOUT''
          | Some r \<Rightarrow> if r = [] then ''POSSIBLE_SEND_TIMEOUT'' else r))
      else Inl (PersistenceError ''unsupported worker outcome''))"

definition op_record_dispatch_result ::
  "order_command \<Rightarrow> string \<Rightarrow> string option \<Rightarrow> string option \<Rightarrow> datetime \<Rightarrow> state_db \<Rightarrow>
   exc + (unit \<times> state_db)" where
  "op_record_dispatch_result command outcome broker_order_id reason_code recorded_at db =
     and_then (raise_if (case outbox_by_id db (cmd_message_id command) of None \<Rightarrow> True
        | Some m \<Rightarrow> om_state m \<noteq> OB_DISPATCHING)
       (PersistenceError ''outbox message is not in DISPATCHING'')) (\<lambda>_.
     and_then (dispatch_states outcome reason_code) (\<lambda>(out_state, new_state, state_reason).
     let db1 = db\<lparr>outbox_messages := update_where (\<lambda>m. om_message_id m = cmd_message_id command)
           (\<lambda>m. m\<lparr>om_state := out_state,
              om_dispatched_at := (if out_state = OB_DISPATCHED then Some (isoformat recorded_at)
                else None),
              om_state_reason := state_reason\<rparr>) (outbox_messages db)\<rparr> in
     and_then (transition_order (cmd_intent_id command) new_state recorded_at broker_order_id
       None db1) (\<lambda>db2.
     Inr ((), if new_state = REJECTED
       then release_for_intent (cmd_intent_id command) recorded_at ''BROKER_REJECTED'' None db2
       else db2))))"

definition record_dispatch_result where
  "record_dispatch_result command outcome broker_order_id reason_code recorded_at w =
     transaction (op_record_dispatch_result command outcome broker_order_id reason_code
       recorded_at) w"

definition op_record_dispatch_not_sent ::
  "order_command \<Rightarrow> string \<Rightarrow> datetime \<Rightarrow> state_db \<Rightarrow> exc + (unit \<times> state_db)" where
  "op_record_dispatch_not_sent command reason_code recorded_at db =
     (let hit = (\<lambda>m. om_message_id m = cmd_message_id command \<and> om_state m = OB_DISPATCHING);
          db1 = db\<lparr>outbox_messages := update_where hit
            (\<lambda>m. m\<lparr>om_state := OB_BLOCKED_NOT_SENT, om_state_reason := Some reason_code\<rparr>)
            (outbox_messages db)\<rparr> in
      and_then (raise_if (row_count hit (outbox_messages db) \<noteq> 1)
        (PersistenceError ''outbox message is not in DISPATCHING'')) (\<lambda>_.
      and_then (transition_order (cmd_intent_id command) SEND_BLOCKED recorded_at None None db1) (\<lambda>db2.
      Inr ((), db2))))"

definition record_dispatch_not_sent where
  "record_dispatch_not_sent command reason_code recorded_at w =
     transaction (op_record_dispatch_not_sent command reason_code recorded_at) w"

definition op_cancel_expired_before_dispatch ::
  "order_command \<Rightarrow> datetime \<Rightarrow> state_db \<Rightarrow> exc + (unit \<times> state_db)" where
  "op_cancel_expired_before_dispatch command cancelled_at db =
     (let db1 = db\<lparr>outbox_messages := update_where
            (\<lambda>m. om_message_id m = cmd_message_id command \<and> om_state m = OB_DISPATCHING)
            (\<lambda>m. m\<lparr>om_state := OB_CANCELLED, om_state_reason := Some ''CANCELLED_EXPIRED''\<rparr>)
            (outbox_messages db)\<rparr> in
      and_then (transition_order (cmd_intent_id command) REJECTED cancelled_at None None db1) (\<lambda>db2.
      Inr ((), release_for_intent (cmd_intent_id command) cancelled_at
        ''DEADLINE_EXPIRED_BEFORE_DISPATCH'' None db2)))"

definition cancel_expired_before_dispatch where
  "cancel_expired_before_dispatch command cancelled_at w =
     transaction (op_cancel_expired_before_dispatch command cancelled_at) w"

section \<open>Recovery after an interruption\<close>

fun recover_rows :: "datetime \<Rightarrow> outbox_row list \<Rightarrow> state_db \<Rightarrow> exc + state_db" where
  "recover_rows recovered_at [] db = Inr db"
| "recover_rows recovered_at (row # rows) db =
     (let db1 = db\<lparr>outbox_messages := update_where
            (\<lambda>m. om_intent_id m = om_intent_id row \<and> om_state m = OB_DISPATCHING)
            (\<lambda>m. m\<lparr>om_state := OB_AMBIGUOUS, om_state_reason := Some ''INTERRUPTED_DISPATCH''\<rparr>)
            (outbox_messages db)\<rparr> in
      and_then (transition_order (om_intent_id row) UNKNOWN recovered_at None None db1) (\<lambda>db2.
      recover_rows recovered_at rows db2))"

definition op_recover_interrupted_dispatches :: "datetime \<Rightarrow> state_db \<Rightarrow> exc + (nat \<times> state_db)" where
  "op_recover_interrupted_dispatches recovered_at db =
     (let rows = filter (\<lambda>m. om_state m = OB_DISPATCHING) (outbox_messages db) in
      and_then (recover_rows recovered_at rows db) (\<lambda>db1. Inr (length rows, db1)))"

definition recover_interrupted_dispatches where
  "recover_interrupted_dispatches recovered_at w =
     transaction (op_recover_interrupted_dispatches recovered_at) w"

fun cancel_rows ::
  "datetime \<Rightarrow> (outbox_row \<times> order_row) list \<Rightarrow> string list \<Rightarrow> state_db \<Rightarrow>
   exc + (string list \<times> state_db)" where
  "cancel_rows checked_at [] cancelled db = Inr (cancelled, db)"
| "cancel_rows checked_at ((m, x) # rows) cancelled db =
     and_then (command_from_payload (setdefault (om_payload m) ''order_id''
       (PStr (ord_order_id x)))) (\<lambda>command.
     if instant (cmd_deadline_at command) > instant checked_at
     then cancel_rows checked_at rows cancelled db
     else let db1 = db\<lparr>outbox_messages := update_where
              (\<lambda>y. om_message_id y = om_message_id m \<and> om_state y = OB_PENDING)
              (\<lambda>y. y\<lparr>om_state := OB_CANCELLED, om_state_reason := Some ''CANCELLED_EXPIRED''\<rparr>)
              (outbox_messages db)\<rparr> in
          and_then (transition_order (om_intent_id m) REJECTED checked_at None None db1) (\<lambda>db2.
          cancel_rows checked_at rows (cancelled @ [om_message_id m])
            (release_for_intent (om_intent_id m) checked_at ''DEADLINE_EXPIRED_ON_RECOVERY''
              None db2)))"

definition pending_rows :: "state_db \<Rightarrow> (outbox_row \<times> order_row) list" where
  "pending_rows db = sort_key (\<lambda>(m, x). (om_created_at m, om_message_id m))
     [(m, x). m \<leftarrow> outbox_messages db, x \<leftarrow> orders db,
        ord_intent_id x = om_intent_id m \<and> om_state m = OB_PENDING]"

definition op_cancel_expired_pending_messages ::
  "datetime \<Rightarrow> state_db \<Rightarrow> exc + (string list \<times> state_db)" where
  "op_cancel_expired_pending_messages checked_at db =
     cancel_rows checked_at (pending_rows db) [] db"

definition cancel_expired_pending_messages where
  "cancel_expired_pending_messages checked_at w =
     transaction (op_cancel_expired_pending_messages checked_at) w"

section \<open>Simple broker events and explicit release\<close>

definition op_apply_broker_event ::
  "broker_event \<Rightarrow> datetime \<Rightarrow> state_db \<Rightarrow> exc + (bool \<times> state_db)" where
  "op_apply_broker_event event processed_at db =
     (if be_event_id event \<in> set (map poe_event_id (processed_order_events db)) then Inr (False, db)
      else and_then (transition_order (be_intent_id event) (be_new_state event)
          (be_occurred_at event) (be_broker_order_id event) (be_realized_pnl_minor event) db) (\<lambda>db1.
        and_then (insert_processed_event \<lparr>poe_event_id = be_event_id event,
            poe_intent_id = be_intent_id event, poe_new_state = be_new_state event,
            poe_occurred_at = isoformat (be_occurred_at event),
            poe_processed_at = isoformat processed_at\<rparr> db1) (\<lambda>db2.
        Inr (True, if be_new_state event \<in> {SETTLED, REJECTED}
          then release_for_intent (be_intent_id event) (be_occurred_at event)
            (''ORDER_'' @ order_state_value (be_new_state event)) (Some (be_event_id event)) db2
          else db2))))"

definition apply_broker_event where
  "apply_broker_event event processed_at w =
     transaction (op_apply_broker_event event processed_at) w"

text \<open>The join of a reservation with the order of its intent.\<close>

definition reservation_with_order ::
  "state_db \<Rightarrow> string \<Rightarrow> (risk_reservation_row \<times> order_row) option" where
  "reservation_with_order db rid = List.find (\<lambda>(r, x). rr_reservation_id r = rid)
     [(r, x). r \<leftarrow> risk_reservations db, x \<leftarrow> orders db, ord_intent_id x = rr_intent_id r]"

definition op_release_reservation ::
  "string \<Rightarrow> datetime \<Rightarrow> state_db \<Rightarrow> exc + (unit \<times> state_db)" where
  "op_release_reservation rid released_at db =
     (case reservation_with_order db rid of
        None \<Rightarrow> Inl (PersistenceError ''reservation not found'')
      | Some (r, x) \<Rightarrow>
          if rr_state r = RELEASED then Inr ((), db)
          else if ord_state x \<notin> {SETTLED, REJECTED}
          then Inl (ReservationReleaseBlocked
            ''active or ambiguous exposure requires proven terminal state'')
          else Inr ((), release_for_intent (rr_intent_id r) released_at
            ''NORMAL_TERMINAL_RELEASE'' None db))"

definition release_reservation where
  "release_reservation rid released_at w = transaction (op_release_reservation rid released_at) w"

definition op_release_after_reconciliation ::
  "string \<Rightarrow> order_state \<Rightarrow> string \<Rightarrow> datetime \<Rightarrow> state_db \<Rightarrow> exc + (unit \<times> state_db)" where
  "op_release_after_reconciliation rid resolved_state evidence_reference released_at db =
     (case reservation_with_order db rid of
        None \<Rightarrow> Inl (PersistenceError ''reservation not found'')
      | Some (r, x) \<Rightarrow>
          and_then (if ord_state x \<in> {UNKNOWN, SETTLEMENT_UNKNOWN}
             then transition_order (rr_intent_id r) RECONCILING released_at None None db
             else if ord_state x \<noteq> RECONCILING
             then Inl (ReservationReleaseBlocked
               ''only ambiguous orders can use the reconciliation release path'')
             else Inr db) (\<lambda>db1.
          and_then (transition_order (rr_intent_id r) resolved_state released_at None None db1) (\<lambda>db2.
          Inr ((), release_for_intent (rr_intent_id r) released_at ''EXPLICIT_RECONCILIATION''
            (Some evidence_reference) db2))))"

definition release_after_reconciliation ::
  "string \<Rightarrow> order_state \<Rightarrow> string \<Rightarrow> datetime \<Rightarrow> writer \<Rightarrow> (exc + unit) \<times> writer" where
  "release_after_reconciliation rid resolved_state evidence_reference released_at w =
     (if blank evidence_reference then (Inl (ValueError ''reconciliation evidence is required''), w)
      else if resolved_state \<notin> {SETTLED, REJECTED}
      then (Inl (ValueError ''reconciliation must prove a terminal state before release''), w)
      else transaction (op_release_after_reconciliation rid resolved_state evidence_reference
        released_at) w)"

end
