(* ===== verification/WriterDigit.thy ===== *)
theory WriterDigit
  imports Writer
begin

text \<open>
  The operations of \<open>SingleDatabaseWriter\<close> on the durable recovery state of digit contracts:
  configuring the policy, resetting a test session, ending a cooldown, and advancing the state
  when an order settles (inside the transaction that settles it).
\<close>

section \<open>Configuring the policy\<close>

fun is_bool :: "pyval \<Rightarrow> bool" where
  "is_bool (PBool b) = True"
| "is_bool _ = False"

fun the_bool :: "pyval \<Rightarrow> bool" where
  "the_bool (PBool b) = b"
| "the_bool _ = False"

definition runtime_policy_types :: "(string \<times> (pyval \<Rightarrow> bool)) list" where
  "runtime_policy_types =
     [(''config_fingerprint'', is_str), (''currency'', is_str),
      (''martingale_enabled'', is_bool), (''martingale_max_steps'', is_int),
      (''max_consecutive_losses'', is_int), (''cooldown_seconds'', is_str)]"

fun require_policy_types :: "payload \<Rightarrow> (string \<times> (pyval \<Rightarrow> bool)) list \<Rightarrow> exc + unit" where
  "require_policy_types policy [] = Inr ()"
| "require_policy_types policy ((name, expected) # r) =
     (if expected (get_item policy name) then require_policy_types policy r
      else Inl (ValueError (''invalid digit runtime policy field: '' @ name)))"

record runtime_policy =
  rp_fingerprint :: string
  rp_currency :: string
  rp_enabled :: bool
  rp_max_steps :: int
  rp_max_losses :: int
  rp_cooldown :: rat

definition read_runtime_policy :: "payload \<Rightarrow> exc + runtime_policy" where
  "read_runtime_policy policy =
     and_then (require_policy_types policy runtime_policy_types) (\<lambda>_.
     let fingerprint = the_str (get_item policy ''config_fingerprint'');
         cur = the_str (get_item policy ''currency'');
         max_steps = the_int (get_item policy ''martingale_max_steps'');
         max_losses = the_int (get_item policy ''max_consecutive_losses'') in
     case Decimal_of (the_str (get_item policy ''cooldown_seconds'')) of
       None \<Rightarrow> Inl (ValueError ''invalid digit runtime cooldown'')
     | Some Special \<Rightarrow> Inl (ValueError ''invalid digit runtime policy'')
     | Some (Finite cooldown) \<Rightarrow>
         if fingerprint = [] \<or> length cur \<noteq> 3 \<or> \<not> (1 \<le> max_steps \<and> max_steps \<le> 4) \<or>
            \<not> (1 \<le> max_losses \<and> max_losses \<le> 5) \<or> cooldown \<le> 0
         then Inl (ValueError ''invalid digit runtime policy'')
         else Inr \<lparr>rp_fingerprint = fingerprint, rp_currency = cur,
           rp_enabled = the_bool (get_item policy ''martingale_enabled''),
           rp_max_steps = max_steps, rp_max_losses = max_losses, rp_cooldown = cooldown\<rparr>)"

text \<open>The new row of a first configuration, with the defaults of the table.\<close>

definition new_runtime_row :: "runtime_policy \<Rightarrow> datetime \<Rightarrow> digit_runtime_row" where
  "new_runtime_row p now = \<lparr>
     drr_config_fingerprint = rp_fingerprint p, drr_currency = rp_currency p,
     drr_martingale_enabled = rp_enabled p, drr_martingale_max_steps = rp_max_steps p,
     drr_max_consecutive_losses = rp_max_losses p, drr_cooldown_seconds = rp_cooldown p,
     drr_daily_pnl_minor = 0, drr_consecutive_losses = 0, drr_martingale_step = 0,
     drr_pinned_symbol = None, drr_cumulative_sequence_loss_minor = 0,
     drr_cooldown_started_at = None, drr_last_order_id = None, drr_last_settlement_id = None,
     drr_updated_at = isoformat now, drr_session_started_at = None\<rparr>"

definition configured_row :: "runtime_policy \<Rightarrow> datetime \<Rightarrow> digit_runtime_row \<Rightarrow> digit_runtime_row" where
  "configured_row p now r = r\<lparr>
     drr_config_fingerprint := rp_fingerprint p, drr_currency := rp_currency p,
     drr_martingale_enabled := rp_enabled p, drr_martingale_max_steps := rp_max_steps p,
     drr_max_consecutive_losses := rp_max_losses p, drr_cooldown_seconds := rp_cooldown p,
     drr_updated_at := isoformat now\<rparr>"

definition cleared_sequence :: "digit_runtime_row \<Rightarrow> digit_runtime_row" where
  "cleared_sequence r = r\<lparr>drr_consecutive_losses := 0, drr_martingale_step := 0,
     drr_pinned_symbol := None, drr_cumulative_sequence_loss_minor := 0,
     drr_cooldown_started_at := None\<rparr>"

definition op_configure_digit_risk_runtime ::
  "runtime_policy \<Rightarrow> bool \<Rightarrow> datetime \<Rightarrow> state_db \<Rightarrow> exc + (unit \<times> state_db)" where
  "op_configure_digit_risk_runtime p reset_active_sequence now db =
     (case digit_risk_runtime db of
        None \<Rightarrow> and_then (put_runtime (new_runtime_row p now) db) (\<lambda>db1. Inr ((), db1))
      | Some current \<Rightarrow>
          if drr_config_fingerprint current \<noteq> rp_fingerprint p \<and>
             0 < drr_martingale_step current \<and> \<not> reset_active_sequence
          then Inl (PersistenceError ''DIGIT_MARTINGALE_SEQUENCE_ACTIVE'')
          else and_then (put_runtime
            (if reset_active_sequence then cleared_sequence (configured_row p now current)
             else configured_row p now current) db) (\<lambda>db1. Inr ((), db1)))"

definition configure_digit_risk_runtime ::
  "payload \<Rightarrow> bool \<Rightarrow> datetime \<Rightarrow> writer \<Rightarrow> (exc + unit) \<times> writer" where
  "configure_digit_risk_runtime policy reset_active_sequence now w =
     (case read_runtime_policy policy of
        Inl e \<Rightarrow> (Inl e, w)
      | Inr p \<Rightarrow> transaction (op_configure_digit_risk_runtime p reset_active_sequence now) w)"

section \<open>Resetting a test session\<close>

text \<open>An order on a digit product of Deriv that is not settled or rejected.\<close>

definition digit_pending :: "state_db \<Rightarrow> bool" where
  "digit_pending db \<longleftrightarrow> list_ex (\<lambda>x. list_ex (\<lambda>t. ti_intent_id t = ord_intent_id x \<and>
     ord_broker x = Broker_DERIV \<and> ti_product t \<in> set digit_products \<and>
     ord_state x \<notin> {SETTLED, REJECTED}) (trade_intents db)) (orders db)"

definition active_exposure :: "state_db \<Rightarrow> bool" where
  "active_exposure db \<longleftrightarrow> list_ex (\<lambda>r. rr_state r = ACTIVE) (risk_reservations db)"

definition reset_row :: "datetime \<Rightarrow> digit_runtime_row \<Rightarrow> digit_runtime_row" where
  "reset_row now r = (cleared_sequence r)\<lparr>drr_daily_pnl_minor := 0,
     drr_session_started_at := Some (isoformat now), drr_updated_at := isoformat now\<rparr>"

definition op_reset_digit_test_session_if_flat ::
  "datetime \<Rightarrow> state_db \<Rightarrow> exc + (unit \<times> state_db)" where
  "op_reset_digit_test_session_if_flat now db =
     (if digit_pending db \<or> active_exposure db
      then Inl (PersistenceError ''DIGIT_TEST_SESSION_RESET_BLOCKED_EXPOSURE'')
      else case digit_risk_runtime db of
          None \<Rightarrow> Inl (PersistenceError ''DIGIT_RISK_RUNTIME_NOT_CONFIGURED'')
        | Some r \<Rightarrow> and_then (put_runtime (reset_row now r) db) (\<lambda>db1. Inr ((), db1)))"

definition reset_digit_test_session_if_flat where
  "reset_digit_test_session_if_flat now w =
     transaction (op_reset_digit_test_session_if_flat now) w"

section \<open>Ending a cooldown\<close>

text \<open>
  The elapsed time is the exact number of seconds; the code goes through a float, which is exact
  at microsecond resolution for any two instants less than two centuries apart.
\<close>

definition op_expire_digit_cooldown ::
  "datetime \<Rightarrow> state_db \<Rightarrow> exc + (digit_runtime_row option \<times> state_db)" where
  "op_expire_digit_cooldown checked_at db =
     (case digit_risk_runtime db of
        None \<Rightarrow> Inr (None, db)
      | Some row \<Rightarrow> (case drr_cooldown_started_at row of
          None \<Rightarrow> Inr (Some row, db)
        | Some started_raw \<Rightarrow>
            and_then (fromisoformat started_raw) (\<lambda>started.
            if utc_offset started = None
            then Inl (PersistenceError ''digit cooldown timestamp is not timezone-aware'')
            else if total_seconds_between checked_at started \<ge> drr_cooldown_seconds row
            then let row' = (cleared_sequence row)\<lparr>drr_updated_at := isoformat checked_at\<rparr> in
              and_then (put_runtime row' db) (\<lambda>db1. Inr (Some row', db1))
            else Inr (Some row, db))))"

definition expire_digit_cooldown ::
  "datetime \<Rightarrow> writer \<Rightarrow> (exc + digit_runtime_row option) \<times> writer" where
  "expire_digit_cooldown checked_at w =
     (if utc_offset checked_at = None
      then (Inl (ValueError ''digit cooldown clock must be timezone-aware''), w)
      else transaction (op_expire_digit_cooldown checked_at) w)"

section \<open>Settlement\<close>

text \<open>The branches on the sign of the result: losses, step, cumulative loss, pin and cooldown.\<close>

definition settle_loss :: "string \<Rightarrow> int \<Rightarrow> datetime \<Rightarrow> digit_runtime_row \<Rightarrow> digit_runtime_row" where
  "settle_loss symbol pnl occurred_at r =
     (let losses = drr_consecutive_losses r + 1;
          cumulative = drr_cumulative_sequence_loss_minor r - pnl;
          exhausted = drr_martingale_step r \<ge> drr_martingale_max_steps r;
          step = (if drr_martingale_enabled r \<and> \<not> exhausted then drr_martingale_step r + 1 else 0) in
      r\<lparr>drr_consecutive_losses := losses, drr_martingale_step := step,
        drr_cumulative_sequence_loss_minor :=
          (if drr_martingale_enabled r \<and> exhausted then 0 else cumulative),
        drr_pinned_symbol := (if 0 < step then Some symbol else None),
        drr_cooldown_started_at := (if losses \<ge> drr_max_consecutive_losses r
          then Some (isoformat occurred_at) else drr_cooldown_started_at r)\<rparr>)"

definition settle_win :: "int \<Rightarrow> digit_runtime_row \<Rightarrow> digit_runtime_row" where
  "settle_win pnl r =
     (let cumulative = max 0 (drr_cumulative_sequence_loss_minor r - pnl);
          continue = drr_martingale_enabled r \<and> 0 < cumulative \<and>
            drr_martingale_step r < drr_martingale_max_steps r in
      r\<lparr>drr_consecutive_losses := 0,
        drr_martingale_step := (if continue then drr_martingale_step r + 1 else 0),
        drr_cumulative_sequence_loss_minor := (if continue then cumulative else 0),
        drr_pinned_symbol := (if continue then drr_pinned_symbol r else None),
        drr_cooldown_started_at := None\<rparr>)"

definition settle_even :: "digit_runtime_row \<Rightarrow> digit_runtime_row" where
  "settle_even r = r\<lparr>drr_martingale_step := 0, drr_cumulative_sequence_loss_minor := 0,
     drr_pinned_symbol := None, drr_cooldown_started_at := None\<rparr>"

definition settled_runtime ::
  "string \<Rightarrow> int \<Rightarrow> string \<Rightarrow> string \<Rightarrow> datetime \<Rightarrow> digit_runtime_row \<Rightarrow> digit_runtime_row" where
  "settled_runtime symbol pnl order_id settlement_id occurred_at r =
     (if pnl < 0 then settle_loss symbol pnl occurred_at r
      else if pnl > 0 then settle_win pnl r else settle_even r)
     \<lparr>drr_daily_pnl_minor := drr_daily_pnl_minor r + pnl, drr_last_order_id := Some order_id,
      drr_last_settlement_id := Some settlement_id, drr_updated_at := isoformat occurred_at\<rparr>"

definition apply_digit_runtime_settlement ::
  "string \<Rightarrow> string \<Rightarrow> string \<Rightarrow> int \<Rightarrow> string \<Rightarrow> string \<Rightarrow> datetime \<Rightarrow> state_db \<Rightarrow> exc + state_db" where
  "apply_digit_runtime_settlement product symbol cur pnl order_id settlement_id occurred_at db =
     (if upper (strip product) \<notin> set digit_products then Inr db
      else case digit_risk_runtime db of
          None \<Rightarrow> Inl (PersistenceError ''digit risk runtime policy is not configured'')
        | Some r \<Rightarrow>
            if drr_currency r \<noteq> cur
            then Inl (PersistenceError ''digit settlement currency does not match runtime policy'')
            else if drr_last_order_id r = Some order_id then Inr db
            else put_runtime (settled_runtime symbol pnl order_id settlement_id occurred_at r) db)"

end
