(* ===== verification/WriterEvents.thy ===== *)
theory WriterEvents
  imports WriterDigit
begin

text \<open>
  \<open>apply_normalized_broker_event\<close> of \<open>SingleDatabaseWriter\<close>: a broker event is recorded in
  the durable inbox together with its financial effect, in one transaction. The definitions
  follow the method from top to bottom, one per stage: the check for a replayed event, the
  comparison with the order, the classification against the order's state and sequence, and the
  effect.
\<close>

section \<open>Results\<close>

datatype event_status =
  EV_APPLIED | EV_APPLIED_WITH_GAP | EV_DUPLICATE | EV_LATE_IGNORED | EV_CONFLICT

fun event_status_value :: "event_status \<Rightarrow> string" where
  "event_status_value EV_APPLIED = ''APPLIED''"
| "event_status_value EV_APPLIED_WITH_GAP = ''APPLIED_WITH_GAP''"
| "event_status_value EV_DUPLICATE = ''DUPLICATE''"
| "event_status_value EV_LATE_IGNORED = ''LATE_IGNORED''"
| "event_status_value EV_CONFLICT = ''CONFLICT''"

record event_result =
  er_status :: event_status
  er_order_state :: "order_state option"
  er_reason_code :: "string option"

definition event_result :: "event_status \<Rightarrow> order_state option \<Rightarrow> string option \<Rightarrow> event_result" where
  "event_result s st reason = \<lparr>er_status = s, er_order_state = st, er_reason_code = reason\<rparr>"

section \<open>The inbox\<close>

definition new_event_row ::
  "broker_order_event \<Rightarrow> string option \<Rightarrow> event_status \<Rightarrow> string option \<Rightarrow> datetime \<Rightarrow> event_row" where
  "new_event_row e order_id status reason_code created_at = \<lparr>
     boe_event_id = ev_event_id e, boe_order_id = order_id,
     boe_event_version = ev_event_version e, boe_broker = ev_broker e,
     boe_account_id = ev_account_id e, boe_client_order_ref = ev_client_order_ref e,
     boe_broker_order_id = ev_broker_order_id e, boe_correlation_id = ev_correlation_id e,
     boe_external_sequence = ev_external_sequence e,
     boe_external_status = ev_external_status e,
     boe_occurred_at = isoformat (ev_occurred_at e),
     boe_observed_at = isoformat (ev_observed_at e), boe_product = ev_product e,
     boe_symbol = ev_symbol e, boe_direction = ev_direction e,
     boe_amount_minor = minor_units (ev_amount e), boe_currency = currency (ev_amount e),
     boe_result_minor = ev_result_minor e, boe_result_currency = ev_result_currency e,
     boe_evidence_hash = ev_evidence_hash e,
     boe_processing_result = event_status_value status, boe_reason_code = reason_code,
     boe_conflict_count = 0, boe_last_conflicting_hash = None,
     boe_created_at = isoformat created_at\<rparr>"

text \<open>Record the event with its classification and return that classification.\<close>

definition record_only ::
  "broker_order_event \<Rightarrow> string option \<Rightarrow> event_result \<Rightarrow> datetime \<Rightarrow> state_db \<Rightarrow>
   exc + (event_result \<times> state_db)" where
  "record_only e order_id res received_at db =
     and_then (insert_event (new_event_row e order_id (er_status res) (er_reason_code res)
       received_at) db) (\<lambda>db1. Inr (res, db1))"

definition event_by_id :: "state_db \<Rightarrow> string \<Rightarrow> event_row option" where
  "event_by_id db eid = List.find (\<lambda>x. boe_event_id x = eid) (broker_order_events db)"

definition order_state_by_id :: "state_db \<Rightarrow> string option \<Rightarrow> order_state option" where
  "order_state_by_id db order_id = (case order_id of None \<Rightarrow> None
     | Some oid \<Rightarrow> map_option ord_state (order_by_id db oid))"

definition conflicted_event :: "string \<Rightarrow> event_row \<Rightarrow> event_row" where
  "conflicted_event h x = x\<lparr>boe_conflict_count := boe_conflict_count x + 1,
     boe_last_conflicting_hash := Some h,
     boe_reason_code := Some ''BROKER_EVENT_REPLAY_CONFLICT''\<rparr>"

definition replay_event ::
  "broker_order_event \<Rightarrow> event_row \<Rightarrow> state_db \<Rightarrow> exc + (event_result \<times> state_db)" where
  "replay_event e duplicate db =
     (let st = order_state_by_id db (boe_order_id duplicate) in
      if boe_evidence_hash duplicate = ev_evidence_hash e
      then Inr (event_result EV_DUPLICATE st None, db)
      else Inr (event_result EV_CONFLICT st (Some ''BROKER_EVENT_REPLAY_CONFLICT''),
        db\<lparr>broker_order_events := update_where (\<lambda>x. boe_event_id x = ev_event_id e)
          (conflicted_event (ev_evidence_hash e)) (broker_order_events db)\<rparr>))"

section \<open>Comparison with the order\<close>

definition order_with_intent :: "state_db \<Rightarrow> string \<Rightarrow> (order_row \<times> trade_intent_row) option" where
  "order_with_intent db oid = (case order_by_id db oid of None \<Rightarrow> None
     | Some x \<Rightarrow> map_option (Pair x) (intent_by_id db (ord_intent_id x)))"

definition broker_event_matching_conflict ::
  "order_row \<Rightarrow> trade_intent_row \<Rightarrow> broker_order_event \<Rightarrow> string option" where
  "broker_event_matching_conflict x t e = first_conflict
     [(ev_broker e \<noteq> ord_broker x, ''BROKER_EVENT_SCOPE_MISMATCH''),
      (ev_account_id e \<noteq> ord_account_id x, ''BROKER_EVENT_ACCOUNT_MISMATCH''),
      (ev_correlation_id e \<noteq> ord_correlation_id x, ''BROKER_EVENT_CORRELATION_MISMATCH''),
      (ev_product e \<noteq> ti_product t, ''BROKER_EVENT_PRODUCT_MISMATCH''),
      (ev_symbol e \<noteq> ti_symbol t, ''BROKER_EVENT_SYMBOL_MISMATCH''),
      (ev_direction e \<noteq> ti_direction t, ''BROKER_EVENT_DIRECTION_MISMATCH''),
      (minor_units (ev_amount e) \<noteq> ti_amount_minor t, ''BROKER_EVENT_AMOUNT_MISMATCH''),
      (currency (ev_amount e) \<noteq> ti_currency t, ''BROKER_EVENT_CURRENCY_MISMATCH''),
      (case ord_broker_order_id x of None \<Rightarrow> False | Some b \<Rightarrow> b \<noteq> ev_broker_order_id e,
       ''BROKER_ORDER_ID_CONFLICT''),
      (case ev_result_currency e of None \<Rightarrow> False | Some c \<Rightarrow> c \<noteq> ti_currency t,
       ''BROKER_EVENT_RESULT_CURRENCY_MISMATCH'')]"

fun order_state_for_external_status :: "external_order_status \<Rightarrow> exc + order_state" where
  "order_state_for_external_status EXT_ACCEPTED = Inr ACCEPTED"
| "order_state_for_external_status EXT_OPEN = Inr OPEN"
| "order_state_for_external_status EXT_SETTLED = Inr SETTLED"
| "order_state_for_external_status EXT_SETTLEMENT_UNKNOWN = Inr SETTLEMENT_UNKNOWN"
| "order_state_for_external_status EXT_REJECTED = Inr REJECTED"
| "order_state_for_external_status EXT_EXTERNAL_UNKNOWN =
     Inl (PersistenceError ''unsupported broker lifecycle status'')"

definition terminal_broker_event_result ::
  "order_row \<Rightarrow> broker_order_event \<Rightarrow> order_state \<Rightarrow> order_state \<Rightarrow> event_result option" where
  "terminal_broker_event_result x e current target =
     (if \<not> is_terminal current then None
      else if current = target then
        (if current = SETTLED \<and> ord_realized_pnl_minor x \<noteq> ev_result_minor e
         then Some (event_result EV_CONFLICT (Some current) (Some ''BROKER_EVENT_SETTLEMENT_CONFLICT''))
         else Some (event_result EV_LATE_IGNORED (Some current)
           (Some ''BROKER_EVENT_TERMINAL_DUPLICATE'')))
      else if current = SETTLED \<and> target \<in> {ACCEPTED, OPEN}
      then Some (event_result EV_LATE_IGNORED (Some current) (Some ''BROKER_EVENT_LATE''))
      else Some (event_result EV_CONFLICT (Some current) (Some ''BROKER_EVENT_STATE_CONFLICT'')))"

definition sequence_reused :: "state_db \<Rightarrow> string \<Rightarrow> int option \<Rightarrow> bool" where
  "sequence_reused db order_id sequence = (case sequence of None \<Rightarrow> False
     | Some n \<Rightarrow> list_ex (\<lambda>y. boe_order_id y = Some order_id \<and> boe_external_sequence y = Some n)
         (broker_order_events db))"

definition sequence_late :: "int option \<Rightarrow> int option \<Rightarrow> bool" where
  "sequence_late sequence previous = (case (sequence, previous) of
     (Some n, Some p) \<Rightarrow> n < p | _ \<Rightarrow> False)"

definition sequence_gap :: "int option \<Rightarrow> int option \<Rightarrow> bool" where
  "sequence_gap sequence previous = (case (sequence, previous) of
     (Some n, None) \<Rightarrow> n > 1 | (Some n, Some p) \<Rightarrow> n > p + 1 | _ \<Rightarrow> False)"

text \<open>
  The classification of an event that is not a replay: \<open>Inl\<close> a result that is only recorded,
  \<open>Inr\<close> the target state of an event that takes effect.
\<close>

definition classify_event ::
  "order_row \<Rightarrow> trade_intent_row \<Rightarrow> broker_order_event \<Rightarrow> state_db \<Rightarrow>
   exc + (event_result + order_state)" where
  "classify_event x t e db =
     (case broker_event_matching_conflict x t e of
        Some reason \<Rightarrow> Inr (Inl (event_result EV_CONFLICT (Some (ord_state x)) (Some reason)))
      | None \<Rightarrow>
          if sequence_reused db (ord_order_id x) (ev_external_sequence e)
          then Inr (Inl (event_result EV_CONFLICT (Some (ord_state x))
            (Some ''BROKER_EVENT_SEQUENCE_CONFLICT'')))
          else and_then (order_state_for_external_status (ev_external_status e)) (\<lambda>target.
            case terminal_broker_event_result x e (ord_state x) target of
              Some res \<Rightarrow> Inr (Inl res)
            | None \<Rightarrow>
                if sequence_late (ev_external_sequence e) (ord_last_external_sequence x) \<or>
                   ord_state x = OPEN \<and> target = ACCEPTED
                then Inr (Inl (event_result EV_LATE_IGNORED (Some (ord_state x))
                  (Some ''BROKER_EVENT_LATE'')))
                else Inr (Inr target)))"

section \<open>The effect\<close>

definition ambiguous_states :: "order_state set" where
  "ambiguous_states = {UNKNOWN, SETTLEMENT_UNKNOWN, MANUAL_REVIEW}"

definition noted_order :: "broker_order_event \<Rightarrow> bool \<Rightarrow> datetime \<Rightarrow> order_row \<Rightarrow> order_row" where
  "noted_order e was_ambiguous received_at y = y\<lparr>
     ord_broker_order_id := coalesce (ord_broker_order_id y) (Some (ev_broker_order_id e)),
     ord_last_external_sequence := coalesce (ev_external_sequence e) (ord_last_external_sequence y),
     ord_last_broker_event_id := Some (ev_event_id e),
     ord_resolution_source := (if was_ambiguous then Some ''ORDER_EVENT'' else ord_resolution_source y),
     ord_resolved_at := (if was_ambiguous then Some (isoformat received_at) else ord_resolved_at y)\<rparr>"

definition reconciled_outbox :: "string \<Rightarrow> string \<Rightarrow> datetime \<Rightarrow> state_db \<Rightarrow> state_db" where
  "reconciled_outbox iid reason resolved_at db = db\<lparr>outbox_messages :=
     update_where (\<lambda>m. om_intent_id m = iid \<and> om_state m = OB_AMBIGUOUS)
       (\<lambda>m. m\<lparr>om_state := OB_RECONCILED, om_state_reason := Some reason,
          om_dispatched_at := coalesce (om_dispatched_at m) (Some (isoformat resolved_at))\<rparr>)
       (outbox_messages db)\<rparr>"

text \<open>The statements after the order has its new state.\<close>

definition finish_event ::
  "(string \<Rightarrow> exc option) \<Rightarrow> order_row \<Rightarrow> broker_order_event \<Rightarrow> order_state \<Rightarrow> bool \<Rightarrow> event_result \<Rightarrow>
   datetime \<Rightarrow> state_db \<Rightarrow> exc + (event_result \<times> state_db)" where
  "finish_event fault x e target was_ambiguous res received_at db =
     (let iid = ord_intent_id x;
          db1 = db\<lparr>orders := update_where (\<lambda>y. ord_order_id y = ord_order_id x)
            (noted_order e was_ambiguous received_at) (orders db)\<rparr>;
          db2 = (if was_ambiguous then reconciled_outbox iid
            (''RECONCILED_EVENT_'' @ external_status_value (ev_external_status e)) received_at db1
            else db1);
          db3 = (if target \<in> {REJECTED, SETTLED} then release_for_intent iid (ev_occurred_at e)
            (''BROKER_EVENT_'' @ order_state_value target) (Some (ev_event_id e)) db2 else db2) in
      and_then (case (ev_result_minor e, ev_result_currency e) of
          (Some pnl, Some cur) \<Rightarrow> if target = SETTLED
            then apply_digit_runtime_settlement (ev_product e) (ev_symbol e) cur pnl
              (ord_order_id x) (ev_event_id e) (ev_occurred_at e) db3
            else Inr db3
        | _ \<Rightarrow> Inr db3) (\<lambda>db4.
      and_then (inject fault ''before_broker_event_commit'' db4) (\<lambda>db5. Inr (res, db5))))"

definition state_conflict_event :: "event_row \<Rightarrow> event_row" where
  "state_conflict_event y = y\<lparr>boe_processing_result := event_status_value EV_CONFLICT,
     boe_reason_code := Some ''BROKER_EVENT_STATE_CONFLICT''\<rparr>"

text \<open>
  The move to the target state; a refused transition turns the recorded event into a conflict.
\<close>

definition move_event ::
  "(string \<Rightarrow> exc option) \<Rightarrow> order_row \<Rightarrow> broker_order_event \<Rightarrow> order_state \<Rightarrow> bool \<Rightarrow> event_result \<Rightarrow>
   datetime \<Rightarrow> state_db \<Rightarrow> exc + (event_result \<times> state_db)" where
  "move_event fault x e target was_ambiguous res received_at db =
     (if (if was_ambiguous then RECONCILING else ord_state x) = target
      then finish_event fault x e target was_ambiguous res received_at db
      else case transition_order (ord_intent_id x) target (ev_occurred_at e)
          (Some (ev_broker_order_id e)) (ev_result_minor e) db of
          Inl (InvalidOrderTransition a b) \<Rightarrow>
            Inr (event_result EV_CONFLICT (Some (ord_state x)) (Some ''BROKER_EVENT_STATE_CONFLICT''),
              db\<lparr>broker_order_events := update_where (\<lambda>y. boe_event_id y = ev_event_id e)
                state_conflict_event (broker_order_events db)\<rparr>)
        | Inl exn \<Rightarrow> Inl exn
        | Inr db1 \<Rightarrow> finish_event fault x e target was_ambiguous res received_at db1)"

definition event_progress :: "order_row \<Rightarrow> broker_order_event \<Rightarrow> event_status \<times> string option" where
  "event_progress x e =
     (if sequence_gap (ev_external_sequence e) (ord_last_external_sequence x)
      then (EV_APPLIED_WITH_GAP, Some ''ORDER_EVENT_SEQUENCE_GAP'') else (EV_APPLIED, None))"

definition effect_event ::
  "(string \<Rightarrow> exc option) \<Rightarrow> order_row \<Rightarrow> broker_order_event \<Rightarrow> order_state \<Rightarrow> datetime \<Rightarrow> state_db \<Rightarrow>
   exc + (event_result \<times> state_db)" where
  "effect_event fault x e target received_at db =
     (case event_progress x e of (status, reason_code) \<Rightarrow>
      let was_ambiguous = (ord_state x \<in> ambiguous_states) in
      and_then (insert_event (new_event_row e (Some (ord_order_id x)) status reason_code
        received_at) db) (\<lambda>db0.
      and_then (inject fault ''after_broker_event_inbox'' db0) (\<lambda>db1.
      and_then (if was_ambiguous
        then transition_order (ord_intent_id x) RECONCILING (ev_observed_at e) None None db1
        else Inr db1) (\<lambda>db2.
      move_event fault x e target was_ambiguous
        (event_result status (Some target) reason_code) received_at db2))))"

definition op_apply_normalized_broker_event ::
  "(string \<Rightarrow> exc option) \<Rightarrow> broker_order_event \<Rightarrow> datetime \<Rightarrow> state_db \<Rightarrow>
   exc + (event_result \<times> state_db)" where
  "op_apply_normalized_broker_event fault e received_at db =
     (case event_by_id db (ev_event_id e) of
        Some duplicate \<Rightarrow> replay_event e duplicate db
      | None \<Rightarrow> (case order_with_intent db (ev_client_order_ref e) of
          None \<Rightarrow> record_only e None (event_result EV_CONFLICT None
            (Some ''BROKER_EVENT_CLIENT_REFERENCE_MISMATCH'')) received_at db
        | Some (x, t) \<Rightarrow>
            and_then (classify_event x t e db) (\<lambda>c. case c of
                Inl res \<Rightarrow> record_only e (Some (ord_order_id x)) res received_at db
              | Inr target \<Rightarrow> effect_event fault x e target received_at db)))"

definition apply_normalized_broker_event where
  "apply_normalized_broker_event e received_at w =
     transaction (op_apply_normalized_broker_event (w_fault w) e received_at) w"

end
