(* ===== verification/WriterReconciliation.thy ===== *)
theory WriterReconciliation
  imports WriterEvents
begin

text \<open>
  The operations of \<open>SingleDatabaseWriter\<close> for reconciliation: attempts are opened and closed,
  positive evidence resolves an order, and a proven absence at the broker resolves it as
  rejected. SHA-256 over the canonical JSON of an evidence is the argument \<open>sha\<close>.
\<close>

section \<open>Attempts\<close>

definition op_begin_reconciliation_attempt ::
  "string \<Rightarrow> string \<Rightarrow> string \<Rightarrow> datetime \<Rightarrow> state_db \<Rightarrow> exc + (unit \<times> state_db)" where
  "op_begin_reconciliation_attempt attempt_id order_id correlation_id started_at db =
     and_then (insert_attempt \<lparr>ra_attempt_id = attempt_id, ra_order_id = order_id,
       ra_correlation_id = correlation_id, ra_started_at = isoformat started_at,
       ra_completed_at = None, ra_result = ''STARTED'', ra_reason_code = None,
       ra_evidence_id = None\<rparr> db) (\<lambda>db1. Inr ((), db1))"

definition begin_reconciliation_attempt where
  "begin_reconciliation_attempt attempt_id order_id correlation_id started_at w =
     transaction (op_begin_reconciliation_attempt attempt_id order_id correlation_id started_at) w"

definition started :: "string \<Rightarrow> attempt_row \<Rightarrow> bool" where
  "started attempt_id a \<longleftrightarrow> ra_attempt_id a = attempt_id \<and> ra_result a = ''STARTED''"

definition op_complete_reconciliation_attempt ::
  "string \<Rightarrow> string \<Rightarrow> string \<Rightarrow> datetime \<Rightarrow> state_db \<Rightarrow> exc + (unit \<times> state_db)" where
  "op_complete_reconciliation_attempt attempt_id result reason_code completed_at db =
     (if row_count (started attempt_id) (reconciliation_attempts db) \<noteq> 1
      then Inl (PersistenceError ''reconciliation attempt is not STARTED'')
      else Inr ((), db\<lparr>reconciliation_attempts := update_where (started attempt_id)
        (\<lambda>a. a\<lparr>ra_completed_at := Some (isoformat completed_at), ra_result := result,
           ra_reason_code := Some reason_code\<rparr>) (reconciliation_attempts db)\<rparr>))"

definition complete_reconciliation_attempt where
  "complete_reconciliation_attempt attempt_id result reason_code completed_at w =
     transaction (op_complete_reconciliation_attempt attempt_id result reason_code completed_at) w"

definition finish_reconciliation_attempt ::
  "string \<Rightarrow> string \<Rightarrow> string option \<Rightarrow> datetime \<Rightarrow> string option \<Rightarrow> state_db \<Rightarrow> exc + state_db" where
  "finish_reconciliation_attempt attempt_id result reason_code completed_at evidence_id db =
     (if row_count (started attempt_id) (reconciliation_attempts db) \<noteq> 1
      then Inl (PersistenceError ''reconciliation attempt is not STARTED'')
      else Inr (db\<lparr>reconciliation_attempts := update_where (started attempt_id)
        (\<lambda>a. a\<lparr>ra_completed_at := Some (isoformat completed_at), ra_result := result,
           ra_reason_code := reason_code, ra_evidence_id := evidence_id\<rparr>)
        (reconciliation_attempts db)\<rparr>))"

section \<open>Results\<close>

datatype apply_status = RA_RESOLVED | RA_IDEMPOTENT | RA_UNRESOLVED | RA_CONFLICT

fun apply_status_value :: "apply_status \<Rightarrow> string" where
  "apply_status_value RA_RESOLVED = ''RESOLVED''"
| "apply_status_value RA_IDEMPOTENT = ''IDEMPOTENT''"
| "apply_status_value RA_UNRESOLVED = ''UNRESOLVED''"
| "apply_status_value RA_CONFLICT = ''CONFLICT''"

record apply_result =
  ar_status :: apply_status
  ar_order_state :: order_state
  ar_reason_code :: "string option"

text \<open>Close the attempt with a status and return it.\<close>

definition finish_with ::
  "string \<Rightarrow> apply_status \<Rightarrow> order_state \<Rightarrow> string option \<Rightarrow> datetime \<Rightarrow> string option \<Rightarrow> state_db \<Rightarrow>
   exc + (apply_result \<times> state_db)" where
  "finish_with attempt_id status st reason_code completed_at evidence_id db =
     and_then (finish_reconciliation_attempt attempt_id (apply_status_value status) reason_code
       completed_at evidence_id db) (\<lambda>db1.
     Inr (\<lparr>ar_status = status, ar_order_state = st, ar_reason_code = reason_code\<rparr>, db1))"

section \<open>Positive evidence\<close>

definition new_evidence_row ::
  "string \<Rightarrow> reconciliation_evidence \<Rightarrow> string \<Rightarrow> datetime \<Rightarrow> evidence_row" where
  "new_evidence_row order_id e canonical_hash received_at = \<lparr>
     rev_evidence_id = re_evidence_id e, rev_order_id = order_id,
     rev_source = source_value (re_source e), rev_observed_at = isoformat (re_observed_at e),
     rev_client_order_ref = re_client_order_ref e, rev_broker_order_id = re_broker_order_id e,
     rev_external_status = re_external_status e, rev_broker = re_broker e,
     rev_account_id = re_account_id e, rev_product = re_product e, rev_symbol = re_symbol e,
     rev_direction = re_direction e, rev_amount_minor = minor_units (re_amount e),
     rev_currency = currency (re_amount e), rev_realized_pnl_minor = re_realized_pnl_minor e,
     rev_raw_reference_hash = re_raw_reference_hash e,
     rev_evidence_version = re_evidence_version e, rev_canonical_hash = canonical_hash,
     rev_received_at = isoformat received_at\<rparr>"

definition matching_conflict_reason ::
  "order_row \<Rightarrow> trade_intent_row \<Rightarrow> reconciliation_evidence \<Rightarrow> string option" where
  "matching_conflict_reason x t e = first_conflict
     [(re_client_order_ref e \<noteq> ord_order_id x, ''CLIENT_ORDER_REF_CONFLICT''),
      (re_broker e \<noteq> ord_broker x, ''BROKER_CONFLICT''),
      (re_account_id e \<noteq> ord_account_id x, ''ACCOUNT_CONFLICT''),
      (re_product e \<noteq> ti_product t, ''PRODUCT_CONFLICT''),
      (re_symbol e \<noteq> ti_symbol t, ''SYMBOL_CONFLICT''),
      (re_direction e \<noteq> ti_direction t, ''DIRECTION_CONFLICT''),
      (minor_units (re_amount e) \<noteq> ti_amount_minor t, ''AMOUNT_CONFLICT''),
      (currency (re_amount e) \<noteq> ti_currency t, ''CURRENCY_CONFLICT''),
      (case (ord_broker_order_id x, re_broker_order_id e) of
         (Some a, Some b) \<Rightarrow> a \<noteq> b | _ \<Rightarrow> False, ''BROKER_ORDER_ID_CONFLICT'')]"

fun is_valid_reconciliation_status_progression ::
  "external_order_status \<Rightarrow> external_order_status \<Rightarrow> bool" where
  "is_valid_reconciliation_status_progression EXT_ACCEPTED c \<longleftrightarrow>
     c \<in> {EXT_OPEN, EXT_SETTLEMENT_UNKNOWN, EXT_SETTLED}"
| "is_valid_reconciliation_status_progression EXT_OPEN c \<longleftrightarrow>
     c \<in> {EXT_SETTLEMENT_UNKNOWN, EXT_SETTLED}"
| "is_valid_reconciliation_status_progression EXT_SETTLEMENT_UNKNOWN c \<longleftrightarrow> c = EXT_SETTLED"
| "is_valid_reconciliation_status_progression _ c \<longleftrightarrow> False"

definition evidence_by_id :: "state_db \<Rightarrow> string \<Rightarrow> evidence_row option" where
  "evidence_by_id db eid = List.find (\<lambda>v. rev_evidence_id v = eid) (evidences db)"

text \<open>The started attempt joined with its order and, for positive evidence, the intent.\<close>

definition attempt_order :: "state_db \<Rightarrow> string \<Rightarrow> order_row option" where
  "attempt_order db attempt_id = (case List.find (started attempt_id) (reconciliation_attempts db) of
     None \<Rightarrow> None | Some a \<Rightarrow> order_by_id db (ra_order_id a))"

definition attempt_order_intent :: "state_db \<Rightarrow> string \<Rightarrow> (order_row \<times> trade_intent_row) option" where
  "attempt_order_intent db attempt_id = (case attempt_order db attempt_id of None \<Rightarrow> None
     | Some x \<Rightarrow> map_option (Pair x) (intent_by_id db (ord_intent_id x)))"

text \<open>
  The comparison with the evidence that resolved the order before: the conflict or idempotent
  outcome that ends the operation, if there is one.
\<close>

definition previous_evidence_outcome ::
  "order_row \<Rightarrow> reconciliation_evidence \<Rightarrow> state_db \<Rightarrow> exc + (apply_status \<times> string option) option" where
  "previous_evidence_outcome x e db = (case ord_resolution_evidence_id x of
     None \<Rightarrow> Inr None
   | Some pid \<Rightarrow> (case evidence_by_id db pid of
       None \<Rightarrow> Inl (PersistenceError ''order references missing reconciliation evidence'')
     | Some previous \<Rightarrow>
         if pid = re_evidence_id e then Inr (Some (RA_IDEMPOTENT, None))
         else if rev_external_status previous \<noteq> re_external_status e \<and>
            \<not> is_valid_reconciliation_status_progression (rev_external_status previous)
                (re_external_status e)
         then Inr (Some (RA_CONFLICT, Some ''RECONCILIATION_EVIDENCE_CONFLICT''))
         else Inr None))"

definition resolved_order :: "reconciliation_evidence \<Rightarrow> datetime \<Rightarrow> order_row \<Rightarrow> order_row" where
  "resolved_order e resolved_at y = y\<lparr>
     ord_resolution_source := Some (source_value (re_source e)),
     ord_resolution_evidence_id := Some (re_evidence_id e),
     ord_resolved_at := Some (isoformat resolved_at),
     ord_broker_order_id := coalesce (re_broker_order_id e) (ord_broker_order_id y)\<rparr>"

text \<open>The effect of evidence that matches and is not stale, from the update of the order on.\<close>

definition conclude_evidence ::
  "(string \<Rightarrow> exc option) \<Rightarrow> string \<Rightarrow> order_row \<Rightarrow> trade_intent_row \<Rightarrow> reconciliation_evidence \<Rightarrow>
   order_state \<Rightarrow> datetime \<Rightarrow> state_db \<Rightarrow> exc + (apply_result \<times> state_db)" where
  "conclude_evidence fault attempt_id x t e target resolved_at db =
     (let iid = ord_intent_id x;
          db1 = db\<lparr>orders := update_where (\<lambda>y. ord_order_id y = ord_order_id x)
            (resolved_order e resolved_at) (orders db)\<rparr>;
          db2 = reconciled_outbox iid (''RECONCILED_'' @ external_status_value (re_external_status e))
            resolved_at db1;
          db3 = (if target \<in> {REJECTED, SETTLED} then release_for_intent iid resolved_at
            (''RECONCILED_'' @ order_state_value target) (Some (re_evidence_id e)) db2 else db2) in
      and_then (case re_realized_pnl_minor e of
          Some pnl \<Rightarrow> if target = SETTLED \<and> ord_state x \<noteq> SETTLED
            then apply_digit_runtime_settlement (ti_product t) (ti_symbol t) (ti_currency t) pnl
              (ord_order_id x) (re_evidence_id e) resolved_at db3
            else Inr db3
        | None \<Rightarrow> Inr db3) (\<lambda>db4.
      and_then (finish_with attempt_id RA_RESOLVED target None resolved_at
        (Some (re_evidence_id e)) db4) (\<lambda>(res, db5).
      and_then (inject fault ''before_reconciliation_commit'' db5) (\<lambda>db6. Inr (res, db6)))))"

definition effect_evidence ::
  "(string \<Rightarrow> exc option) \<Rightarrow> string \<Rightarrow> order_row \<Rightarrow> trade_intent_row \<Rightarrow> reconciliation_evidence \<Rightarrow>
   order_state \<Rightarrow> datetime \<Rightarrow> state_db \<Rightarrow> exc + (apply_result \<times> state_db)" where
  "effect_evidence fault attempt_id x t e target resolved_at db =
     (let iid = ord_intent_id x; ambiguous = (ord_state x \<in> {UNKNOWN, SETTLEMENT_UNKNOWN});
          current = (if ambiguous then RECONCILING else ord_state x) in
      and_then (if ambiguous then transition_order iid RECONCILING resolved_at None None db
        else Inr db) (\<lambda>db1.
      and_then (if current \<noteq> target
        then transition_order iid target resolved_at (re_broker_order_id e)
          (re_realized_pnl_minor e) db1
        else Inr db1) (\<lambda>db2.
      conclude_evidence fault attempt_id x t e target resolved_at db2)))"

text \<open>The decision on evidence that is on record.\<close>

definition weigh_evidence ::
  "(string \<Rightarrow> exc option) \<Rightarrow> string \<Rightarrow> order_row \<Rightarrow> trade_intent_row \<Rightarrow> reconciliation_evidence \<Rightarrow>
   datetime \<Rightarrow> state_db \<Rightarrow> exc + (apply_result \<times> state_db)" where
  "weigh_evidence fault attempt_id x t e resolved_at db =
     (let st = ord_state x; eid = Some (re_evidence_id e) in
      case matching_conflict_reason x t e of
        Some reason \<Rightarrow> finish_with attempt_id RA_CONFLICT st (Some reason) resolved_at eid db
      | None \<Rightarrow>
          and_then (previous_evidence_outcome x e db) (\<lambda>outcome.
          case outcome of
            Some (status, reason) \<Rightarrow> finish_with attempt_id status st reason resolved_at eid db
          | None \<Rightarrow>
              (case order_state_for_external_status (re_external_status e) of
                 Inl _ \<Rightarrow> finish_with attempt_id RA_UNRESOLVED st
                   (Some ''RECONCILIATION_EXTERNAL_UNKNOWN'') resolved_at eid db
               | Inr target \<Rightarrow> effect_evidence fault attempt_id x t e target resolved_at db)))"

definition record_evidence ::
  "(payload \<Rightarrow> string) \<Rightarrow> (string \<Rightarrow> exc option) \<Rightarrow> order_row \<Rightarrow> reconciliation_evidence \<Rightarrow> datetime \<Rightarrow>
   state_db \<Rightarrow> exc + state_db" where
  "record_evidence sha fault x e resolved_at db =
     (if evidence_by_id db (re_evidence_id e) = None
      then and_then (insert_evidence (new_evidence_row (ord_order_id x) e
          (sha (evidence_to_payload e)) resolved_at) db) (\<lambda>db1.
        inject fault ''after_reconciliation_evidence'' db1)
      else Inr db)"

definition op_apply_reconciliation_evidence ::
  "(payload \<Rightarrow> string) \<Rightarrow> (string \<Rightarrow> exc option) \<Rightarrow> string \<Rightarrow> reconciliation_evidence \<Rightarrow> datetime \<Rightarrow>
   state_db \<Rightarrow> exc + (apply_result \<times> state_db)" where
  "op_apply_reconciliation_evidence sha fault attempt_id e resolved_at db =
     (case attempt_order_intent db attempt_id of
        None \<Rightarrow> Inl (PersistenceError ''reconciliation attempt is not STARTED'')
      | Some (x, t) \<Rightarrow>
          if (case evidence_by_id db (re_evidence_id e) of None \<Rightarrow> False | Some v \<Rightarrow>
              rev_canonical_hash v \<noteq> sha (evidence_to_payload e) \<or>
              rev_order_id v \<noteq> ord_order_id x)
          then finish_with attempt_id RA_CONFLICT (ord_state x)
            (Some ''RECONCILIATION_EVIDENCE_CONFLICT'') resolved_at None db
          else and_then (record_evidence sha fault x e resolved_at db) (\<lambda>db1.
            weigh_evidence fault attempt_id x t e resolved_at db1))"

definition apply_reconciliation_evidence where
  "apply_reconciliation_evidence sha attempt_id e resolved_at w =
     transaction (op_apply_reconciliation_evidence sha (w_fault w) attempt_id e resolved_at) w"

section \<open>Proven absence\<close>

text \<open>Subtraction of two datetimes raises when only one of them carries an offset.\<close>

definition seconds_since :: "datetime \<Rightarrow> datetime \<Rightarrow> exc + rat" where
  "seconds_since a b = (if (utc_offset a = None) \<noteq> (utc_offset b = None)
     then Inl (TypeError ''can't subtract offset-naive and offset-aware datetimes'')
     else Inr (total_seconds_between a b))"

definition not_found_reason :: string where
  "not_found_reason = ''RECONCILIATION_NOT_FOUND_BOTH_SOURCES''"

text \<open>
  The latest other attempt that ended unresolved for the same reason (\<open>ORDER BY completed_at
  DESC LIMIT 1\<close>, a comparison of texts).
\<close>

definition prior_not_found :: "state_db \<Rightarrow> string \<Rightarrow> string \<Rightarrow> (string \<times> string) option" where
  "prior_not_found db order_id attempt_id =
     (case rev (sort_key snd [(ra_attempt_id a, c). a \<leftarrow> reconciliation_attempts db,
          c \<leftarrow> (case ra_completed_at a of None \<Rightarrow> [] | Some c \<Rightarrow> [c]),
          ra_order_id a = order_id \<and> ra_attempt_id a \<noteq> attempt_id \<and>
          ra_result a = ''UNRESOLVED'' \<and> ra_reason_code a = Some not_found_reason]) of
        [] \<Rightarrow> None | p # _ \<Rightarrow> Some p)"

definition effect_not_found ::
  "(string \<Rightarrow> exc option) \<Rightarrow> string \<Rightarrow> string \<Rightarrow> order_row \<Rightarrow> datetime \<Rightarrow> state_db \<Rightarrow>
   exc + (apply_result \<times> state_db)" where
  "effect_not_found fault attempt_id prior_id x resolved_at db =
     (let iid = ord_intent_id x in
      and_then (transition_order iid RECONCILING resolved_at None None db) (\<lambda>db1.
      and_then (transition_order iid REJECTED resolved_at None None db1) (\<lambda>db2.
      let db3 = db2\<lparr>orders := update_where (\<lambda>y. ord_order_id y = ord_order_id x)
            (\<lambda>y. y\<lparr>ord_resolution_source := Some ''STATUS_QUERY'',
               ord_resolved_at := Some (isoformat resolved_at)\<rparr>) (orders db2)\<rparr>;
          db4 = reconciled_outbox iid ''RECONCILED_NOT_FOUND'' resolved_at db3;
          db5 = release_for_intent iid resolved_at ''RECONCILED_NOT_FOUND''
            (Some (not_found_reason @ '':'' @ prior_id @ '':'' @ attempt_id)) db4 in
      and_then (finish_with attempt_id RA_RESOLVED REJECTED (Some not_found_reason) resolved_at
        None db5) (\<lambda>(res, db6).
      and_then (inject fault ''before_reconciliation_commit'' db6) (\<lambda>db7. Inr (res, db7))))))"

definition op_apply_reconciliation_not_found ::
  "(string \<Rightarrow> exc option) \<Rightarrow> string \<Rightarrow> not_found_evidence \<Rightarrow> rat \<Rightarrow> rat \<Rightarrow> datetime \<Rightarrow> state_db \<Rightarrow>
   exc + (apply_result \<times> state_db)" where
  "op_apply_reconciliation_not_found fault attempt_id e grace interval resolved_at db =
     (case attempt_order db attempt_id of
        None \<Rightarrow> Inl (PersistenceError ''reconciliation attempt is not STARTED'')
      | Some x \<Rightarrow>
          if ord_state x = REJECTED \<and> ord_resolution_source x = Some ''STATUS_QUERY''
          then finish_with attempt_id RA_IDEMPOTENT (ord_state x) (Some not_found_reason)
            resolved_at None db
          else
            and_then (fromisoformat (ord_created_at x)) (\<lambda>submitted_at.
            and_then (seconds_since (nf_observed_at e) submitted_at) (\<lambda>age.
            let prior = prior_not_found db (ord_order_id x) attempt_id in
            and_then (case prior of None \<Rightarrow> Inr False
              | Some (pid, completed) \<Rightarrow> and_then (fromisoformat completed) (\<lambda>prior_completed.
                  and_then (seconds_since (nf_observed_at e) prior_completed) (\<lambda>waited.
                  Inr (waited \<ge> interval)))) (\<lambda>confirmed.
            case prior of
              Some (pid, completed) \<Rightarrow>
                if ord_state x \<noteq> UNKNOWN \<or> age < grace \<or> \<not> confirmed
                then finish_with attempt_id RA_UNRESOLVED (ord_state x) (Some not_found_reason)
                  (nf_observed_at e) None db
                else effect_not_found fault attempt_id pid x resolved_at db
            | None \<Rightarrow> finish_with attempt_id RA_UNRESOLVED (ord_state x) (Some not_found_reason)
                (nf_observed_at e) None db))))"

definition apply_reconciliation_not_found ::
  "string \<Rightarrow> not_found_evidence \<Rightarrow> rat \<Rightarrow> rat \<Rightarrow> datetime \<Rightarrow> writer \<Rightarrow>
   (exc + apply_result) \<times> writer" where
  "apply_reconciliation_not_found attempt_id e grace interval resolved_at w =
     (if \<not> confirms_both_sources e \<or> grace \<le> 0 \<or> interval \<le> 0
      then (Inl (ValueError ''NOT_FOUND reconciliation proof is invalid''), w)
      else transaction (op_apply_reconciliation_not_found (w_fault w) attempt_id e grace interval
        resolved_at) w)"

end
