(* ===== verification/RiskLedger.thy ===== *)
theory RiskLedger
  imports Allocation HealthGate WriterReconciliation
begin

text \<open>
  The risk ledger of the Core (\<open>apps/core/risk.py\<close>). Clock readings, the answer of the port
  that reads the active reservations and the answer of the callback that ends a durable cooldown
  are arguments. Every operation returns its value or exception together with the ledger and the
  optional gate, since the code changes both before it raises. The monotonic clock is a rational
  number of seconds, where the code has a float. The fingerprint of a configuration (SHA-256 of
  its JSON) and the text of a float are the arguments \<open>fp\<close> and \<open>str_of\<close>.
\<close>

section \<open>Data\<close>

datatype risk_state = NORMAL | COOLDOWN | RISK_LOCKED

record global_risk_config =
  gc_global_max_exposure_minor_units :: int
  gc_max_exposure_per_symbol_minor_units :: int
  gc_consolidated_daily_stop_loss_minor_units :: int
  gc_max_consecutive_losses :: int
  gc_reference_currency :: string

definition GlobalRiskConfig :: "global_risk_config \<Rightarrow> exc + global_risk_config" where
  "GlobalRiskConfig c =
     and_then (raise_if (gc_global_max_exposure_minor_units c \<le> 0)
       (ValueError ''global_max_exposure_minor_units must be positive'')) (\<lambda>_.
     and_then (raise_if (gc_max_exposure_per_symbol_minor_units c \<le> 0)
       (ValueError ''max_exposure_per_symbol_minor_units must be positive'')) (\<lambda>_.
     and_then (raise_if
       (gc_max_exposure_per_symbol_minor_units c > gc_global_max_exposure_minor_units c)
       (ValueError ''max_exposure_per_symbol cannot exceed global_max_exposure'')) (\<lambda>_.
     and_then (raise_if (gc_consolidated_daily_stop_loss_minor_units c \<le> 0)
       (ValueError ''consolidated_daily_stop_loss_minor_units must be positive'')) (\<lambda>_.
     and_then (raise_if (gc_max_consecutive_losses c \<le> 0)
       (ValueError ''max_consecutive_losses must be positive'')) (\<lambda>_.
     and_then (raise_if (length (gc_reference_currency c) \<noteq> 3 \<or> \<not> isalpha (gc_reference_currency c))
       (ValueError ''reference_currency must be a 3-letter ISO code'')) (\<lambda>_.
     Inr (c\<lparr>gc_reference_currency := upper (gc_reference_currency c)\<rparr>)))))))"

definition default_risk_config :: global_risk_config where
  "default_risk_config = \<lparr>gc_global_max_exposure_minor_units = 50000,
     gc_max_exposure_per_symbol_minor_units = 20000,
     gc_consolidated_daily_stop_loss_minor_units = 10000, gc_max_consecutive_losses = 3,
     gc_reference_currency = ''USD''\<rparr>"

record restored_exposure =
  ex_reservation_id :: string
  ex_broker :: string
  ex_account_id :: string
  ex_amount :: money
  ex_symbol :: string

record ledger =
  rl_config :: global_risk_config
  rl_digit_config :: digit_risk_config
  rl_digit_daily_pnl :: int
  rl_digit_losses :: int
  rl_cooldown_deadline :: "rat option"
  rl_step :: int
  rl_recovery_symbol :: "string option"
  rl_sequence_loss :: int
  rl_expected_stake :: "int option"
  rl_last_ratio :: "decimal option"
  rl_restored :: "(string \<times> restored_exposure) list"
  rl_daily_pnl :: int
  rl_losses :: int
  rl_state :: risk_state

definition RiskLedger :: "global_risk_config \<Rightarrow> digit_risk_config \<Rightarrow> exc + ledger" where
  "RiskLedger config digit_config = (case validate_digit_risk_config digit_config of
     (False, reason) \<Rightarrow> Inl (ValueError (case reason of None \<Rightarrow> ''None'' | Some r \<Rightarrow> r))
   | (True, _) \<Rightarrow> Inr \<lparr>rl_config = config, rl_digit_config = digit_config, rl_digit_daily_pnl = 0,
       rl_digit_losses = 0, rl_cooldown_deadline = None, rl_step = 0, rl_recovery_symbol = None,
       rl_sequence_loss = 0, rl_expected_stake = None, rl_last_ratio = None, rl_restored = [],
       rl_daily_pnl = 0, rl_losses = 0, rl_state = NORMAL\<rparr>)"

text \<open>The ledger and the gate a call received, if any.\<close>

type_synonym risk = "ledger \<times> gate option"

abbreviation gate_block :: "string \<Rightarrow> gate option \<Rightarrow> gate option" where
  "gate_block r g \<equiv> map_option (block r) g"

abbreviation gate_clear :: "string \<Rightarrow> gate option \<Rightarrow> gate option" where
  "gate_clear r g \<equiv> map_option (clear_if r) g"

section \<open>Active exposure\<close>

text \<open>A row of the store: the symbol of a row is text or absent.\<close>

definition row_invalid :: "payload \<Rightarrow> string list \<Rightarrow> (string \<times> string) list \<Rightarrow> bool" where
  "row_invalid row seen_ids seen_accounts \<longleftrightarrow>
     (let rid = get_item row ''reservation_id''; b = get_item row ''broker'';
          a = get_item row ''account_id'' in
      \<not> is_str rid \<or> blank (the_str rid) \<or> \<not> is_str b \<or> blank (the_str b) \<or>
      \<not> is_str a \<or> blank (the_str a) \<or> \<not> is_int (get_item row ''amount_minor'') \<or>
      the_int (get_item row ''amount_minor'') \<le> 0 \<or> \<not> is_str (get_item row ''currency'') \<or>
      the_str rid \<in> set seen_ids \<or> (the_str b, the_str a) \<in> set seen_accounts)"

fun validate_exposure_rows ::
  "payload list \<Rightarrow> string list \<Rightarrow> (string \<times> string) list \<Rightarrow> exc + restored_exposure list" where
  "validate_exposure_rows [] ids accounts = Inr []"
| "validate_exposure_rows (row # rows) ids accounts =
     (if row_invalid row ids accounts then Inl (ValueError ''invalid persisted risk reservation'')
      else case Money (the_int (get_item row ''amount_minor'')) (the_str (get_item row ''currency'')) of
        Inl _ \<Rightarrow> Inl (ValueError ''invalid persisted risk reservation'')
      | Inr amount \<Rightarrow>
          let rid = the_str (get_item row ''reservation_id''); b = the_str (get_item row ''broker'');
              a = the_str (get_item row ''account_id'') in
          and_then (validate_exposure_rows rows (rid # ids) ((b, a) # accounts)) (\<lambda>rest.
          Inr (\<lparr>ex_reservation_id = rid, ex_broker = b, ex_account_id = a, ex_amount = amount,
            ex_symbol = the_str (get_item row ''symbol'')\<rparr> # rest)))"

definition validate_restored_exposures :: "payload list \<Rightarrow> exc + restored_exposure list" where
  "validate_restored_exposures rows = validate_exposure_rows rows [] []"

definition restore :: "payload list \<Rightarrow> ledger \<Rightarrow> exc + ledger" where
  "restore rows l = and_then (validate_restored_exposures rows) (\<lambda>restored.
     Inr (l\<lparr>rl_restored := map (\<lambda>x. (ex_reservation_id x, x)) restored\<rparr>))"

text \<open>\<open>PersistedActiveExposurePort.active_reservations\<close> on the writer's database.\<close>

definition active_reservations :: "state_db \<Rightarrow> exc + restored_exposure list" where
  "active_reservations db = validate_restored_exposures (list_active_reservations db)"

type_synonym exposure_port = "(exc + restored_exposure list) option"

definition read_active_exposure ::
  "exposure_port \<Rightarrow> risk \<Rightarrow> (exc + restored_exposure list) \<times> risk" where
  "read_active_exposure port = (\<lambda>(l, g). case port of
     None \<Rightarrow> (Inl (RiskLimitExceededError ''HG_EXPOSURE_UNKNOWN''), l, gate_block ''HG_EXPOSURE_UNKNOWN'' g)
   | Some (Inl (RiskLimitExceededError reason)) \<Rightarrow> (Inl (RiskLimitExceededError reason), l, g)
   | Some (Inl _) \<Rightarrow>
       (Inl (RiskLimitExceededError ''HG_EXPOSURE_UNKNOWN''), l, gate_block ''HG_EXPOSURE_UNKNOWN'' g)
   | Some (Inr exposures) \<Rightarrow>
       if list_ex (\<lambda>x. currency (ex_amount x) \<noteq> gc_reference_currency (rl_config l)) exposures
       then (Inl (RiskLimitExceededError ''HG_EXPOSURE_CURRENCY_MISMATCH''), l,
         gate_block ''HG_EXPOSURE_CURRENCY_MISMATCH'' g)
       else (Inr exposures, l,
         gate_clear ''HG_EXPOSURE_CURRENCY_MISMATCH'' (gate_clear ''HG_EXPOSURE_UNKNOWN'' g)))"

text \<open>Ports are compared by identity; a port is configured once.\<close>

definition configure_active_exposure_port :: "'p \<Rightarrow> 'p option \<Rightarrow> exc + 'p option" where
  "configure_active_exposure_port port current = (case current of
     Some p \<Rightarrow> if p \<noteq> port then Inl (ValueError ''active exposure port is already configured'')
       else Inr (Some port)
   | None \<Rightarrow> Inr (Some port))"

definition exposure_total :: "restored_exposure list \<Rightarrow> int" where
  "exposure_total xs = sum_list (map (minor_units \<circ> ex_amount) xs)"

definition exposure_on :: "string \<Rightarrow> restored_exposure list \<Rightarrow> int" where
  "exposure_on canonical xs =
     exposure_total (filter (\<lambda>x. canonicalize_symbol (ex_symbol x) = canonical) xs)"

definition active_exposure_minor_units :: "exposure_port \<Rightarrow> ledger \<Rightarrow> exc + int" where
  "active_exposure_minor_units port l =
     and_then (fst (read_active_exposure port (l, None))) (\<lambda>xs. Inr (exposure_total xs))"

definition active_symbol_exposure_minor_units :: "exposure_port \<Rightarrow> string \<Rightarrow> ledger \<Rightarrow> exc + int" where
  "active_symbol_exposure_minor_units port symbol l =
     and_then (fst (read_active_exposure port (l, None))) (\<lambda>xs.
     Inr (exposure_on (canonicalize_symbol symbol) xs))"

section \<open>The durable digit runtime\<close>

definition digit_runtime_policy ::
  "(digit_risk_config \<Rightarrow> string) \<Rightarrow> (decimal \<Rightarrow> string) \<Rightarrow> ledger \<Rightarrow> payload" where
  "digit_runtime_policy fp str_of l = (let c = rl_digit_config l in
     [(''config_fingerprint'', PStr (fp c)), (''currency'', PStr (dc_currency c)),
      (''martingale_enabled'', PBool (dc_martingale_enabled c)),
      (''martingale_max_steps'', PInt (dc_martingale_max_steps c)),
      (''max_consecutive_losses'', PInt (dc_max_consecutive_losses c)),
      (''cooldown_seconds'', PStr (str_of (dc_cooldown_seconds_after_loss c)))])"

text \<open>\<open>timedelta(seconds=s)\<close> keeps whole microseconds.\<close>

definition timedelta_seconds :: "rat \<Rightarrow> rat" where
  "timedelta_seconds s = of_int (round_half_even (s * 1000000)) / 1000000"

definition restore_digit_runtime ::
  "(digit_risk_config \<Rightarrow> string) \<Rightarrow> rat \<Rightarrow> datetime \<Rightarrow> digit_runtime_row option \<Rightarrow> ledger \<Rightarrow>
   (exc + unit) \<times> ledger" where
  "restore_digit_runtime fp tick now row l = (case row of
     None \<Rightarrow> (Inr (), l)
   | Some r \<Rightarrow>
       if drr_config_fingerprint r \<noteq> fp (rl_digit_config l)
       then (Inl (ValueError ''digit runtime configuration does not match active policy''), l)
       else
         let l1 = l\<lparr>rl_digit_daily_pnl := drr_daily_pnl_minor r,
               rl_digit_losses := drr_consecutive_losses r\<rparr> in
         case BoundedMartingaleState (drr_martingale_step r) of
           Inl e \<Rightarrow> (Inl e, l1)
         | Inr step \<Rightarrow>
             let l2 = l1\<lparr>rl_step := step, rl_recovery_symbol := drr_pinned_symbol r,
                   rl_sequence_loss := drr_cumulative_sequence_loss_minor r\<rparr> in
             (case drr_cooldown_started_at r of
                None \<Rightarrow> (Inr (), l2\<lparr>rl_cooldown_deadline := None\<rparr>)
              | Some started_raw \<Rightarrow>
                  (case and_then (fromisoformat started_raw) (\<lambda>started. seconds_since started now) of
                     Inl e \<Rightarrow> (Inl e, l2)
                   | Inr since \<Rightarrow> (Inr (), l2\<lparr>rl_cooldown_deadline :=
                       Some (tick + max 0 (since + timedelta_seconds (drr_cooldown_seconds r)))\<rparr>))))"

section \<open>The entry check for digit contracts\<close>

text \<open>
  The readings a check takes: the fingerprint function, the two clocks, and what the callback
  that ends a durable cooldown returns if it is called (\<open>None\<close> where there is no callback).
\<close>

record readings =
  rd_fp :: "digit_risk_config \<Rightarrow> string"
  rd_tick :: rat
  rd_now :: datetime
  rd_expirer :: "(exc + digit_runtime_row option) option"

definition sequence_cleared :: "ledger \<Rightarrow> ledger" where
  "sequence_cleared l = l\<lparr>rl_step := 0, rl_recovery_symbol := None, rl_sequence_loss := 0\<rparr>"

text \<open>The branch of a cooldown that has run out.\<close>

definition end_cooldown :: "readings \<Rightarrow> risk \<Rightarrow> (exc + unit) \<times> risk" where
  "end_cooldown rd = (\<lambda>(l, g).
     let l1 = sequence_cleared (l\<lparr>rl_cooldown_deadline := None, rl_digit_losses := 0\<rparr>) in
     case (case rd_expirer rd of
         None \<Rightarrow> (Inr (), l1)
       | Some (Inl e) \<Rightarrow> (Inl e, l1)
       | Some (Inr refreshed) \<Rightarrow> restore_digit_runtime (rd_fp rd) (rd_tick rd) (rd_now rd) refreshed l1) of
       (Inl e, l2) \<Rightarrow> (Inl e, l2, g)
     | (Inr _, l2) \<Rightarrow> (Inr (), l2,
         if rl_state l2 \<noteq> COOLDOWN then gate_clear ''HG_COOLDOWN_ACTIVE'' g else g))"

definition budget_check :: "digit_risk_config \<Rightarrow> risk \<Rightarrow> (exc + (bool \<times> string option)) \<times> risk" where
  "budget_check config = (\<lambda>(l, g).
     if dc_daily_stop_loss_minor_units config + rl_digit_daily_pnl l \<le> 0
     then (Inr (False, Some ''HG_DAILY_STOP_REACHED''), l\<lparr>rl_state := RISK_LOCKED\<rparr>,
       gate_block ''HG_DAILY_STOP_REACHED'' g)
     else (Inr (True, None), l, g))"

definition check_digit_entry ::
  "readings \<Rightarrow> digit_risk_config \<Rightarrow> risk \<Rightarrow> (exc + (bool \<times> string option)) \<times> risk" where
  "check_digit_entry rd config = (\<lambda>(l, g).
     case validate_digit_risk_config config of
       (False, reason) \<Rightarrow> (Inr (False, reason), l, g)
     | (True, _) \<Rightarrow>
         if rl_state l = RISK_LOCKED
         then (Inr (False, Some ''HG_DAILY_STOP_REACHED''), l, gate_block ''HG_DAILY_STOP_REACHED'' g)
         else if rl_digit_daily_pnl l \<le> - dc_daily_stop_loss_minor_units config
         then (Inr (False, Some ''HG_DAILY_STOP_REACHED''), l, gate_block ''HG_DAILY_STOP_REACHED'' g)
         else if rl_digit_daily_pnl l \<ge> dc_daily_take_profit_minor_units config
         then (Inr (False, Some ''HG_DAILY_TAKE_PROFIT_REACHED''), l,
           gate_block ''HG_DAILY_TAKE_PROFIT_REACHED'' g)
         else (case rl_cooldown_deadline l of
             None \<Rightarrow> budget_check config (l, g)
           | Some deadline \<Rightarrow>
               if rd_tick rd < deadline
               then (Inr (False, Some ''HG_COOLDOWN_ACTIVE''), l, gate_block ''HG_COOLDOWN_ACTIVE'' g)
               else (case end_cooldown rd (l, g) of
                   (Inl e, s) \<Rightarrow> (Inl e, s)
                 | (Inr _, s) \<Rightarrow> budget_check config s)))"

definition refresh_digit_health_gate :: "readings \<Rightarrow> risk \<Rightarrow> (exc + unit) \<times> risk" where
  "refresh_digit_health_gate rd = (\<lambda>(l, g).
     case check_digit_entry rd (rl_digit_config l) (l, g) of
       (Inl e, s) \<Rightarrow> (Inl e, s) | (Inr _, s) \<Rightarrow> (Inr (), s))"

section \<open>Stakes\<close>

definition remaining_loss_budget :: "ledger \<Rightarrow> int" where
  "remaining_loss_budget l = dc_daily_stop_loss_minor_units (rl_digit_config l) + rl_digit_daily_pnl l"

definition ledger_recovery_stake :: "ledger \<Rightarrow> decimal \<Rightarrow> exc + int" where
  "ledger_recovery_stake l ratio =
     and_then (bounded_martingale_config (rl_digit_config l)) (\<lambda>cfg.
     and_then (recovery_stake cfg (rl_step l) (rl_sequence_loss l) ratio (remaining_loss_budget l)) (\<lambda>m.
     Inr (minor_units m)))"

text \<open>\<open>except (TypeError, ValueError)\<close>.\<close>

fun is_value_error :: "exc \<Rightarrow> bool" where
  "is_value_error (ValueError _) = True"
| "is_value_error (TypeError _) = True"
| "is_value_error _ = False"

definition current_digit_stake :: "ledger \<Rightarrow> exc + int" where
  "current_digit_stake l = (case rl_expected_stake l of
     Some expected \<Rightarrow> Inr expected
   | None \<Rightarrow>
       if rl_step l \<le> 0 then Inr (dc_stake_minor_units (rl_digit_config l))
       else (case rl_last_ratio l of
           None \<Rightarrow> Inr (dc_stake_minor_units (rl_digit_config l))
         | Some ratio \<Rightarrow> (case ledger_recovery_stake l ratio of
             Inr stake \<Rightarrow> Inr stake
           | Inl e \<Rightarrow> if is_value_error e then Inr (dc_stake_minor_units (rl_digit_config l)) else Inl e)))"

definition digit_stake_minor_units :: "digit_risk_config \<Rightarrow> int \<Rightarrow> exc + int" where
  "digit_stake_minor_units config step =
     (if \<not> dc_martingale_enabled config then Inr (dc_stake_minor_units config)
      else and_then (bounded_martingale_config config) (\<lambda>cfg.
        and_then (stake_for_step cfg step) (\<lambda>m. Inr (minor_units m))))"

text \<open>The stake of an entry the check has let through.\<close>

definition allocate_stake :: "decimal option \<Rightarrow> ledger \<Rightarrow> (exc + money) \<times> ledger" where
  "allocate_stake ratio l =
     (if rl_step l \<le> 0
      then let stake = dc_stake_minor_units (rl_digit_config l) in
        (Money stake (dc_currency (rl_digit_config l)), l\<lparr>rl_expected_stake := Some stake\<rparr>)
      else case ratio of
          None \<Rightarrow> (Inl (RiskLimitExceededError ''DIGIT_MARTINGALE_QUOTE_REQUIRED''), l)
        | Some q \<Rightarrow> (case ledger_recovery_stake l q of
            Inl e \<Rightarrow> (Inl (if is_value_error e
               then RiskLimitExceededError ''DIGIT_MARTINGALE_RECOVERY_UNAFFORDABLE'' else e), l)
          | Inr stake \<Rightarrow> (Money stake (dc_currency (rl_digit_config l)),
              l\<lparr>rl_last_ratio := Some q, rl_expected_stake := Some stake\<rparr>)))"

definition digit_entry_stake ::
  "readings \<Rightarrow> decimal option \<Rightarrow> risk \<Rightarrow> (exc + money) \<times> risk" where
  "digit_entry_stake rd ratio = (\<lambda>(l, g).
     case check_digit_entry rd (rl_digit_config l) (l, g) of
       (Inl e, s) \<Rightarrow> (Inl e, s)
     | (Inr (allowed, reason), l1, g1) \<Rightarrow>
         if \<not> allowed then (Inl (RiskLimitExceededError
           (case reason of None \<Rightarrow> ''DIGIT_RISK_ENTRY_BLOCKED'' | Some r \<Rightarrow> r)), l1, g1)
         else (case allocate_stake ratio l1 of (res, l2) \<Rightarrow> (res, l2, g1)))"

section \<open>Reserving\<close>

text \<open>The checks on a digit product, before those of every order.\<close>

definition digit_reserve_check :: "readings \<Rightarrow> order_request \<Rightarrow> risk \<Rightarrow> (exc + unit) \<times> risk" where
  "digit_reserve_check rd request = (\<lambda>(l, g).
     case check_digit_entry rd (rl_digit_config l) (l, g) of
       (Inl e, s) \<Rightarrow> (Inl e, s)
     | (Inr (allowed, reason), l1, g1) \<Rightarrow>
         if \<not> allowed then (Inl (RiskLimitExceededError
           (case reason of None \<Rightarrow> ''DIGIT_RISK_ENTRY_BLOCKED'' | Some r \<Rightarrow> r)), l1, g1)
         else if dc_martingale_enabled (rl_digit_config l1)
         then
           if rl_expected_stake l1 = None \<and> 0 < rl_step l1
           then (Inl (RiskLimitExceededError ''DIGIT_MARTINGALE_QUOTE_REQUIRED''), l1, g1)
           else (case current_digit_stake l1 of
               Inl e \<Rightarrow> (Inl e, l1, g1)
             | Inr expected \<Rightarrow>
                 if minor_units (req_amount request) \<noteq> expected
                 then (Inl (RiskLimitExceededError ''DIGIT_RISK_STAKE_MISMATCH''), l1, g1)
                 else (Inr (), l1, g1))
         else (Inr (), l1, g1))"

definition ledger_state_check :: "order_request \<Rightarrow> risk \<Rightarrow> (exc + unit) \<times> risk" where
  "ledger_state_check request = (\<lambda>(l, g).
     if rl_state l = RISK_LOCKED
     then (Inl (RiskLimitExceededError ''HG_DAILY_STOP_REACHED''), l, gate_block ''HG_DAILY_STOP_REACHED'' g)
     else if rl_state l = COOLDOWN
     then (Inl (RiskLimitExceededError ''HG_COOLDOWN_ACTIVE''), l, gate_block ''HG_COOLDOWN_ACTIVE'' g)
     else if minor_units (req_amount request) \<le> 0
     then (Inl (ValueError ''risk reservation must be positive''), l, g)
     else (Inr (), l, g))"

definition exposure_check ::
  "exposure_port \<Rightarrow> order_request \<Rightarrow> risk \<Rightarrow> (exc + money) \<times> risk" where
  "exposure_check port request s = (case read_active_exposure port s of
     (Inl e, s1) \<Rightarrow> (Inl e, s1)
   | (Inr exposures, l, g) \<Rightarrow>
       let units = minor_units (req_amount request) in
       if exposure_on (canonicalize_symbol (req_symbol request)) exposures + units >
          gc_max_exposure_per_symbol_minor_units (rl_config l)
       then (Inl (RiskLimitExceededError ''HG_SYMBOL_EXPOSURE_LIMIT_EXCEEDED''), l, g)
       else if exposure_total exposures + units > gc_global_max_exposure_minor_units (rl_config l)
       then (Inl (RiskLimitExceededError ''HG_GLOBAL_EXPOSURE_EXCEEDED''), l, g)
       else (Inr (req_amount request), l\<lparr>rl_expected_stake := None\<rparr>, g))"

definition reserve ::
  "readings \<Rightarrow> exposure_port \<Rightarrow> order_request \<Rightarrow> risk \<Rightarrow> (exc + money) \<times> risk" where
  "reserve rd port request = (\<lambda>(l, g).
     if currency (req_amount request) \<noteq> gc_reference_currency (rl_config l)
     then (Inl (RiskLimitExceededError ''HG_EXPOSURE_CURRENCY_MISMATCH''), l,
       gate_block ''HG_EXPOSURE_CURRENCY_MISMATCH'' g)
     else
       case (if is_bounded_digit_product (req_product request)
             then digit_reserve_check rd request (l, g) else (Inr (), l, g)) of
         (Inl e, s1) \<Rightarrow> (Inl e, s1)
       | (Inr _, s1) \<Rightarrow> (case ledger_state_check request s1 of
           (Inl e, s2) \<Rightarrow> (Inl e, s2)
         | (Inr _, s2) \<Rightarrow> exposure_check port request s2))"

section \<open>Configuration and resets\<close>

definition reset_recovery_fields :: "ledger \<Rightarrow> ledger" where
  "reset_recovery_fields l = (let l1 = l\<lparr>rl_digit_losses := 0, rl_cooldown_deadline := None,
       rl_step := 0, rl_recovery_symbol := None, rl_sequence_loss := 0, rl_expected_stake := None,
       rl_last_ratio := None, rl_losses := 0\<rparr> in
     if rl_state l1 = COOLDOWN then l1\<lparr>rl_state := NORMAL\<rparr> else l1)"

definition reset_digit_recovery_state :: "risk \<Rightarrow> risk" where
  "reset_digit_recovery_state = (\<lambda>(l, g).
     (reset_recovery_fields l, gate_clear ''HG_COOLDOWN_ACTIVE'' g))"

definition update_digit_risk_config ::
  "readings \<Rightarrow> digit_risk_config \<Rightarrow> bool \<Rightarrow> risk \<Rightarrow> (exc + (bool \<times> string option)) \<times> risk" where
  "update_digit_risk_config rd config reset_active = (\<lambda>(l, g).
     case validate_digit_risk_config config of
       (False, reason) \<Rightarrow> (Inr (False, reason), l, g)
     | (True, _) \<Rightarrow>
         let s = (if reset_active then reset_digit_recovery_state (l, g) else (l, g)) in
         if config = rl_digit_config l
         then (case check_digit_entry rd config s of
             (Inl e, s1) \<Rightarrow> (Inl e, s1) | (Inr _, s1) \<Rightarrow> (Inr (True, None), s1))
         else if 0 < rl_step l \<and> dc_martingale_enabled config \<and> \<not> reset_active
         then (Inr (False, Some ''DIGIT_MARTINGALE_SEQUENCE_ACTIVE''), l, g)
         else (case check_digit_entry rd config
               ((fst s)\<lparr>rl_digit_config := config, rl_step := 0\<rparr>, snd s) of
             (Inl e, s1) \<Rightarrow> (Inl e, s1) | (Inr _, s1) \<Rightarrow> (Inr (True, None), s1)))"

definition reset_daily_pnl :: "risk \<Rightarrow> risk" where
  "reset_daily_pnl = (\<lambda>(l, g).
     (sequence_cleared (l\<lparr>rl_daily_pnl := 0, rl_losses := 0, rl_state := NORMAL,
        rl_digit_daily_pnl := 0, rl_digit_losses := 0, rl_cooldown_deadline := None\<rparr>),
      gate_clear ''HG_COOLDOWN_ACTIVE'' (gate_clear ''HG_DAILY_TAKE_PROFIT_REACHED''
        (gate_clear ''HG_DAILY_STOP_REACHED'' g))))"

definition reset_cooldown :: "risk \<Rightarrow> risk" where
  "reset_cooldown = (\<lambda>(l, g).
     (let l1 = sequence_cleared (l\<lparr>rl_losses := 0, rl_digit_losses := 0, rl_cooldown_deadline := None\<rparr>) in
      if rl_state l1 = COOLDOWN then l1\<lparr>rl_state := NORMAL\<rparr> else l1,
      gate_clear ''HG_COOLDOWN_ACTIVE'' g))"

section \<open>Results\<close>

definition apply_realized_pnl :: "int \<Rightarrow> risk \<Rightarrow> risk" where
  "apply_realized_pnl pnl = (\<lambda>(l, g).
     let l1 = l\<lparr>rl_daily_pnl := rl_daily_pnl l + pnl,
           rl_losses := (if pnl < 0 then rl_losses l + 1 else if pnl > 0 then 0 else rl_losses l)\<rparr> in
     if rl_daily_pnl l1 \<le> - gc_consolidated_daily_stop_loss_minor_units (rl_config l)
     then (l1\<lparr>rl_state := RISK_LOCKED\<rparr>, gate_block ''HG_DAILY_STOP_REACHED'' g)
     else if rl_losses l1 \<ge> gc_max_consecutive_losses (rl_config l)
     then (l1\<lparr>rl_state := COOLDOWN\<rparr>, gate_block ''HG_COOLDOWN_ACTIVE'' g)
     else (l1, g))"

text \<open>The configuration of a ledger is valid, so its cooldown is finite.\<close>

definition digit_loss :: "rat \<Rightarrow> int \<Rightarrow> risk \<Rightarrow> risk" where
  "digit_loss tick pnl = (\<lambda>(l, g).
     let c = rl_digit_config l;
         l1 = l\<lparr>rl_sequence_loss := rl_sequence_loss l - pnl, rl_digit_losses := rl_digit_losses l + 1\<rparr>;
         l2 = (if dc_martingale_enabled c \<and> rl_step l < dc_martingale_max_steps c
           then l1\<lparr>rl_step := rl_step l + 1\<rparr> else sequence_cleared l1) in
     if rl_digit_losses l2 \<ge> dc_max_consecutive_losses c
     then (l2\<lparr>rl_cooldown_deadline := Some (tick + (case dc_cooldown_seconds_after_loss c of
         Finite s \<Rightarrow> s | Special \<Rightarrow> 0))\<rparr>, gate_block ''HG_COOLDOWN_ACTIVE'' g)
     else (l2, g))"

definition digit_win :: "int \<Rightarrow> ledger \<Rightarrow> ledger" where
  "digit_win pnl l =
     (let c = rl_digit_config l; outstanding = max 0 (rl_sequence_loss l - pnl);
          l1 = l\<lparr>rl_digit_losses := 0, rl_sequence_loss := outstanding\<rparr> in
      if dc_martingale_enabled c \<and> 0 < outstanding \<and> rl_step l < dc_martingale_max_steps c
      then l1\<lparr>rl_step := rl_step l + 1\<rparr> else sequence_cleared l1)"

definition apply_digit_realized_pnl ::
  "readings \<Rightarrow> int \<Rightarrow> string \<Rightarrow> risk \<Rightarrow> (exc + unit) \<times> risk" where
  "apply_digit_realized_pnl rd pnl cur = (\<lambda>(l, g).
     if cur \<noteq> dc_currency (rl_digit_config l)
     then (Inl (ValueError ''digit P&L currency does not match active configuration''), l, g)
     else
       let l0 = l\<lparr>rl_digit_daily_pnl := rl_digit_daily_pnl l + pnl\<rparr>;
           s = (if pnl < 0 then digit_loss (rd_tick rd) pnl (l0, g)
             else if pnl > 0 then (digit_win pnl l0, g) else (sequence_cleared l0, g)) in
       (case check_digit_entry rd (rl_digit_config l) ((fst s)\<lparr>rl_expected_stake := None\<rparr>, snd s) of
          (Inl e, s1) \<Rightarrow> (Inl e, s1) | (Inr _, s1) \<Rightarrow> (Inr (), s1)))"

section \<open>The compatibility snapshot\<close>

definition register_active_reservation ::
  "exposure_port \<Rightarrow> restored_exposure \<Rightarrow> ledger \<Rightarrow> exc + ledger" where
  "register_active_reservation port x l =
     and_then (raise_if (blank (ex_reservation_id x) \<or> blank (ex_broker x) \<or> blank (ex_account_id x) \<or>
       minor_units (ex_amount x) \<le> 0) (ValueError ''invalid active risk reservation'')) (\<lambda>_.
     and_then (raise_if (currency (ex_amount x) \<noteq> gc_reference_currency (rl_config l))
       (ValueError ''active risk reservation currency does not match reference currency'')) (\<lambda>_.
     and_then (fst (read_active_exposure port (l, None))) (\<lambda>persisted.
     and_then (raise_if (list_ex (\<lambda>y. ex_reservation_id y \<noteq> ex_reservation_id x \<and>
         ex_broker y = ex_broker x \<and> ex_account_id y = ex_account_id x) persisted)
       (ValueError ''account already has an active risk reservation'')) (\<lambda>_.
     case map_of (rl_restored l) (ex_reservation_id x) of
       Some y \<Rightarrow> if y \<noteq> x then Inl (ValueError ''active risk reservation cannot be overwritten'')
         else Inr (l\<lparr>rl_restored := AList.update (ex_reservation_id x) x (rl_restored l)\<rparr>)
     | None \<Rightarrow> Inr (l\<lparr>rl_restored := AList.update (ex_reservation_id x) x (rl_restored l)\<rparr>)))))"

definition release_restored :: "string \<Rightarrow> ledger \<Rightarrow> ledger" where
  "release_restored rid l = l\<lparr>rl_restored := AList.delete rid (rl_restored l)\<rparr>"

section \<open>Metrics\<close>

record digit_metrics =
  dm_daily_pnl_minor_units :: int
  dm_consecutive_losses :: int
  dm_cooldown_remaining_seconds :: int
  dm_martingale_step :: int
  dm_next_stake_minor_units :: int
  dm_projected_sequence_loss_minor_units :: int
  dm_recovery_symbol :: "string option"
  dm_cumulative_sequence_loss_minor_units :: int

definition get_digit_metrics :: "rat \<Rightarrow> ledger \<Rightarrow> exc + digit_metrics" where
  "get_digit_metrics tick l =
     and_then (current_digit_stake l) (\<lambda>next_stake.
     and_then (projected_martingale_stakes (rl_digit_config l)) (\<lambda>stakes.
     Inr \<lparr>dm_daily_pnl_minor_units = rl_digit_daily_pnl l, dm_consecutive_losses = rl_digit_losses l,
       dm_cooldown_remaining_seconds =
         (case rl_cooldown_deadline l of None \<Rightarrow> 0 | Some d \<Rightarrow> max 0 \<lceil>d - tick\<rceil>),
       dm_martingale_step = rl_step l, dm_next_stake_minor_units = next_stake,
       dm_projected_sequence_loss_minor_units = sum_list stakes,
       dm_recovery_symbol = rl_recovery_symbol l,
       dm_cumulative_sequence_loss_minor_units = rl_sequence_loss l\<rparr>))"

record risk_metrics =
  rm_global_exposure_minor_units :: int
  rm_global_max_exposure_minor_units :: int
  rm_consolidated_daily_pnl_minor_units :: int
  rm_consecutive_losses :: int
  rm_risk_state :: risk_state

definition get_metrics :: "exposure_port \<Rightarrow> ledger \<Rightarrow> exc + risk_metrics" where
  "get_metrics port l = and_then (active_exposure_minor_units port l) (\<lambda>total.
     Inr \<lparr>rm_global_exposure_minor_units = total,
       rm_global_max_exposure_minor_units = gc_global_max_exposure_minor_units (rl_config l),
       rm_consolidated_daily_pnl_minor_units = rl_daily_pnl l,
       rm_consecutive_losses = rl_losses l, rm_risk_state = rl_state l\<rparr>)"

end
