(* ===== verification/Reader.thy ===== *)
theory Reader
  imports RiskLedger
begin

text \<open>
  The read-only projections of \<open>packages/persistence/reader.py\<close> on the tables of the writer.
  A join is a list comprehension, \<open>ORDER BY\<close> a stable sort on the text of the columns, and a
  timestamp boundary is compared as text, as SQLite does.
\<close>

section \<open>Lookups\<close>

definition order_for_intent :: "string \<Rightarrow> state_db \<Rightarrow> order_row option" where
  "order_for_intent iid db = List.find (\<lambda>x. ord_intent_id x = iid) (orders db)"

definition reservation_for_intent :: "string \<Rightarrow> state_db \<Rightarrow> risk_reservation_row option" where
  "reservation_for_intent iid db = List.find (\<lambda>r. rr_intent_id r = iid) (risk_reservations db)"

definition outbox_for_intent :: "string \<Rightarrow> state_db \<Rightarrow> outbox_row option" where
  "outbox_for_intent iid db = List.find (\<lambda>m. om_intent_id m = iid) (outbox_messages db)"

text \<open>\<open>list_by_state\<close> on each of the three tables it accepts.\<close>

definition orders_by_state :: "order_state \<Rightarrow> state_db \<Rightarrow> order_row list" where
  "orders_by_state s db = sort_key ord_created_at (filter (\<lambda>x. ord_state x = s) (orders db))"

definition reservations_by_state :: "risk_reservation_state \<Rightarrow> state_db \<Rightarrow> risk_reservation_row list" where
  "reservations_by_state s db =
     sort_key rr_created_at (filter (\<lambda>r. rr_state r = s) (risk_reservations db))"

definition outbox_by_state :: "outbox_state \<Rightarrow> state_db \<Rightarrow> outbox_row list" where
  "outbox_by_state s db = sort_key om_created_at (filter (\<lambda>m. om_state m = s) (outbox_messages db))"

text \<open>The columns of a reservation row the risk ledger reads.\<close>

definition reservation_payload :: "risk_reservation_row \<Rightarrow> payload" where
  "reservation_payload r = [(''reservation_id'', PStr (rr_reservation_id r)),
     (''broker'', PStr (broker_value (rr_broker r))), (''account_id'', PStr (rr_account_id r)),
     (''amount_minor'', PInt (rr_amount_minor r)), (''currency'', PStr (rr_currency r))]"

section \<open>Orders in progress\<close>

definition list_nonterminal_orders :: "state_db \<Rightarrow> (order_row \<times> trade_intent_row) list" where
  "list_nonterminal_orders db = sort_key (ord_created_at \<circ> fst)
     [(x, t). x \<leftarrow> orders db, t \<leftarrow> trade_intents db,
        ti_intent_id t = ord_intent_id x \<and> ord_state x \<notin> {SETTLED, REJECTED}]"

definition has_nonterminal_deriv_digit_order :: "state_db \<Rightarrow> bool" where
  "has_nonterminal_deriv_digit_order db \<longleftrightarrow>
     [(x, t). x \<leftarrow> orders db, t \<leftarrow> trade_intents db, ti_intent_id t = ord_intent_id x \<and>
        ord_broker x = Broker_DERIV \<and> ti_product t \<in> set DERIV_BOUNDED_STAKE_PRODUCTS \<and>
        ord_state x \<notin> {SETTLED, REJECTED}] \<noteq> []"

record candidate =
  ca_order :: order_row
  ca_intent :: trade_intent_row
  ca_outbox :: outbox_row
  ca_reservation :: risk_reservation_row

definition candidate_rows :: "state_db \<Rightarrow> candidate list" where
  "candidate_rows db =
     [\<lparr>ca_order = x, ca_intent = t, ca_outbox = m, ca_reservation = r\<rparr>. x \<leftarrow> orders db,
        t \<leftarrow> filter (\<lambda>t. ti_intent_id t = ord_intent_id x) (trade_intents db),
        m \<leftarrow> filter (\<lambda>m. om_intent_id m = ord_intent_id x) (outbox_messages db),
        r \<leftarrow> filter (\<lambda>r. rr_intent_id r = ord_intent_id x) (risk_reservations db)]"

definition has_conflict :: "state_db \<Rightarrow> string \<Rightarrow> bool" where
  "has_conflict db oid \<longleftrightarrow>
     list_ex (\<lambda>a. ra_order_id a = oid \<and> ra_result a = ''CONFLICT'') (reconciliation_attempts db)"

definition list_reconciliation_candidates :: "state_db \<Rightarrow> candidate list" where
  "list_reconciliation_candidates db = sort_key (ord_created_at \<circ> ca_order)
     (filter (\<lambda>c. ord_state (ca_order c) \<in> {ACCEPTED, OPEN, UNKNOWN, SETTLEMENT_UNKNOWN} \<and>
        \<not> has_conflict db (ord_order_id (ca_order c))) (candidate_rows db))"

definition reconciliation_candidate :: "string \<Rightarrow> state_db \<Rightarrow> candidate option" where
  "reconciliation_candidate oid db =
     List.find (\<lambda>c. ord_order_id (ca_order c) = oid) (candidate_rows db)"

section \<open>History of an order\<close>

definition reconciliation_attempts_for_order :: "string \<Rightarrow> state_db \<Rightarrow> attempt_row list" where
  "reconciliation_attempts_for_order oid db = sort_key (\<lambda>a. (ra_started_at a, ra_attempt_id a))
     (filter (\<lambda>a. ra_order_id a = oid) (reconciliation_attempts db))"

definition reconciliation_evidence_for_order :: "string \<Rightarrow> state_db \<Rightarrow> evidence_row list" where
  "reconciliation_evidence_for_order oid db = sort_key (\<lambda>v. (rev_observed_at v, rev_evidence_id v))
     (filter (\<lambda>v. rev_order_id v = oid) (evidences db))"

definition broker_events_for_order :: "string \<Rightarrow> state_db \<Rightarrow> event_row list" where
  "broker_events_for_order oid db = sort_key (\<lambda>v. (boe_created_at v, boe_event_id v))
     (filter (\<lambda>v. boe_order_id v = Some oid) (broker_order_events db))"

definition financial_effect_counts :: "string \<Rightarrow> state_db \<Rightarrow> exc + (int \<times> int)" where
  "financial_effect_counts oid db =
     (case [(ord_pnl_application_count x, rr_release_count r). x \<leftarrow> orders db,
          r \<leftarrow> risk_reservations db, rr_intent_id r = ord_intent_id x \<and> ord_order_id x = oid] of
        [] \<Rightarrow> Inl (ValueError ''order not found'') | p # _ \<Rightarrow> Inr p)"

section \<open>Results\<close>

definition is_utc_boundary :: "datetime \<Rightarrow> bool" where
  "is_utc_boundary t \<longleftrightarrow> utc_offset t = Some 0"

definition optional_utc_boundary :: "datetime option \<Rightarrow> exc + string option" where
  "optional_utc_boundary value = (case value of None \<Rightarrow> Inr None
     | Some t \<Rightarrow> if \<not> is_utc_boundary t
         then Inl (ValueError ''projection boundary must be timezone-aware UTC'')
         else Inr (Some (isoformat t)))"

definition settled_results :: "state_db \<Rightarrow> (order_row \<times> trade_intent_row \<times> int) list" where
  "settled_results db = [(x, t, pnl). x \<leftarrow> orders db,
     t \<leftarrow> filter (\<lambda>t. ti_intent_id t = ord_intent_id x \<and> ord_state x = SETTLED) (trade_intents db),
     pnl \<leftarrow> (case ord_realized_pnl_minor x of None \<Rightarrow> [] | Some p \<Rightarrow> [p])]"

definition daily_realized_pnl_by_currency ::
  "datetime \<Rightarrow> state_db \<Rightarrow> exc + (string \<times> int) list" where
  "daily_realized_pnl_by_currency since db =
     (if \<not> is_utc_boundary since
      then Inl (ValueError ''P&L projection boundary must be timezone-aware UTC'')
      else let rows = filter (\<lambda>(x, t, pnl). ord_updated_at x \<ge> isoformat since) (settled_results db) in
        Inr (map (\<lambda>c. (c, sum_list [pnl. (x, t, pnl) \<leftarrow> rows, ti_currency t = c]))
          (sort (remdups (map (\<lambda>(x, t, pnl). ti_currency t) rows)))))"

definition ui_order_summaries ::
  "int \<Rightarrow> datetime option \<Rightarrow> state_db \<Rightarrow> exc + (order_row \<times> trade_intent_row) list" where
  "ui_order_summaries limit since db =
     (if \<not> (1 \<le> limit \<and> limit \<le> 100)
      then Inl (ValueError ''UI order projection limit is outside bounds'')
      else and_then (optional_utc_boundary since) (\<lambda>boundary.
        Inr (take (nat limit) (rev (sort_key (\<lambda>(x, t). (ord_created_at x, ord_order_id x))
          [(x, t). x \<leftarrow> orders db, t \<leftarrow> trade_intents db, ti_intent_id t = ord_intent_id x \<and>
             (case boundary of None \<Rightarrow> True | Some b \<Rightarrow> ord_created_at x \<ge> b)])))))"

text \<open>The newest settlements of each strategy and symbol, at most \<open>limit\<close> of each.\<close>

definition deriv_recent_strategy_settlements ::
  "int \<Rightarrow> datetime option \<Rightarrow> state_db \<Rightarrow> exc + (order_row \<times> trade_intent_row \<times> int) list" where
  "deriv_recent_strategy_settlements limit since db =
     (if \<not> (1 \<le> limit \<and> limit \<le> 200)
      then Inl (ValueError ''strategy settlement projection limit is outside bounds'')
      else and_then (optional_utc_boundary since) (\<lambda>boundary.
        let rows = filter (\<lambda>(x, t, pnl). ord_broker x = Broker_DERIV \<and>
              (case boundary of None \<Rightarrow> True | Some b \<Rightarrow> ord_updated_at x \<ge> b)) (settled_results db);
            scope = (\<lambda>(x, t, pnl). (ti_strategy_id t, ti_symbol t));
            newest = (\<lambda>k. take (nat limit) (rev (sort_key
              (\<lambda>(x, t, pnl). (ord_updated_at x, ord_order_id x)) (filter (\<lambda>r. scope r = k) rows)))) in
        Inr (sort_key (\<lambda>(x, t, pnl). (ti_strategy_id t, ti_symbol t, ord_updated_at x, ord_order_id x))
          (concat (map newest (remdups (map scope rows)))))))"

record strategy_performance =
  sp_settled_count :: int
  sp_wins :: "int option"
  sp_losses :: "int option"
  sp_total_pnl_minor :: "int option"
  sp_avg_win_minor :: "rat option"
  sp_avg_loss_minor :: "rat option"
  sp_last_settled_at :: "string option"

text \<open>SQL aggregates over no rows are \<open>NULL\<close>.\<close>

definition sql_sum :: "int list \<Rightarrow> int option" where
  "sql_sum xs = (if xs = [] then None else Some (sum_list xs))"

definition sql_avg :: "int list \<Rightarrow> rat option" where
  "sql_avg xs = (if xs = [] then None else Some (of_int (sum_list xs) / of_nat (length xs)))"

definition deriv_strategy_performance ::
  "string \<Rightarrow> string \<Rightarrow> int \<Rightarrow> state_db \<Rightarrow> exc + strategy_performance" where
  "deriv_strategy_performance strategy_id symbol limit db =
     and_then (raise_if (blank strategy_id \<or> length strategy_id > 128)
       (ValueError ''strategy performance identity is invalid'')) (\<lambda>_.
     and_then (raise_if (blank symbol \<or> length symbol > 64)
       (ValueError ''strategy performance symbol is invalid'')) (\<lambda>_.
     and_then (raise_if (\<not> (30 \<le> limit \<and> limit \<le> 1000))
       (ValueError ''strategy performance limit is outside bounds'')) (\<lambda>_.
     let rows = take (nat limit) (rev (sort_key (\<lambda>(x, t, pnl). (ord_updated_at x, ord_order_id x))
           (filter (\<lambda>(x, t, pnl). ord_broker x = Broker_DERIV \<and> ti_strategy_id t = strategy_id \<and>
              ti_symbol t = symbol) (settled_results db))));
         pnls = map (\<lambda>(x, t, pnl). pnl) rows in
     Inr \<lparr>sp_settled_count = int (length rows),
       sp_wins = sql_sum (map (\<lambda>p. if p > 0 then 1 else 0) pnls),
       sp_losses = sql_sum (map (\<lambda>p. if p < 0 then 1 else 0) pnls),
       sp_total_pnl_minor = sql_sum pnls,
       sp_avg_win_minor = sql_avg (filter (\<lambda>p. p > 0) pnls),
       sp_avg_loss_minor = sql_avg (map uminus (filter (\<lambda>p. p < 0) pnls)),
       sp_last_settled_at = (if rows = [] then None
         else Some (Max (set (map (\<lambda>(x, t, pnl). ord_updated_at x) rows))))\<rparr>)))"

text \<open>\<open>parsed.astimezone(UTC)\<close> denotes the same instant; the instant is what is returned.\<close>

definition digit_test_session_started_at :: "state_db \<Rightarrow> exc + int option" where
  "digit_test_session_started_at db = (case digit_risk_runtime db of
     None \<Rightarrow> Inr None
   | Some row \<Rightarrow> (case drr_session_started_at row of
       None \<Rightarrow> Inr None
     | Some value \<Rightarrow> (case fromisoformat value of
         Inl _ \<Rightarrow> Inl (ValueError ''digit test session boundary is invalid'')
       | Inr parsed \<Rightarrow>
           if utc_offset parsed = None
           then Inl (ValueError ''digit test session boundary is invalid'')
           else Inr (Some (instant parsed)))))"

end
