(* ===== verification/WriterInv.thy ===== *)
theory WriterInv
  imports WriterReconciliation WriterQueues
begin

text \<open>
  The invariant of the financial state and what its history never undoes. The tables of intents,
  reservations, outbox messages and orders grow in lockstep, a reservation is released exactly
  when its order is terminal, an account has at most one active reservation, a profit or loss is
  applied at most once and a message is claimed at most once. Every operation of the writer
  preserves this and refines an abstract machine that holds at most one exposure per account.
\<close>

section \<open>The invariant\<close>

text \<open>
  An order beside its reservation. Between the statement that makes an order terminal and the
  one that releases its reservation the two disagree: \<open>moved\<close> names the intent this is true of.
\<close>

definition pair_ok :: "string option \<Rightarrow> order_row \<Rightarrow> risk_reservation_row \<Rightarrow> bool" where
  "pair_ok moved x r \<longleftrightarrow>
     ord_intent_id x = rr_intent_id r \<and> ord_broker x = rr_broker r \<and>
     ord_account_id x = rr_account_id r \<and>
     rr_release_count r = (if rr_state r = RELEASED then 1 else 0) \<and>
     (if moved = Some (ord_intent_id x) then is_terminal (ord_state x)
      else rr_state r = RELEASED \<longleftrightarrow> is_terminal (ord_state x))"

definition intent_ok :: "trade_intent_row \<Rightarrow> risk_reservation_row \<Rightarrow> bool" where
  "intent_ok t r \<longleftrightarrow> ti_intent_id t = rr_intent_id r \<and> ti_broker t = rr_broker r \<and>
     ti_account_id t = rr_account_id r \<and> ti_amount_minor t = rr_amount_minor r \<and>
     ti_currency t = rr_currency r \<and> 0 < rr_amount_minor r"

definition order_ok :: "order_row \<Rightarrow> bool" where
  "order_ok x \<longleftrightarrow> 0 \<le> ord_pnl_application_count x \<and> ord_pnl_application_count x \<le> 1 \<and>
     (ord_pnl_application_count x = 1 \<longrightarrow> ord_state x = SETTLED)"

definition outbox_ok :: "outbox_row \<Rightarrow> bool" where
  "outbox_ok m \<longleftrightarrow> 0 \<le> om_attempt_count m \<and> om_attempt_count m \<le> 1 \<and>
     (om_state m = OB_PENDING \<longrightarrow> om_attempt_count m = 0) \<and>
     get_item (om_payload m) ''message_id'' = PStr (om_message_id m)"

definition runtime_ok :: "digit_runtime_row \<Rightarrow> bool" where
  "runtime_ok r \<longleftrightarrow> runtime_checks r \<and> drr_martingale_step r \<le> 4"

definition keys_ok :: "state_db \<Rightarrow> bool" where
  "keys_ok db \<longleftrightarrow> distinct (map ti_intent_id (trade_intents db)) \<and>
     map ord_intent_id (orders db) = map ti_intent_id (trade_intents db) \<and>
     map om_intent_id (outbox_messages db) = map ti_intent_id (trade_intents db) \<and>
     distinct (map ord_order_id (orders db)) \<and>
     distinct (map rr_reservation_id (risk_reservations db)) \<and>
     distinct (map om_message_id (outbox_messages db)) \<and>
     distinct (map boe_event_id (broker_order_events db))"

definition db_inv :: "string option \<Rightarrow> state_db \<Rightarrow> bool" where
  "db_inv moved db \<longleftrightarrow> keys_ok db \<and>
     list_all2 intent_ok (trade_intents db) (risk_reservations db) \<and>
     list_all2 (pair_ok moved) (orders db) (risk_reservations db) \<and>
     list_all order_ok (orders db) \<and> list_all outbox_ok (outbox_messages db) \<and>
     distinct (active_scopes (risk_reservations db)) \<and>
     pred_option runtime_ok (digit_risk_runtime db)"

section \<open>History\<close>

abbreviation order_path :: "order_state \<Rightarrow> order_state \<Rightarrow> bool" where
  "order_path \<equiv> (\<lambda>a b. b \<in> set (allowed_transitions a))\<^sup>*\<^sup>*"

definition order_evolves :: "order_row \<Rightarrow> order_row \<Rightarrow> bool" where
  "order_evolves x y \<longleftrightarrow> ord_order_id y = ord_order_id x \<and> ord_intent_id y = ord_intent_id x \<and>
     ord_broker y = ord_broker x \<and> ord_account_id y = ord_account_id x \<and>
     order_path (ord_state x) (ord_state y) \<and>
     (is_terminal (ord_state x) \<longrightarrow> ord_realized_pnl_minor y = ord_realized_pnl_minor x \<and>
        ord_pnl_application_count y = ord_pnl_application_count x)"

definition reservation_evolves :: "risk_reservation_row \<Rightarrow> risk_reservation_row \<Rightarrow> bool" where
  "reservation_evolves r s \<longleftrightarrow> rr_reservation_id s = rr_reservation_id r \<and>
     rr_intent_id s = rr_intent_id r \<and> rr_broker s = rr_broker r \<and>
     rr_account_id s = rr_account_id r \<and> rr_amount_minor s = rr_amount_minor r \<and>
     rr_currency s = rr_currency r \<and> (rr_state r = RELEASED \<longrightarrow> s = r)"

definition outbox_evolves :: "outbox_row \<Rightarrow> outbox_row \<Rightarrow> bool" where
  "outbox_evolves m n \<longleftrightarrow> om_message_id n = om_message_id m \<and> om_intent_id n = om_intent_id m \<and>
     om_payload n = om_payload m \<and> om_attempt_count m \<le> om_attempt_count n \<and>
     (om_state m \<noteq> OB_PENDING \<longrightarrow>
        om_state n \<noteq> OB_PENDING \<and> om_attempt_count n = om_attempt_count m)"

definition event_evolves :: "event_row \<Rightarrow> event_row \<Rightarrow> bool" where
  "event_evolves a b \<longleftrightarrow> boe_event_id b = boe_event_id a \<and> boe_order_id b = boe_order_id a \<and>
     boe_external_sequence b = boe_external_sequence a \<and> boe_evidence_hash b = boe_evidence_hash a"

text \<open>
  The abstract machine of exposure: a map from the account (with its broker) to the one
  exposure it carries.
\<close>

type_synonym exposure_map = "broker \<times> string \<Rightarrow> (string \<times> int \<times> string) option"

inductive exposure_step :: "exposure_map \<Rightarrow> exposure_map \<Rightarrow> bool" where
  acquire: "e scope = None \<Longrightarrow> 0 < amount \<Longrightarrow> exposure_step e (e(scope \<mapsto> (iid, amount, cur)))"
| release: "e scope \<noteq> None \<Longrightarrow> exposure_step e (e(scope := None))"

definition exposure_entries ::
  "risk_reservation_row list \<Rightarrow> ((broker \<times> string) \<times> string \<times> int \<times> string) list" where
  "exposure_entries t = map (\<lambda>r. ((rr_broker r, rr_account_id r),
     (rr_intent_id r, rr_amount_minor r, rr_currency r))) (filter (\<lambda>r. rr_state r = ACTIVE) t)"

definition exposure :: "state_db \<Rightarrow> exposure_map" where
  "exposure db = map_of (exposure_entries (risk_reservations db))"

definition db_evolves :: "state_db \<Rightarrow> state_db \<Rightarrow> bool" where
  "db_evolves db db' \<longleftrightarrow> extends (=) (trade_intents db) (trade_intents db') \<and>
     extends reservation_evolves (risk_reservations db) (risk_reservations db') \<and>
     extends outbox_evolves (outbox_messages db) (outbox_messages db') \<and>
     extends order_evolves (orders db) (orders db') \<and>
     extends event_evolves (broker_order_events db) (broker_order_events db') \<and>
     exposure_step\<^sup>*\<^sup>* (exposure db) (exposure db')"

definition preserve :: "string option \<Rightarrow> string option \<Rightarrow> state_db \<Rightarrow> state_db \<Rightarrow> bool" where
  "preserve m m' db db' \<longleftrightarrow> (db_inv m db \<longrightarrow> db_inv m' db' \<and> db_evolves db db')"

section \<open>Laws of the history relations\<close>

interpretation order_lifecycle: lifecycle allowed_transitions is_terminal
  by unfold_locales (auto simp: is_terminal_def)

lemma order_evolves_refl [simp]: "order_evolves x x"
  by (simp add: order_evolves_def)

lemma order_evolves_trans: "order_evolves x y \<Longrightarrow> order_evolves y z \<Longrightarrow> order_evolves x z"
  by (auto simp: order_evolves_def dest: order_lifecycle.path_from_final intro: rtranclp_trans)

lemma reservation_evolves_refl [simp]: "reservation_evolves r r"
  by (simp add: reservation_evolves_def)

lemma reservation_evolves_trans:
  "reservation_evolves r s \<Longrightarrow> reservation_evolves s t \<Longrightarrow> reservation_evolves r t"
  by (auto simp: reservation_evolves_def)

lemma outbox_evolves_refl [simp]: "outbox_evolves m m"
  by (simp add: outbox_evolves_def)

lemma outbox_evolves_trans: "outbox_evolves a b \<Longrightarrow> outbox_evolves b c \<Longrightarrow> outbox_evolves a c"
  by (auto simp: outbox_evolves_def)

lemma event_evolves_refl [simp]: "event_evolves a a"
  by (simp add: event_evolves_def)

lemma event_evolves_trans: "event_evolves a b \<Longrightarrow> event_evolves b c \<Longrightarrow> event_evolves a c"
  by (auto simp: event_evolves_def)

lemmas evolves_refls = extends_refl [of order_evolves, OF order_evolves_refl]
  extends_refl [of outbox_evolves, OF outbox_evolves_refl]
  extends_refl [of reservation_evolves, OF reservation_evolves_refl]
  extends_refl [of event_evolves, OF event_evolves_refl]
  extends_refl [of "(=)", OF refl]

lemma db_evolves_refl [simp]: "db_evolves db db"
  by (simp add: db_evolves_def evolves_refls)

lemma db_evolves_trans: "db_evolves a b \<Longrightarrow> db_evolves b c \<Longrightarrow> db_evolves a c"
  unfolding db_evolves_def
  by (blast intro: extends_trans [where R = order_evolves] order_evolves_trans
      extends_trans [where R = outbox_evolves] outbox_evolves_trans
      extends_trans [where R = reservation_evolves] reservation_evolves_trans
      extends_trans [where R = event_evolves] event_evolves_trans
      extends_trans [where R = "(=)"] rtranclp_trans trans)

lemma preserve_refl [simp]: "preserve m m db db"
  by (simp add: preserve_def)

lemma preserve_trans: "preserve m m' a b \<Longrightarrow> preserve m' m'' b c \<Longrightarrow> preserve m m'' a c"
  unfolding preserve_def by (blast intro: db_evolves_trans)

section \<open>The statements the operations are made of\<close>

text \<open>Updates of columns the invariant does not read.\<close>

lemma preserve_note_orders:
  assumes "\<And>y. P y \<Longrightarrow> ord_order_id (f y) = ord_order_id y \<and> ord_intent_id (f y) = ord_intent_id y \<and>
     ord_broker (f y) = ord_broker y \<and> ord_account_id (f y) = ord_account_id y \<and>
     ord_state (f y) = ord_state y \<and> ord_realized_pnl_minor (f y) = ord_realized_pnl_minor y \<and>
     ord_pnl_application_count (f y) = ord_pnl_application_count y"
  shows "preserve m m db (db\<lparr>orders := update_where P f (orders db)\<rparr>)"
proof -
  have keys: "map ord_intent_id (update_where P f (orders db)) = map ord_intent_id (orders db)"
    "map ord_order_id (update_where P f (orders db)) = map ord_order_id (orders db)"
    using assms by (simp_all add: update_where_def)
  have pair: "pair_ok m (if P x then f x else x) r = pair_ok m x r" for x r
    using assms by (simp add: pair_ok_def)
  have "order_ok (if P x then f x else x) = order_ok x" for x
    using assms by (simp add: order_ok_def)
  moreover have "extends order_evolves (orders db) (update_where P f (orders db))"
    by (rule extends_update_where) (use assms in \<open>auto simp: order_evolves_def\<close>)
  ultimately show ?thesis
    by (simp add: preserve_def db_inv_def keys_ok_def keys list_all2_update_where1 pair
        list_all_update_where db_evolves_def evolves_refls exposure_def)
qed

lemma preserve_outbox:
  assumes "\<And>y. P y \<Longrightarrow> outbox_evolves y (f y) \<and> (outbox_ok y \<longrightarrow> outbox_ok (f y))"
  shows "preserve m m db (db\<lparr>outbox_messages := update_where P f (outbox_messages db)\<rparr>)"
proof -
  have keys: "map om_intent_id (update_where P f (outbox_messages db)) =
      map om_intent_id (outbox_messages db)"
    "map om_message_id (update_where P f (outbox_messages db)) =
      map om_message_id (outbox_messages db)"
    using assms by (simp_all add: update_where_def outbox_evolves_def)
  have "list_all outbox_ok (outbox_messages db) \<Longrightarrow>
      list_all outbox_ok (update_where P f (outbox_messages db))"
    unfolding list_all_update_where using assms by (auto simp: list_all_iff)
  moreover have "extends outbox_evolves (outbox_messages db) (update_where P f (outbox_messages db))"
    by (rule extends_update_where) (use assms in auto)
  ultimately show ?thesis
    by (simp add: preserve_def db_inv_def keys_ok_def keys db_evolves_def evolves_refls exposure_def)
qed

lemma preserve_events:
  assumes "\<And>y. event_evolves y (f y)"
  shows "preserve m m db (db\<lparr>broker_order_events := update_where P f (broker_order_events db)\<rparr>)"
proof -
  have keys: "map boe_event_id (update_where P f (broker_order_events db)) =
      map boe_event_id (broker_order_events db)"
    using assms by (simp add: update_where_def event_evolves_def)
  have "extends event_evolves (broker_order_events db) (update_where P f (broker_order_events db))"
    by (rule extends_update_where) (use assms in auto)
  then show ?thesis
    by (simp add: preserve_def db_inv_def keys_ok_def keys db_evolves_def evolves_refls exposure_def)
qed

lemma preserve_tables [simp]:
  "preserve m m db (db\<lparr>reconciliation_attempts := a\<rparr>)"
  "preserve m m db (db\<lparr>evidences := v\<rparr>)"
  "preserve m m db (db\<lparr>processed_order_events := p\<rparr>)"
  "preserve m m db (db\<lparr>sprt_monitors := s\<rparr>)"
  "preserve m m db (db\<lparr>outcomes_queue := q\<rparr>)"
  "preserve m m db (db\<lparr>outcomes_sequence := n\<rparr>)"
  by (simp_all add: preserve_def db_inv_def keys_ok_def db_evolves_def evolves_refls exposure_def)

text \<open>Moving an order, and releasing the reservation of an order that has become terminal.\<close>

lemma order_of_intent_unique:
  assumes "keys_ok db" and "order_of_intent db iid = Some x"
    and "y \<in> set (orders db)" and "ord_intent_id y = iid"
  shows "y = x"
proof -
  have "distinct (map ord_intent_id (orders db))" using assms(1) by (simp add: keys_ok_def)
  then show ?thesis
    using find_distinct [of ord_intent_id "orders db" y iid] assms by (simp add: order_of_intent_def)
qed

lemma db_inv_settled:
  assumes "db_inv None db" and "\<And>y. y \<in> set (orders db) \<Longrightarrow> ord_intent_id y = iid \<Longrightarrow> is_terminal (ord_state y)"
  shows "db_inv (Some iid) db"
proof -
  have "list_all2 (pair_ok (Some iid)) (orders db) (risk_reservations db)"
    using assms by (auto simp: db_inv_def pair_ok_def elim!: list.rel_mono_strong)
  then show ?thesis using assms(1) by (simp add: db_inv_def)
qed

lemma moved_order_evolves:
  assumes "new_state \<in> set (allowed_transitions (ord_state x))"
  shows "order_evolves x (moved_order new_state changed_at b pnl x)"
  using assms order_lifecycle.step_from_nonfinal [OF assms]
  by (auto simp: order_evolves_def moved_order_def)

lemma moved_order_ok:
  assumes "order_ok x" and "new_state \<in> set (allowed_transitions (ord_state x))"
  shows "order_ok (moved_order new_state changed_at b pnl x)"
proof -
  have "ord_state x \<noteq> SETTLED" using assms(2) by (cases "ord_state x") auto
  then have "ord_pnl_application_count x = 0" using assms(1) by (auto simp: order_ok_def)
  then show ?thesis by (auto simp: order_ok_def moved_order_def)
qed

lemma preserve_transition:
  assumes "transition_order iid s changed_at b pnl db = Inr db'"
  shows "preserve None (if is_terminal s then Some iid else None) db db'"
proof -
  obtain x where x: "order_of_intent db iid = Some x"
    using assms by (auto simp: transition_order_def split: option.splits)
  show ?thesis
  proof (cases "ord_state x = s")
    case True
    then have "db' = db" using assms x by (simp add: transition_order_def)
    then show ?thesis
      using True order_of_intent_unique [OF _ x] db_inv_settled [of db iid]
      by (auto simp: preserve_def db_inv_def)
  next
    case False
    then have allowed: "s \<in> set (allowed_transitions (ord_state x))" and
      db': "db' = db\<lparr>orders := update_where (\<lambda>x. ord_intent_id x = iid)
            (moved_order s changed_at b pnl) (orders db)\<rparr>"
      using assms x by (auto simp: transition_order_def split: if_splits)
    have "db_inv (if is_terminal s then Some iid else None) db' \<and> db_evolves db db'"
      if inv: "db_inv None db"
    proof -
      have only: "y = x" if "y \<in> set (orders db)" "ord_intent_id y = iid" for y
        using order_of_intent_unique [OF _ x that] inv by (simp add: db_inv_def)
      have keys: "map ord_intent_id (orders db') = map ord_intent_id (orders db)"
        "map ord_order_id (orders db') = map ord_order_id (orders db)"
        by (simp_all add: db' map_update_where moved_order_def)
      have "list_all2 (pair_ok (if is_terminal s then Some iid else None)) (orders db')
          (risk_reservations db)"
        unfolding db' using inv order_lifecycle.step_from_nonfinal [OF allowed]
        by (auto simp: db_inv_def list_all2_update_where1 pair_ok_def moved_order_def dest!: only
            elim!: list.rel_mono_strong)
      moreover have "list_all order_ok (orders db')"
      proof -
        have all: "list_all order_ok (orders db)" using inv by (simp add: db_inv_def)
        have "order_ok (if ord_intent_id y = iid then moved_order s changed_at b pnl y else y)"
          if "y \<in> set (orders db)" for y
          using only [OF that] that all allowed moved_order_ok [of y] by (auto simp: list_all_iff)
        then have "list_all (\<lambda>y. order_ok (if ord_intent_id y = iid
            then moved_order s changed_at b pnl y else y)) (orders db)"
          by (simp only: list_all_iff Ball_def) blast
        then show ?thesis unfolding db' by (simp add: list_all_update_where)
      qed
      moreover have "extends order_evolves (orders db) (orders db')"
        unfolding db' using allowed only moved_order_evolves [of s]
        by (auto intro!: extends_update_where)
      ultimately show ?thesis
        using inv keys by (simp add: db_inv_def keys_ok_def db_evolves_def evolves_refls db' exposure_def)
    qed
    then show ?thesis by (simp add: preserve_def)
  qed
qed

lemma exposure_entries_distinct:
  "distinct (active_scopes t) \<Longrightarrow> distinct (map fst (exposure_entries t))"
  by (simp add: active_scopes_def exposure_entries_def comp_def)

text \<open>Removing the entries of one intent from the exposure removes at most one account.\<close>

lemma exposure_remove:
  assumes "distinct (map fst es)" and "distinct (map (fst \<circ> snd) es)"
  shows "exposure_step\<^sup>*\<^sup>* (map_of es) (map_of (filter (\<lambda>e. fst (snd e) \<noteq> iid) es))"
proof (cases "\<exists>e\<in>set es. fst (snd e) = iid")
  case False
  then have "filter (\<lambda>e. fst (snd e) \<noteq> iid) es = es" by (auto simp: filter_id_conv)
  then show ?thesis by simp
next
  case True
  then obtain k v where e: "(k, v) \<in> set es" "fst v = iid" by auto
  have only: "k' = k" if "(k', v') \<in> set es" "fst v' = iid" for k' v'
    using inj_onD [of "fst \<circ> snd" "set es" "(k', v')" "(k, v)"] assms(2) e that
    by (simp add: distinct_map)
  have sub: "distinct (map fst (filter (\<lambda>e. fst (snd e) \<noteq> iid) es))"
    using assms(1) by (simp add: distinct_map_filter)
  have at: "map_of es k = Some v" using e(1) assms(1) by (simp add: map_of_is_SomeI)
  have "map_of (filter (\<lambda>e. fst (snd e) \<noteq> iid) es) k' = Some v' \<longleftrightarrow>
      ((map_of es)(k := None)) k' = Some v'" for k' v'
    using only [of k' v'] at e(2)
    by (auto simp: map_of_eq_Some_iff [OF sub] map_of_eq_Some_iff [OF assms(1), symmetric])
  then have "map_of (filter (\<lambda>e. fst (snd e) \<noteq> iid) es) = (map_of es)(k := None)"
    by (intro ext) (metis not_Some_eq)
  moreover have "map_of es k \<noteq> None" using at by simp
  ultimately show ?thesis by (auto intro: exposure_step.release r_into_rtranclp)
qed

lemma preserve_release:
  "preserve (Some iid) None db (release_for_intent iid released_at reason evidence db)"
proof -
  let ?P = "\<lambda>r. rr_intent_id r = iid \<and> rr_state r = ACTIVE" and ?f = "released_row released_at reason evidence"
  let ?t = "risk_reservations db"
  have active: "filter (\<lambda>r. rr_state r = ACTIVE) (update_where ?P ?f t) =
      filter (\<lambda>r. rr_intent_id r \<noteq> iid) (filter (\<lambda>r. rr_state r = ACTIVE) t)" for t
    by (induction t) (auto simp: update_where_def released_row_def)
  have "db_inv None (release_for_intent iid released_at reason evidence db) \<and>
      db_evolves db (release_for_intent iid released_at reason evidence db)"
    if inv: "db_inv (Some iid) db"
  proof -
    have "list_all2 intent_ok (trade_intents db) (update_where ?P ?f ?t)"
      using inv by (auto simp: db_inv_def list_all2_update_where2 intent_ok_def released_row_def
          elim!: list.rel_mono_strong)
    moreover have "list_all2 (pair_ok None) (orders db) (update_where ?P ?f ?t)"
      using inv by (auto simp: db_inv_def list_all2_update_where2 pair_ok_def released_row_def
          elim!: list.rel_mono_strong intro: risk_reservation_state.exhaust split: if_splits)
    moreover have "distinct (active_scopes (update_where ?P ?f ?t))"
      using inv unfolding active_scopes_def active db_inv_def by (blast intro: distinct_map_filter)
    moreover have "map rr_reservation_id (update_where ?P ?f ?t) = map rr_reservation_id ?t"
      by (simp add: map_update_where released_row_def)
    moreover have "extends reservation_evolves ?t (update_where ?P ?f ?t)"
      by (rule extends_update_where) (simp add: reservation_evolves_def released_row_def)
    moreover have "exposure_step\<^sup>*\<^sup>* (map_of (exposure_entries ?t))
        (map_of (exposure_entries (update_where ?P ?f ?t)))"
    proof -
      have "map rr_intent_id ?t = map ti_intent_id (trade_intents db)"
        using inv by (auto simp: db_inv_def intent_ok_def list_all2_conv_all_nth intro!: nth_equalityI)
      then have "distinct (map rr_intent_id ?t)" using inv by (simp add: db_inv_def keys_ok_def)
      then have "distinct (map (fst \<circ> snd) (exposure_entries ?t))"
        by (simp add: exposure_entries_def comp_def distinct_map_filter)
      then show ?thesis
        using exposure_remove [of "exposure_entries ?t" iid] exposure_entries_distinct [of ?t] inv
        by (simp add: db_inv_def exposure_entries_def active filter_map comp_def)
    qed
    ultimately show ?thesis
      using inv by (simp add: db_inv_def keys_ok_def release_for_intent_def db_evolves_def
          evolves_refls exposure_def)
  qed
  then show ?thesis by (simp add: preserve_def)
qed

text \<open>Inserting into the tables that record what happened.\<close>

lemma preserve_insert_event: "insert_event r db = Inr db' \<Longrightarrow> preserve m m db db'"
  by (auto simp: insert_event_def raises preserve_def db_inv_def keys_ok_def db_evolves_def
      evolves_refls exposure_def extends_snoc)

lemma preserve_insert_records:
  "insert_processed_event p db = Inr db' \<Longrightarrow> preserve m m db db'"
  "insert_evidence v db = Inr db' \<Longrightarrow> preserve m m db db'"
  "insert_attempt a db = Inr db' \<Longrightarrow> preserve m m db db'"
  by (auto simp: insert_defs raises)

lemma preserve_inject: "inject fault stage db = Inr db' \<Longrightarrow> preserve m m db db'"
  by (simp add: raises)

lemma preserve_runtime:
  assumes "put_runtime r db = Inr db'" and "db_inv m db \<Longrightarrow> drr_martingale_step r \<le> 4"
  shows "preserve m m db db'"
  using assms by (auto simp: put_runtime_def raises preserve_def db_inv_def keys_ok_def db_evolves_def
      evolves_refls exposure_def runtime_ok_def)

text \<open>The settlement of a digit contract keeps the recovery step within its bound.\<close>

lemma settled_runtime_step:
  assumes "runtime_ok r"
  shows "drr_martingale_step (settled_runtime symbol pnl oid sid now r) \<le> 4"
  using assms by (auto simp: settled_runtime_def settle_loss_def settle_win_def settle_even_def
      runtime_ok_def runtime_checks_def Let_def)

lemma settled_runtime_checks:
  assumes "runtime_checks r"
  shows "runtime_checks (settled_runtime symbol pnl oid sid now r)"
  using assms by (auto simp: settled_runtime_def settle_loss_def settle_win_def settle_even_def
      runtime_checks_def Let_def)

lemma preserve_settlement:
  assumes "apply_digit_runtime_settlement product symbol cur pnl oid sid now db = Inr db'"
  shows "preserve m m db db'"
  using assms
  by (auto simp: apply_digit_runtime_settlement_def db_inv_def settled_runtime_step
      split: if_splits option.splits elim!: preserve_runtime)

lemma preserve_reconciled: "preserve m m db (reconciled_outbox iid reason now db)"
  unfolding reconciled_outbox_def
  by (rule preserve_outbox) (auto simp: outbox_evolves_def outbox_ok_def)

lemmas preserve_intros = preserve_refl preserve_tables preserve_inject preserve_insert_event
  preserve_insert_records preserve_settlement preserve_reconciled preserve_release
  preserve_transition

section \<open>Persisting an order\<close>

lemma exposure_insert:
  assumes "rr_state r = ACTIVE" and "(rr_broker r, rr_account_id r) \<notin> set (active_scopes t)"
    and "0 < rr_amount_minor r"
  shows "exposure_step\<^sup>*\<^sup>* (map_of (exposure_entries t)) (map_of (exposure_entries (t @ [r])))"
proof -
  let ?k = "(rr_broker r, rr_account_id r)"
  have free: "map_of (exposure_entries t) ?k = None"
    using assms(2) by (simp add: map_of_eq_None_iff exposure_entries_def active_scopes_def
        image_image comp_def)
  have "map_of (exposure_entries (t @ [r])) =
      (map_of (exposure_entries t))(?k \<mapsto> (rr_intent_id r, rr_amount_minor r, rr_currency r))"
    using assms(1) free by (auto simp: exposure_entries_def map_add_def fun_eq_iff split: option.splits)
  then show ?thesis
    using exposure_step.acquire [of "map_of (exposure_entries t)" ?k "rr_amount_minor r"] free assms(3)
    by (simp add: r_into_rtranclp)
qed

lemma op_persist_shape:
  assumes "op_persist fault request command iid rid oid now g s c db = Inr (u, db')"
  shows "db' = db\<lparr>trade_intents := trade_intents db @ [new_intent_row request iid now],
      risk_reservations := risk_reservations db @ [new_reservation_row request rid iid now],
      outbox_messages := outbox_messages db @ [new_outbox_row request command iid now],
      orders := orders db @ [new_order_row request oid iid now]\<rparr> \<and>
    persist_limits request g s c db = Inr () \<and>
    0 < minor_units (req_amount request) \<and>
    iid \<notin> set (map ti_intent_id (trade_intents db)) \<and>
    rid \<notin> set (map rr_reservation_id (risk_reservations db)) \<and>
    (req_broker request, req_account_id request) \<notin> set (active_scopes (risk_reservations db)) \<and>
    cmd_message_id command \<notin> set (map om_message_id (outbox_messages db)) \<and>
    oid \<notin> set (map ord_order_id (orders db))"
  using assms
  by (auto simp: op_persist_def raises insert_trade_intent_def insert_reservation_def
      insert_outbox_def insert_order_def new_intent_row_def new_reservation_row_def
      new_outbox_row_def new_order_row_def)

lemma preserve_persist:
  assumes "op_persist fault request command iid rid oid now g s c db = Inr (u, db')"
  shows "preserve None None db db'"
proof -
  note shape = op_persist_shape [OF assms]
  have "list_all2 (pair_ok None) [new_order_row request oid iid now]
      [new_reservation_row request rid iid now]"
    by (simp add: pair_ok_def new_order_row_def new_reservation_row_def is_terminal_def)
  moreover have "list_all2 intent_ok [new_intent_row request iid now]
      [new_reservation_row request rid iid now]"
    using shape by (simp add: intent_ok_def new_intent_row_def new_reservation_row_def)
  moreover have "order_ok (new_order_row request oid iid now)" "outbox_ok (new_outbox_row request command iid now)"
    by (simp_all add: order_ok_def new_order_row_def outbox_ok_def new_outbox_row_def
        command_to_payload_def)
  moreover have "exposure_step\<^sup>*\<^sup>* (exposure db) (exposure db')"
    using shape exposure_insert [of "new_reservation_row request rid iid now" "risk_reservations db"]
    by (simp add: exposure_def new_reservation_row_def)
  ultimately show ?thesis
    using shape
    by (auto simp: preserve_def db_inv_def keys_ok_def db_evolves_def extends_snoc evolves_refls
        intro!: list_all2_appendI
        simp: active_scopes_def new_intent_row_def new_reservation_row_def new_outbox_row_def
          new_order_row_def)
qed

section \<open>Every operation\<close>

lemma is_terminal_simps [simp]:
  "is_terminal SETTLED" "is_terminal REJECTED" "\<not> is_terminal OUTBOXED"
  "\<not> is_terminal DISPATCHING" "\<not> is_terminal ACCEPTED" "\<not> is_terminal OPEN"
  "\<not> is_terminal UNKNOWN" "\<not> is_terminal RECONCILING" "\<not> is_terminal SETTLEMENT_UNKNOWN"
  "\<not> is_terminal MANUAL_REVIEW" "\<not> is_terminal SEND_BLOCKED"
  by (simp_all add: is_terminal_def)

lemma preserve_move:
  "transition_order iid s changed_at b pnl db = Inr db' \<Longrightarrow> \<not> is_terminal s \<Longrightarrow> preserve None None db db'"
  using preserve_transition by fastforce

lemma preserve_terminate:
  "transition_order iid s changed_at b pnl db = Inr db' \<Longrightarrow> is_terminal s \<Longrightarrow>
   preserve None None db (release_for_intent iid released_at reason evidence db')"
  using preserve_trans [OF _ preserve_release, of None iid db db']
    preserve_transition [of iid s changed_at b pnl db db'] by simp

lemma preserve_move_or_terminate:
  "transition_order iid s changed_at b pnl db = Inr db' \<Longrightarrow>
   preserve None None db (if is_terminal s
     then release_for_intent iid released_at reason evidence db' else db')"
  using preserve_move preserve_terminate by auto

lemma preserve_claim:
  assumes "op_claim_next_message claimed_at brk acc db = Inr (c, db')"
  shows "preserve None None db db'"
proof (cases "claim_rows claimed_at brk acc db")
  case Nil
  then show ?thesis using assms by (simp add: op_claim_next_message_def)
next
  case (Cons row rows)
  obtain m x where row: "row = (m, x)" by (cases row)
  let ?hit = "\<lambda>y. om_message_id y = om_message_id m \<and> om_state y = OB_PENDING"
  let ?db1 = "db\<lparr>outbox_messages := update_where ?hit (claimed_row claimed_at) (outbox_messages db)\<rparr>"
  have 1: "preserve None None db ?db1"
    by (rule preserve_outbox) (auto simp: outbox_evolves_def outbox_ok_def claimed_row_def)
  have "db' = ?db1 \<or> transition_order (om_intent_id m) DISPATCHING claimed_at None None ?db1 = Inr db'"
    using assms Cons row by (auto simp: op_claim_next_message_def raises Let_def split: if_splits)
  then show ?thesis
    using preserve_trans [OF 1 preserve_move] 1 by auto
qed

lemma preserve_dispatch_result:
  assumes "op_record_dispatch_result command outcome b reason now db = Inr (u, db')"
  shows "preserve None None db db'"
proof -
  obtain out_state s why where st: "dispatch_states outcome reason = Inr (out_state, s, why)"
    using assms by (auto simp: op_record_dispatch_result_def raises)
  then have out: "out_state \<noteq> OB_PENDING" and s: "is_terminal s \<longleftrightarrow> s = REJECTED"
    by (auto simp: dispatch_states_def split: if_splits)
  let ?f = "\<lambda>m. m\<lparr>om_state := out_state,
     om_dispatched_at := (if out_state = OB_DISPATCHED then Some (isoformat now) else None),
     om_state_reason := why\<rparr>"
  let ?db1 = "db\<lparr>outbox_messages := update_where (\<lambda>m. om_message_id m = cmd_message_id command) ?f
     (outbox_messages db)\<rparr>"
  have 1: "preserve None None db ?db1"
    by (rule preserve_outbox) (use out in \<open>auto simp: outbox_evolves_def outbox_ok_def\<close>)
  obtain db2 where 2: "transition_order (cmd_intent_id command) s now b None ?db1 = Inr db2"
    and 3: "db' = (if s = REJECTED then release_for_intent (cmd_intent_id command) now
       ''BROKER_REJECTED'' None db2 else db2)"
    using assms st by (auto simp: op_record_dispatch_result_def raises)
  show ?thesis
    using preserve_trans [OF 1 preserve_move_or_terminate [OF 2]] 3 s by simp
qed

lemma preserve_not_sent:
  assumes "op_record_dispatch_not_sent command reason now db = Inr (u, db')"
  shows "preserve None None db db'"
proof -
  let ?hit = "\<lambda>m. om_message_id m = cmd_message_id command \<and> om_state m = OB_DISPATCHING"
  let ?db1 = "db\<lparr>outbox_messages := update_where ?hit
     (\<lambda>m. m\<lparr>om_state := OB_BLOCKED_NOT_SENT, om_state_reason := Some reason\<rparr>) (outbox_messages db)\<rparr>"
  have 1: "preserve None None db ?db1"
    by (rule preserve_outbox) (auto simp: outbox_evolves_def outbox_ok_def)
  have 2: "transition_order (cmd_intent_id command) SEND_BLOCKED now None None ?db1 = Inr db'"
    using assms by (auto simp: op_record_dispatch_not_sent_def raises Let_def)
  show ?thesis using preserve_trans [OF 1 preserve_move [OF 2]] by simp
qed

lemma preserve_cancel_dispatch:
  assumes "op_cancel_expired_before_dispatch command now db = Inr (u, db')"
  shows "preserve None None db db'"
proof -
  let ?db1 = "db\<lparr>outbox_messages := update_where
     (\<lambda>m. om_message_id m = cmd_message_id command \<and> om_state m = OB_DISPATCHING)
     (\<lambda>m. m\<lparr>om_state := OB_CANCELLED, om_state_reason := Some ''CANCELLED_EXPIRED''\<rparr>)
     (outbox_messages db)\<rparr>"
  have 1: "preserve None None db ?db1"
    by (rule preserve_outbox) (auto simp: outbox_evolves_def outbox_ok_def)
  obtain db2 where "transition_order (cmd_intent_id command) REJECTED now None None ?db1 = Inr db2"
    and "db' = release_for_intent (cmd_intent_id command) now ''DEADLINE_EXPIRED_BEFORE_DISPATCH'' None db2"
    using assms by (auto simp: op_cancel_expired_before_dispatch_def raises Let_def)
  then show ?thesis using preserve_trans [OF 1 preserve_terminate] by simp
qed

lemma preserve_recover_rows: "recover_rows now rows db = Inr db' \<Longrightarrow> preserve None None db db'"
proof (induction rows arbitrary: db)
  case Nil
  then show ?case by simp
next
  case (Cons row rows)
  let ?db1 = "db\<lparr>outbox_messages := update_where
     (\<lambda>m. om_intent_id m = om_intent_id row \<and> om_state m = OB_DISPATCHING)
     (\<lambda>m. m\<lparr>om_state := OB_AMBIGUOUS, om_state_reason := Some ''INTERRUPTED_DISPATCH''\<rparr>)
     (outbox_messages db)\<rparr>"
  have 1: "preserve None None db ?db1"
    by (rule preserve_outbox) (auto simp: outbox_evolves_def outbox_ok_def)
  obtain db2 where 2: "transition_order (om_intent_id row) UNKNOWN now None None ?db1 = Inr db2"
    and 3: "recover_rows now rows db2 = Inr db'"
    using Cons.prems by (auto simp: raises Let_def)
  show ?case
    using preserve_trans [OF preserve_trans [OF 1 preserve_move [OF 2]] Cons.IH [OF 3]] by simp
qed

lemma preserve_cancel_rows:
  "cancel_rows now rows cancelled db = Inr (c, db') \<Longrightarrow> preserve None None db db'"
proof (induction rows arbitrary: cancelled db)
  case Nil
  then show ?case by simp
next
  case (Cons row rows)
  obtain m x where row: "row = (m, x)" by (cases row)
  let ?db1 = "db\<lparr>outbox_messages := update_where
     (\<lambda>y. om_message_id y = om_message_id m \<and> om_state y = OB_PENDING)
     (\<lambda>y. y\<lparr>om_state := OB_CANCELLED, om_state_reason := Some ''CANCELLED_EXPIRED''\<rparr>)
     (outbox_messages db)\<rparr>"
  have 1: "preserve None None db ?db1"
    by (rule preserve_outbox) (auto simp: outbox_evolves_def outbox_ok_def)
  consider (keep) "cancel_rows now rows cancelled db = Inr (c, db')"
    | (cancel) db2 where "transition_order (om_intent_id m) REJECTED now None None ?db1 = Inr db2"
        and "cancel_rows now rows (cancelled @ [om_message_id m])
          (release_for_intent (om_intent_id m) now ''DEADLINE_EXPIRED_ON_RECOVERY'' None db2) =
          Inr (c, db')"
    using Cons.prems row by (auto simp: raises Let_def split: if_splits)
  then show ?case
  proof cases
    case keep
    then show ?thesis by (rule Cons.IH)
  next
    case cancel
    show ?thesis
      using preserve_trans [OF preserve_trans [OF 1 preserve_terminate [OF cancel(1)]]
          Cons.IH [OF cancel(2)]] by simp
  qed
qed

lemma preserve_broker_event:
  assumes "op_apply_broker_event event now db = Inr (applied, db')"
  shows "preserve None None db db'"
proof (cases "be_event_id event \<in> set (map poe_event_id (processed_order_events db))")
  case True
  then show ?thesis using assms by (simp add: op_apply_broker_event_def)
next
  case False
  let ?s = "be_new_state event"
  obtain db1 db2 where 1: "transition_order (be_intent_id event) ?s (be_occurred_at event)
      (be_broker_order_id event) (be_realized_pnl_minor event) db = Inr db1"
    and 2: "\<exists>p. insert_processed_event p db1 = Inr db2"
    and 3: "db' = (if is_terminal ?s then release_for_intent (be_intent_id event)
       (be_occurred_at event) (''ORDER_'' @ order_state_value ?s) (Some (be_event_id event)) db2
       else db2)"
    using assms False by (auto simp: op_apply_broker_event_def raises is_terminal_def)
  have 4: "preserve None (if is_terminal ?s then Some (be_intent_id event) else None) db db2"
    using preserve_trans [OF preserve_transition [OF 1] preserve_insert_records(1)] 2 by blast
  then show ?thesis using 3 preserve_trans [OF _ preserve_release] by auto
qed

lemma reservation_with_order_SomeD:
  assumes "reservation_with_order db rid = Some (r, x)"
  shows "r \<in> set (risk_reservations db) \<and> x \<in> set (orders db) \<and>
    ord_intent_id x = rr_intent_id r \<and> rr_reservation_id r = rid"
  using find_SomeD [OF assms [unfolded reservation_with_order_def]] by auto

lemma preserve_release_reservation:
  assumes "op_release_reservation rid now db = Inr (u, db')"
  shows "preserve None None db db'"
proof -
  obtain r x where rx: "reservation_with_order db rid = Some (r, x)"
    using assms by (auto simp: op_release_reservation_def split: option.splits)
  have "db_inv None db' \<and> db_evolves db db'" if inv: "db_inv None db"
  proof (cases "rr_state r = RELEASED")
    case True
    then show ?thesis using assms rx inv by (simp add: op_release_reservation_def)
  next
    case False
    then have x: "is_terminal (ord_state x)" and
      db': "db' = release_for_intent (rr_intent_id r) now ''NORMAL_TERMINAL_RELEASE'' None db"
      using assms rx by (auto simp: op_release_reservation_def is_terminal_def split: if_splits)
    have "order_of_intent db (rr_intent_id r) = Some x"
      using find_distinct [of ord_intent_id "orders db" x] reservation_with_order_SomeD [OF rx] inv
      by (simp add: order_of_intent_def db_inv_def keys_ok_def)
    then have "db_inv (Some (rr_intent_id r)) db"
      using db_inv_settled [OF inv] order_of_intent_unique x inv by (metis db_inv_def)
    then show ?thesis using preserve_release by (simp add: preserve_def db')
  qed
  then show ?thesis by (simp add: preserve_def)
qed

lemma preserve_release_after:
  assumes "op_release_after_reconciliation rid s evidence now db = Inr (u, db')" and "is_terminal s"
  shows "preserve None None db db'"
proof -
  obtain r x where rx: "reservation_with_order db rid = Some (r, x)"
    using assms by (auto simp: op_release_after_reconciliation_def split: option.splits)
  obtain db1 db2 where
    1: "db1 = db \<or> transition_order (rr_intent_id r) RECONCILING now None None db = Inr db1" and
    2: "transition_order (rr_intent_id r) s now None None db1 = Inr db2" and
    3: "db' = release_for_intent (rr_intent_id r) now ''EXPLICIT_RECONCILIATION'' (Some evidence) db2"
    using assms rx by (auto simp: op_release_after_reconciliation_def raises split: if_splits)
  have "preserve None None db db1" using 1 preserve_move by auto
  then show ?thesis using preserve_trans preserve_terminate [OF 2 assms(2)] 3 by blast
qed

text \<open>Normalized broker events.\<close>

lemma preserve_finish_event:
  assumes "finish_event fault x e target amb res now db = Inr (res', db')"
  shows "preserve (if is_terminal target then Some (ord_intent_id x) else None) None db db'"
proof -
  let ?m = "if is_terminal target then Some (ord_intent_id x) else None"
  define db1 where "db1 = db\<lparr>orders := update_where (\<lambda>y. ord_order_id y = ord_order_id x)
            (noted_order e amb now) (orders db)\<rparr>"
  define db2 where "db2 = (if amb then reconciled_outbox (ord_intent_id x)
      (''RECONCILED_EVENT_'' @ external_status_value (ev_external_status e)) now db1 else db1)"
  define db3 where "db3 = (if target \<in> {REJECTED, SETTLED} then release_for_intent (ord_intent_id x)
      (ev_occurred_at e) (''BROKER_EVENT_'' @ order_state_value target) (Some (ev_event_id e)) db2
      else db2)"
  have 1: "preserve ?m ?m db db1"
    unfolding db1_def by (rule preserve_note_orders) (simp add: noted_order_def)
  have 2: "preserve ?m ?m db1 db2"
    unfolding db2_def by (simp add: preserve_reconciled)
  have 3: "preserve ?m None db2 db3"
    unfolding db3_def using preserve_release by (auto simp: is_terminal_def)
  have 4: "preserve None None db3 db'"
    using assms unfolding finish_event_def Let_def db1_def [symmetric] db2_def [symmetric] db3_def [symmetric]
    by (auto simp: raises preserve_settlement split: option.splits if_splits)
  show ?thesis by (rule preserve_trans [OF preserve_trans [OF 1 2] preserve_trans [OF 3 4]])
qed

text \<open>The outcomes of a move, and the stages of an effect.\<close>

lemma move_event_cases:
  assumes "move_event fault x e target amb res0 now db = Inr (res, db')"
  obtains (same) "(if amb then RECONCILING else ord_state x) = target"
      "finish_event fault x e target amb res0 now db = Inr (res, db')"
    | (conflict) "\<exists>a b. transition_order (ord_intent_id x) target (ev_occurred_at e)
          (Some (ev_broker_order_id e)) (ev_result_minor e) db = Inl (InvalidOrderTransition a b)"
        "er_status res = EV_CONFLICT"
        "db' = db\<lparr>broker_order_events := update_where (\<lambda>y. boe_event_id y = ev_event_id e)
          state_conflict_event (broker_order_events db)\<rparr>"
    | (moved) db3 where "transition_order (ord_intent_id x) target (ev_occurred_at e)
          (Some (ev_broker_order_id e)) (ev_result_minor e) db = Inr db3"
        "finish_event fault x e target amb res0 now db3 = Inr (res, db')"
  using assms by (auto simp: move_event_def event_result_def split: if_splits sum.splits exc.splits)

lemma effect_event_stages:
  assumes "effect_event fault x e target now db = Inr (res, db')"
  obtains status reason db0 db2 where
    "insert_event (new_event_row e (Some (ord_order_id x)) status reason now) db = Inr db0"
    "status \<in> {EV_APPLIED, EV_APPLIED_WITH_GAP}"
    "(if ord_state x \<in> ambiguous_states
       then transition_order (ord_intent_id x) RECONCILING (ev_observed_at e) None None db0
       else Inr db0) = Inr db2"
    "move_event fault x e target (ord_state x \<in> ambiguous_states)
       (event_result status (Some target) reason) now db2 = Inr (res, db')"
proof -
  obtain status reason where p: "event_progress x e = (status, reason)"
    by (cases "event_progress x e")
  have st: "status \<in> {EV_APPLIED, EV_APPLIED_WITH_GAP}"
    using p by (auto simp: event_progress_def split: if_splits)
  show thesis
    using assms that [OF _ st, of reason]
    unfolding effect_event_def p Let_def prod.case and_then_eq_Inr inject_eq_Inr by blast
qed

lemma preserve_move_event:
  assumes "move_event fault x e target amb res0 now db = Inr (res, db')"
    and "\<not> is_terminal (ord_state x)"
  shows "preserve None None db db'"
  using assms(1)
proof (cases rule: move_event_cases)
  case same
  then have "\<not> is_terminal target" using assms(2) by (auto split: if_splits)
  then show ?thesis using preserve_finish_event [OF same(2)] by simp
next
  case conflict
  show ?thesis
    unfolding conflict by (rule preserve_events) (simp add: event_evolves_def state_conflict_event_def)
next
  case moved
  show ?thesis
    by (rule preserve_trans [OF preserve_transition [OF moved(1)] preserve_finish_event [OF moved(2)]])
qed

lemma effect_event_steps:
  assumes eff: "effect_event fault x e target now db = Inr (res, db')"
    and live: "\<not> is_terminal (ord_state x)"
  obtains r db0 where "insert_event r db = Inr db0" "boe_event_id r = ev_event_id e"
    "boe_evidence_hash r = ev_evidence_hash e" "preserve None None db0 db'"
  using eff
proof (cases rule: effect_event_stages)
  case (1 status reason db0 db2)
  have "preserve None None db0 db2" using preserve_move 1(3) by (auto split: if_splits)
  then have 2: "preserve None None db0 db'"
    by (rule preserve_trans [OF _ preserve_move_event [OF 1(4) live]])
  show thesis by (rule that [OF 1(1) _ _ 2]) (simp_all add: new_event_row_def)
qed

lemma preserve_effect_event:
  assumes "effect_event fault x e target now db = Inr (res, db')" and "\<not> is_terminal (ord_state x)"
  shows "preserve None None db db'"
proof -
  obtain r db0 where "insert_event r db = Inr db0" and 1: "preserve None None db0 db'"
    using effect_event_steps [OF assms] by metis
  then show ?thesis using preserve_trans [OF preserve_insert_event 1] by simp
qed

lemma classify_event_open:
  "classify_event x t e db = Inr (Inr target) \<Longrightarrow> \<not> is_terminal (ord_state x)"
  by (auto simp: classify_event_def raises terminal_broker_event_result_def
      split: option.splits if_splits)

lemma preserve_record_only:
  "record_only e oid res now db = Inr (res', db') \<Longrightarrow> preserve None None db db'"
  by (auto simp: record_only_def raises intro: preserve_insert_event)

lemma preserve_replay: "replay_event e d db = Inr (res, db') \<Longrightarrow> preserve None None db db'"
  by (auto simp: replay_event_def Let_def event_evolves_def conflicted_event_def
      intro: preserve_events split: if_splits)

lemma preserve_normalized_event:
  assumes "op_apply_normalized_broker_event fault e now db = Inr (res, db')"
  shows "preserve None None db db'"
proof (cases "event_by_id db (ev_event_id e)")
  case (Some d)
  then show ?thesis
    using assms preserve_replay by (simp add: op_apply_normalized_broker_event_def)
next
  case None
  show ?thesis
  proof (cases "order_with_intent db (ev_client_order_ref e)")
    case missing: None
    then show ?thesis
      using assms None preserve_record_only by (simp add: op_apply_normalized_broker_event_def)
  next
    case (Some p)
    obtain x t where p: "p = (x, t)" by (cases p)
    obtain c where c: "classify_event x t e db = Inr c"
      and rest: "(case c of Inl res0 \<Rightarrow> record_only e (Some (ord_order_id x)) res0 now db
        | Inr target \<Rightarrow> effect_event fault x e target now db) = Inr (res, db')"
      using assms None Some p by (auto simp: op_apply_normalized_broker_event_def and_then_eq_Inr)
    show ?thesis
      using c rest by (cases c) (auto intro: preserve_record_only preserve_effect_event
          dest: classify_event_open)
  qed
qed

text \<open>Reconciliation.\<close>

lemma preserve_finish_attempt:
  "finish_reconciliation_attempt aid result reason now eid db = Inr db' \<Longrightarrow> preserve m m db db'"
  by (auto simp: finish_reconciliation_attempt_def split: if_splits)

lemma preserve_finish_with:
  "finish_with aid status st reason now eid db = Inr (res, db') \<Longrightarrow> preserve m m db db'"
  by (auto simp: finish_with_def raises intro: preserve_finish_attempt)

lemma preserve_conclude:
  assumes "conclude_evidence fault aid x t e target now db = Inr (res, db')"
  shows "preserve (if is_terminal target then Some (ord_intent_id x) else None) None db db'"
proof -
  let ?m = "if is_terminal target then Some (ord_intent_id x) else None"
  define db1 where "db1 = db\<lparr>orders := update_where (\<lambda>y. ord_order_id y = ord_order_id x)
     (resolved_order e now) (orders db)\<rparr>"
  define db2 where "db2 = reconciled_outbox (ord_intent_id x)
     (''RECONCILED_'' @ external_status_value (re_external_status e)) now db1"
  define db3 where "db3 = (if target \<in> {REJECTED, SETTLED} then release_for_intent (ord_intent_id x) now
     (''RECONCILED_'' @ order_state_value target) (Some (re_evidence_id e)) db2 else db2)"
  have 1: "preserve ?m ?m db db1"
    unfolding db1_def by (rule preserve_note_orders) (simp add: resolved_order_def)
  have 2: "preserve ?m ?m db1 db2"
    unfolding db2_def by (rule preserve_reconciled)
  have 3: "preserve ?m None db2 db3"
    unfolding db3_def using preserve_release by (auto simp: is_terminal_def)
  obtain db4 where settle: "(case re_realized_pnl_minor e of
          Some pnl \<Rightarrow> if target = SETTLED \<and> ord_state x \<noteq> SETTLED
            then apply_digit_runtime_settlement (ti_product t) (ti_symbol t) (ti_currency t) pnl
              (ord_order_id x) (re_evidence_id e) now db3
            else Inr db3
        | None \<Rightarrow> Inr db3) = Inr db4"
    and 5: "finish_with aid RA_RESOLVED target None now (Some (re_evidence_id e)) db4 = Inr (res, db')"
    using assms unfolding conclude_evidence_def Let_def db1_def [symmetric] db2_def [symmetric]
      db3_def [symmetric]
    by (auto simp: raises)
  have 4: "preserve None None db3 db4"
    using settle by (auto split: option.splits if_splits intro: preserve_settlement)
  show ?thesis
    by (rule preserve_trans [OF preserve_trans [OF 1 2] preserve_trans [OF 3 preserve_trans [OF 4
            preserve_finish_with [OF 5]]]])
qed

lemma preserve_effect_evidence:
  assumes eff: "effect_evidence fault aid x t e target now db = Inr (res, db')"
    and x: "x \<in> set (orders db)"
  shows "preserve None None db db'"
proof -
  let ?m = "if is_terminal target then Some (ord_intent_id x) else None"
  define amb where "amb = (ord_state x \<in> {UNKNOWN, SETTLEMENT_UNKNOWN})"
  define current where "current = (if amb then RECONCILING else ord_state x)"
  obtain db1 db2 where 1: "(if amb then transition_order (ord_intent_id x) RECONCILING now None None db
       else Inr db) = Inr db1"
    and 2: "(if current \<noteq> target then transition_order (ord_intent_id x) target now
        (re_broker_order_id e) (re_realized_pnl_minor e) db1 else Inr db1) = Inr db2"
    and 3: "conclude_evidence fault aid x t e target now db2 = Inr (res, db')"
    using eff unfolding effect_evidence_def Let_def amb_def [symmetric] current_def [symmetric]
      and_then_eq_Inr by blast
  have "preserve None ?m db db2"
  proof (cases "current = target")
    case False
    then have "transition_order (ord_intent_id x) target now (re_broker_order_id e)
        (re_realized_pnl_minor e) db1 = Inr db2" using 2 by simp
    then have "preserve None ?m db1 db2" by (rule preserve_transition)
    moreover have "preserve None None db db1" using 1 preserve_move by (auto split: if_splits)
    ultimately show ?thesis by (rule preserve_trans [rotated])
  next
    case True
    have only: "y = x" if "db_inv None db" "y \<in> set (orders db)" "ord_intent_id y = ord_intent_id x" for y
    proof -
      have "distinct (map ord_intent_id (orders db))" using that(1) by (simp add: db_inv_def keys_ok_def)
      then show ?thesis using x that(2,3) by (auto simp: distinct_map inj_on_def)
    qed
    have settled: "db_inv (Some (ord_intent_id x)) db" if "db_inv None db" "is_terminal (ord_state x)"
      by (rule db_inv_settled [OF that(1)]) (use only that in blast)
    show ?thesis
    proof (cases amb)
      case amb: True
      then show ?thesis using 1 2 True by (auto simp: current_def intro: preserve_move)
    next
      case False
      then show ?thesis using 1 2 True settled by (auto simp: current_def preserve_def)
    qed
  qed
  then show ?thesis by (rule preserve_trans [OF _ preserve_conclude [OF 3]])
qed

lemma attempt_order_in: "attempt_order db aid = Some x \<Longrightarrow> x \<in> set (orders db)"
  by (auto simp: attempt_order_def order_by_id_def dest: find_SomeD split: option.splits)

lemma attempt_order_intent_in: "attempt_order_intent db aid = Some (x, t) \<Longrightarrow> x \<in> set (orders db)"
  by (auto simp: attempt_order_intent_def dest: attempt_order_in split: option.splits)

lemma preserve_weigh:
  assumes "weigh_evidence fault aid x t e now db = Inr (res, db')" and "x \<in> set (orders db)"
  shows "preserve None None db db'"
proof (cases "matching_conflict_reason x t e")
  case (Some reason)
  then show ?thesis using assms preserve_finish_with by (simp add: weigh_evidence_def)
next
  case None
  then obtain outcome where o: "previous_evidence_outcome x e db = Inr outcome"
    using assms by (auto simp: weigh_evidence_def and_then_eq_Inr Let_def)
  show ?thesis
  proof (cases outcome)
    case (Some p)
    then show ?thesis
      using assms None o preserve_finish_with by (cases p) (simp add: weigh_evidence_def)
  next
    case fresh: None
    then show ?thesis
      using assms None o preserve_finish_with preserve_effect_evidence
      by (cases "order_state_for_external_status (re_external_status e)")
        (simp_all add: weigh_evidence_def)
  qed
qed

lemma preserve_evidence:
  assumes "op_apply_reconciliation_evidence sha fault aid e now db = Inr (res, db')"
  shows "preserve None None db db'"
proof -
  obtain x t where xt: "attempt_order_intent db aid = Some (x, t)"
    using assms by (auto simp: op_apply_reconciliation_evidence_def split: option.splits)
  consider (early) "finish_with aid RA_CONFLICT (ord_state x)
      (Some ''RECONCILIATION_EVIDENCE_CONFLICT'') now None db = Inr (res, db')"
    | (later) db1 where "record_evidence sha fault x e now db = Inr db1"
        "weigh_evidence fault aid x t e now db1 = Inr (res, db')"
    using assms xt unfolding op_apply_reconciliation_evidence_def
    by (auto simp: and_then_eq_Inr simp del: not_None_eq split: if_split_asm)
  then show ?thesis
  proof cases
    case early
    then show ?thesis by (rule preserve_finish_with)
  next
    case later
    have "preserve None None db db1" "orders db1 = orders db"
      using later(1) by (auto simp: record_evidence_def raises insert_evidence_def split: if_splits)
    then show ?thesis
      using preserve_trans preserve_weigh [OF later(2)] attempt_order_intent_in [OF xt] by metis
  qed
qed

lemma preserve_effect_not_found:
  assumes "effect_not_found fault aid prior x now db = Inr (res, db')"
  shows "preserve None None db db'"
proof -
  let ?iid = "ord_intent_id x"
  obtain db1 db2 where 1: "transition_order ?iid RECONCILING now None None db = Inr db1"
    and 2: "transition_order ?iid REJECTED now None None db1 = Inr db2"
    using assms by (auto simp: effect_not_found_def raises Let_def)
  define db3 where "db3 = db2\<lparr>orders := update_where (\<lambda>y. ord_order_id y = ord_order_id x)
     (\<lambda>y. y\<lparr>ord_resolution_source := Some ''STATUS_QUERY'',
        ord_resolved_at := Some (isoformat now)\<rparr>) (orders db2)\<rparr>"
  define db4 where "db4 = reconciled_outbox ?iid ''RECONCILED_NOT_FOUND'' now db3"
  define db5 where "db5 = release_for_intent ?iid now ''RECONCILED_NOT_FOUND''
     (Some (not_found_reason @ '':'' @ prior @ '':'' @ aid)) db4"
  have 6: "finish_with aid RA_RESOLVED REJECTED (Some not_found_reason) now None db5 = Inr (res, db')"
    using assms 1 2 unfolding effect_not_found_def Let_def
    by (auto simp: raises db3_def db4_def db5_def)
  have 12: "preserve None (Some ?iid) db db2"
    using preserve_trans [OF preserve_move [OF 1] preserve_transition [OF 2]] by simp
  have 3: "preserve (Some ?iid) (Some ?iid) db2 db3"
    unfolding db3_def by (rule preserve_note_orders) simp
  have 4: "preserve (Some ?iid) (Some ?iid) db3 db4"
    unfolding db4_def by (rule preserve_reconciled)
  have 5: "preserve (Some ?iid) None db4 db5"
    unfolding db5_def by (rule preserve_release)
  show ?thesis
    by (rule preserve_trans [OF preserve_trans [OF 12 3] preserve_trans [OF 4 preserve_trans [OF 5
            preserve_finish_with [OF 6]]]])
qed

lemma preserve_not_found:
  assumes "op_apply_reconciliation_not_found fault aid e grace interval now db = Inr (res, db')"
  shows "preserve None None db db'"
  using assms unfolding op_apply_reconciliation_not_found_def Let_def
  by (auto simp: raises split: option.split_asm if_split_asm
      intro: preserve_finish_with preserve_effect_not_found)

text \<open>The durable digit runtime and the attempts.\<close>

lemma preserve_configure:
  assumes "op_configure_digit_risk_runtime p reset now db = Inr (u, db')"
  shows "preserve None None db db'"
  using assms unfolding op_configure_digit_risk_runtime_def
  by (auto simp: raises new_runtime_row_def configured_row_def cleared_sequence_def db_inv_def
      runtime_ok_def split: option.split_asm if_split_asm elim!: preserve_runtime)

lemma preserve_reset:
  assumes "op_reset_digit_test_session_if_flat now db = Inr (u, db')"
  shows "preserve None None db db'"
  using assms unfolding op_reset_digit_test_session_if_flat_def
  by (auto simp: raises reset_row_def cleared_sequence_def split: option.split_asm if_split_asm
      elim!: preserve_runtime)

lemma preserve_expire:
  assumes "op_expire_digit_cooldown now db = Inr (r, db')"
  shows "preserve None None db db'"
  using assms unfolding op_expire_digit_cooldown_def
  by (auto simp: raises cleared_sequence_def Let_def split: option.split_asm if_split_asm
      elim!: preserve_runtime)

lemma preserve_begin_attempt:
  "op_begin_reconciliation_attempt aid oid cid now db = Inr (u, db') \<Longrightarrow> preserve None None db db'"
  by (auto simp: op_begin_reconciliation_attempt_def raises intro: preserve_insert_records)

lemma preserve_complete_attempt:
  "op_complete_reconciliation_attempt aid res reason now db = Inr (u, db') \<Longrightarrow> preserve None None db db'"
  by (auto simp: op_complete_reconciliation_attempt_def split: if_splits)

lemma preserve_recover:
  "op_recover_interrupted_dispatches now db = Inr (n, db') \<Longrightarrow> preserve None None db db'"
  by (auto simp: op_recover_interrupted_dispatches_def raises Let_def intro: preserve_recover_rows)

lemma preserve_cancel_pending:
  "op_cancel_expired_pending_messages now db = Inr (ids, db') \<Longrightarrow> preserve None None db db'"
  by (auto simp: op_cancel_expired_pending_messages_def intro: preserve_cancel_rows)

section \<open>The writer as a machine\<close>

text \<open>
  One call of a public method, with arbitrary arguments and clock readings, or a change of the
  health record the writer shares with the rest of the program.
\<close>

inductive writer_step :: "(payload \<Rightarrow> string) \<Rightarrow> writer \<Rightarrow> writer \<Rightarrow> bool" for sha where
  ws_persist: "writer_step sha w (snd (persist_intent_reservation_outbox request command iid rid oid
     now g s c w))"
| ws_configure: "writer_step sha w (snd (configure_digit_risk_runtime policy reset now w))"
| ws_reset: "writer_step sha w (snd (reset_digit_test_session_if_flat now w))"
| ws_expire: "writer_step sha w (snd (expire_digit_cooldown now w))"
| ws_claim: "writer_step sha w (snd (claim_next_message now brk acc w))"
| ws_result: "writer_step sha w (snd (record_dispatch_result command outcome b reason now w))"
| ws_not_sent: "writer_step sha w (snd (record_dispatch_not_sent command reason now w))"
| ws_cancel: "writer_step sha w (snd (cancel_expired_before_dispatch command now w))"
| ws_recover: "writer_step sha w (snd (recover_interrupted_dispatches now w))"
| ws_expire_pending: "writer_step sha w (snd (cancel_expired_pending_messages now w))"
| ws_broker_event: "writer_step sha w (snd (apply_broker_event event now w))"
| ws_event: "writer_step sha w (snd (apply_normalized_broker_event e now w))"
| ws_begin: "writer_step sha w (snd (begin_reconciliation_attempt aid oid cid now w))"
| ws_complete: "writer_step sha w (snd (complete_reconciliation_attempt aid res reason now w))"
| ws_evidence: "writer_step sha w (snd (apply_reconciliation_evidence sha aid ev now w))"
| ws_not_found: "writer_step sha w (snd (apply_reconciliation_not_found aid nf grace interval now w))"
| ws_release: "writer_step sha w (snd (release_reservation rid now w))"
| ws_release_after: "writer_step sha w (snd (release_after_reconciliation rid s evidence now w))"
| ws_sprt: "writer_step sha w (w\<lparr>w_db := save_sprt_monitor r (w_db w)\<rparr>)"
| ws_enqueue: "writer_step sha w (w\<lparr>w_db := snd (enqueue_outcome key ts won pct created (w_db w))\<rparr>)"
| ws_ack: "writer_step sha w (w\<lparr>w_db := ack_outcomes ids (w_db w)\<rparr>)"
| ws_health: "writer_step sha w (w\<lparr>w_health := h\<rparr>)"

text \<open>A transaction commits the new database or leaves the old one.\<close>

lemma transaction_db:
  "w_db (snd (transaction op w)) = (case op (w_db w) of Inl e \<Rightarrow> w_db w | Inr (r, db) \<Rightarrow> db)"
  by (auto simp: transaction_def mark_write_failed_def split: sum.splits exc.splits)

lemma transaction_Inr:
  "transaction op w = (Inr r, w') \<longleftrightarrow> (\<exists>db. op (w_db w) = Inr (r, db) \<and> w' = w\<lparr>w_db := db\<rparr>)"
  by (auto simp: transaction_def mark_write_failed_def split: sum.splits exc.splits)

lemma transaction_Inl: "transaction op w = (Inl e, w') \<Longrightarrow> w_db w' = w_db w"
  by (auto simp: transaction_def mark_write_failed_def split: sum.splits exc.splits if_splits)

lemma preserve_transaction:
  assumes "\<And>r db'. op (w_db w) = Inr (r, db') \<Longrightarrow> preserve None None (w_db w) db'"
  shows "preserve None None (w_db w) (w_db (snd (transaction op w)))"
  using assms by (auto simp: transaction_db split: sum.splits)

lemmas preserve_ops = preserve_persist preserve_configure preserve_reset preserve_expire
  preserve_claim preserve_dispatch_result preserve_not_sent preserve_cancel_dispatch
  preserve_recover preserve_cancel_pending preserve_broker_event preserve_normalized_event
  preserve_begin_attempt preserve_complete_attempt preserve_evidence preserve_not_found
  preserve_release_reservation preserve_release_after

lemma preserve_queues:
  "preserve None None db (save_sprt_monitor r db)"
  "preserve None None db (snd (enqueue_outcome key ts won pct created db))"
  "preserve None None db (ack_outcomes ids db)"
  using preserve_trans [OF preserve_tables(6) preserve_tables(5)]
  by (auto simp: save_sprt_monitor_def enqueue_outcome_def ack_outcomes_def Let_def)

lemmas public_defs = persist_intent_reservation_outbox_def configure_digit_risk_runtime_def
  reset_digit_test_session_if_flat_def expire_digit_cooldown_def claim_next_message_def
  record_dispatch_result_def record_dispatch_not_sent_def cancel_expired_before_dispatch_def
  recover_interrupted_dispatches_def cancel_expired_pending_messages_def apply_broker_event_def
  apply_normalized_broker_event_def begin_reconciliation_attempt_def
  complete_reconciliation_attempt_def apply_reconciliation_evidence_def
  apply_reconciliation_not_found_def release_reservation_def release_after_reconciliation_def

lemma writer_step_preserve:
  assumes "writer_step sha w w'"
  shows "preserve None None (w_db w) (w_db w')"
  using assms
  by cases (auto simp: public_defs is_terminal_def preserve_queues split: sum.splits
      intro!: preserve_transaction intro: preserve_ops)

abbreviation new_writer :: "writer \<Rightarrow> bool" where
  "new_writer w \<equiv> w_db w = empty_db"

lemma empty_db_inv: "db_inv None empty_db"
  by (simp add: db_inv_def keys_ok_def empty_db_def active_scopes_def)

interpretation writer_history: history_system new_writer "writer_step sha" "\<lambda>w. db_inv None (w_db w)"
  "\<lambda>w w'. db_evolves (w_db w) (w_db w')" for sha
  by unfold_locales (use writer_step_preserve in
      \<open>auto simp: empty_db_inv preserve_def intro: db_evolves_trans\<close>)

interpretation writer_exposure: simulation new_writer "writer_step sha" "\<lambda>w. db_inv None (w_db w)"
  "\<lambda>w. exposure (w_db w)" "\<lambda>e. e = Map.empty" exposure_step for sha
  by unfold_locales (use writer_step_preserve in
      \<open>auto simp: preserve_def db_evolves_def exposure_def empty_db_def exposure_entries_def\<close>)

end
