(* ===== verification/Core.thy ===== *)
theory Core
  imports Reader WriterInv
begin

text \<open>
  The financial path of the Core: the state shared by its components, the dispatcher and the
  order coordinator (\<open>apps/core/coordinator.py\<close>), recovery at start (\<open>apps/core/recovery.py\<close>)
  and the processing of broker events (\<open>apps/core/broker_events.py\<close>). The workers, the
  authorization port and the fallback of the event processor are arguments: what the call
  returned or raised. Identifiers from \<open>uuid4\<close> and clock readings are arguments too. The
  locks of the code serialize these operations, so each runs alone here; the events sent to the
  sink are not modelled.
\<close>

section \<open>The state of the Core\<close>

record core =
  co_writer :: writer
  co_gate :: gate
  co_ledger :: ledger
  co_dispatcher_started :: bool

abbreviation co_db :: "core \<Rightarrow> state_db" where
  "co_db c \<equiv> w_db (co_writer c)"

abbreviation co_health :: "core \<Rightarrow> database_health option" where
  "co_health c \<equiv> Some (w_health (co_writer c))"

text \<open>A call that may raise and changes the state, followed by the rest of the method.\<close>

definition then_do :: "(exc + 'a) \<times> 's \<Rightarrow> ('a \<Rightarrow> 's \<Rightarrow> (exc + 'b) \<times> 's) \<Rightarrow> (exc + 'b) \<times> 's" where
  "then_do m f = (case m of (Inl e, s) \<Rightarrow> (Inl e, s) | (Inr x, s) \<Rightarrow> f x s)"

lemma then_do_simps [simp]: "then_do (Inl e, s) f = (Inl e, s)" "then_do (Inr x, s) f = f x s"
  by (simp_all add: then_do_def)

lemma then_do_eq_Inr [raises]:
  "then_do m f = (Inr y, s') \<longleftrightarrow> (\<exists>x s. m = (Inr x, s) \<and> f x s = (Inr y, s'))"
  by (auto simp: then_do_def split: sum.splits prod.splits)

lemma snd_then_do:
  "snd (then_do m f) = (case fst m of Inl e \<Rightarrow> snd m | Inr x \<Rightarrow> snd (f x (snd m)))"
  by (auto simp: then_do_def split: sum.splits prod.splits)

text \<open>
  A relation between the states before and after an operation that composes: a property of the
  parts of a method holds of the method.
\<close>

locale composed_relation =
  fixes R :: "'s \<Rightarrow> 's \<Rightarrow> bool"
  assumes refl: "R s s" and trans: "R s t \<Longrightarrow> R t u \<Longrightarrow> R s u"
begin

lemma seq:
  assumes "R s (snd m)" and "\<And>x t. m = (Inr x, t) \<Longrightarrow> R t (snd (f x t))"
  shows "R s (snd (then_do m f))"
proof (cases m)
  case (Pair r t)
  then show ?thesis using assms by (cases r) (auto intro: trans)
qed

end

definition on_writer :: "(writer \<Rightarrow> (exc + 'a) \<times> writer) \<Rightarrow> core \<Rightarrow> (exc + 'a) \<times> core" where
  "on_writer f c = (case f (co_writer c) of (res, w) \<Rightarrow> (res, c\<lparr>co_writer := w\<rparr>))"

definition on_gate :: "(gate \<Rightarrow> gate) \<Rightarrow> core \<Rightarrow> core" where
  "on_gate f c = c\<lparr>co_gate := f (co_gate c)\<rparr>"

text \<open>
  A call of the ledger with the gate of the Core. The callback that ends a durable cooldown is
  \<open>writer.expire_digit_cooldown\<close>; it is called when the entry check of the ledger reaches the
  end of a cooldown, and \<open>checks\<close> says whether the call makes that check.
\<close>

definition cooldown_over :: "rat \<Rightarrow> digit_risk_config \<Rightarrow> ledger \<Rightarrow> bool" where
  "cooldown_over tick config l \<longleftrightarrow> valid_digit_config config \<and> rl_state l \<noteq> RISK_LOCKED \<and>
     - dc_daily_stop_loss_minor_units config < rl_digit_daily_pnl l \<and>
     rl_digit_daily_pnl l < dc_daily_take_profit_minor_units config \<and>
     (case rl_cooldown_deadline l of None \<Rightarrow> False | Some d \<Rightarrow> d \<le> tick)"

lemma check_without_callback:
  assumes "\<not> cooldown_over (rd_tick rd) config l"
  shows "check_digit_entry (rd\<lparr>rd_expirer := e\<rparr>) config (l, g) = check_digit_entry rd config (l, g)"
  using assms by (auto simp: check_digit_entry_def cooldown_over_def split: option.splits prod.splits bool.splits)

definition on_ledger ::
  "(digit_risk_config \<Rightarrow> string) \<Rightarrow> rat \<Rightarrow> datetime \<Rightarrow> bool \<Rightarrow>
   (readings \<Rightarrow> state_db \<Rightarrow> risk \<Rightarrow> (exc + 'a) \<times> risk) \<Rightarrow> core \<Rightarrow> (exc + 'a) \<times> core" where
  "on_ledger fp tick now checks call c =
     (let (ended, w) = (if checks \<and> cooldown_over tick (rl_digit_config (co_ledger c)) (co_ledger c)
            then expire_digit_cooldown now (co_writer c) else (Inr None, co_writer c));
          (res, l, g) = call \<lparr>rd_fp = fp, rd_tick = tick, rd_now = now, rd_expirer = Some ended\<rparr>
            (w_db w) (co_ledger c, Some (co_gate c)) in
      (res, c\<lparr>co_writer := w, co_ledger := l,
         co_gate := (case g of None \<Rightarrow> co_gate c | Some g1 \<Rightarrow> g1)\<rparr>))"

section \<open>Dispatch\<close>

datatype delivery_certainty = NOT_SENT | POSSIBLY_SENT | RESPONSE_RECEIVED

text \<open>What \<open>submit_order\<close> of a worker returned or raised.\<close>

datatype submission =
    Submission worker_outcome "string option" "string option"
  | Dispatch_error string delivery_certainty
  | Submit_raised

type_synonym worker = "order_command \<Rightarrow> submission"

text \<open>\<open>MultiBrokerSubmissionRouter\<close>, keyed by the value of the broker.\<close>

definition register :: "string \<Rightarrow> worker \<Rightarrow> (string \<times> worker) list \<Rightarrow> (string \<times> worker) list" where
  "register brk w workers = AList.update (upper brk) w workers"

definition unregister :: "string \<Rightarrow> (string \<times> worker) list \<Rightarrow> (string \<times> worker) list" where
  "unregister brk workers = AList.delete (upper brk) workers"

definition route_submit :: "(string \<times> worker) list \<Rightarrow> worker" where
  "route_submit workers command = (case map_of workers (broker_value (cmd_broker command)) of
     None \<Rightarrow> Dispatch_error ''WORKER_NOT_READY'' NOT_SENT
   | Some w \<Rightarrow> w command)"

fun worker_outcome_value :: "worker_outcome \<Rightarrow> string" where
  "worker_outcome_value W_ACCEPTED = ''ACCEPTED''"
| "worker_outcome_value W_REJECTED = ''REJECTED''"
| "worker_outcome_value W_TIMEOUT_AFTER_POSSIBLE_SEND = ''TIMEOUT_AFTER_POSSIBLE_SEND''"

definition record_outcome ::
  "order_command \<Rightarrow> worker_outcome \<Rightarrow> string option \<Rightarrow> string option \<Rightarrow> datetime \<Rightarrow> core \<Rightarrow>
   (exc + order_command option) \<times> core" where
  "record_outcome command outcome broker_order_id reason_code recorded_at c =
     then_do (on_writer (record_dispatch_result command (worker_outcome_value outcome)
       broker_order_id reason_code recorded_at) c) (\<lambda>_ c1.
     (Inr (Some command), if outcome = W_TIMEOUT_AFTER_POSSIBLE_SEND
       then on_gate (block_scope (broker_value (cmd_broker command)) (cmd_account_id command)
         ''HG_ORDER_UNKNOWN'') c1
       else c1))"

definition dispatch_next ::
  "worker \<Rightarrow> string option \<Rightarrow> string option \<Rightarrow> datetime \<Rightarrow> datetime \<Rightarrow> core \<Rightarrow>
   (exc + order_command option) \<times> core" where
  "dispatch_next worker brk account_id dispatch_time recorded_at c =
     then_do (on_writer (claim_next_message dispatch_time brk account_id) c) (\<lambda>claimed c1.
     case claimed of
       None \<Rightarrow> (Inr None, c1)
     | Some command \<Rightarrow>
         if instant (cmd_deadline_at command) \<le> instant dispatch_time
         then then_do (on_writer (cancel_expired_before_dispatch command dispatch_time) c1)
           (\<lambda>_ c2. (Inr (Some command), c2))
         else (case worker command of
             Dispatch_error code NOT_SENT \<Rightarrow>
               then_do (on_writer (record_dispatch_not_sent command code recorded_at) c1) (\<lambda>_ c2.
               (Inr (Some command), on_gate (block_scope (broker_value (cmd_broker command))
                 (cmd_account_id command) ''HG_WORKER_NOT_READY'') c2))
           | Dispatch_error code _ \<Rightarrow>
               record_outcome command W_TIMEOUT_AFTER_POSSIBLE_SEND None None recorded_at c1
           | Submit_raised \<Rightarrow>
               record_outcome command W_TIMEOUT_AFTER_POSSIBLE_SEND None None recorded_at c1
           | Submission outcome broker_order_id reason_code \<Rightarrow>
               record_outcome command outcome broker_order_id reason_code recorded_at c1))"

section \<open>Submitting an order\<close>

record persisted_order =
  po_intent_id :: string
  po_reservation_id :: string
  po_message_id :: string
  po_order_id :: string

text \<open>What a call of \<open>submit\<close> reads from its surroundings, in the order it reads it.\<close>

record submit_env =
  se_fp :: "digit_risk_config \<Rightarrow> string"
  se_refresh_tick :: rat
  se_refresh_now :: datetime
  se_authorize :: "order_request \<Rightarrow> exc + unit"
  se_reserve_tick :: rat
  se_reserve_now :: datetime
  se_created_at :: datetime
  se_ids :: persisted_order
  se_worker :: worker
  se_dispatch_time :: datetime
  se_recorded_at :: datetime

definition refresh_gate ::
  "(digit_risk_config \<Rightarrow> string) \<Rightarrow> rat \<Rightarrow> datetime \<Rightarrow> core \<Rightarrow> (exc + unit) \<times> core" where
  "refresh_gate fp tick now c =
     on_ledger fp tick now True (\<lambda>rd db s. refresh_digit_health_gate rd s) c"

definition reserve_risk ::
  "(digit_risk_config \<Rightarrow> string) \<Rightarrow> rat \<Rightarrow> datetime \<Rightarrow> order_request \<Rightarrow> core \<Rightarrow> (exc + money) \<times> core" where
  "reserve_risk fp tick now request c =
     on_ledger fp tick now (is_bounded_digit_product (req_product request) \<and>
       currency (req_amount request) = gc_reference_currency (rl_config (co_ledger c)))
       (\<lambda>rd db s. reserve rd (Some (active_reservations db)) request s) c"

definition command_of :: "order_request \<Rightarrow> persisted_order \<Rightarrow> order_command" where
  "command_of request ids = \<lparr>cmd_message_id = po_message_id ids,
     cmd_correlation_id = req_correlation_id request, cmd_intent_id = po_intent_id ids,
     cmd_order_id = po_order_id ids, cmd_broker = req_broker request,
     cmd_account_id = req_account_id request, cmd_product = req_product request,
     cmd_symbol = req_symbol request, cmd_direction = req_direction request,
     cmd_amount = req_amount request, cmd_deadline_at = req_deadline_at request,
     cmd_duration = req_duration request, cmd_duration_unit = req_duration_unit request,
     cmd_prediction_digit = req_prediction_digit request\<rparr>"

definition persist_order ::
  "order_request \<Rightarrow> order_command \<Rightarrow> persisted_order \<Rightarrow> datetime \<Rightarrow> core \<Rightarrow> (exc + unit) \<times> core" where
  "persist_order request command ids created_at c =
     (let config = rl_config (co_ledger c) in
      case on_writer (persist_intent_reservation_outbox request command (po_intent_id ids)
          (po_reservation_id ids) (po_order_id ids) created_at
          (Some (gc_global_max_exposure_minor_units config))
          (Some (gc_max_exposure_per_symbol_minor_units config))
          (Some (gc_reference_currency config))) c of
        (Inl e, c1) \<Rightarrow> (Inl e,
          case e of AccountBusyError _ \<Rightarrow> c1 | RiskLimitExceededError _ \<Rightarrow> c1
          | _ \<Rightarrow> if is_persistence_error e
              then c1\<lparr>co_writer := (co_writer c1)\<lparr>w_health := mark_failed DB_WRITE_FAILED
                    (w_health (co_writer c1))\<rparr>,
                  co_gate := block (failure_value DB_WRITE_FAILED) (co_gate c1)\<rparr>
              else c1)
      | (Inr _, c1) \<Rightarrow> (Inr (), c1))"

definition submit :: "submit_env \<Rightarrow> order_request \<Rightarrow> bool \<Rightarrow> core \<Rightarrow> (exc + persisted_order) \<times> core" where
  "submit env request dispatch c =
     then_do (refresh_gate (se_fp env) (se_refresh_tick env) (se_refresh_now env) c) (\<lambda>_ c1.
     then_do (se_authorize env request, c1) (\<lambda>_ c2.
     then_do (ensure_open (co_health c2) (Some (broker_value (req_broker request)))
       (Some (req_account_id request)) (co_gate c2), c2) (\<lambda>_ c3.
     then_do (reserve_risk (se_fp env) (se_reserve_tick env) (se_reserve_now env) request c3) (\<lambda>_ c4.
     then_do (OrderCommand (command_of request (se_ids env)), c4) (\<lambda>command c5.
     then_do (persist_order request command (se_ids env) (se_created_at env) c5) (\<lambda>_ c6.
     if dispatch
     then then_do (dispatch_next (se_worker env) (Some (broker_value (req_broker request)))
         (Some (req_account_id request)) (se_dispatch_time env) (se_recorded_at env) c6) (\<lambda>_ c7.
       (Inr (se_ids env), c7))
     else (Inr (se_ids env), c6)))))))"

definition dispatch_pending ::
  "worker \<Rightarrow> string option \<Rightarrow> string option \<Rightarrow> datetime \<Rightarrow> datetime \<Rightarrow> core \<Rightarrow>
   (exc + order_command option) \<times> core" where
  "dispatch_pending worker brk account_id dispatch_time recorded_at c =
     then_do (ensure_open (co_health c) brk account_id (co_gate c), c) (\<lambda>_ c1.
     dispatch_next worker brk account_id dispatch_time recorded_at c1)"

section \<open>Recovery at start\<close>

record recovery_report =
  rec_safe_pending_message_ids :: "string list"
  rec_expired_message_ids :: "string list"
  rec_ambiguous_message_ids :: "string list"
  rec_nonterminal_order_ids :: "string list"
  rec_active_reservation_ids :: "string list"

definition safe_pending :: "state_db \<Rightarrow> outbox_row list" where
  "safe_pending db = filter (\<lambda>m. case order_for_intent (om_intent_id m) db of
       None \<Rightarrow> False | Some x \<Rightarrow> ord_state x = OUTBOXED) (outbox_by_state OB_PENDING db)"

definition unsafe_nonterminal :: "state_db \<Rightarrow> order_row list" where
  "unsafe_nonterminal db = filter (\<lambda>x. \<not> (ord_state x = OUTBOXED \<and>
       ord_intent_id x \<in> set (map om_intent_id (safe_pending db))))
     (map fst (list_nonterminal_orders db))"

definition recovery_gate :: "core \<Rightarrow> core" where
  "recovery_gate c =
     (if outbox_by_state OB_AMBIGUOUS (co_db c) \<noteq> [] then on_gate (block ''HG_ORDER_UNKNOWN'') c
      else if unsafe_nonterminal (co_db c) \<noteq> []
      then on_gate (block ''HG_RECONCILIATION_REQUIRED'') c else c)"

definition recover :: "datetime \<Rightarrow> core \<Rightarrow> (exc + recovery_report) \<times> core" where
  "recover recovered_at c =
     then_do (on_writer (recover_interrupted_dispatches recovered_at) c) (\<lambda>_ c1.
     then_do (on_writer (cancel_expired_pending_messages recovered_at) c1) (\<lambda>expired c2.
     (Inr \<lparr>rec_safe_pending_message_ids = map om_message_id (safe_pending (co_db c2)),
        rec_expired_message_ids = expired,
        rec_ambiguous_message_ids = map om_message_id (outbox_by_state OB_AMBIGUOUS (co_db c2)),
        rec_nonterminal_order_ids = map ord_order_id (unsafe_nonterminal (co_db c2)),
        rec_active_reservation_ids = map rr_reservation_id (reservations_by_state ACTIVE (co_db c2))\<rparr>,
      recovery_gate c2)))"

section \<open>Broker events\<close>

text \<open>\<open>restore_digit_runtime(writer.expire_digit_cooldown())\<close>.\<close>

definition reload_digit_runtime ::
  "(digit_risk_config \<Rightarrow> string) \<Rightarrow> rat \<Rightarrow> datetime \<Rightarrow> datetime \<Rightarrow> core \<Rightarrow> (exc + unit) \<times> core" where
  "reload_digit_runtime fp tick checked_at now c =
     then_do (on_writer (expire_digit_cooldown checked_at) c) (\<lambda>row c1.
     case restore_digit_runtime fp tick now row (co_ledger c1) of
       (res, l) \<Rightarrow> (res, c1\<lparr>co_ledger := l\<rparr>))"

definition restore_reservations :: "core \<Rightarrow> (exc + unit) \<times> core" where
  "restore_reservations c = (case restore (map reservation_payload
       (reservations_by_state ACTIVE (co_db c))) (co_ledger c) of
     Inl e \<Rightarrow> (Inl e, c) | Inr l \<Rightarrow> (Inr (), c\<lparr>co_ledger := l\<rparr>))"

definition apply_result_to_ledger :: "int \<Rightarrow> core \<Rightarrow> core" where
  "apply_result_to_ledger pnl c = (case apply_realized_pnl pnl (co_ledger c, Some (co_gate c)) of
     (l, g) \<Rightarrow> c\<lparr>co_ledger := l, co_gate := (case g of None \<Rightarrow> co_gate c | Some g1 \<Rightarrow> g1)\<rparr>)"

text \<open>The effect of an applied or late event on the gate and the ledger.\<close>

definition note_event_state :: "broker_order_event \<Rightarrow> event_result \<Rightarrow> core \<Rightarrow> core" where
  "note_event_state e res c =
     (let b = broker_value (ev_broker e); a = ev_account_id e in
      if er_order_state res = Some SETTLED then on_gate (clear_scope b a ''HG_SETTLEMENT_REQUIRED'') c
      else if er_order_state res = Some SETTLEMENT_UNKNOWN
      then on_gate (block_scope b a ''HG_SETTLEMENT_REQUIRED'') c else c)"

definition count_event_result ::
  "(digit_risk_config \<Rightarrow> string) \<Rightarrow> rat \<Rightarrow> datetime \<Rightarrow> datetime \<Rightarrow> broker_order_event \<Rightarrow> event_result \<Rightarrow>
   core \<Rightarrow> (exc + unit) \<times> core" where
  "count_event_result fp tick checked_at now e res c =
     (if er_status res \<in> {EV_APPLIED, EV_APPLIED_WITH_GAP} \<and> er_order_state res = Some SETTLED \<and>
         ev_result_currency e \<noteq> None
      then case ev_result_minor e of
          None \<Rightarrow> (Inr (), c)
        | Some pnl \<Rightarrow> then_do (reload_digit_runtime fp tick checked_at now
              (apply_result_to_ledger pnl c)) (\<lambda>_ c1.
            if is_bounded_digit_product (ev_product e)
            then (case get_digit_metrics tick (co_ledger c1) of Inl x \<Rightarrow> (Inl x, c1) | Inr _ \<Rightarrow> (Inr (), c1))
            else (Inr (), c1))
      else (Inr (), c))"

definition handle_event_result ::
  "(digit_risk_config \<Rightarrow> string) \<Rightarrow> rat \<Rightarrow> datetime \<Rightarrow> datetime \<Rightarrow> broker_order_event \<Rightarrow> event_result \<Rightarrow>
   core \<Rightarrow> (exc + unit) \<times> core" where
  "handle_event_result fp tick checked_at now e res c =
     (case er_status res of
        EV_DUPLICATE \<Rightarrow> (Inr (), c)
      | EV_CONFLICT \<Rightarrow> (Inr (), on_gate (block_scope (broker_value (ev_broker e)) (ev_account_id e)
          ''HG_ORDER_EVENT_CONFLICT'') c)
      | _ \<Rightarrow> count_event_result fp tick checked_at now e res (note_event_state e res c))"

text \<open>
  The fallback for a gap in the sequence of events runs the reconciliation of the order. It is
  an argument here: what it returned or raised, and the Core it left.
\<close>

definition gap_fallback ::
  "(string \<Rightarrow> core \<Rightarrow> (exc + bool) \<times> core) option \<Rightarrow> broker_order_event \<Rightarrow> core \<Rightarrow> (exc + unit) \<times> core" where
  "gap_fallback fallback e c =
     (let b = broker_value (ev_broker e); a = ev_account_id e;
          c1 = on_gate (block_scope b a ''HG_ORDER_EVENT_GAP'') c in
      case fallback of
        None \<Rightarrow> (Inr (), c1)
      | Some reconcile \<Rightarrow> then_do (reconcile (ev_client_order_ref e) c1) (\<lambda>resolved c2.
          (Inr (), if resolved then on_gate (clear_scope b a ''HG_ORDER_EVENT_GAP'') c2 else c2)))"

definition process_event ::
  "(digit_risk_config \<Rightarrow> string) \<Rightarrow> rat \<Rightarrow> datetime \<Rightarrow> datetime \<Rightarrow> datetime \<Rightarrow>
   (string \<Rightarrow> core \<Rightarrow> (exc + bool) \<times> core) option \<Rightarrow> broker_order_event \<Rightarrow> core \<Rightarrow>
   (exc + event_result) \<times> core" where
  "process_event fp tick applied_at checked_at now fallback e c =
     then_do (on_writer (apply_normalized_broker_event e applied_at) c) (\<lambda>res c1.
     then_do (handle_event_result fp tick checked_at now e res c1) (\<lambda>_ c2.
     then_do (restore_reservations c2) (\<lambda>_ c3.
     then_do (if er_status res = EV_APPLIED_WITH_GAP then gap_fallback fallback e c3 else (Inr (), c3))
       (\<lambda>_ c4. (Inr res, c4)))))"

end
