(* ===== verification/Reconciler.thy ===== *)
theory Reconciler
  imports Core
begin

text \<open>
  The reconciliation coordinator (\<open>apps/core/reconciliation.py\<close>) and its scheduler
  (\<open>apps/core/reconciliation_scheduler.py\<close>). The answers of the status port, attempt
  identifiers, clock readings and random numbers are given per query of the retry loop. A float
  of the retry policy is a rational number.
\<close>

section \<open>Policy\<close>

record retry_policy =
  rp_max_query_attempts :: nat
  rp_query_timeout :: rat
  rp_query_timeout_max :: rat
  rp_retry_delay :: rat
  rp_retry_backoff_multiplier :: rat
  rp_retry_delay_max :: rat
  rp_retry_jitter :: rat
  rp_not_found_grace_seconds :: rat
  rp_not_found_confirmation_interval_seconds :: rat

definition valid_policy :: "retry_policy \<Rightarrow> bool" where
  "valid_policy p \<longleftrightarrow> 0 < rp_max_query_attempts p \<and> 0 < rp_query_timeout p \<and>
     rp_query_timeout p \<le> rp_query_timeout_max p \<and> 0 \<le> rp_retry_delay p \<and>
     1 \<le> rp_retry_backoff_multiplier p \<and> rp_retry_delay p \<le> rp_retry_delay_max p \<and>
     0 \<le> rp_retry_jitter p \<and> rp_retry_jitter p \<le> 1 \<and> 0 < rp_not_found_grace_seconds p \<and>
     0 < rp_not_found_confirmation_interval_seconds p"

definition ReconciliationCoordinator :: "retry_policy \<Rightarrow> exc + retry_policy" where
  "ReconciliationCoordinator p = (if \<not> valid_policy p
     then Inl (ValueError ''reconciliation retry policy is invalid'') else Inr p)"

definition default_policy :: retry_policy where
  "default_policy = \<lparr>rp_max_query_attempts = 4, rp_query_timeout = 8, rp_query_timeout_max = 20,
     rp_retry_delay = 1, rp_retry_backoff_multiplier = 2, rp_retry_delay_max = 15,
     rp_retry_jitter = 1 / 4, rp_not_found_grace_seconds = 90,
     rp_not_found_confirmation_interval_seconds = 10\<rparr>"

definition query_timeout_for :: "retry_policy \<Rightarrow> nat \<Rightarrow> rat" where
  "query_timeout_for p attempt =
     min (rp_query_timeout_max p) (rp_query_timeout p + of_int (int attempt - 1) * 4)"

definition retry_base :: "retry_policy \<Rightarrow> nat \<Rightarrow> rat" where
  "retry_base p attempt =
     min (rp_retry_delay_max p) (rp_retry_delay p * rp_retry_backoff_multiplier p ^ (attempt - 1))"

text \<open>The time the coordinator sleeps before the next query.\<close>

definition sleep_before_retry :: "retry_policy \<Rightarrow> nat \<Rightarrow> rat \<Rightarrow> exc + rat" where
  "sleep_before_retry p attempt random_value =
     (if \<not> (0 \<le> random_value \<and> random_value \<le> 1)
      then Inl (ValueError ''reconciliation random provider returned an invalid value'')
      else let jitter_factor = 1 + (random_value * 2 - 1) * rp_retry_jitter p in
        Inr (min (rp_retry_delay_max p) (max 0 (retry_base p attempt * jitter_factor))))"

section \<open>Answers of the status port\<close>

record status_result =
  sr_outcome :: status_query_outcome
  sr_evidence :: "reconciliation_evidence option"
  sr_not_found_evidence :: "not_found_evidence option"
  sr_reason_code :: "string option"

text \<open>
  An exception of the port. \<open>StatusQueryError\<close> derives from \<open>RuntimeError\<close>
  (\<open>apps/core/worker_client.py\<close>).
\<close>

datatype status_raise =
    Runtime_error
  | Status_query_error string
  | Other_error exc

fun is_runtime_error :: "status_raise \<Rightarrow> bool" where
  "is_runtime_error Runtime_error = True"
| "is_runtime_error (Status_query_error _) = True"
| "is_runtime_error (Other_error _) = False"

type_synonym status_answer = "status_raise + status_result"

text \<open>\<open>MultiBrokerStatusRouter\<close>, keyed by the value of the broker.\<close>

type_synonym status_worker = "order_status_query \<Rightarrow> rat \<Rightarrow> status_answer"

definition register_status ::
  "string \<Rightarrow> status_worker \<Rightarrow> (string \<times> status_worker) list \<Rightarrow> (string \<times> status_worker) list" where
  "register_status brk w workers = AList.update (upper brk) w workers"

definition unregister_status :: "string \<Rightarrow> (string \<times> status_worker) list \<Rightarrow> (string \<times> status_worker) list" where
  "unregister_status brk workers = AList.delete (upper brk) workers"

definition route_status :: "(string \<times> status_worker) list \<Rightarrow> status_worker" where
  "route_status workers query timeout = (case map_of workers (broker_value (q_broker query)) of
     None \<Rightarrow> Inl (Status_query_error ''WORKER_NOT_READY'') | Some w \<Rightarrow> w query timeout)"

definition transient_status_query_errors :: "string list" where
  "transient_status_query_errors = [''IPC_FRAME_TRUNCATED'', ''IPC_CONNECTION_LOST'',
     ''IPC_HANDSHAKE_TIMEOUT'', ''IPC_BACKPRESSURE'', ''AUTH_IPC_UNAVAILABLE'',
     ''AUTH_IPC_REQUEST_TIMEOUT'', ''LIFECYCLE_IPC_UNAVAILABLE'',
     ''LIFECYCLE_IPC_REQUEST_TIMEOUT'', ''UI_IPC_UNAVAILABLE'', ''UI_IPC_REQUEST_TIMEOUT'',
     ''WORKER_NOT_READY'', ''WORKER_CRASHED'', ''RECONCILIATION_UNAVAILABLE'',
     ''RECONCILIATION_QUERY_TIMEOUT'', ''DERIV_DEMO_REAUTH_REQUIRED'',
     ''DERIV_BALANCE_UNAVAILABLE'', ''MD_CLOCK_UNTRUSTED'']"

definition is_retryable :: "string \<Rightarrow> bool" where
  "is_retryable code \<longleftrightarrow> code \<in> set transient_status_query_errors"

fun reason_for_outcome :: "status_query_outcome \<Rightarrow> string" where
  "reason_for_outcome Q_NOT_FOUND = ''RECONCILIATION_NOT_FOUND''"
| "reason_for_outcome Q_UNAVAILABLE = ''RECONCILIATION_UNAVAILABLE''"
| "reason_for_outcome Q_QUERY_TIMEOUT = ''RECONCILIATION_QUERY_TIMEOUT''"
| "reason_for_outcome Q_INVALID_RESPONSE = ''RECONCILIATION_INVALID_RESPONSE''"
| "reason_for_outcome Q_FOUND = ''RECONCILIATION_INVALID_RESPONSE''"

section \<open>One order\<close>

datatype reconciliation_outcome =
  RO_RESOLVED | RO_IDEMPOTENT | RO_UNRESOLVED | RO_MANUAL_REVIEW_REQUIRED | RO_FAILED | RO_NOT_EXECUTED

record item_result =
  ir_order_id :: string
  ir_outcome :: reconciliation_outcome
  ir_order_state :: order_state
  ir_reason_code :: "string option"

definition item :: "string \<Rightarrow> reconciliation_outcome \<Rightarrow> order_state \<Rightarrow> string option \<Rightarrow> item_result" where
  "item oid outcome st reason = \<lparr>ir_order_id = oid, ir_outcome = outcome, ir_order_state = st,
     ir_reason_code = reason\<rparr>"

definition outcome_count :: "reconciliation_outcome list \<Rightarrow> item_result list \<Rightarrow> nat" where
  "outcome_count outcomes results = length (filter (\<lambda>i. ir_outcome i \<in> set outcomes) results)"

definition resolved_count :: "item_result list \<Rightarrow> nat" where
  "resolved_count = outcome_count [RO_RESOLVED, RO_IDEMPOTENT]"

definition transient_count :: "item_result list \<Rightarrow> nat" where
  "transient_count = outcome_count [RO_UNRESOLVED, RO_FAILED]"

definition not_executed_count :: "item_result list \<Rightarrow> nat" where
  "not_executed_count = outcome_count [RO_NOT_EXECUTED]"

definition manual_review_count :: "item_result list \<Rightarrow> nat" where
  "manual_review_count = outcome_count [RO_MANUAL_REVIEW_REQUIRED]"

text \<open>What one run of the loop reads: digest, policy, and per query the answer and readings.\<close>

record reconcile_env =
  en_sha :: "payload \<Rightarrow> string"
  en_policy :: retry_policy
  en_answer :: "string \<Rightarrow> nat \<Rightarrow> status_answer"
  en_attempt_id :: "string \<Rightarrow> nat \<Rightarrow> string"
  en_begin_at :: "string \<Rightarrow> nat \<Rightarrow> datetime"
  en_end_at :: "string \<Rightarrow> nat \<Rightarrow> datetime"
  en_random :: "string \<Rightarrow> nat \<Rightarrow> rat"

definition query_from_candidate :: "candidate \<Rightarrow> exc + order_status_query" where
  "query_from_candidate ca = (let x = ca_order ca; t = ca_intent ca in
     and_then (Money (ti_amount_minor t) (ti_currency t)) (\<lambda>amount.
     and_then (fromisoformat (ord_created_at x)) (\<lambda>submitted.
     OrderStatusQuery \<lparr>q_correlation_id = ord_correlation_id x, q_intent_id = ord_intent_id x,
       q_order_id = ord_order_id x, q_client_order_ref = ord_order_id x, q_broker = ord_broker x,
       q_account_id = ord_account_id x, q_product = ti_product t, q_symbol = ti_symbol t,
       q_direction = ti_direction t, q_amount = amount, q_broker_order_id = ord_broker_order_id x,
       q_submitted_at = Some submitted\<rparr>)))"

definition failed_item :: "string \<Rightarrow> order_state \<Rightarrow> string \<Rightarrow> core \<Rightarrow> (exc + item_result) \<times> core" where
  "failed_item oid st reason c =
     (Inr (item oid RO_FAILED st (Some reason)), on_gate (block ''HG_RECONCILIATION_UNAVAILABLE'') c)"

definition manual_review :: "string \<Rightarrow> order_state \<Rightarrow> string \<Rightarrow> core \<Rightarrow> (exc + item_result) \<times> core" where
  "manual_review oid st reason c =
     (Inr (item oid RO_MANUAL_REVIEW_REQUIRED st (Some reason)),
      on_gate (block ''HG_RECONCILIATION_CONFLICT'') c)"

text \<open>A finished attempt with a result and a reason.\<close>

definition complete_attempt ::
  "reconcile_env \<Rightarrow> string \<Rightarrow> nat \<Rightarrow> string \<Rightarrow> string \<Rightarrow> core \<Rightarrow> (exc + unit) \<times> core" where
  "complete_attempt env oid n result reason c =
     on_writer (complete_reconciliation_attempt (en_attempt_id env oid n) result reason
       (en_end_at env oid n)) c"

definition apply_found ::
  "reconcile_env \<Rightarrow> string \<Rightarrow> nat \<Rightarrow> reconciliation_evidence \<Rightarrow> core \<Rightarrow> (exc + item_result) \<times> core" where
  "apply_found env oid n e c =
     then_do (on_writer (apply_reconciliation_evidence (en_sha env) (en_attempt_id env oid n) e
       (en_end_at env oid n)) c) (\<lambda>applied c1.
     case ar_status applied of
       RA_CONFLICT \<Rightarrow> (Inr (item oid RO_MANUAL_REVIEW_REQUIRED (ar_order_state applied)
           (ar_reason_code applied)), on_gate (block ''HG_RECONCILIATION_CONFLICT'') c1)
     | RA_UNRESOLVED \<Rightarrow> (Inr (item oid RO_UNRESOLVED (ar_order_state applied) (ar_reason_code applied)),
         on_gate (block ''HG_ORDER_UNKNOWN'') c1)
     | status \<Rightarrow> (Inr (item oid (if status = RA_IDEMPOTENT then RO_IDEMPOTENT else RO_RESOLVED)
           (ar_order_state applied) None),
         if ar_order_state applied = SETTLEMENT_UNKNOWN
         then on_gate (block ''HG_SETTLEMENT_UNKNOWN'') c1 else c1))"

definition apply_not_found ::
  "reconcile_env \<Rightarrow> string \<Rightarrow> order_state \<Rightarrow> nat \<Rightarrow> not_found_evidence option \<Rightarrow> core \<Rightarrow>
   (exc + item_result) \<times> core" where
  "apply_not_found env oid st n negative c =
     (case negative of
        Some e \<Rightarrow>
          if confirms_both_sources e
          then then_do (on_writer (apply_reconciliation_not_found (en_attempt_id env oid n) e
              (rp_not_found_grace_seconds (en_policy env))
              (rp_not_found_confirmation_interval_seconds (en_policy env)) (en_end_at env oid n)) c)
            (\<lambda>applied c1.
              if ar_status applied = RA_RESOLVED
              then (Inr (item oid RO_NOT_EXECUTED (ar_order_state applied)
                (Some ''RECONCILIATION_NOT_FOUND'')), c1)
              else (Inr (item oid RO_UNRESOLVED st (ar_reason_code applied)),
                on_gate (block ''HG_ORDER_UNKNOWN'') c1))
          else then_do (complete_attempt env oid n ''UNRESOLVED'' ''RECONCILIATION_NOT_FOUND'' c) (\<lambda>_ c1.
            (Inr (item oid RO_UNRESOLVED st (Some ''RECONCILIATION_NOT_FOUND'')),
             on_gate (block ''HG_ORDER_UNKNOWN'') c1))
      | None \<Rightarrow> then_do (complete_attempt env oid n ''UNRESOLVED'' ''RECONCILIATION_NOT_FOUND'' c) (\<lambda>_ c1.
          (Inr (item oid RO_UNRESOLVED st (Some ''RECONCILIATION_NOT_FOUND'')),
           on_gate (block ''HG_ORDER_UNKNOWN'') c1)))"

text \<open>
  One query of the loop: \<open>Inl\<close> an item that ends it, or \<open>Inr ()\<close> to sleep and go on. The
  handlers stand in the order of the code, \<open>RuntimeError\<close> first.
\<close>

definition handle_raise ::
  "reconcile_env \<Rightarrow> string \<Rightarrow> order_state \<Rightarrow> nat \<Rightarrow> status_raise \<Rightarrow> core \<Rightarrow>
   (exc + (item_result + unit)) \<times> core" where
  "handle_raise env oid st n r c =
     (let final = (\<lambda>(m :: (exc + item_result) \<times> core). then_do m (\<lambda>i c1. (Inr (Inl i), c1)));
          last = (n \<ge> rp_max_query_attempts (en_policy env)) in
      if is_runtime_error r
      then then_do (complete_attempt env oid n ''FAILED'' ''WORKER_NOT_READY'' c) (\<lambda>_ c1.
        if \<not> last then (Inr (Inr ()), c1) else final (failed_item oid st ''WORKER_NOT_READY'' c1))
      else case r of
          Status_query_error code \<Rightarrow>
            if is_retryable code \<and> \<not> last
            then then_do (complete_attempt env oid n ''FAILED'' code c) (\<lambda>_ c1. (Inr (Inr ()), c1))
            else if \<not> is_retryable code
            then then_do (complete_attempt env oid n ''CONFLICT'' code c) (\<lambda>_ c1.
              final (manual_review oid st code c1))
            else then_do (complete_attempt env oid n ''FAILED'' code c) (\<lambda>_ c1.
              final (failed_item oid st code c1))
        | Other_error e \<Rightarrow> (Inl e, c)
        | Runtime_error \<Rightarrow> (Inl (RuntimeError []), c))"

definition handle_status ::
  "reconcile_env \<Rightarrow> string \<Rightarrow> order_state \<Rightarrow> nat \<Rightarrow> status_result \<Rightarrow> core \<Rightarrow>
   (exc + (item_result + unit)) \<times> core" where
  "handle_status env oid st n s c =
     (let final = (\<lambda>(m :: (exc + item_result) \<times> core). then_do m (\<lambda>i c1. (Inr (Inl i), c1)));
          reason = (case sr_reason_code s of
            Some r \<Rightarrow> if r = [] then reason_for_outcome (sr_outcome s) else r
          | None \<Rightarrow> reason_for_outcome (sr_outcome s));
          last = (n \<ge> rp_max_query_attempts (en_policy env)) in
      case sr_outcome s of
        Q_FOUND \<Rightarrow> (case sr_evidence s of
            None \<Rightarrow> then_do (complete_attempt env oid n ''CONFLICT'' ''RECONCILIATION_INVALID_RESPONSE'' c)
              (\<lambda>_ c1. final (manual_review oid st ''RECONCILIATION_INVALID_RESPONSE'' c1))
          | Some e \<Rightarrow> final (apply_found env oid n e c))
      | Q_NOT_FOUND \<Rightarrow> final (apply_not_found env oid st n (sr_not_found_evidence s) c)
      | Q_INVALID_RESPONSE \<Rightarrow> then_do (complete_attempt env oid n ''CONFLICT'' reason c) (\<lambda>_ c1.
          final (manual_review oid st reason c1))
      | _ \<Rightarrow>
          if \<not> last then then_do (complete_attempt env oid n ''UNRESOLVED'' reason c) (\<lambda>_ c1.
            (Inr (Inr ()), c1))
          else then_do (complete_attempt env oid n ''FAILED'' reason c) (\<lambda>_ c1.
            final (failed_item oid st reason c1)))"

definition query_once ::
  "reconcile_env \<Rightarrow> string \<Rightarrow> string \<Rightarrow> order_state \<Rightarrow> nat \<Rightarrow> core \<Rightarrow> (exc + (item_result + unit)) \<times> core" where
  "query_once env oid correlation_id st n c =
     then_do (on_writer (begin_reconciliation_attempt (en_attempt_id env oid n) oid correlation_id
       (en_begin_at env oid n)) c) (\<lambda>_ c1.
     case en_answer env oid n of
       Inl r \<Rightarrow> handle_raise env oid st n r c1
     | Inr s \<Rightarrow> handle_status env oid st n s c1)"

fun reconcile_loop ::
  "reconcile_env \<Rightarrow> string \<Rightarrow> string \<Rightarrow> order_state \<Rightarrow> nat list \<Rightarrow> core \<Rightarrow> (exc + item_result) \<times> core" where
  "reconcile_loop env oid correlation_id st [] c =
     (Inl (AssertionError ''bounded reconciliation loop did not return''), c)"
| "reconcile_loop env oid correlation_id st (n # ns) c =
     then_do (query_once env oid correlation_id st n c) (\<lambda>res c1.
     case res of
       Inl i \<Rightarrow> (Inr i, c1)
     | Inr _ \<Rightarrow> then_do (sleep_before_retry (en_policy env) n (en_random env oid n), c1) (\<lambda>_ c2.
         reconcile_loop env oid correlation_id st ns c2))"

definition reconcile :: "reconcile_env \<Rightarrow> candidate \<Rightarrow> core \<Rightarrow> (exc + item_result) \<times> core" where
  "reconcile env ca c =
     then_do (query_from_candidate ca, c) (\<lambda>query c1.
     reconcile_loop env (ord_order_id (ca_order ca)) (q_correlation_id query) (ord_state (ca_order ca))
       [1..<Suc (rp_max_query_attempts (en_policy env))] c1)"

section \<open>Cycles\<close>

definition unsettled_outcome :: "reconciliation_outcome \<Rightarrow> bool" where
  "unsettled_outcome r \<longleftrightarrow> r \<in> {RO_FAILED, RO_UNRESOLVED, RO_MANUAL_REVIEW_REQUIRED}"

definition all_settled :: "item_result list \<Rightarrow> bool" where
  "all_settled results \<longleftrightarrow> results \<noteq> [] \<and> list_all (\<lambda>i. \<not> unsettled_outcome (ir_outcome i)) results"

definition clear_gates_after_positive_cycle :: "bool \<Rightarrow> bool \<Rightarrow> core \<Rightarrow> core" where
  "clear_gates_after_positive_cycle attempted successful c =
     (if \<not> attempted then c
      else
        let c1 = (if successful \<and> list_reconciliation_candidates (co_db c) = []
              then on_gate (clear_if ''HG_RECONCILIATION_UNAVAILABLE'')
                (on_gate (clear_if ''HG_RECONCILIATION_REQUIRED'')
                  (on_gate (clear_if ''HG_ORDER_UNKNOWN'') c))
              else c) in
        if orders_by_state SETTLEMENT_UNKNOWN (co_db c) = []
        then on_gate (clear_if ''HG_SETTLEMENT_UNKNOWN'') c1 else c1)"

fun reconcile_each ::
  "reconcile_env \<Rightarrow> candidate list \<Rightarrow> core \<Rightarrow> (exc + item_result list) \<times> core" where
  "reconcile_each env [] c = (Inr [], c)"
| "reconcile_each env (ca # cas) c =
     then_do (reconcile env ca c) (\<lambda>i c1.
     then_do (reconcile_each env cas c1) (\<lambda>is c2. (Inr (i # is), c2)))"

definition reconcile_all :: "reconcile_env \<Rightarrow> core \<Rightarrow> (exc + item_result list) \<times> core" where
  "reconcile_all env c =
     (let candidates = list_reconciliation_candidates (co_db c) in
      then_do (reconcile_each env candidates c) (\<lambda>results c1.
      (Inr results, clear_gates_after_positive_cycle (candidates \<noteq> []) (all_settled results) c1)))"

definition reconcile_order :: "reconcile_env \<Rightarrow> string \<Rightarrow> core \<Rightarrow> (exc + item_result) \<times> core" where
  "reconcile_order env oid c = (case reconciliation_candidate oid (co_db c) of
     None \<Rightarrow> (Inl (ValueError ''order not found''), c)
   | Some ca \<Rightarrow> then_do (reconcile env ca c) (\<lambda>result c1.
       (Inr result, clear_gates_after_positive_cycle True (all_settled [result]) c1)))"

text \<open>Outcomes grouped by broker, in the order of first appearance.\<close>

definition reconcile_all_brokers ::
  "reconcile_env \<Rightarrow> core \<Rightarrow> (exc + (string \<times> reconciliation_outcome list) list) \<times> core" where
  "reconcile_all_brokers env c =
     (let candidates = list_reconciliation_candidates (co_db c) in
      then_do (reconcile_each env candidates c) (\<lambda>results c1.
      let tagged = zip (map (broker_value \<circ> ord_broker \<circ> ca_order) candidates) (map ir_outcome results) in
      (Inr (map (\<lambda>b. (b, map snd (filter (\<lambda>p. fst p = b) tagged)))
         (rev (remdups (rev (map fst tagged))))),
       clear_gates_after_positive_cycle (candidates \<noteq> []) (all_settled results) c1)))"

section \<open>The scheduler\<close>

definition reconciliation_gates :: "string list" where
  "reconciliation_gates = [''HG_RECONCILIATION_UNAVAILABLE'', ''HG_RECONCILIATION_REQUIRED'',
     ''HG_ORDER_UNKNOWN'', ''HG_SETTLEMENT_UNKNOWN'']"

type_synonym signature = "(string \<times> order_state) list \<times> string list"

definition state_signature :: "core \<Rightarrow> signature" where
  "state_signature c =
     (map (\<lambda>ca. (ord_order_id (ca_order ca), ord_state (ca_order ca)))
        (list_reconciliation_candidates (co_db c)),
      gs_active_blockers (get_snapshot (co_health c) (co_gate c)))"

definition signature_active :: "signature \<Rightarrow> bool" where
  "signature_active sig \<longleftrightarrow> fst sig \<noteq> [] \<or> set (snd sig) \<inter> set reconciliation_gates \<noteq> {}"

record schedule =
  sc_base_delay :: rat
  sc_max_delay :: rat
  sc_delay :: rat
  sc_last_signature :: "signature option"

definition ReconciliationScheduler :: "rat \<Rightarrow> rat \<Rightarrow> exc + schedule" where
  "ReconciliationScheduler base_delay max_delay =
     (if base_delay \<le> 0 \<or> max_delay < base_delay
      then Inl (ValueError ''reconciliation scheduler policy is invalid'')
      else Inr \<lparr>sc_base_delay = base_delay, sc_max_delay = max_delay, sc_delay = base_delay,
        sc_last_signature = None\<rparr>)"

definition trigger :: "bool \<Rightarrow> schedule \<Rightarrow> schedule" where
  "trigger stopped s = (if stopped then s else s\<lparr>sc_delay := sc_base_delay s\<rparr>)"

text \<open>The end of a cycle: the delay of the next one from the signatures around it.\<close>

definition next_delay :: "signature \<Rightarrow> signature \<Rightarrow> schedule \<Rightarrow> schedule" where
  "next_delay before after s =
     (if \<not> signature_active after then s\<lparr>sc_delay := sc_max_delay s\<rparr>
      else s\<lparr>sc_delay := (if after \<noteq> before \<or> sc_last_signature s \<noteq> Some after
            then sc_base_delay s else min (sc_max_delay s) (sc_delay s * 2)),
          sc_last_signature := Some after\<rparr>)"

text \<open>\<open>run_once\<close> with the callback of the runtime at the end of a cycle.\<close>

definition on_reconciliation_cycle_completed :: "core \<Rightarrow> (exc + unit) \<times> core" where
  "on_reconciliation_cycle_completed c =
     then_do (restore_reservations c) (\<lambda>_ c1.
     (Inr (), c1\<lparr>co_dispatcher_started := hs_is_open (gate_state (co_health c1) (co_gate c1))\<rparr>))"

definition run_once :: "reconcile_env \<Rightarrow> core \<Rightarrow> (exc + item_result list) \<times> core" where
  "run_once env c =
     then_do (reconcile_all env c) (\<lambda>report c1.
     then_do (on_reconciliation_cycle_completed c1) (\<lambda>_ c2. (Inr report, c2)))"

text \<open>
  One turn of the loop of the scheduler's thread that is not stopped: \<open>triggered\<close> says how the
  wait ended, and the state of the Core is read before and after it.
\<close>

definition scheduler_turn ::
  "bool \<Rightarrow> reconcile_env \<Rightarrow> core \<Rightarrow> core \<Rightarrow> schedule \<Rightarrow> core \<times> schedule" where
  "scheduler_turn triggered env before_wait c s =
     (if \<not> triggered \<and> \<not> signature_active (state_signature before_wait) \<and>
         \<not> signature_active (state_signature c)
      then (c, s)
      else case run_once env c of
          (Inl _, c1) \<Rightarrow> (on_gate (block ''HG_RECONCILIATION_UNAVAILABLE'') c1,
            s\<lparr>sc_delay := sc_max_delay s\<rparr>)
        | (Inr _, c1) \<Rightarrow> (c1, next_delay (state_signature c) (state_signature c1) s))"

section \<open>What reconciling an order can change\<close>

text \<open>
  Reconciling an order touches the Core in two ways only: it calls the writer and it blocks the
  gate. Every relation that composes and holds of both holds of the whole retry loop.
\<close>

locale reconcile_relation = composed_relation R for R :: "core \<Rightarrow> core \<Rightarrow> bool" +
  assumes writer_changed: "R c (c\<lparr>co_writer := w\<rparr>)" and blocked: "R c (on_gate (block r) c)"
begin

lemma writer_call: "R c (snd (on_writer f c))"
  by (simp add: on_writer_def writer_changed split: prod.splits)

lemma complete_attempt: "R c (snd (complete_attempt env oid n result reason c))"
  unfolding complete_attempt_def by (rule writer_call)

lemma items: "R c (snd (failed_item oid st reason c))" "R c (snd (manual_review oid st reason c))"
  by (simp_all add: failed_item_def manual_review_def blocked)

lemma apply_found: "R c (snd (apply_found env oid n e c))"
  unfolding apply_found_def by (rule seq [OF writer_call]) (auto intro!: blocked refl split: apply_status.splits)

lemma apply_not_found: "R c (snd (apply_not_found env oid st n negative c))"
  unfolding apply_not_found_def
  by (auto intro!: seq complete_attempt writer_call blocked refl split: option.splits)

lemma handle_raise: "R c (snd (handle_raise env oid st n r c))"
  unfolding handle_raise_def Let_def
  by (auto intro!: seq complete_attempt items refl split: status_raise.splits)

lemma handle_status: "R c (snd (handle_status env oid st n s c))"
  unfolding handle_status_def Let_def
  by (auto intro!: seq complete_attempt apply_found apply_not_found items refl
      split: status_query_outcome.splits option.splits)

lemma query_once: "R c (snd (query_once env oid cid st n c))"
  unfolding query_once_def
  by (rule seq [OF writer_call]) (auto intro!: handle_raise handle_status split: sum.splits)

lemma reconcile_loop: "R c (snd (reconcile_loop env oid cid st ns c))"
proof (induction ns arbitrary: c)
  case (Cons n ns)
  then show ?case by (auto intro!: seq query_once refl split: sum.splits)
qed (simp add: refl)

lemma reconcile: "R c (snd (reconcile env ca c))"
  unfolding reconcile_def by (intro seq reconcile_loop) (simp add: refl)

lemma reconcile_each: "R c (snd (reconcile_each env cas c))"
  by (induction cas arbitrary: c) (auto intro!: seq reconcile refl)

end

lemma ledger_on_writer [simp]: "co_ledger (snd (on_writer f c)) = co_ledger c"
  by (simp add: on_writer_def split: prod.splits)

lemma gate_on_writer [simp]: "co_gate (snd (on_writer f c)) = co_gate c"
  by (simp add: on_writer_def split: prod.splits)

text \<open>It leaves the ledger alone, and it lifts no blocker.\<close>

interpretation ledger_kept: reconcile_relation "\<lambda>c c'. co_ledger c' = co_ledger c"
  by unfold_locales (auto simp: on_gate_def)

interpretation blockers_grow: reconcile_relation "\<lambda>c c'. hg_blockers (co_gate c) \<subseteq> hg_blockers (co_gate c')"
  by unfold_locales (auto simp: on_gate_def block_def)

end
