(* ===== verification/Runtime.thy ===== *)
theory Runtime
  imports Reconciler
begin

text \<open>
  The runtime of the Core (\<open>apps/core/runtime.py\<close>): its start up to the point where it takes
  orders, the operator's changes of the digit configuration, and arming and disarming. Writing
  the configuration file is an argument that says whether it succeeded. Wiring of workers, event
  pumps and threads is not modelled.
\<close>

section \<open>Start\<close>

definition configure_for_startup ::
  "(digit_risk_config \<Rightarrow> string) \<Rightarrow> (decimal \<Rightarrow> string) \<Rightarrow> datetime \<Rightarrow> datetime \<Rightarrow> core \<Rightarrow>
   (exc + unit) \<times> core" where
  "configure_for_startup fp str_of now again c =
     (let policy = digit_runtime_policy fp str_of (co_ledger c) in
      case on_writer (configure_digit_risk_runtime policy False now) c of
        (Inr _, c1) \<Rightarrow> (Inr (), c1)
      | (Inl (PersistenceError m), c1) \<Rightarrow>
          if \<not> occurs_in ''DIGIT_MARTINGALE_SEQUENCE_ACTIVE'' m then (Inl (PersistenceError m), c1)
          else if has_nonterminal_deriv_digit_order (co_db c1) \<or>
            reservations_by_state ACTIVE (co_db c1) \<noteq> []
          then (Inl (PersistenceError ''DIGIT_MARTINGALE_SEQUENCE_ACTIVE_WITH_EXPOSURE''), c1)
          else on_writer (configure_digit_risk_runtime policy True again) c1
      | (Inl e, c1) \<Rightarrow> (Inl e, c1))"

text \<open>Reconciling the orders of the brokers that are not deferred, one after the other.\<close>

fun reconcile_orders :: "reconcile_env \<Rightarrow> string list \<Rightarrow> core \<Rightarrow> (exc + item_result list) \<times> core" where
  "reconcile_orders env [] c = (Inr [], c)"
| "reconcile_orders env (oid # oids) c =
     then_do (reconcile_order env oid c) (\<lambda>i c1.
     then_do (reconcile_orders env oids c1) (\<lambda>is c2. (Inr (i # is), c2)))"

definition immediate_candidates :: "broker list \<Rightarrow> state_db \<Rightarrow> string list" where
  "immediate_candidates deferred db = map (ord_order_id \<circ> ca_order)
     (filter (\<lambda>ca. ord_broker (ca_order ca) \<notin> set deferred) (list_reconciliation_candidates db))"

text \<open>The fallback the runtime gives to the event processor.\<close>

definition event_fallback :: "reconcile_env \<Rightarrow> string \<Rightarrow> core \<Rightarrow> (exc + bool) \<times> core" where
  "event_fallback env oid c = then_do (reconcile_order env oid c) (\<lambda>i c1.
     (Inr (ir_outcome i = RO_RESOLVED \<or> ir_outcome i = RO_IDEMPOTENT), c1))"

text \<open>The constructor of \<open>BrokerEventProcessor\<close>.\<close>

definition BrokerEventProcessor ::
  "(digit_risk_config \<Rightarrow> string) \<Rightarrow> (decimal \<Rightarrow> string) \<Rightarrow> rat \<Rightarrow> datetime \<Rightarrow> datetime \<Rightarrow> datetime \<Rightarrow> core \<Rightarrow>
   (exc + unit) \<times> core" where
  "BrokerEventProcessor fp str_of tick configured_at checked_at now c =
     then_do (on_writer (configure_digit_risk_runtime (digit_runtime_policy fp str_of (co_ledger c))
       False configured_at) c) (\<lambda>_ c1.
     reload_digit_runtime fp tick checked_at now c1)"

text \<open>
  \<open>start\<close> after the writer is open: recovery, a new ledger with the stored configuration, the
  durable digit runtime, the reconciliation of what is pending, and the event processor where
  the worker has events. \<open>clock n\<close> is the nth reading of the clock.
\<close>

definition start ::
  "reconcile_env \<Rightarrow> (digit_risk_config \<Rightarrow> string) \<Rightarrow> (decimal \<Rightarrow> string) \<Rightarrow> (nat \<Rightarrow> rat) \<Rightarrow> (nat \<Rightarrow> datetime) \<Rightarrow>
   digit_risk_config \<Rightarrow> broker list \<Rightarrow> bool \<Rightarrow> core \<Rightarrow> (exc + recovery_report) \<times> core" where
  "start env fp str_of tick clock digit_config deferred has_events c =
     then_do (recover (clock 0) c) (\<lambda>report c1.
     then_do (RiskLedger default_risk_config digit_config, c1) (\<lambda>l c2.
     then_do (configure_for_startup fp str_of (clock 1) (clock 2) (c2\<lparr>co_ledger := l\<rparr>)) (\<lambda>_ c3.
     then_do (reload_digit_runtime fp (tick 0) (clock 3) (clock 4) c3) (\<lambda>_ c4.
     then_do (restore_reservations c4) (\<lambda>_ c5.
     then_do (reconcile_orders env (immediate_candidates deferred (co_db c5)) c5) (\<lambda>_ c6.
     then_do (if has_events then BrokerEventProcessor fp str_of (tick 1) (clock 5) (clock 6) (clock 7) c6
       else (Inr (), c6)) (\<lambda>_ c7.
     (Inr report, c7\<lparr>co_dispatcher_started := hs_is_open (gate_state (co_health c7) (co_gate c7))\<rparr>))))))))"

section \<open>The operator\<close>

definition ledger_update ::
  "(digit_risk_config \<Rightarrow> string) \<Rightarrow> rat \<Rightarrow> datetime \<Rightarrow> digit_risk_config \<Rightarrow> bool \<Rightarrow> core \<Rightarrow>
   (exc + (bool \<times> string option)) \<times> core" where
  "ledger_update fp tick now config reset_active c =
     on_ledger fp tick now (\<not> reset_active) (\<lambda>rd db s. update_digit_risk_config rd config reset_active s) c"

definition runtime_update_digit_config ::
  "(digit_risk_config \<Rightarrow> string) \<Rightarrow> (decimal \<Rightarrow> string) \<Rightarrow> rat \<Rightarrow> datetime \<Rightarrow> bool \<Rightarrow> digit_risk_config \<Rightarrow>
   core \<Rightarrow> (exc + (bool \<times> string option)) \<times> core" where
  "runtime_update_digit_config fp str_of tick now saved config c =
     (if has_nonterminal_deriv_digit_order (co_db c)
      then (Inr (False, Some ''DIGIT_RISK_CONFIG_BLOCKED_OPEN_ORDER''), c)
      else
        let previous = rl_digit_config (co_ledger c) in
        then_do (ledger_update fp tick now config True c) (\<lambda>(accepted, reason) c1.
        if \<not> accepted then (Inr (False, reason), c1)
        else
          case on_writer (configure_digit_risk_runtime
              (digit_runtime_policy fp str_of (co_ledger c1)) True now) c1 of
            (res, c2) \<Rightarrow>
              if (case res of Inr _ \<Rightarrow> saved | Inl _ \<Rightarrow> False) then (Inr (True, None), c2)
              else
                then_do (ledger_update fp tick now previous False c2) (\<lambda>_ c3.
                then_do (on_writer (configure_digit_risk_runtime
                  (digit_runtime_policy fp str_of (co_ledger c3)) False now) c3) (\<lambda>_ c4.
                (Inr (False, Some ''DIGIT_RISK_CONFIG_PERSISTENCE_FAILED''), c4)))))"

definition with_gate :: "(risk \<Rightarrow> risk) \<Rightarrow> core \<Rightarrow> core" where
  "with_gate f c = (case f (co_ledger c, Some (co_gate c)) of (l, g) \<Rightarrow>
     c\<lparr>co_ledger := l, co_gate := (case g of None \<Rightarrow> co_gate c | Some g1 \<Rightarrow> g1)\<rparr>)"

definition reset_digit_test_session :: "datetime \<Rightarrow> core \<Rightarrow> (exc + (bool \<times> string option)) \<times> core" where
  "reset_digit_test_session now c =
     (if has_nonterminal_deriv_digit_order (co_db c)
      then (Inr (False, Some ''DIGIT_TEST_SESSION_RESET_BLOCKED_EXPOSURE''), c)
      else case on_writer (reset_digit_test_session_if_flat now) c of
          (Inr _, c1) \<Rightarrow> (Inr (True, None), with_gate reset_daily_pnl c1)
        | (Inl e, c1) \<Rightarrow>
            if is_persistence_error e
            then (Inr (False, Some (if (case e of PersistenceError m \<Rightarrow>
                  occurs_in ''DIGIT_TEST_SESSION_RESET_BLOCKED_EXPOSURE'' m | _ \<Rightarrow> False)
              then ''DIGIT_TEST_SESSION_RESET_BLOCKED_EXPOSURE'' else ''DIGIT_TEST_SESSION_RESET_FAILED'')), c1)
            else (Inl e, c1))"

definition reset_recovery ::
  "(digit_risk_config \<Rightarrow> string) \<Rightarrow> (decimal \<Rightarrow> string) \<Rightarrow> datetime \<Rightarrow> core \<Rightarrow>
   (exc + (bool \<times> string option)) \<times> core" where
  "reset_recovery fp str_of now c =
     (if has_nonterminal_deriv_digit_order (co_db c)
      then (Inr (False, Some ''DIGIT_RECOVERY_RESET_BLOCKED_EXPOSURE''), c)
      else case on_writer (configure_digit_risk_runtime
            (digit_runtime_policy fp str_of (co_ledger c)) True now) c of
          (Inr _, c1) \<Rightarrow> (Inr (True, None), with_gate reset_digit_recovery_state c1)
        | (Inl e, c1) \<Rightarrow> (Inr (False, Some ''DIGIT_RECOVERY_RESET_FAILED''), c1))"

section \<open>Arming\<close>

definition stop_new_entries :: "core \<Rightarrow> core" where
  "stop_new_entries c = on_gate (block ''HG_SAFE_STOP'') (c\<lparr>co_dispatcher_started := False\<rparr>)"

definition safe_stop_active :: "core \<Rightarrow> bool" where
  "safe_stop_active c \<longleftrightarrow> gate_contains ''HG_SAFE_STOP'' (co_gate c)"

definition resume_new_entries ::
  "(digit_risk_config \<Rightarrow> string) \<Rightarrow> rat \<Rightarrow> datetime \<Rightarrow> core \<Rightarrow> (exc + bool) \<times> core" where
  "resume_new_entries fp tick now c =
     then_do (refresh_gate fp tick now c) (\<lambda>_ c1.
     let c2 = on_gate (clear_if ''HG_SAFE_STOP'') c1;
         armed = hs_is_open (gate_state (co_health c2) (co_gate c2));
         c3 = c2\<lparr>co_dispatcher_started := armed\<rparr> in
     (Inr armed, if \<not> armed then on_gate (block ''HG_SAFE_STOP'') c3 else c3))"

definition resume_new_entries_for ::
  "(digit_risk_config \<Rightarrow> string) \<Rightarrow> rat \<Rightarrow> datetime \<Rightarrow> broker \<Rightarrow> string \<Rightarrow> core \<Rightarrow> (exc + bool) \<times> core" where
  "resume_new_entries_for fp tick now brk account_id c =
     then_do (refresh_gate fp tick now c) (\<lambda>_ c1.
     let c2 = on_gate (clear_if ''HG_SAFE_STOP'') c1;
         armed = hs_is_open (state_for (co_health c2) (broker_value brk) account_id (co_gate c2)) in
     (Inr armed, if armed then c2\<lparr>co_dispatcher_started := True\<rparr> else c2))"

definition runtime_dispatch_pending ::
  "worker \<Rightarrow> datetime \<Rightarrow> datetime \<Rightarrow> core \<Rightarrow> (exc + order_command option) \<times> core" where
  "runtime_dispatch_pending worker dispatch_time recorded_at c =
     (if \<not> co_dispatcher_started c then (Inl (RuntimeError ''dispatcher is not started''), c)
      else dispatch_pending worker None None dispatch_time recorded_at c)"

end
