(* ===== verification/Scenario.thy ===== *)
theory Scenario
  imports WriterInv
begin

text \<open>
  A concrete run of the writer, on which the properties are instantiated: an order is persisted,
  claimed, accepted and settled with a loss, then a second order on the same account is persisted
  and claimed, its outcome is unknown after a restart, and a first attempt at reconciliation finds
  nothing. The digest of a payload is a constant
  here. The lemmas give the states of the run in terms of the rows the operations build.
\<close>

definition demo_sha :: "payload \<Rightarrow> string" where
  "demo_sha p = ''digest''"

definition demo_now :: datetime where "demo_now = utc 2025 1 2 10 0 0 0"
definition demo_later :: datetime where "demo_later = utc 2025 1 2 11 0 0 0"

definition demo_request :: order_request where
  "demo_request = \<lparr>req_correlation_id = ''cor1'', req_broker = Broker_DERIV,
     req_account_id = ''VRTC1'', req_product = ''DIGITEVEN'', req_symbol = ''R_100'',
     req_direction = CALL, req_amount = \<lparr>minor_units = 100, currency = ''USD''\<rparr>,
     req_strategy_id = ''s1'', req_strategy_version = ''1'', req_deadline_at = demo_later,
     req_duration = 1, req_duration_unit = ''t'', req_prediction_digit = None\<rparr>"

definition demo_command :: order_command where
  "demo_command = \<lparr>cmd_message_id = ''m1'', cmd_correlation_id = ''cor1'', cmd_intent_id = ''i1'',
     cmd_order_id = ''o1'', cmd_broker = Broker_DERIV, cmd_account_id = ''VRTC1'',
     cmd_product = ''DIGITEVEN'', cmd_symbol = ''R_100'', cmd_direction = CALL,
     cmd_amount = \<lparr>minor_units = 100, currency = ''USD''\<rparr>, cmd_deadline_at = demo_later,
     cmd_duration = 1, cmd_duration_unit = ''t'', cmd_prediction_digit = None\<rparr>"

definition other_command :: order_command where
  "other_command = demo_command\<lparr>cmd_message_id := ''m2'', cmd_intent_id := ''i2'',
     cmd_order_id := ''o2''\<rparr>"

definition demo_policy :: payload where
  "demo_policy = [(''config_fingerprint'', PStr ''f1''), (''currency'', PStr ''USD''),
     (''martingale_enabled'', PBool True), (''martingale_max_steps'', PInt 2),
     (''max_consecutive_losses'', PInt 3), (''cooldown_seconds'', PStr ''60'')]"

definition demo_event :: broker_order_event where
  "demo_event = \<lparr>ev_event_id = ''e1'', ev_event_version = 1, ev_broker = Broker_DERIV,
     ev_account_id = ''VRTC1'', ev_client_order_ref = ''o1'', ev_broker_order_id = ''b1'',
     ev_correlation_id = ''cor1'', ev_external_sequence = Some 1,
     ev_external_status = EXT_SETTLED, ev_occurred_at = demo_now, ev_observed_at = demo_now,
     ev_product = ''DIGITEVEN'', ev_symbol = ''R_100'', ev_direction = CALL,
     ev_amount = \<lparr>minor_units = 100, currency = ''USD''\<rparr>, ev_result_minor = Some (- 100),
     ev_result_currency = Some ''USD'', ev_evidence_hash = ''digest'',
     ev_seconds_remaining = None, ev_current_spot = None\<rparr>"

definition demo_start :: writer where
  "demo_start = \<lparr>w_db = empty_db, w_health = DatabaseHealth, w_fault = (\<lambda>_. None)\<rparr>"

definition w_config :: writer where
  "w_config = snd (configure_digit_risk_runtime demo_policy False demo_now demo_start)"

definition w_stored :: writer where
  "w_stored = snd (persist_intent_reservation_outbox demo_request demo_command ''i1'' ''r1'' ''o1''
     demo_now (Some 500) (Some 200) (Some ''USD'') w_config)"

definition w_claimed :: writer where
  "w_claimed = snd (claim_next_message demo_now None None w_stored)"

definition w_accepted :: writer where
  "w_accepted = snd (record_dispatch_result demo_command ''ACCEPTED'' (Some ''b1'') None demo_now w_claimed)"

definition w_settled :: writer where
  "w_settled = snd (apply_normalized_broker_event demo_event demo_now w_accepted)"

definition w_again :: writer where
  "w_again = snd (persist_intent_reservation_outbox demo_request other_command ''i2'' ''r2'' ''o2''
     demo_now (Some 500) (Some 200) (Some ''USD'') w_settled)"

definition w_second :: writer where
  "w_second = snd (claim_next_message demo_now None None w_again)"

definition w_unknown :: writer where
  "w_unknown = snd (recover_interrupted_dispatches demo_now w_second)"

lemma demo_reach:
  "reach new_writer (writer_step sha) demo_start" "reach new_writer (writer_step sha) w_config"
  "reach new_writer (writer_step sha) w_stored" "reach new_writer (writer_step sha) w_claimed"
  "reach new_writer (writer_step sha) w_accepted" "reach new_writer (writer_step sha) w_settled"
  "reach new_writer (writer_step sha) w_again" "reach new_writer (writer_step sha) w_second"
  "reach new_writer (writer_step sha) w_unknown"
proof -
  show 0: "reach new_writer (writer_step sha) demo_start"
    by (rule reach_init) (simp add: demo_start_def)
  show 1: "reach new_writer (writer_step sha) w_config"
    unfolding w_config_def by (rule reach_step [OF 0 ws_configure])
  show 2: "reach new_writer (writer_step sha) w_stored"
    unfolding w_stored_def by (rule reach_step [OF 1 ws_persist])
  show 3: "reach new_writer (writer_step sha) w_claimed"
    unfolding w_claimed_def by (rule reach_step [OF 2 ws_claim])
  show 4: "reach new_writer (writer_step sha) w_accepted"
    unfolding w_accepted_def by (rule reach_step [OF 3 ws_result])
  show 5: "reach new_writer (writer_step sha) w_settled"
    unfolding w_settled_def by (rule reach_step [OF 4 ws_event])
  show 6: "reach new_writer (writer_step sha) w_again"
    unfolding w_again_def by (rule reach_step [OF 5 ws_persist])
  show 7: "reach new_writer (writer_step sha) w_second"
    unfolding w_second_def by (rule reach_step [OF 6 ws_claim])
  show "reach new_writer (writer_step sha) w_unknown"
    unfolding w_unknown_def by (rule reach_step [OF 7 ws_recover])
qed

lemma demo_times [simp]: "valid_datetime demo_now" "valid_datetime demo_later" "is_utc demo_now" "is_utc demo_later"
  by (simp_all add: demo_now_def demo_later_def utc_def valid_datetime_def is_utc_def days_in_month_def)

lemma demo_valid: "valid_command demo_command" "valid_command other_command"
  by (simp_all add: valid_command_def demo_command_def other_command_def validate_order_command_def
      string_eval validate_duration_def validate_digit_contract_def digit_products_def
      digit_barrier_products_def digit_parity_products_def valid_currency_def)

definition demo_runtime :: runtime_policy where
  "demo_runtime = \<lparr>rp_fingerprint = ''f1'', rp_currency = ''USD'', rp_enabled = True,
     rp_max_steps = 2, rp_max_losses = 3, rp_cooldown = 60\<rparr>"

lemma demo_policy_read: "read_runtime_policy demo_policy = Inr demo_runtime"
  by (simp add: read_runtime_policy_def demo_policy_def runtime_policy_types_def demo_runtime_def
      decimal_eval string_eval)

lemmas row_defs = new_intent_row_def new_reservation_row_def new_outbox_row_def new_order_row_def
  moved_order_def claimed_row_def released_row_def new_runtime_row_def

lemmas demo_values = demo_request_def demo_command_def other_command_def demo_event_def
  demo_runtime_def

definition demo_out1 :: outbox_row where "demo_out1 = new_outbox_row demo_request demo_command ''i1'' demo_now"
definition demo_ord1 :: order_row where "demo_ord1 = new_order_row demo_request ''o1'' ''i1'' demo_now"

definition stored_db :: state_db where
  "stored_db = empty_db\<lparr>digit_risk_runtime := Some (new_runtime_row demo_runtime demo_now),
     trade_intents := [new_intent_row demo_request ''i1'' demo_now],
     risk_reservations := [new_reservation_row demo_request ''r1'' ''i1'' demo_now],
     outbox_messages := [demo_out1], orders := [demo_ord1]\<rparr>"

lemma w_config_db:
  "w_db w_config = empty_db\<lparr>digit_risk_runtime := Some (new_runtime_row demo_runtime demo_now)\<rparr>"
  by (simp add: w_config_def configure_digit_risk_runtime_def demo_policy_read transaction_db
      op_configure_digit_risk_runtime_def demo_start_def empty_db_def put_runtime_def runtime_checks_def
      new_runtime_row_def demo_runtime_def)

lemma transaction_fault [simp]: "w_fault (snd (transaction op w)) = w_fault w"
  by (auto simp: transaction_def mark_write_failed_def split: sum.splits exc.splits)

lemma demo_fault [simp]:
  "w_fault w_config = (\<lambda>_. None)" "w_fault w_stored = (\<lambda>_. None)" "w_fault w_claimed = (\<lambda>_. None)"
  "w_fault w_accepted = (\<lambda>_. None)" "w_fault w_settled = (\<lambda>_. None)" "w_fault w_again = (\<lambda>_. None)"
  "w_fault w_second = (\<lambda>_. None)" "w_fault w_unknown = (\<lambda>_. None)"
  by (simp_all add: w_config_def w_stored_def w_claimed_def w_accepted_def w_settled_def w_again_def
      w_second_def w_unknown_def public_defs demo_policy_read demo_start_def)

definition claimed_db :: state_db where
  "claimed_db = stored_db\<lparr>outbox_messages := [claimed_row demo_now demo_out1],
     orders := [moved_order DISPATCHING demo_now None None demo_ord1]\<rparr>"

definition accepted_order :: order_row where
  "accepted_order = moved_order ACCEPTED demo_now (Some ''b1'') None
     (moved_order DISPATCHING demo_now None None demo_ord1)"

definition accepted_db :: state_db where
  "accepted_db = claimed_db\<lparr>outbox_messages := [(claimed_row demo_now demo_out1)\<lparr>om_state := OB_DISPATCHED,
       om_dispatched_at := Some (isoformat demo_now), om_state_reason := None\<rparr>],
     orders := [accepted_order]\<rparr>"

definition settled_order :: order_row where
  "settled_order = noted_order demo_event False demo_now
     (moved_order SETTLED demo_now (Some ''b1'') (Some (- 100)) accepted_order)"

definition settled_db :: state_db where
  "settled_db = accepted_db\<lparr>orders := [settled_order],
     risk_reservations := [released_row demo_now ''BROKER_EVENT_SETTLED'' (Some ''e1'')
       (new_reservation_row demo_request ''r1'' ''i1'' demo_now)],
     broker_order_events := [new_event_row demo_event (Some ''o1'') EV_APPLIED None demo_now],
     digit_risk_runtime := Some (settled_runtime ''R_100'' (- 100) ''o1'' ''e1'' demo_now
       (new_runtime_row demo_runtime demo_now))\<rparr>"

lemma w_stored_run:
  "persist_intent_reservation_outbox demo_request demo_command ''i1'' ''r1'' ''o1''
     demo_now (Some 500) (Some 200) (Some ''USD'') w_config = (Inr (), w_config\<lparr>w_db := stored_db\<rparr>)"
  by (simp add: persist_intent_reservation_outbox_def transaction_Inr w_config_db
      op_persist_def persist_limits_def active_total_def active_symbol_total_def empty_db_def
      insert_defs inject_def stored_db_def demo_out1_def demo_ord1_def
      row_defs demo_values)

lemma w_stored_db: "w_db w_stored = stored_db"
  by (simp add: w_stored_def w_stored_run)

lemma w_claimed_run:
  "op_claim_next_message demo_now None None stored_db = Inr (Some demo_command, claimed_db)"
  using command_payload_roundtrip [OF demo_valid(1)]
  by (simp add: op_claim_next_message_def claim_rows_def claimed_db_def stored_db_def scope_matches_def
      row_count_def transition_order_def order_of_intent_def setdefault_def update_where_def
      demo_out1_def demo_ord1_def row_defs demo_values empty_db_def command_to_payload_def)

lemma w_claimed_db: "w_db w_claimed = claimed_db"
  by (simp add: w_claimed_def claim_next_message_def transaction_db w_stored_db w_claimed_run)

lemma w_accepted_db: "w_db w_accepted = accepted_db"
  by (simp add: w_accepted_def record_dispatch_result_def transaction_db w_claimed_db
      op_record_dispatch_result_def outbox_by_id_def claimed_db_def stored_db_def dispatch_states_def
      transition_order_def order_of_intent_def update_where_def accepted_db_def accepted_order_def
      demo_out1_def demo_ord1_def row_defs demo_values empty_db_def)

lemmas event_eval = op_apply_normalized_broker_event_def event_by_id_def order_with_intent_def
  order_by_id_def intent_by_id_def classify_event_def broker_event_matching_conflict_def
  sequence_reused_def terminal_broker_event_result_def sequence_late_def effect_event_def
  event_progress_def sequence_gap_def ambiguous_states_def move_event_def insert_event_def
  inject_def transition_order_def order_of_intent_def finish_event_def noted_order_def
  release_for_intent_def reconciled_outbox_def apply_digit_runtime_settlement_def put_runtime_def
  settled_runtime_def settle_loss_def settle_win_def settle_even_def runtime_checks_def
  update_where_def new_event_row_def digit_products_def digit_barrier_products_def
  digit_parity_products_def string_eval Let_def

lemma w_settled_run:
  "op_apply_normalized_broker_event (\<lambda>_. None) demo_event demo_now accepted_db =
     Inr (event_result EV_APPLIED (Some SETTLED) None, settled_db)"
  by (simp add: event_eval settled_order_def settled_db_def accepted_db_def accepted_order_def
      claimed_db_def stored_db_def demo_out1_def demo_ord1_def row_defs demo_values empty_db_def)

lemma w_settled_db: "w_db w_settled = settled_db"
  by (simp add: w_settled_def apply_normalized_broker_event_def transaction_db w_accepted_db
      w_settled_run)

text \<open>The second order of the run.\<close>

definition demo_out2 :: outbox_row where "demo_out2 = new_outbox_row demo_request other_command ''i2'' demo_now"
definition demo_ord2 :: order_row where "demo_ord2 = new_order_row demo_request ''o2'' ''i2'' demo_now"

definition again_db :: state_db where
  "again_db = settled_db\<lparr>
     trade_intents := trade_intents settled_db @ [new_intent_row demo_request ''i2'' demo_now],
     risk_reservations := risk_reservations settled_db @
       [new_reservation_row demo_request ''r2'' ''i2'' demo_now],
     outbox_messages := outbox_messages settled_db @ [demo_out2], orders := orders settled_db @ [demo_ord2]\<rparr>"

definition second_db :: state_db where
  "second_db = again_db\<lparr>outbox_messages := outbox_messages settled_db @ [claimed_row demo_now demo_out2],
     orders := orders settled_db @ [moved_order DISPATCHING demo_now None None demo_ord2]\<rparr>"

definition unknown_db :: state_db where
  "unknown_db = second_db\<lparr>outbox_messages := outbox_messages settled_db @
       [(claimed_row demo_now demo_out2)\<lparr>om_state := OB_AMBIGUOUS,
          om_state_reason := Some ''INTERRUPTED_DISPATCH''\<rparr>],
     orders := orders settled_db @
       [moved_order UNKNOWN demo_now None None (moved_order DISPATCHING demo_now None None demo_ord2)]\<rparr>"

lemmas demo_dbs = stored_db_def claimed_db_def accepted_db_def accepted_order_def settled_order_def
  settled_db_def again_db_def second_db_def unknown_db_def demo_out1_def demo_ord1_def demo_out2_def demo_ord2_def
  noted_order_def row_defs demo_values empty_db_def

lemma w_again_db: "w_db w_again = again_db"
  by (simp add: w_again_def persist_intent_reservation_outbox_def transaction_db w_settled_db
      op_persist_def persist_limits_def active_total_def active_symbol_total_def
      insert_defs inject_def demo_dbs)

lemma w_second_run: "op_claim_next_message demo_now None None again_db = Inr (Some other_command, second_db)"
  using command_payload_roundtrip [OF demo_valid(2)]
  by (simp add: op_claim_next_message_def claim_rows_def scope_matches_def
      row_count_def transition_order_def order_of_intent_def setdefault_def update_where_def
      command_to_payload_def demo_dbs)

lemma w_second_db: "w_db w_second = second_db"
  by (simp add: w_second_def claim_next_message_def transaction_db w_again_db w_second_run)

lemma w_unknown_db: "w_db w_unknown = unknown_db"
  by (simp add: w_unknown_def recover_interrupted_dispatches_def transaction_db w_second_db
      op_recover_interrupted_dispatches_def transition_order_def order_of_intent_def
      update_where_def demo_dbs)

text \<open>The second order in reconciliation: an attempt that found nothing, and a second one begun.\<close>

definition demo_last :: datetime where "demo_last = utc 2025 1 2 12 0 0 0"

definition demo_absence :: "datetime \<Rightarrow> not_found_evidence" where
  "demo_absence t = \<lparr>nf_observed_at = t, nf_statement_checked = True, nf_portfolio_checked = True\<rparr>"

definition w_absent :: writer where
  "w_absent = snd (begin_reconciliation_attempt ''a2'' ''o2'' ''cor1'' demo_later
     (snd (apply_reconciliation_not_found ''a1'' (demo_absence demo_later) 60 60 demo_later
       (snd (begin_reconciliation_attempt ''a1'' ''o2'' ''cor1'' demo_now w_unknown)))))"

definition demo_evidence :: reconciliation_evidence where
  "demo_evidence = \<lparr>re_evidence_id = ''v1'', re_source = STATUS_QUERY, re_observed_at = demo_later,
     re_client_order_ref = ''o2'', re_broker_order_id = Some ''b2'', re_external_status = EXT_SETTLED,
     re_broker = Broker_DERIV, re_account_id = ''VRTC1'', re_product = ''DIGITEVEN'',
     re_symbol = ''R_100'', re_direction = CALL, re_amount = \<lparr>minor_units = 100, currency = ''USD''\<rparr>,
     re_evidence_version = 1, re_realized_pnl_minor = Some 95, re_raw_reference_hash = None\<rparr>"

lemma demo_hours:
  "seconds_since demo_later demo_now = Inr 3600" "seconds_since demo_last demo_now = Inr 7200"
  "seconds_since demo_last demo_later = Inr 3600"
  by (simp_all add: demo_now_def demo_later_def demo_last_def utc_def seconds_since_def
      total_seconds_between_def instant_def toordinal_def days_before_month_def days_before_year_def)

lemmas attempt_eval = begin_reconciliation_attempt_def op_begin_reconciliation_attempt_def
  insert_attempt_def transaction_db started_def finish_with_def finish_reconciliation_attempt_def
  attempt_order_def attempt_order_intent_def order_by_id_def intent_by_id_def row_count_def update_where_def
  transition_order_def order_of_intent_def

lemma w_absent_reach: "reach new_writer (writer_step sha) w_absent"
  unfolding w_absent_def
  by (rule reach_step [OF reach_step [OF reach_step [OF demo_reach(9) ws_begin] ws_not_found] ws_begin])

lemmas evidence_eval = attempt_eval apply_reconciliation_evidence_def
  op_apply_reconciliation_evidence_def record_evidence_def evidence_by_id_def insert_evidence_def
  inject_def weigh_evidence_def matching_conflict_reason_def previous_evidence_outcome_def
  effect_evidence_def conclude_evidence_def reconciled_outbox_def release_for_intent_def
  resolved_order_def new_evidence_row_def demo_evidence_def event_eval

lemmas absence_eval = attempt_eval apply_reconciliation_not_found_def
  op_apply_reconciliation_not_found_def confirms_both_sources_def demo_absence_def demo_hours
  prior_not_found_def not_found_reason_def effect_not_found_def

lemma w_absent_fault [simp]: "w_fault w_absent = (\<lambda>_. None)"
  by (simp add: w_absent_def begin_reconciliation_attempt_def apply_reconciliation_not_found_def)

lemma w_absent_db: "w_db w_absent = unknown_db\<lparr>reconciliation_attempts :=
   [\<lparr>ra_attempt_id = ''a1'', ra_order_id = ''o2'', ra_correlation_id = ''cor1'',
      ra_started_at = isoformat demo_now, ra_completed_at = Some (isoformat demo_later),
      ra_result = ''UNRESOLVED'', ra_reason_code = Some not_found_reason, ra_evidence_id = None\<rparr>,
    \<lparr>ra_attempt_id = ''a2'', ra_order_id = ''o2'', ra_correlation_id = ''cor1'',
      ra_started_at = isoformat demo_later, ra_completed_at = None,
      ra_result = ''STARTED'', ra_reason_code = None, ra_evidence_id = None\<rparr>]\<rparr>"
  by (simp add: w_absent_def w_unknown_db absence_eval demo_dbs)

end
