(* ===== verification/WriterProps.thy ===== *)
theory WriterProps
  imports Scenario
begin

text \<open>
  What the writer guarantees over every run of its public methods: the safety properties of
  exposure, settlement and dispatch, read off the invariant and the history relation of
  \<open>WriterInv\<close>, and the behaviour of the individual operations.
\<close>

section \<open>Reading the invariant\<close>

abbreviation writer_reach :: "(payload \<Rightarrow> string) \<Rightarrow> writer \<Rightarrow> bool" where
  "writer_reach sha \<equiv> reach new_writer (writer_step sha)"

lemma paired_rows:
  assumes "list_all2 P xs ys" and "x \<in> set xs" and "y \<in> set ys" and "f x = g y"
    and "distinct (map f xs)" and "\<And>x y. P x y \<Longrightarrow> f x = g y"
  shows "P x y"
proof -
  obtain i where i: "i < length xs" "xs ! i = x" using assms(2) by (auto simp: in_set_conv_nth)
  obtain j where j: "j < length ys" "ys ! j = y" using assms(3) by (auto simp: in_set_conv_nth)
  have len: "length ys = length xs" using list_all2_lengthD [OF assms(1)] by simp
  have "f (xs ! j) = g (ys ! j)" using assms(6) list_all2_nthD2 [OF assms(1)] j by blast
  then have "map f xs ! i = map f xs ! j" using i j len assms(4) by simp
  then have "i = j" using nth_eq_iff_index_eq [OF assms(5), of i j] i j len by simp
  then show ?thesis using list_all2_nthD [OF assms(1) i(1)] i j by simp
qed

lemma order_reservation_pair:
  assumes "db_inv None db" and "x \<in> set (orders db)" and "r \<in> set (risk_reservations db)"
    and "rr_intent_id r = ord_intent_id x"
  shows "pair_ok None x r"
proof (rule paired_rows [where f = ord_intent_id and g = rr_intent_id])
  show "list_all2 (pair_ok None) (orders db) (risk_reservations db)"
    using assms(1) by (simp add: db_inv_def)
  show "distinct (map ord_intent_id (orders db))"
    using assms(1) by (simp add: db_inv_def keys_ok_def)
qed (use assms in \<open>auto simp: pair_ok_def\<close>)

lemma later_rows:
  assumes "db_evolves db db'"
  shows "m \<in> set (outbox_messages db) \<Longrightarrow> \<exists>n\<in>set (outbox_messages db'). outbox_evolves m n"
    and "x \<in> set (orders db) \<Longrightarrow> \<exists>y\<in>set (orders db'). order_evolves x y"
    and "r \<in> set (risk_reservations db) \<Longrightarrow> \<exists>s\<in>set (risk_reservations db'). reservation_evolves r s"
    and "a \<in> set (broker_order_events db) \<Longrightarrow> \<exists>b\<in>set (broker_order_events db'). event_evolves a b"
  using assms unfolding db_evolves_def by (blast dest: extends_in_set)+

lemma get_item_setdefault: "k \<noteq> k' \<Longrightarrow> get_item (setdefault p k v) k' = get_item p k'"
  by (auto simp: setdefault_def get_item_def map_add_def split: option.splits)

lemma command_from_payload_message_id:
  "command_from_payload p = Inr c \<Longrightarrow> cmd_message_id c = the_str (get_item p ''message_id'')"
  unfolding command_from_payload_def Let_def OrderCommand_def and_then_eq_Inr by auto

lemma claim_claims:
  assumes "op_claim_next_message now brk acc db = Inr (Some c, db')" and "db_inv None db"
  shows "\<exists>m\<in>set (outbox_messages db). om_state m = OB_PENDING \<and> om_message_id m = cmd_message_id c \<and>
    (\<forall>n\<in>set (outbox_messages db'). om_message_id n = om_message_id m \<longrightarrow> om_state n \<noteq> OB_PENDING)"
proof -
  obtain m x rows where rows: "claim_rows now brk acc db = (m, x) # rows"
    using assms(1) by (cases "claim_rows now brk acc db") (auto simp: op_claim_next_message_def)
  have m: "m \<in> set (outbox_messages db)" "om_state m = OB_PENDING"
    using list.set_intros(1) [of "(m, x)" rows] by (auto simp: claim_rows_def rows [symmetric])
  let ?hit = "\<lambda>y. om_message_id y = om_message_id m \<and> om_state y = OB_PENDING"
  have tr: "transition_order (om_intent_id m) DISPATCHING now None None
      (db\<lparr>outbox_messages := update_where ?hit (claimed_row now) (outbox_messages db)\<rparr>) = Inr db'"
    and c: "command_from_payload (setdefault (om_payload m) ''order_id'' (PStr (ord_order_id x))) = Inr c"
    using assms(1) rows by (auto simp: op_claim_next_message_def raises Let_def split: if_splits)
  have "outbox_messages db' = update_where ?hit (claimed_row now) (outbox_messages db)"
    using tr by (auto simp: transition_order_def split: option.splits if_splits)
  moreover have "get_item (om_payload m) ''message_id'' = PStr (om_message_id m)"
    using assms(2) m(1) by (auto simp: db_inv_def outbox_ok_def list_all_iff)
  then have "cmd_message_id c = om_message_id m"
    using command_from_payload_message_id [OF c] by (simp add: get_item_setdefault)
  ultimately show ?thesis
    using m by (intro bexI [of _ m]) (auto simp: update_where_def claimed_row_def)
qed

section \<open>Exposure\<close>

text \<open>
  C1. In every state the writer can reach, a reservation is active exactly while the order of its
  intent is not terminal, and it has been released once if it is released and never otherwise.
\<close>

theorem reservation_active_iff_order_live:
  assumes "writer_reach sha w"
    and "x \<in> set (orders (w_db w))" and "r \<in> set (risk_reservations (w_db w))"
    and "rr_intent_id r = ord_intent_id x"
  shows "(rr_state r = ACTIVE \<longleftrightarrow> \<not> is_terminal (ord_state x)) \<and>
    rr_release_count r = (if is_terminal (ord_state x) then 1 else 0)"
proof -
  have "pair_ok None x r"
    using order_reservation_pair [OF writer_history.reach_inv [OF assms(1)]] assms by blast
  then show ?thesis by (cases "rr_state r") (auto simp: pair_ok_def)
qed

theorem reservation_active_iff_order_live_witness:
  "(rr_state (last (risk_reservations (w_db w_unknown))) = ACTIVE \<longleftrightarrow>
      \<not> is_terminal (ord_state (last (orders (w_db w_unknown))))) \<and>
   ord_state (last (orders (w_db w_unknown))) = UNKNOWN"
  using reservation_active_iff_order_live [OF demo_reach(9) [of demo_sha],
      of "last (orders (w_db w_unknown))" "last (risk_reservations (w_db w_unknown))"]
  by (simp add: w_unknown_db demo_dbs)

text \<open>
  C2. Refinement: whatever public methods run, the active reservations behave as the abstract
  machine that gives a free account one exposure and takes it back, so no account ever holds two.
\<close>

theorem writer_refines_exposure_machine:
  assumes "writer_reach sha w"
  shows "reach (\<lambda>e. e = Map.empty) exposure_step (exposure (w_db w)) \<and>
    distinct (active_scopes (risk_reservations (w_db w)))"
  using writer_exposure.reach_abs [OF assms] writer_history.reach_inv [OF assms]
  by (simp add: db_inv_def)

theorem writer_refines_exposure_machine_witness:
  "reach (\<lambda>e. e = Map.empty) exposure_step (exposure (w_db w_unknown)) \<and>
   exposure (w_db w_unknown) = [(Broker_DERIV, ''VRTC1'') \<mapsto> (''i2'', 100, ''USD'')]"
  using writer_refines_exposure_machine [OF demo_reach(9) [of demo_sha]]
  by (simp add: exposure_def exposure_entries_def w_unknown_db demo_dbs)

text \<open>
  C3. A message is handed to a worker at most once: two successful claims in one run, whatever
  happens between them (recovery and reconciliation included), return different messages.
\<close>

theorem never_claimed_twice:
  assumes "writer_reach sha w"
    and "claim_next_message t1 b1 a1 w = (Inr (Some c1), w1)"
    and "(writer_step sha)\<^sup>*\<^sup>* w1 w2"
    and "claim_next_message t2 b2 a2 w2 = (Inr (Some c2), w3)"
  shows "cmd_message_id c1 \<noteq> cmd_message_id c2"
proof -
  have w1: "op_claim_next_message t1 b1 a1 (w_db w) = Inr (Some c1, w_db w1)"
    and w2: "op_claim_next_message t2 b2 a2 (w_db w2) = Inr (Some c2, w_db w3)"
    using assms(2,4) by (auto simp: claim_next_message_def transaction_Inr)
  have inv: "db_inv None (w_db w)" by (rule writer_history.reach_inv [OF assms(1)])
  have step: "writer_step sha w w1" using ws_claim [of sha w t1 b1 a1] assms(2) by simp
  note inv1 = writer_history.inv_step [OF inv step]
  note inv2 = writer_history.steps_inv [OF assms(3) inv1]
    and hist = writer_history.steps_hist [OF assms(3) inv1]
  obtain m where m: "m \<in> set (outbox_messages (w_db w))" "om_message_id m = cmd_message_id c1"
      "\<forall>n\<in>set (outbox_messages (w_db w1)). om_message_id n = om_message_id m \<longrightarrow> om_state n \<noteq> OB_PENDING"
    using claim_claims [OF w1 inv] by blast
  obtain m2 where m2: "m2 \<in> set (outbox_messages (w_db w2))" "om_state m2 = OB_PENDING"
      "om_message_id m2 = cmd_message_id c2"
    using claim_claims [OF w2 inv2] by blast
  obtain n where n: "n \<in> set (outbox_messages (w_db w1))" "outbox_evolves m n"
    using later_rows(1) [OF writer_history.hist_step [OF inv step] m(1)] by blast
  obtain k where k: "k \<in> set (outbox_messages (w_db w2))" "outbox_evolves n k"
    using later_rows(1) [OF hist n(1)] by blast
  have same: "om_message_id k = om_message_id m" and spent: "om_state k \<noteq> OB_PENDING"
    using n k m(3) by (simp_all add: outbox_evolves_def)
  have "distinct (map om_message_id (outbox_messages (w_db w2)))"
    using inv2 by (simp add: db_inv_def keys_ok_def)
  then have "k = m2" if "om_message_id k = om_message_id m2"
    using that k(1) m2(1) by (auto simp: distinct_map dest: inj_onD)
  then show ?thesis using same spent m2 m(2) by auto
qed

theorem never_claimed_twice_witness:
  "cmd_message_id demo_command \<noteq> cmd_message_id other_command"
proof -
  have claims: "claim_next_message demo_now None None w_stored = (Inr (Some demo_command), w_claimed)"
    "claim_next_message demo_now None None w_again = (Inr (Some other_command), w_second)"
    by (simp_all add: claim_next_message_def w_claimed_def w_second_def transaction_def w_stored_db
        w_claimed_run w_again_db w_second_run)
  have "writer_step demo_sha w_claimed w_accepted" "writer_step demo_sha w_accepted w_settled"
    "writer_step demo_sha w_settled w_again"
    by (simp_all add: w_accepted_def w_settled_def w_again_def writer_step.intros)
  then have steps: "(writer_step demo_sha)\<^sup>*\<^sup>* w_claimed w_again" by simp
  show ?thesis
    by (rule never_claimed_twice [OF demo_reach(3) claims(1) steps claims(2)])
qed

text \<open>
  C4. A terminal order is final: in every later state it has the same state, the same realized
  profit or loss and the same count of applications.
\<close>

theorem terminal_order_is_final:
  assumes "writer_reach sha w" and "(writer_step sha)\<^sup>*\<^sup>* w w'"
    and "x \<in> set (orders (w_db w))" and "is_terminal (ord_state x)"
  shows "\<exists>y\<in>set (orders (w_db w')). ord_order_id y = ord_order_id x \<and> ord_state y = ord_state x \<and>
    ord_realized_pnl_minor y = ord_realized_pnl_minor x \<and>
    ord_pnl_application_count y = ord_pnl_application_count x"
proof -
  obtain y where "y \<in> set (orders (w_db w'))" "order_evolves x y"
    using later_rows(2) [OF writer_history.reach_hist [OF assms(1,2)] assms(3)] by blast
  then show ?thesis
    using assms(4) by (auto simp: order_evolves_def dest: order_lifecycle.path_from_final)
qed

theorem terminal_order_is_final_witness:
  "\<exists>y\<in>set (orders (w_db w_unknown)). ord_order_id y = ''o1'' \<and> ord_state y = SETTLED \<and>
    ord_realized_pnl_minor y = Some (- 100) \<and> ord_pnl_application_count y = 1"
proof -
  have "(writer_step demo_sha)\<^sup>*\<^sup>* w_settled w_unknown"
  proof -
    have "writer_step demo_sha w_settled w_again" "writer_step demo_sha w_again w_second"
      "writer_step demo_sha w_second w_unknown"
      by (simp_all add: w_again_def w_second_def w_unknown_def writer_step.intros)
    then show ?thesis by simp
  qed
  moreover have "settled_order \<in> set (orders (w_db w_settled))" "is_terminal (ord_state settled_order)"
    by (simp_all add: w_settled_db demo_dbs)
  ultimately show ?thesis
    using terminal_order_is_final [OF demo_reach(6) [of demo_sha]] by (fastforce simp: demo_dbs)
qed

text \<open>
  C5. A profit or loss is applied to an order at most once, and only to a settled order.
\<close>

theorem pnl_applied_at_most_once:
  assumes "writer_reach sha w" and "x \<in> set (orders (w_db w))"
  shows "0 \<le> ord_pnl_application_count x \<and> ord_pnl_application_count x \<le> 1 \<and>
    (ord_pnl_application_count x = 1 \<longrightarrow> ord_state x = SETTLED)"
  using writer_history.reach_inv [OF assms(1)] assms(2)
  by (auto simp: db_inv_def order_ok_def list_all_iff)

theorem pnl_applied_at_most_once_witness:
  "ord_pnl_application_count settled_order = 1 \<and> ord_state settled_order = SETTLED \<and>
   ord_pnl_application_count settled_order \<le> 1"
  using pnl_applied_at_most_once [OF demo_reach(6) [of demo_sha], of settled_order]
  by (simp add: w_settled_db demo_dbs)

end
