(* ===== verification/CoreInv.thy ===== *)
theory CoreInv
  imports Runtime WriterProps
begin

text \<open>
  The Core as a machine. Its operations reach the database through the public methods of the
  writer only, so every run of the Core is a run of the writer, and what holds of the reachable
  states of the writer holds inside the Core.
\<close>

section \<open>Steps\<close>

text \<open>
  One call of an operation with arbitrary surroundings. A restart keeps the database and starts
  with an empty gate, a new ledger and a health record that has been checked.
\<close>

definition restarted :: "core \<Rightarrow> core" where
  "restarted c = c\<lparr>co_gate := HealthGate, co_dispatcher_started := False,
     co_writer := (co_writer c)\<lparr>w_health := mark_healthy (w_health (co_writer c))\<rparr>\<rparr>"

inductive core_step :: "(payload \<Rightarrow> string) \<Rightarrow> core \<Rightarrow> core \<Rightarrow> bool" for sha where
  cs_start: "en_sha env = sha \<Longrightarrow>
     core_step sha c (snd (start env fp str_of tick clock config deferred has_events (restarted c)))"
| cs_submit: "core_step sha c (snd (submit env request dispatch c))"
| cs_dispatch: "core_step sha c (snd (runtime_dispatch_pending worker dispatch_time recorded_at c))"
| cs_event: "en_sha env = sha \<Longrightarrow> core_step sha c
     (snd (process_event fp tick applied_at checked_at now (Some (event_fallback env)) e c))"
| cs_cycle: "en_sha env = sha \<Longrightarrow> core_step sha c (snd (run_once env c))"
| cs_order: "en_sha env = sha \<Longrightarrow> core_step sha c (snd (reconcile_order env oid c))"
| cs_config: "core_step sha c (snd (runtime_update_digit_config fp str_of tick now saved config c))"
| cs_session: "core_step sha c (snd (reset_digit_test_session now c))"
| cs_recovery: "core_step sha c (snd (reset_recovery fp str_of now c))"
| cs_stop: "core_step sha c (stop_new_entries c)"
| cs_resume: "core_step sha c (snd (resume_new_entries fp tick now c))"
| cs_resume_for: "core_step sha c (snd (resume_new_entries_for fp tick now brk account_id c))"
| cs_gate: "core_step sha c (on_gate f c)"

text \<open>A Core whose database has no rows.\<close>

definition new_core :: "core \<Rightarrow> bool" where
  "new_core c \<longleftrightarrow> new_writer (co_writer c)"

section \<open>Every run of the Core is a run of the writer\<close>

abbreviation writer_run :: "(payload \<Rightarrow> string) \<Rightarrow> core \<Rightarrow> core \<Rightarrow> bool" where
  "writer_run sha c c' \<equiv> (writer_step sha)\<^sup>*\<^sup>* (co_writer c) (co_writer c')"

named_theorems core_runs \<open>operations of the Core as runs of the writer\<close>

interpretation writer_runs: composed_relation "writer_run sha" for sha
  by unfold_locales auto

lemmas run_then_do = writer_runs.seq

lemma run_on_writer: "writer_step sha (co_writer c) (snd (f (co_writer c))) \<Longrightarrow> writer_run sha c (snd (on_writer f c))"
  by (auto simp: on_writer_def split: prod.splits)

lemma co_writer_on_gate [simp]: "co_writer (on_gate f c) = co_writer c"
  by (simp add: on_gate_def)

lemma run_on_ledger: "writer_run sha c (snd (on_ledger fp tick now checks call c))"
  using ws_expire [of sha "co_writer c" now]
  by (auto simp: on_ledger_def Let_def split: prod.splits)

lemmas run_steps = run_on_writer run_on_ledger

lemma run_record_outcome [core_runs]: "writer_run sha c (snd (record_outcome command outcome b r now c))"
  unfolding record_outcome_def by (rule run_then_do) (auto intro: run_on_writer ws_result)

lemma run_dispatch_next [core_runs]: "writer_run sha c (snd (dispatch_next worker brk acc t1 t2 c))"
  unfolding dispatch_next_def
  by (intro run_then_do run_on_writer ws_claim)
    (auto intro!: run_then_do run_on_writer ws_cancel ws_not_sent run_record_outcome
      split: option.splits submission.splits delivery_certainty.splits)

lemma run_persist_order [core_runs]: "writer_run sha c (snd (persist_order request command ids now c))"
proof -
  let ?f = "persist_intent_reservation_outbox request command (po_intent_id ids)
    (po_reservation_id ids) (po_order_id ids) now
    (Some (gc_global_max_exposure_minor_units (rl_config (co_ledger c))))
    (Some (gc_max_exposure_per_symbol_minor_units (rl_config (co_ledger c))))
    (Some (gc_reference_currency (rl_config (co_ledger c))))"
  obtain r c1 where f: "on_writer ?f c = (r, c1)" by (cases "on_writer ?f c")
  then have "writer_run sha c c1" 
    using run_on_writer [of sha c ?f] ws_persist by (metis snd_conv)
  moreover have "co_writer (snd (persist_order request command ids now c)) = co_writer c1 \<or>
      (\<exists>h. co_writer (snd (persist_order request command ids now c)) = (co_writer c1)\<lparr>w_health := h\<rparr>)"
    unfolding persist_order_def Let_def f by (cases r) (auto split: exc.splits)
  moreover have "writer_step sha (co_writer c1) ((co_writer c1)\<lparr>w_health := h\<rparr>)" for h by (rule ws_health)
  ultimately show ?thesis by (metis rtranclp.rtrancl_into_rtrancl)
qed

lemma run_submit [core_runs]: "writer_run sha c (snd (submit env request dispatch c))"
  unfolding submit_def refresh_gate_def reserve_risk_def
  by (intro run_then_do run_on_ledger run_persist_order) (auto intro!: run_then_do run_dispatch_next)

lemma run_dispatch_pending [core_runs]:
  "writer_run sha c (snd (runtime_dispatch_pending worker t1 t2 c))"
  unfolding runtime_dispatch_pending_def dispatch_pending_def
  by (auto intro!: run_then_do run_dispatch_next)

lemma co_writer_recovery_gate [simp]: "co_writer (recovery_gate c) = co_writer c"
  by (simp add: recovery_gate_def)

lemma run_recover [core_runs]: "writer_run sha c (snd (recover now c))"
  unfolding recover_def by (intro run_then_do run_on_writer ws_recover ws_expire_pending) auto

lemma run_reload [core_runs]: "writer_run sha c (snd (reload_digit_runtime fp tick t1 t2 c))"
  unfolding reload_digit_runtime_def
  by (intro run_then_do run_on_writer ws_expire) (auto split: prod.splits)

lemma run_restore [core_runs]: "writer_run sha c (snd (restore_reservations c))"
  by (auto simp: restore_reservations_def split: sum.splits)

lemma run_handle_event [core_runs]:
  "writer_run sha c (snd (handle_event_result fp tick t1 t2 e res c))"
proof -
  have n: "co_writer (note_event_state e res c) = co_writer c"
    by (simp add: note_event_state_def Let_def)
  have a: "co_writer (apply_result_to_ledger pnl d) = co_writer d" for pnl d
    by (simp add: apply_result_to_ledger_def split: prod.splits)
  have "writer_run sha d (snd (count_event_result fp tick t1 t2 e res d))" for d
    unfolding count_event_result_def
    by (auto split: option.splits sum.splits intro!: run_then_do)
      (use run_reload [of sha "apply_result_to_ledger _ d"] a in auto)
  from this [of "note_event_state e res c"] show ?thesis
    by (auto simp: handle_event_result_def n split: event_status.splits)
qed

lemma run_complete [core_runs]: "writer_run sha c (snd (complete_attempt env oid n result reason c))"
  unfolding complete_attempt_def by (intro run_on_writer ws_complete)

lemma run_apply_found [core_runs]: "en_sha env = sha \<Longrightarrow> writer_run sha c (snd (apply_found env oid n e c))"
  unfolding apply_found_def
  by (intro run_then_do run_on_writer) (auto intro: ws_evidence split: apply_status.splits)

lemma run_apply_not_found [core_runs]: "writer_run sha c (snd (apply_not_found env oid st n negative c))"
  unfolding apply_not_found_def
  by (auto intro!: run_then_do run_on_writer ws_not_found run_complete split: option.splits)

lemma run_items [core_runs]:
  "co_writer (snd (failed_item oid st reason c)) = co_writer c"
  "co_writer (snd (manual_review oid st reason c)) = co_writer c"
  by (simp_all add: failed_item_def manual_review_def)

lemma run_handle_raise [core_runs]: "writer_run sha c (snd (handle_raise env oid st n r c))"
  unfolding handle_raise_def Let_def
  by (auto intro!: run_then_do run_complete simp: run_items split: status_raise.splits)

lemma run_handle_status [core_runs]:
  "en_sha env = sha \<Longrightarrow> writer_run sha c (snd (handle_status env oid st n s c))"
  unfolding handle_status_def Let_def
  by (auto intro!: run_then_do run_complete run_apply_found run_apply_not_found simp: run_items
      split: status_query_outcome.splits option.splits)

lemma run_query_once [core_runs]: "en_sha env = sha \<Longrightarrow> writer_run sha c (snd (query_once env oid cid st n c))"
  unfolding query_once_def
  by (intro run_then_do run_on_writer ws_begin)
    (auto intro!: run_handle_raise run_handle_status split: sum.splits)

lemma run_reconcile_loop [core_runs]:
  "en_sha env = sha \<Longrightarrow> writer_run sha c (snd (reconcile_loop env oid cid st ns c))"
proof (induction ns arbitrary: c)
  case Nil
  then show ?case by simp
next
  case (Cons n ns)
  then show ?case
    by (auto intro!: run_then_do run_query_once split: sum.splits)
qed

lemma run_reconcile [core_runs]: "en_sha env = sha \<Longrightarrow> writer_run sha c (snd (reconcile env ca c))"
  unfolding reconcile_def by (intro run_then_do) (auto intro: run_reconcile_loop)

lemma co_writer_clear_gates [simp]: "co_writer (clear_gates_after_positive_cycle a s c) = co_writer c"
  by (simp add: clear_gates_after_positive_cycle_def Let_def)

lemma run_reconcile_each [core_runs]:
  "en_sha env = sha \<Longrightarrow> writer_run sha c (snd (reconcile_each env cas c))"
  by (induction cas arbitrary: c) (auto intro!: run_then_do run_reconcile)

lemma run_once_run [core_runs]: "en_sha env = sha \<Longrightarrow> writer_run sha c (snd (run_once env c))"
  unfolding run_once_def reconcile_all_def Let_def on_reconciliation_cycle_completed_def
  by (intro run_then_do run_reconcile_each run_restore) auto

lemma run_reconcile_order [core_runs]: "en_sha env = sha \<Longrightarrow> writer_run sha c (snd (reconcile_order env oid c))"
  unfolding reconcile_order_def by (auto intro!: run_then_do run_reconcile split: option.splits)

lemma run_process_event [core_runs]:
  assumes "en_sha env = sha"
  shows "writer_run sha c (snd (process_event fp tick t0 t1 t2 (Some (event_fallback env)) e c))"
proof -
  have "writer_run sha d (snd (gap_fallback (Some (event_fallback env)) e d))" for d
    unfolding gap_fallback_def Let_def event_fallback_def
    by (auto intro!: run_then_do) (use run_reconcile_order [OF assms, of "on_gate _ d"] in auto)
  then show ?thesis
    unfolding process_event_def
    by (intro run_then_do run_on_writer ws_event run_handle_event run_restore) auto
qed

lemma run_ledger_update [core_runs]: "writer_run sha c (snd (ledger_update fp tick now config r c))"
  unfolding ledger_update_def by (rule run_on_ledger)

lemma run_update_config [core_runs]:
  "writer_run sha c (snd (runtime_update_digit_config fp str_of tick now saved config c))"
proof -
  have w: "writer_run sha d (snd (on_writer (configure_digit_risk_runtime policy b now) d))" for d policy b
    by (intro run_on_writer ws_configure)
  have undo: "writer_run sha d (snd (then_do (ledger_update fp tick now previous False d) (\<lambda>_ c3.
      then_do (on_writer (configure_digit_risk_runtime (digit_runtime_policy fp str_of (co_ledger c3))
        False now) c3) (\<lambda>_ c4. (Inr (False, r), c4)))))" for d previous and r :: "string option"
    by (intro run_then_do run_ledger_update w) simp
  have "writer_run sha d (snd (case on_writer (configure_digit_risk_runtime policy True now) d of
      (res, c2) \<Rightarrow> if (case res of Inr _ \<Rightarrow> saved | Inl _ \<Rightarrow> False) then (Inr (True, None), c2)
        else then_do (ledger_update fp tick now previous False c2) (\<lambda>_ c3.
          then_do (on_writer (configure_digit_risk_runtime (digit_runtime_policy fp str_of (co_ledger c3))
            False now) c3) (\<lambda>_ c4. (Inr (False, r), c4)))))" for d policy previous and r :: "string option"
  proof (cases "on_writer (configure_digit_risk_runtime policy True now) d")
    case (Pair res c2)
    then have "writer_run sha d c2" using w [of d policy True] by simp
    then show ?thesis
      unfolding Pair using rtranclp_trans [of "writer_step sha" "co_writer d" "co_writer c2", OF _ undo]
      by simp
  qed
  then show ?thesis
    unfolding runtime_update_digit_config_def Let_def
    by (auto intro!: run_then_do run_ledger_update split: prod.splits)
qed

lemma run_resets [core_runs]:
  "writer_run sha c (snd (reset_digit_test_session now c))"
  "writer_run sha c (snd (reset_recovery fp str_of now c))"
proof -
  have g: "co_writer (with_gate f d) = co_writer d" for f d
    by (simp add: with_gate_def split: prod.splits)
  show "writer_run sha c (snd (reset_digit_test_session now c))"
  proof -
    have "writer_run sha c (snd (on_writer (reset_digit_test_session_if_flat now) c))"
      by (intro run_on_writer ws_reset)
    then show ?thesis
      by (auto simp: reset_digit_test_session_def g split: prod.splits sum.splits)
  qed
  show "writer_run sha c (snd (reset_recovery fp str_of now c))"
  proof -
    have "writer_run sha c (snd (on_writer (configure_digit_risk_runtime
        (digit_runtime_policy fp str_of (co_ledger c)) True now) c))"
      by (intro run_on_writer ws_configure)
    then show ?thesis by (auto simp: reset_recovery_def g split: prod.splits sum.splits)
  qed
qed

lemma run_resume [core_runs]:
  "writer_run sha c (snd (resume_new_entries fp tick now c))"
  "writer_run sha c (snd (resume_new_entries_for fp tick now brk acc c))"
  unfolding resume_new_entries_def resume_new_entries_for_def refresh_gate_def Let_def
  by (auto intro!: run_then_do run_on_ledger)

lemma run_start [core_runs]:
  assumes "en_sha env = sha"
  shows "writer_run sha c (snd (start env fp str_of tick clock config deferred has_events (restarted c)))"
proof -
  have "writer_step sha (co_writer c) (co_writer (restarted c))"
    using ws_health by (simp add: restarted_def)
  then have "writer_run sha c (restarted c)" by (rule r_into_rtranclp)
  have w: "writer_run sha d (snd (on_writer (configure_digit_risk_runtime policy b now) d))" for d policy b now
    by (intro run_on_writer ws_configure)
  have conf: "writer_run sha d (snd (configure_for_startup fp str_of t1 t2 (d\<lparr>co_ledger := l\<rparr>)))" for d t1 t2 l
  proof (cases "on_writer (configure_digit_risk_runtime (digit_runtime_policy fp str_of l) False t1)
      (d\<lparr>co_ledger := l\<rparr>)")
    case (Pair res d1)
    then have d1: "writer_run sha d d1"
      using w [of "d\<lparr>co_ledger := l\<rparr>" "digit_runtime_policy fp str_of l" False t1] by simp
    then have "writer_run sha d (snd (on_writer (configure_digit_risk_runtime policy True t2) d1))" for policy
      by (rule rtranclp_trans [OF _ w])
    with d1 show ?thesis
      unfolding configure_for_startup_def Let_def by (simp add: Pair split: sum.splits exc.splits)
  qed
  have recs: "writer_run sha d (snd (reconcile_orders env oids d))" for d oids
    by (induction oids arbitrary: d) (auto intro!: run_then_do run_reconcile_order assms)
  have proc: "writer_run sha d (snd (if has_events then BrokerEventProcessor fp str_of k t1 t2 t3 d
      else (Inr (), d)))" for d k t1 t2 t3
    unfolding BrokerEventProcessor_def by (auto intro!: run_then_do w run_reload)
  have "writer_run sha (restarted c)
      (snd (start env fp str_of tick clock config deferred has_events (restarted c)))"
    unfolding start_def
    by (intro run_then_do run_recover run_reload run_restore conf recs proc) simp_all
  with \<open>writer_run sha c (restarted c)\<close> show ?thesis by (rule rtranclp_trans)
qed

lemma core_step_run: "core_step sha c c' \<Longrightarrow> writer_run sha c c'"
  by (induction rule: core_step.induct) (auto intro: core_runs simp: stop_new_entries_def)

interpretation core_machine: simulation new_core "core_step sha" "\<lambda>c. True" co_writer new_writer
  "writer_step sha" for sha
  by unfold_locales (auto simp: new_core_def intro: core_step_run)

abbreviation core_reach :: "(payload \<Rightarrow> string) \<Rightarrow> core \<Rightarrow> bool" where
  "core_reach sha \<equiv> reach new_core (core_step sha)"

lemma core_inv: "core_reach sha c \<Longrightarrow> db_inv None (co_db c)"
  by (rule writer_history.reach_inv [OF core_machine.reach_abs])

lemma core_history:
  assumes "(core_step sha)\<^sup>*\<^sup>* c c'" and "core_reach sha c"
  shows "db_evolves (co_db c) (co_db c')"
proof -
  have "(writer_step sha)\<^sup>*\<^sup>* (co_writer c) (co_writer c')"
    using assms(1) by (induction rule: rtranclp_induct) (auto intro: rtranclp_trans dest: core_step_run)
  then show ?thesis using writer_history.reach_hist [OF core_machine.reach_abs [OF assms(2)]] by simp
qed

end
