(* ===== verification/EventProps.thy ===== *)
theory EventProps
  imports WriterProps
begin

text \<open>
  Properties of the durable inbox of broker events: a replayed event changes nothing, an event
  that is not applied has no financial effect, and the sequence of applied events advances.
\<close>

section \<open>What an event leaves behind\<close>

lemma insert_event_in:
  "insert_event r db = Inr db' \<Longrightarrow> r \<in> set (broker_order_events db')"
  by (auto simp: insert_event_def raises)

lemma record_only_in:
  assumes "record_only e oid res now db = Inr (res', db')"
  shows "\<exists>a\<in>set (broker_order_events db'). boe_event_id a = ev_event_id e \<and>
    boe_evidence_hash a = ev_evidence_hash e"
  using assms by (auto simp: record_only_def insert_event_def raises new_event_row_def)

lemma event_recorded:
  assumes "op_apply_normalized_broker_event fault e now db = Inr (res, db')" and "db_inv None db"
    and "er_reason_code res \<noteq> Some ''BROKER_EVENT_REPLAY_CONFLICT''"
  shows "\<exists>a\<in>set (broker_order_events db'). boe_event_id a = ev_event_id e \<and>
    boe_evidence_hash a = ev_evidence_hash e"
proof (cases "event_by_id db (ev_event_id e)")
  case (Some d)
  then have "d \<in> set (broker_order_events db)" "boe_event_id d = ev_event_id e"
    by (auto simp: event_by_id_def dest: find_SomeD)
  then show ?thesis
    using assms Some
    by (auto simp: op_apply_normalized_broker_event_def replay_event_def event_result_def Let_def
        split: if_splits)
next
  case None
  show ?thesis
  proof (cases "order_with_intent db (ev_client_order_ref e)")
    case missing: None
    then show ?thesis
      using assms None record_only_in by (simp add: op_apply_normalized_broker_event_def)
  next
    case (Some p)
    obtain x t where p: "p = (x, t)" by (cases p)
    obtain c where c: "classify_event x t e db = Inr c"
      and rest: "(case c of Inl res0 \<Rightarrow> record_only e (Some (ord_order_id x)) res0 now db
        | Inr target \<Rightarrow> effect_event fault x e target now db) = Inr (res, db')"
      using assms None Some p by (auto simp: op_apply_normalized_broker_event_def and_then_eq_Inr)
    show ?thesis
    proof (cases c)
      case (Inl res0)
      then show ?thesis using rest record_only_in by simp
    next
      case (Inr target)
      have live: "\<not> is_terminal (ord_state x)" using classify_event_open c Inr by simp
      have eff: "effect_event fault x e target now db = Inr (res, db')" using rest Inr by simp
      obtain r db0 where r: "insert_event r db = Inr db0" "boe_event_id r = ev_event_id e"
          "boe_evidence_hash r = ev_evidence_hash e" "preserve None None db0 db'"
        using effect_event_steps [OF eff live] by metis
      have "db_evolves db0 db'"
        using r(4) preserve_insert_event [OF r(1), of None] assms(2) by (simp add: preserve_def)
      then obtain a where "a \<in> set (broker_order_events db')" "event_evolves r a"
        using later_rows(4) insert_event_in [OF r(1)] by blast
      then show ?thesis using r by (auto simp: event_evolves_def)
    qed
  qed
qed

lemma event_by_id_unique:
  assumes "db_inv m db" and "a \<in> set (broker_order_events db)"
  shows "event_by_id db (boe_event_id a) = Some a"
  using find_distinct [of boe_event_id "broker_order_events db" a] assms
  by (simp add: event_by_id_def db_inv_def keys_ok_def)

text \<open>
  The financial state: everything but the records of what was received and attempted. The
  move to \<open>RECONCILING\<close> of an ambiguous order is never followed by a refused transition.
\<close>

definition same_finances :: "state_db \<Rightarrow> state_db \<Rightarrow> bool" where
  "same_finances db db' \<longleftrightarrow> trade_intents db' = trade_intents db \<and>
     risk_reservations db' = risk_reservations db \<and> outbox_messages db' = outbox_messages db \<and>
     orders db' = orders db \<and> digit_risk_runtime db' = digit_risk_runtime db"

lemma insert_event_finances: "insert_event r db = Inr db' \<Longrightarrow> same_finances db db'"
  by (auto simp: insert_event_def raises same_finances_def)

lemma record_only_finances: "record_only e oid res now db = Inr (res', db') \<Longrightarrow> same_finances db db'"
  by (auto simp: record_only_def raises dest: insert_event_finances)

lemma transition_result:
  assumes "transition_order iid s now b pnl db = Inr db'" and "order_of_intent db iid = Some x"
  shows "\<exists>y. order_of_intent db' iid = Some y \<and> ord_state y = s \<and> ord_order_id y = ord_order_id x"
  using assms
  by (auto simp: transition_order_def order_of_intent_def find_update_where_same moved_order_def
      split: if_splits dest: find_SomeD)

lemma reconciling_accepts_targets:
  "order_state_for_external_status st = Inr target \<Longrightarrow> target \<in> set (allowed_transitions RECONCILING)"
  by (cases st) auto

lemma transition_from_reconciling:
  assumes "order_of_intent db iid = Some y" and "ord_state y = RECONCILING"
    and "order_state_for_external_status st = Inr target"
  shows "\<exists>db'. transition_order iid target now b pnl db = Inr db'"
  using assms reconciling_accepts_targets [OF assms(3)] by (auto simp: transition_order_def)

lemma finish_event_result: "finish_event fault x e target amb res now db = Inr (res', db') \<Longrightarrow> res' = res"
  by (auto simp: finish_event_def Let_def raises)

lemma effect_event_unapplied:
  assumes eff: "effect_event fault x e target now db = Inr (res, db')"
    and x: "order_of_intent db (ord_intent_id x) = Some x"
    and target: "order_state_for_external_status (ev_external_status e) = Inr target"
    and unapplied: "er_status res \<notin> {EV_APPLIED, EV_APPLIED_WITH_GAP}"
  shows "same_finances db db'"
  using eff
proof (cases rule: effect_event_stages)
  case (1 status reason db0 db2)
  have finished: False if "finish_event fault x e target amb (event_result status (Some target) reason)
      now d = Inr (res, db')" for d amb
    using finish_event_result [OF that] 1(2) unapplied by (auto simp: event_result_def)
  have conflict: "db' = db2\<lparr>broker_order_events := update_where (\<lambda>y. boe_event_id y = ev_event_id e)
      state_conflict_event (broker_order_events db2)\<rparr>" and
    refused: "\<exists>a b. transition_order (ord_intent_id x) target (ev_occurred_at e)
      (Some (ev_broker_order_id e)) (ev_result_minor e) db2 = Inl (InvalidOrderTransition a b)"
    using 1(4) by (cases rule: move_event_cases; use finished in blast)+
  have "ord_state x \<notin> ambiguous_states"
  proof
    assume amb: "ord_state x \<in> ambiguous_states"
    have "order_of_intent db0 (ord_intent_id x) = Some x"
      using x insert_event_finances [OF 1(1)] by (simp add: order_of_intent_def same_finances_def)
    then obtain y where "order_of_intent db2 (ord_intent_id x) = Some y" "ord_state y = RECONCILING"
      using transition_result 1(3) amb by force
    then obtain d where "transition_order (ord_intent_id x) target (ev_occurred_at e)
        (Some (ev_broker_order_id e)) (ev_result_minor e) db2 = Inr d"
      using transition_from_reconciling [OF _ _ target] by blast
    then show False using refused by simp
  qed
  then show ?thesis using 1(3) conflict insert_event_finances [OF 1(1)] by (simp add: same_finances_def)
qed

lemma order_by_id_intent:
  assumes "db_inv None db" and "order_by_id db oid = Some x"
  shows "order_of_intent db (ord_intent_id x) = Some x"
  using assms find_distinct [of ord_intent_id "orders db" x]
  by (auto simp: order_by_id_def order_of_intent_def db_inv_def keys_ok_def dest!: find_SomeD)

lemma classify_target:
  "classify_event x t e db = Inr (Inr target) \<Longrightarrow>
   order_state_for_external_status (ev_external_status e) = Inr target"
  by (auto simp: classify_event_def raises split: option.splits if_splits)

lemma unapplied_event_finances:
  assumes "op_apply_normalized_broker_event fault e now db = Inr (res, db')" and "db_inv None db"
    and "er_status res \<notin> {EV_APPLIED, EV_APPLIED_WITH_GAP}"
  shows "same_finances db db'"
proof (cases "event_by_id db (ev_event_id e)")
  case (Some d)
  then show ?thesis
    using assms by (auto simp: op_apply_normalized_broker_event_def replay_event_def Let_def
        same_finances_def split: if_splits)
next
  case None
  show ?thesis
  proof (cases "order_with_intent db (ev_client_order_ref e)")
    case missing: None
    then show ?thesis
      using assms None record_only_finances by (simp add: op_apply_normalized_broker_event_def)
  next
    case (Some p)
    obtain x t where p: "p = (x, t)" by (cases p)
    obtain c where c: "classify_event x t e db = Inr c"
      and rest: "(case c of Inl res0 \<Rightarrow> record_only e (Some (ord_order_id x)) res0 now db
        | Inr target \<Rightarrow> effect_event fault x e target now db) = Inr (res, db')"
      using assms None Some p by (auto simp: op_apply_normalized_broker_event_def and_then_eq_Inr)
    have "order_of_intent db (ord_intent_id x) = Some x"
      using Some p order_by_id_intent [OF assms(2)] by (auto simp: order_with_intent_def split: option.splits)
    then show ?thesis
      using c rest assms(3) classify_target effect_event_unapplied record_only_finances
      by (cases c) auto
  qed
qed

text \<open>An event that has been stored is recognised in every later state.\<close>

lemma replay_duplicate:
  assumes "writer_reach sha w"
    and "apply_normalized_broker_event e t1 w = (Inr res, w1)"
    and "er_reason_code res \<noteq> Some ''BROKER_EVENT_REPLAY_CONFLICT''"
    and "(writer_step sha)\<^sup>*\<^sup>* w1 w2"
  shows "\<exists>st. apply_normalized_broker_event e t2 w2 = (Inr (event_result EV_DUPLICATE st None), w2)"
proof -
  have inv: "db_inv None (w_db w)" by (rule writer_history.reach_inv [OF assms(1)])
  have step: "writer_step sha w w1" using ws_event [of sha w e t1] assms(2) by simp
  note inv1 = writer_history.inv_step [OF inv step]
  note inv2 = writer_history.steps_inv [OF assms(4) inv1]
    and hist = writer_history.steps_hist [OF assms(4) inv1]
  have "op_apply_normalized_broker_event (w_fault w) e t1 (w_db w) = Inr (res, w_db w1)"
    using assms(2) by (auto simp: apply_normalized_broker_event_def transaction_Inr)
  then obtain a where a: "a \<in> set (broker_order_events (w_db w1))"
      "boe_event_id a = ev_event_id e" "boe_evidence_hash a = ev_evidence_hash e"
    using event_recorded [OF _ inv assms(3)] by blast
  obtain b where b: "b \<in> set (broker_order_events (w_db w2))" "event_evolves a b"
    using later_rows(4) [OF hist a(1)] by blast
  have "event_by_id (w_db w2) (ev_event_id e) = Some b"
    using event_by_id_unique [OF inv2 b(1)] b(2) a by (simp add: event_evolves_def)
  moreover have "boe_evidence_hash b = ev_evidence_hash e"
    using b(2) a by (simp add: event_evolves_def)
  ultimately show ?thesis
    by (auto simp: apply_normalized_broker_event_def transaction_Inr
        op_apply_normalized_broker_event_def replay_event_def)
qed

section \<open>Properties\<close>

text \<open>
  C6. Delivering an event again is harmless: once an event has been processed, then after any
  further run of the writer the same event is answered as a duplicate and nothing changes. The
  only first answer excepted is the one for a different event under the same identifier.
\<close>

theorem replayed_event_is_duplicate:
  assumes "writer_reach sha w"
    and "apply_normalized_broker_event e t1 w = (Inr res, w1)"
    and "er_reason_code res \<noteq> Some ''BROKER_EVENT_REPLAY_CONFLICT''"
    and "(writer_step sha)\<^sup>*\<^sup>* w1 w2"
  shows "\<exists>st. apply_normalized_broker_event e t2 w2 = (Inr (event_result EV_DUPLICATE st None), w2)"
  by (rule replay_duplicate [OF assms])

theorem replayed_event_is_duplicate_witness:
  "\<exists>st. apply_normalized_broker_event demo_event demo_later w_unknown =
     (Inr (event_result EV_DUPLICATE st None), w_unknown)"
proof (rule replayed_event_is_duplicate [OF demo_reach(5) [of demo_sha]])
  show "apply_normalized_broker_event demo_event demo_now w_accepted =
      (Inr (event_result EV_APPLIED (Some SETTLED) None), w_settled)"
    by (simp add: w_settled_def apply_normalized_broker_event_def transaction_def w_accepted_db
        w_settled_run)
  have "writer_step demo_sha w_settled w_again" "writer_step demo_sha w_again w_second"
    "writer_step demo_sha w_second w_unknown"
    by (simp_all add: w_again_def w_second_def w_unknown_def writer_step.intros)
  then show "(writer_step demo_sha)\<^sup>*\<^sup>* w_settled w_unknown" by simp
qed (simp add: event_result_def)

text \<open>
  C7. An event that is answered as a duplicate, late or in conflict has no financial effect:
  intents, reservations, outbox, orders and the digit runtime are untouched.
\<close>

theorem unapplied_event_has_no_effect:
  assumes "writer_reach sha w"
    and "apply_normalized_broker_event e now w = (Inr res, w')"
    and "er_status res \<notin> {EV_APPLIED, EV_APPLIED_WITH_GAP}"
  shows "same_finances (w_db w) (w_db w')"
  using assms unapplied_event_finances writer_history.reach_inv [OF assms(1)]
  by (auto simp: apply_normalized_broker_event_def transaction_Inr)

theorem unapplied_event_has_no_effect_witness:
  "same_finances (w_db w_settled)
     (w_db (snd (apply_normalized_broker_event (demo_event\<lparr>ev_event_id := ''e9'',
        ev_external_sequence := Some 2, ev_result_minor := Some 50\<rparr>) demo_now w_settled)))"
proof -
  let ?e = "demo_event\<lparr>ev_event_id := ''e9'', ev_external_sequence := Some 2, ev_result_minor := Some 50\<rparr>"
  obtain res where res: "apply_normalized_broker_event ?e demo_now w_settled =
      (Inr res, snd (apply_normalized_broker_event ?e demo_now w_settled))"
      "er_status res = EV_CONFLICT"
    by (simp add: apply_normalized_broker_event_def transaction_def w_settled_db event_eval
        record_only_def event_result_def demo_dbs)
  then show ?thesis
    using unapplied_event_has_no_effect [OF demo_reach(6) [of demo_sha] res(1)] by simp
qed

end
