(* ===== verification/OutboxProps.thy ===== *)
theory OutboxProps
  imports EventProps
begin

text \<open>
  Properties of the outbox path: what persisting an order does and refuses, what a claim returns,
  what recovery leaves, and two situations in which an order that moved on makes the claim or the
  recovery of its message fail.
\<close>

section \<open>Lemmas\<close>

lemma active_total_snoc:
  "risk_reservations db' = risk_reservations db @ [r] \<Longrightarrow> rr_state r = ACTIVE \<Longrightarrow>
   active_total (rr_currency r) db' = active_total (rr_currency r) db + rr_amount_minor r"
  by (simp add: active_total_def)

lemma inv_ids:
  assumes "db_inv m db"
  shows "ord_intent_id ` set (orders db) = ti_intent_id ` set (trade_intents db)"
    and "om_intent_id ` set (outbox_messages db) = ti_intent_id ` set (trade_intents db)"
  using assms unfolding db_inv_def keys_ok_def by (metis list.set_map)+

text \<open>The join that is summed, with a new pair of rows that match only each other.\<close>

lemma join_snoc:
  assumes "\<And>r. r \<in> set R \<Longrightarrow> rr_intent_id r \<noteq> iid" and "\<And>t. t \<in> set T \<Longrightarrow> ti_intent_id t \<noteq> iid"
    and "rr_intent_id r0 = iid" and "ti_intent_id t0 = iid"
  shows "sum_list [f r. r \<leftarrow> R @ [r0], t \<leftarrow> T @ [t0], ti_intent_id t = rr_intent_id r \<and> P r t] =
    sum_list [f r. r \<leftarrow> R, t \<leftarrow> T, ti_intent_id t = rr_intent_id r \<and> P r t] +
    (if P r0 t0 then f r0 else (0::int))"
proof -
  define g where "g r t = (if ti_intent_id t = rr_intent_id r \<and> P r t then [f r] else [])" for r t
  have old: "map (\<lambda>r. concat (map (g r) T) @ g r t0) R = map (\<lambda>r. concat (map (g r) T)) R"
    by (intro map_cong refl) (use assms(1,4) in \<open>force simp: g_def\<close>)
  have new: "concat (map (g r0) T) = []"
    using assms(2,3) by (auto simp: g_def)
  have main: "concat (map (\<lambda>r. concat (map (g r) (T @ [t0]))) (R @ [r0])) =
      concat (map (\<lambda>r. concat (map (g r) T)) R) @ g r0 t0"
    by (simp only: new old list.map concat.simps append.simps append_Nil2 map_append concat_append)
  have pair: "g r0 t0 = (if P r0 t0 then [f r0] else [])"
    using assms(3,4) by (simp add: g_def)
  show ?thesis
    unfolding g_def [symmetric] main sum_list_append pair by simp
qed

lemma active_symbol_total_snoc:
  assumes "db_inv None db" and "iid \<notin> set (map ti_intent_id (trade_intents db))"
    and "risk_reservations db' = risk_reservations db @ [r]" and "trade_intents db' = trade_intents db @ [t]"
    and "rr_intent_id r = iid" and "ti_intent_id t = iid" and "rr_state r = ACTIVE"
  shows "active_symbol_total (rr_currency r) (canonicalize_symbol (ti_symbol t)) db' =
    active_symbol_total (rr_currency r) (canonicalize_symbol (ti_symbol t)) db + rr_amount_minor r"
proof -
  have "map rr_intent_id (risk_reservations db) = map ti_intent_id (trade_intents db)"
    using assms(1) by (auto simp: db_inv_def intent_ok_def list_all2_conv_all_nth intro!: nth_equalityI)
  then have "iid \<notin> set (map rr_intent_id (risk_reservations db))" using assms(2) by simp
  then show ?thesis
    using join_snoc [of "risk_reservations db" iid "trade_intents db" r t
        "\<lambda>x y. rr_state x = ACTIVE \<and> rr_currency x = rr_currency r \<and>
           canonicalize_symbol (ti_symbol y) = canonicalize_symbol (ti_symbol t)" rr_amount_minor]
      assms(2,5,6,7) unfolding active_symbol_total_def assms(3,4) by (force simp: image_iff)
qed

text \<open>The only pending message of a database is the one just appended.\<close>

lemma claim_rows_only:
  assumes "\<And>m. m \<in> set M \<Longrightarrow> om_state m \<noteq> OB_PENDING" and "\<And>x. x \<in> set X \<Longrightarrow> ord_intent_id x \<noteq> iid"
    and "om_intent_id n = iid" and "ord_intent_id y = iid" and "om_state n = OB_PENDING"
    and "om_available_at n = isoformat now"
    and "outbox_messages db = M @ [n]" and "orders db = X @ [y]"
  shows "claim_rows now None None db = [(n, y)]"
proof -
  define g where "g m x = (if ord_intent_id x = om_intent_id m \<and> om_state m = OB_PENDING \<and>
     om_available_at m \<le> isoformat now \<and> scope_matches None None x then [(m, x)] else [])" for m :: outbox_row and x :: order_row
  have none: "g m x = []" if "m \<in> set M" for m x
    using assms(1) [OF that] by (simp add: g_def)
  then have old: "concat (map (\<lambda>m. concat (map (g m) (X @ [y]))) M) = []"
    by simp
  have new: "concat (map (g n) X) = []"
    using assms(2,3) by (auto simp: g_def)
  have pair: "g n y = [(n, y)]"
    using assms by (simp add: g_def scope_matches_def)
  have "concat (map (\<lambda>m. concat (map (g m) (X @ [y]))) (M @ [n])) = [(n, y)]"
    using none by (simp add: new pair)
  then show ?thesis
    unfolding claim_rows_def assms(7,8) g_def [symmetric] by simp
qed

text \<open>What the loop of recovery leaves.\<close>

lemma transition_frame:
  assumes "transition_order iid s now b pnl db = Inr db'"
  shows "outbox_messages db' = outbox_messages db \<and> risk_reservations db' = risk_reservations db"
    and "iid' \<noteq> iid \<Longrightarrow> order_of_intent db' iid' = order_of_intent db iid'"
  using assms
  by (auto simp: transition_order_def order_of_intent_def find_update_where_other moved_order_def
      split: option.splits if_splits)

definition recovered :: "string set \<Rightarrow> outbox_row \<Rightarrow> outbox_row" where
  "recovered ids m = (if om_intent_id m \<in> ids \<and> om_state m = OB_DISPATCHING
     then m\<lparr>om_state := OB_AMBIGUOUS, om_state_reason := Some ''INTERRUPTED_DISPATCH''\<rparr> else m)"

lemma recover_rows_result:
  assumes "recover_rows now rows db = Inr db'"
  shows "outbox_messages db' = map (recovered (set (map om_intent_id rows))) (outbox_messages db) \<and>
    risk_reservations db' = risk_reservations db \<and>
    (\<forall>iid x. order_of_intent db iid = Some x \<longrightarrow>
       (ord_state x = UNKNOWN \<or> iid \<in> set (map om_intent_id rows)) \<longrightarrow>
       (\<exists>y. order_of_intent db' iid = Some y \<and> ord_state y = UNKNOWN))"
  using assms
proof (induction rows arbitrary: db)
  case Nil
  then show ?case by (auto simp: recovered_def)
next
  case (Cons row rows)
  let ?iid = "om_intent_id row"
  let ?f = "\<lambda>m. m\<lparr>om_state := OB_AMBIGUOUS, om_state_reason := Some ''INTERRUPTED_DISPATCH''\<rparr>"
  define db1 where "db1 = db\<lparr>outbox_messages := update_where
     (\<lambda>m. om_intent_id m = ?iid \<and> om_state m = OB_DISPATCHING) ?f (outbox_messages db)\<rparr>"
  obtain db2 where 2: "transition_order ?iid UNKNOWN now None None db1 = Inr db2"
    and 3: "recover_rows now rows db2 = Inr db'"
    using Cons.prems by (auto simp: raises Let_def db1_def)
  note rest = Cons.IH [OF 3]
  have "recovered (set (map om_intent_id rows)) (if om_intent_id m = ?iid \<and> om_state m = OB_DISPATCHING
      then ?f m else m) = recovered (set (map om_intent_id (row # rows))) m" for m
    by (auto simp: recovered_def)
  then have "outbox_messages db' = map (recovered (set (map om_intent_id (row # rows)))) (outbox_messages db)"
    using rest transition_frame(1) [OF 2] by (simp add: db1_def update_where_def)
  moreover have "\<exists>y. order_of_intent db' iid = Some y \<and> ord_state y = UNKNOWN"
    if "order_of_intent db iid = Some x" "ord_state x = UNKNOWN \<or> iid \<in> set (map om_intent_id (row # rows))"
    for iid x
  proof (cases "iid = ?iid")
    case True
    have "order_of_intent db1 iid = Some x" using that(1) by (simp add: db1_def order_of_intent_def)
    then obtain y where "order_of_intent db2 iid = Some y" "ord_state y = UNKNOWN"
      using transition_result [OF 2] True by auto
    then show ?thesis using rest by blast
  next
    case False
    then have "order_of_intent db2 iid = Some x"
      using transition_frame(2) [OF 2] that(1) by (simp add: db1_def order_of_intent_def)
    then show ?thesis using rest that(2) False by auto
  qed
  ultimately show ?case
    using rest transition_frame(1) [OF 2] by (simp add: db1_def)
qed

lemma path_to_unknown: "order_path s UNKNOWN \<Longrightarrow> s \<in> {OUTBOXED, DISPATCHING, UNKNOWN}"
proof (induction rule: converse_rtranclp_induct)
  case base
  show ?case by simp
next
  case (step s t)
  then show ?case by (cases s) auto
qed

lemma recover_rows_errors: "recover_rows now rows db = Inl e \<Longrightarrow> is_persistence_error e"
proof (induction rows arbitrary: db)
  case Nil
  then show ?case by simp
next
  case (Cons row rows)
  then show ?case
    by (auto simp: raises Let_def transition_order_def split: option.splits if_splits)
qed

interpretation order_stuck: lifecycle allowed_transitions "\<lambda>s. allowed_transitions s = []"
  by unfold_locales

section \<open>Properties\<close>

text \<open>
  C8. Persisting an order is atomic under every fault: either the four rows are appended, one per
  table, or the database is unchanged.
\<close>

theorem persist_is_atomic:
  "case persist_intent_reservation_outbox request command iid rid oid now g s c w of
     (Inl e, w') \<Rightarrow> w_db w' = w_db w
   | (Inr u, w') \<Rightarrow> w_db w' = (w_db w)\<lparr>
       trade_intents := trade_intents (w_db w) @ [new_intent_row request iid now],
       risk_reservations := risk_reservations (w_db w) @ [new_reservation_row request rid iid now],
       outbox_messages := outbox_messages (w_db w) @ [new_outbox_row request command iid now],
       orders := orders (w_db w) @ [new_order_row request oid iid now]\<rparr>"
proof -
  let ?op = "op_persist (w_fault w) request command iid rid oid now g s c"
  obtain r w' where run: "transaction ?op w = (r, w')" by (cases "transaction ?op w")
  show ?thesis
  proof (cases r)
    case (Inl e)
    show ?thesis
      unfolding persist_intent_reservation_outbox_def run Inl
      by (simp add: transaction_Inl [OF run [unfolded Inl]])
  next
    case (Inr u)
    then obtain db where db: "?op (w_db w) = Inr (u, db)" "w' = w\<lparr>w_db := db\<rparr>"
      using run by (auto simp: transaction_Inr)
    show ?thesis
      unfolding persist_intent_reservation_outbox_def run Inr
      by (simp add: db(2) op_persist_shape [OF db(1), THEN conjunct1])
  qed
qed

text \<open>
  C9. The exposure limits hold after every order that is accepted into the outbox: the active
  total of its currency is within the global limit, that of its canonical symbol within the limit
  per symbol, and its currency is the reference currency.
\<close>

theorem persist_respects_limits:
  assumes "writer_reach sha w"
    and "persist_intent_reservation_outbox request command iid rid oid now (Some g) (Some s) (Some c) w =
      (Inr u, w')"
  shows "active_total c (w_db w') \<le> g \<and>
    active_symbol_total c (canonicalize_symbol (req_symbol request)) (w_db w') \<le> s \<and>
    currency (req_amount request) = c"
proof -
  have run: "op_persist (w_fault w) request command iid rid oid now (Some g) (Some s) (Some c) (w_db w) =
      Inr (u, w_db w')"
    using assms(2) by (auto simp: persist_intent_reservation_outbox_def transaction_Inr)
  note shape = op_persist_shape [OF run]
  have inv: "db_inv None (w_db w)" by (rule writer_history.reach_inv [OF assms(1)])
  let ?r = "new_reservation_row request rid iid now" and ?t = "new_intent_row request iid now"
  have c: "currency (req_amount request) = c"
    and g: "active_total c (w_db w) + minor_units (req_amount request) \<le> g"
    and s: "active_symbol_total c (canonicalize_symbol (req_symbol request)) (w_db w) +
      minor_units (req_amount request) \<le> s"
    using shape by (auto simp: persist_limits_def raises Let_def)
  have "active_total (rr_currency ?r) (w_db w') = active_total (rr_currency ?r) (w_db w) + rr_amount_minor ?r"
    by (rule active_total_snoc) (use shape in \<open>simp_all add: new_reservation_row_def\<close>)
  moreover have "active_symbol_total (rr_currency ?r) (canonicalize_symbol (ti_symbol ?t)) (w_db w') =
      active_symbol_total (rr_currency ?r) (canonicalize_symbol (ti_symbol ?t)) (w_db w) + rr_amount_minor ?r"
    by (rule active_symbol_total_snoc [OF inv, of iid])
      (use shape in \<open>simp_all add: new_reservation_row_def new_intent_row_def\<close>)
  ultimately show ?thesis
    using c g s by (simp add: new_reservation_row_def new_intent_row_def)
qed

theorem persist_respects_limits_witness:
  "active_total ''USD'' (w_db (w_config\<lparr>w_db := stored_db\<rparr>)) \<le> 500 \<and>
   active_symbol_total ''USD'' (canonicalize_symbol (req_symbol demo_request))
     (w_db (w_config\<lparr>w_db := stored_db\<rparr>)) \<le> 200 \<and>
   currency (req_amount demo_request) = ''USD''"
  by (rule persist_respects_limits [OF demo_reach(2) [of demo_sha] w_stored_run])





text \<open>
  C12. A pending message whose order has moved on blocks the queue: while it is the oldest
  claimable message, every claim raises an invalid transition and changes nothing, so no later
  message is claimed either. The run of the witness gets there by one broker event: the order is
  rejected while its message is still pending.
\<close>

theorem moved_order_blocks_claims:
  assumes "writer_reach sha w" and "claim_rows now brk acc (w_db w) = (m, x) # rows"
    and "ord_state x \<notin> {OUTBOXED, DISPATCHING}"
  shows "claim_next_message now brk acc w =
    (Inl (InvalidOrderTransition (order_state_value (ord_state x)) ''DISPATCHING''), w)"
proof -
  have inv: "db_inv None (w_db w)" by (rule writer_history.reach_inv [OF assms(1)])
  have row: "m \<in> set (outbox_messages (w_db w))" "x \<in> set (orders (w_db w))"
      "ord_intent_id x = om_intent_id m" "om_state m = OB_PENDING"
    using list.set_intros(1) [of "(m, x)" rows] unfolding assms(2) [symmetric]
    by (auto simp: claim_rows_def)
  have "order_of_intent (w_db w) (om_intent_id m) = Some x"
    using find_distinct [of ord_intent_id "orders (w_db w)" x] row inv
    by (simp add: order_of_intent_def db_inv_def keys_ok_def)
  moreover have "row_count (\<lambda>y. om_message_id y = om_message_id m \<and> om_state y = OB_PENDING)
      (outbox_messages (w_db w)) = 1"
    using filter_key_unique [of om_message_id "outbox_messages (w_db w)" m "\<lambda>y. om_state y = OB_PENDING"]
      row inv by (simp add: row_count_def db_inv_def keys_ok_def)
  moreover have "DISPATCHING \<notin> set (allowed_transitions (ord_state x))"
    using assms(3) by (cases "ord_state x") auto
  ultimately show ?thesis
    using assms(2,3) by (simp add: claim_next_message_def op_claim_next_message_def transaction_def
        Let_def transition_order_def order_of_intent_def)
qed

definition rejected_event :: broker_order_event where
  "rejected_event = demo_event\<lparr>ev_external_status := EXT_REJECTED, ev_result_minor := None,
     ev_result_currency := None\<rparr>"

theorem moved_order_blocks_claims_witness:
  "claim_next_message demo_now None None
     (snd (apply_normalized_broker_event rejected_event demo_now w_stored)) =
   (Inl (InvalidOrderTransition ''REJECTED'' ''DISPATCHING''),
    snd (apply_normalized_broker_event rejected_event demo_now w_stored))"
proof -
  let ?w = "snd (apply_normalized_broker_event rejected_event demo_now w_stored)"
  have r: "writer_reach demo_sha ?w" by (rule reach_step [OF demo_reach(3) ws_event])
  have "\<exists>m x. claim_rows demo_now None None (w_db ?w) = [(m, x)] \<and> ord_state x = REJECTED"
    by (simp add: apply_normalized_broker_event_def transaction_db w_stored_db event_eval
        rejected_event_def claim_rows_def scope_matches_def demo_dbs)
  then obtain m x where "claim_rows demo_now None None (w_db ?w) = [(m, x)]" "ord_state x = REJECTED"
    by blast
  then show ?thesis using moved_order_blocks_claims [OF r] by simp
qed

text \<open>
  C13. An order that was reported accepted before its dispatch was recorded blocks recovery:
  if the message of an order that has left the dispatching states is still in dispatch, recovery
  as a whole fails and changes nothing.
\<close>

theorem moved_order_blocks_recovery:
  assumes "writer_reach sha w" and "m \<in> set (outbox_messages (w_db w))"
    and "om_state m = OB_DISPATCHING" and "x \<in> set (orders (w_db w))"
    and "ord_intent_id x = om_intent_id m" and "ord_state x \<notin> {OUTBOXED, DISPATCHING, UNKNOWN}"
  shows "\<exists>e. recover_interrupted_dispatches now w = (Inl e, w)"
proof -
  let ?rows = "filter (\<lambda>m. om_state m = OB_DISPATCHING) (outbox_messages (w_db w))"
  have inv: "db_inv None (w_db w)" by (rule writer_history.reach_inv [OF assms(1)])
  have x: "order_of_intent (w_db w) (om_intent_id m) = Some x"
    using find_distinct [of ord_intent_id "orders (w_db w)" x] assms(4,5) inv
    by (simp add: order_of_intent_def db_inv_def keys_ok_def)
  show ?thesis
  proof (cases "recover_rows now ?rows (w_db w)")
    case (Inl e)
    then show ?thesis
      using recover_rows_errors [OF Inl]
      by (cases e) (auto simp: recover_interrupted_dispatches_def transaction_def
          op_recover_interrupted_dispatches_def Let_def)
  next
    case (Inr db')
    obtain y where y: "order_of_intent db' (om_intent_id m) = Some y" "ord_state y = UNKNOWN"
      using recover_rows_result [OF Inr] x assms(2,3) by force
    have "db_evolves (w_db w) db'" "db_inv None db'"
      using preserve_recover_rows [OF Inr] inv by (auto simp: preserve_def)
    then obtain z where z: "z \<in> set (orders db')" "order_evolves x z"
      using later_rows(2) assms(4) by blast
    then have "z = y"
      using order_of_intent_unique [OF _ y(1)] \<open>db_inv None db'\<close> assms(5)
      by (simp add: order_evolves_def db_inv_def)
    then have "order_path (ord_state x) UNKNOWN" using z y by (simp add: order_evolves_def)
    then show ?thesis using path_to_unknown assms(6) by blast
  qed
qed

theorem moved_order_blocks_recovery_witness:
  "\<exists>e. recover_interrupted_dispatches demo_now (snd (apply_normalized_broker_event
     (rejected_event\<lparr>ev_external_status := EXT_ACCEPTED\<rparr>) demo_now w_claimed)) =
   (Inl e, snd (apply_normalized_broker_event
     (rejected_event\<lparr>ev_external_status := EXT_ACCEPTED\<rparr>) demo_now w_claimed))"
proof -
  let ?w = "snd (apply_normalized_broker_event
     (rejected_event\<lparr>ev_external_status := EXT_ACCEPTED\<rparr>) demo_now w_claimed)"
  have r: "writer_reach demo_sha ?w" by (rule reach_step [OF demo_reach(4) ws_event])
  have "\<exists>m x. m \<in> set (outbox_messages (w_db ?w)) \<and> om_state m = OB_DISPATCHING \<and>
      x \<in> set (orders (w_db ?w)) \<and> ord_intent_id x = om_intent_id m \<and> ord_state x = ACCEPTED"
    by (simp add: apply_normalized_broker_event_def transaction_db w_claimed_db event_eval
        rejected_event_def demo_dbs)
  then show ?thesis using moved_order_blocks_recovery [OF r] by fastforce
qed

text \<open>
  C14. An order whose dispatch was blocked before it was sent keeps its account: whatever runs
  later, no order on that account is accepted into the outbox again.
\<close>

theorem send_blocked_holds_account:
  assumes "writer_reach sha w" and "x \<in> set (orders (w_db w))" and "ord_state x = SEND_BLOCKED"
    and "(writer_step sha)\<^sup>*\<^sup>* w w'"
    and "req_broker request = ord_broker x" and "req_account_id request = ord_account_id x"
  shows "fst (persist_intent_reservation_outbox request command iid rid oid now g s c w') \<noteq> Inr u"
proof
  assume "fst (persist_intent_reservation_outbox request command iid rid oid now g s c w') = Inr u"
  then obtain db' where "op_persist (w_fault w') request command iid rid oid now g s c (w_db w') = Inr (u, db')"
    using transaction_Inr unfolding persist_intent_reservation_outbox_def by (metis prod.collapse)
  note shape = op_persist_shape [OF this]
  have inv: "db_inv None (w_db w')"
    using writer_history.steps_inv [OF assms(4) writer_history.reach_inv [OF assms(1)]] .
  obtain y where y: "y \<in> set (orders (w_db w'))" "order_evolves x y"
    using later_rows(2) [OF writer_history.reach_hist [OF assms(1,4)] assms(2)] by blast
  have "ord_state y = SEND_BLOCKED"
    using y(2) order_stuck.path_from_final [of "ord_state x"] assms(3) by (simp add: order_evolves_def)
  moreover obtain r where "r \<in> set (risk_reservations (w_db w'))" "pair_ok None y r"
    using list_all2_partner [of "pair_ok None"] inv y(1) unfolding db_inv_def by metis
  ultimately have "(ord_broker x, ord_account_id x) \<in> set (active_scopes (risk_reservations (w_db w')))"
    using y(2) by (cases "rr_state r")
      (auto simp: pair_ok_def order_evolves_def active_scopes_def image_iff intro!: bexI [of _ r])
  then show False using shape assms(5,6) by simp
qed

theorem send_blocked_holds_account_witness:
  "fst (persist_intent_reservation_outbox demo_request other_command ''i2'' ''r2'' ''o2'' demo_later
     None None None (snd (record_dispatch_not_sent demo_command ''HEALTH'' demo_now w_claimed))) \<noteq> Inr ()"
proof -
  let ?w = "snd (record_dispatch_not_sent demo_command ''HEALTH'' demo_now w_claimed)"
  have r: "writer_reach demo_sha ?w" by (rule reach_step [OF demo_reach(4) ws_not_sent])
  have "\<exists>x\<in>set (orders (w_db ?w)). ord_state x = SEND_BLOCKED \<and> ord_broker x = Broker_DERIV \<and>
      ord_account_id x = ''VRTC1''"
    by (simp add: record_dispatch_not_sent_def transaction_db w_claimed_db
        op_record_dispatch_not_sent_def row_count_def transition_order_def order_of_intent_def
        update_where_def demo_dbs)
  then obtain x where "x \<in> set (orders (w_db ?w))" "ord_state x = SEND_BLOCKED"
      "req_broker demo_request = ord_broker x" "req_account_id demo_request = ord_account_id x"
    by (auto simp: demo_request_def)
  then show ?thesis using send_blocked_holds_account [OF r] by blast
qed

text \<open>
  The explicit release never frees exposure early: in a reachable state it leaves the
  database as it is, and it succeeds only for a reservation that is released already.
\<close>

theorem explicit_release_frees_nothing:
  assumes "writer_reach sha w"
  shows "w_db (snd (release_reservation rid now w)) = w_db w \<and>
    (fst (release_reservation rid now w) = Inr () \<longrightarrow>
       (\<exists>r\<in>set (risk_reservations (w_db w)). rr_reservation_id r = rid \<and> rr_state r = RELEASED))"
proof (cases "reservation_with_order (w_db w) rid")
  case None
  then show ?thesis by (simp add: release_reservation_def transaction_def op_release_reservation_def)
next
  case (Some p)
  obtain r x where p: "p = (r, x)" by (cases p)
  note rx = reservation_with_order_SomeD [OF Some [unfolded p]]
  have "pair_ok None x r"
    using order_reservation_pair [OF writer_history.reach_inv [OF assms]] rx by simp
  then show ?thesis
    using Some p rx by (cases "rr_state r")
      (auto simp: release_reservation_def transaction_def op_release_reservation_def pair_ok_def
        is_terminal_def)
qed

theorem explicit_release_frees_nothing_witness:
  "w_db (snd (release_reservation ''r2'' demo_later w_unknown)) = w_db w_unknown \<and>
   fst (release_reservation ''r2'' demo_later w_unknown) \<noteq> Inr ()"
  using explicit_release_frees_nothing [OF demo_reach(9) [of demo_sha], of "''r2''" demo_later]
  by (auto simp: w_unknown_db demo_dbs)

end
