(* ===== verification/ReconciliationProps.thy ===== *)
theory ReconciliationProps
  imports OutboxProps
begin

text \<open>
  Properties of reconciliation: what it takes to resolve an order as never submitted, what
  positive evidence that resolves an order establishes, and what the comparison with earlier
  evidence leaves out.
\<close>

section \<open>Lemmas\<close>

lemma finish_with_result:
  "finish_with aid status st reason now eid db = Inr (res, db') \<Longrightarrow>
   ar_status res = status \<and> orders db' = orders db"
  by (auto simp: finish_with_def finish_reconciliation_attempt_def raises split: if_splits)

lemma finish_unresolved:
  "ar_status res = RA_RESOLVED \<Longrightarrow> status \<noteq> RA_RESOLVED \<Longrightarrow>
   finish_with aid status st reason now eid db \<noteq> Inr (res, db')"
  using finish_with_result by blast

lemma prior_not_found_SomeD:
  assumes "prior_not_found db oid aid = Some (pid, completed)"
  shows "\<exists>a\<in>set (reconciliation_attempts db). ra_attempt_id a \<noteq> aid \<and> ra_order_id a = oid \<and>
    ra_result a = ''UNRESOLVED'' \<and> ra_reason_code a = Some not_found_reason \<and>
    ra_completed_at a = Some completed"
proof -
  let ?l = "[(ra_attempt_id a, c). a \<leftarrow> reconciliation_attempts db,
          c \<leftarrow> (case ra_completed_at a of None \<Rightarrow> [] | Some c \<Rightarrow> [c]),
          ra_order_id a = oid \<and> ra_attempt_id a \<noteq> aid \<and>
          ra_result a = ''UNRESOLVED'' \<and> ra_reason_code a = Some not_found_reason]"
  obtain r where "rev (sort_key snd ?l) = (pid, completed) # r"
    using assms unfolding prior_not_found_def by (auto split: list.splits)
  then have "(pid, completed) \<in> set (rev (sort_key snd ?l))" by simp
  then show ?thesis by (auto split: option.splits if_splits)
qed

text \<open>What makes a not-found observation a proof.\<close>

definition not_found_proof :: "state_db \<Rightarrow> string \<Rightarrow> not_found_evidence \<Rightarrow> rat \<Rightarrow> rat \<Rightarrow> order_row \<Rightarrow> bool" where
  "not_found_proof db aid e grace interval x \<longleftrightarrow> ord_state x = UNKNOWN \<and>
     (\<exists>submitted. fromisoformat (ord_created_at x) = Inr submitted \<and>
        grace \<le> total_seconds_between (nf_observed_at e) submitted) \<and>
     (\<exists>a\<in>set (reconciliation_attempts db). ra_attempt_id a \<noteq> aid \<and> ra_order_id a = ord_order_id x \<and>
        ra_result a = ''UNRESOLVED'' \<and> ra_reason_code a = Some not_found_reason \<and>
        (\<exists>c completed. ra_completed_at a = Some c \<and> fromisoformat c = Inr completed \<and>
           interval \<le> total_seconds_between (nf_observed_at e) completed))"

lemma not_found_resolved:
  assumes "op_apply_reconciliation_not_found fault aid e grace interval now db = Inr (res, db')"
    and "ar_status res = RA_RESOLVED"
  shows "\<exists>x. attempt_order db aid = Some x \<and> not_found_proof db aid e grace interval x"
proof -
  note unresolved = finish_unresolved [OF assms(2)]
  obtain x where x: "attempt_order db aid = Some x"
    using assms(1) by (auto simp: op_apply_reconciliation_not_found_def split: option.splits)
  obtain submitted where s: "fromisoformat (ord_created_at x) = Inr submitted"
    using assms(1) x
    by (auto simp: op_apply_reconciliation_not_found_def raises unresolved split: if_splits)
  obtain p c where p: "prior_not_found db (ord_order_id x) aid = Some (p, c)"
    using assms(1) x s
    by (cases "prior_not_found db (ord_order_id x) aid")
      (auto simp: op_apply_reconciliation_not_found_def raises Let_def unresolved
        split: if_splits)
  obtain completed where c: "fromisoformat c = Inr completed"
    using assms(1) x s p
    by (auto simp: op_apply_reconciliation_not_found_def raises Let_def unresolved
        split: if_splits)
  have "ord_state x = UNKNOWN" "grace \<le> total_seconds_between (nf_observed_at e) submitted"
    "interval \<le> total_seconds_between (nf_observed_at e) completed"
    using assms(1) x s p c
    by (auto simp: op_apply_reconciliation_not_found_def raises Let_def seconds_since_def not_less unresolved
        split: if_splits)
  then show ?thesis
    using x s c prior_not_found_SomeD [OF p] unfolding not_found_proof_def by blast
qed

lemma settlement_orders:
  "apply_digit_runtime_settlement product symbol cur pnl oid sid now db = Inr db' \<Longrightarrow> orders db' = orders db"
  by (auto simp: apply_digit_runtime_settlement_def put_runtime_def raises split: option.splits if_splits)

lemma conclude_orders:
  assumes "conclude_evidence fault aid x t e target now db = Inr (res, db')"
  shows "orders db' = update_where (\<lambda>y. ord_order_id y = ord_order_id x) (resolved_order e now) (orders db) \<and>
    ar_status res = RA_RESOLVED"
  using assms unfolding conclude_evidence_def Let_def
  by (auto simp: raises reconciled_outbox_def release_for_intent_def
      dest!: finish_with_result settlement_orders split: option.splits if_splits)

lemma evidence_resolves_state:
  assumes "effect_evidence fault aid x t e target now db = Inr (res, db')"
    and "order_of_intent db (ord_intent_id x) = Some x"
  shows "\<exists>y. order_of_intent db' (ord_intent_id x) = Some y \<and> ord_state y = target \<and>
    ord_resolution_evidence_id y = Some (re_evidence_id e)"
proof -
  define amb where "amb = (ord_state x \<in> {UNKNOWN, SETTLEMENT_UNKNOWN})"
  define current where "current = (if amb then RECONCILING else ord_state x)"
  obtain db1 db2 where 1: "(if amb then transition_order (ord_intent_id x) RECONCILING now None None db
       else Inr db) = Inr db1"
    and 2: "(if current \<noteq> target then transition_order (ord_intent_id x) target now
        (re_broker_order_id e) (re_realized_pnl_minor e) db1 else Inr db1) = Inr db2"
    and 3: "conclude_evidence fault aid x t e target now db2 = Inr (res, db')"
    using assms(1) unfolding effect_evidence_def Let_def amb_def [symmetric] current_def [symmetric]
      and_then_eq_Inr by blast
  obtain x1 where x1: "order_of_intent db1 (ord_intent_id x) = Some x1" "ord_state x1 = current" "ord_order_id x1 = ord_order_id x"
    using 1 assms(2) transition_result by (cases amb) (fastforce simp: current_def)+
  obtain x2 where "order_of_intent db2 (ord_intent_id x) = Some x2" "ord_state x2 = target"
      "ord_order_id x2 = ord_order_id x"
    using 2 x1 transition_result by (cases "current = target") fastforce+
  then show ?thesis
    using conclude_orders [OF 3]
    by (auto simp: order_of_intent_def find_update_where_same resolved_order_def)
qed

lemma weigh_resolved:
  assumes "weigh_evidence fault aid x t e now db = Inr (res, db')" and "ar_status res = RA_RESOLVED"
    and "order_of_intent db (ord_intent_id x) = Some x"
  shows "matching_conflict_reason x t e = None \<and> (\<exists>y. order_of_intent db' (ord_intent_id x) = Some y \<and>
    order_state_for_external_status (re_external_status e) = Inr (ord_state y) \<and>
    ord_resolution_evidence_id y = Some (re_evidence_id e))"
proof -
  have "matching_conflict_reason x t e = None"
    using assms(1,2) by (auto simp: weigh_evidence_def Let_def finish_unresolved split: option.splits)
  moreover have "\<exists>target. order_state_for_external_status (re_external_status e) = Inr target \<and>
      effect_evidence fault aid x t e target now db = Inr (res, db')"
    using assms(1,2) by (auto simp: weigh_evidence_def Let_def and_then_eq_Inr previous_evidence_outcome_def
      finish_unresolved split: option.splits sum.splits if_splits)
  ultimately show ?thesis using evidence_resolves_state [OF _ assms(3)] by fastforce
qed

lemma record_evidence_frame:
  assumes "record_evidence sha fault x e now db = Inr db'"
  shows "orders db' = orders db" "risk_reservations db' = risk_reservations db"
    "digit_risk_runtime db' = digit_risk_runtime db"
  using assms by (auto simp: record_evidence_def insert_evidence_def inject_def raises
      split: if_splits option.splits)

lemma finish_with_frame:
  assumes "finish_with aid status st reason now eid db = Inr (res, db')"
  shows "orders db' = orders db" "risk_reservations db' = risk_reservations db"
    "digit_risk_runtime db' = digit_risk_runtime db"
  using assms by (auto simp: finish_with_def finish_reconciliation_attempt_def raises split: if_splits)

text \<open>Evidence on a settled order touches the resolution fields of the order at most.\<close>

definition same_result :: "state_db \<Rightarrow> state_db \<Rightarrow> string \<Rightarrow> order_row \<Rightarrow> bool" where
  "same_result db db' iid x \<longleftrightarrow> risk_reservations db' = risk_reservations db \<and>
     digit_risk_runtime db' = digit_risk_runtime db \<and>
     (\<exists>y. order_of_intent db' iid = Some y \<and> ord_state y = ord_state x \<and>
        ord_realized_pnl_minor y = ord_realized_pnl_minor x \<and>
        ord_pnl_application_count y = ord_pnl_application_count x)"

lemma settled_conclusion:
  assumes "conclude_evidence fault aid x t e SETTLED now db = Inr (res, db')"
    and "ord_state x = SETTLED" and "order_of_intent db (ord_intent_id x) = Some x"
    and "\<And>r. r \<in> set (risk_reservations db) \<Longrightarrow> rr_intent_id r = ord_intent_id x \<Longrightarrow> rr_state r = RELEASED"
  shows "same_result db db' (ord_intent_id x) x"
proof -
  have "release_for_intent (ord_intent_id x) now reason ev db1 = db1"
    if "risk_reservations db1 = risk_reservations db" for reason ev db1
  proof -
    have "update_where (\<lambda>r. rr_intent_id r = ord_intent_id x \<and> rr_state r = ACTIVE)
        (released_row now reason ev) (risk_reservations db1) = risk_reservations db1"
      unfolding update_where_def using assms(4) that by (intro map_idI) auto
    then show ?thesis by (simp add: release_for_intent_def)
  qed
  then show ?thesis
    using assms(1-3) unfolding conclude_evidence_def Let_def
    by (auto simp: same_result_def raises reconciled_outbox_def order_of_intent_def
        find_update_where_same resolved_order_def dest: finish_with_frame split: option.splits)
qed

lemma settled_effect:
  assumes "effect_evidence fault aid x t e target now db = Inr (res, db')"
    and "ord_state x = SETTLED" and "order_of_intent db (ord_intent_id x) = Some x"
    and "\<And>r. r \<in> set (risk_reservations db) \<Longrightarrow> rr_intent_id r = ord_intent_id x \<Longrightarrow> rr_state r = RELEASED"
  shows "same_result db db' (ord_intent_id x) x"
proof (cases "target = SETTLED")
  case True
  then show ?thesis
    using assms(1,2) settled_conclusion [OF _ assms(2,3,4)] by (simp add: effect_evidence_def)
next
  case False
  then show ?thesis
    using assms(1-3) by (auto simp: effect_evidence_def transition_order_def order_of_intent_def)
qed

lemma settled_weighing:
  assumes "weigh_evidence fault aid x t e now db = Inr (res, db')"
    and "ord_state x = SETTLED" and "order_of_intent db (ord_intent_id x) = Some x"
    and "\<And>r. r \<in> set (risk_reservations db) \<Longrightarrow> rr_intent_id r = ord_intent_id x \<Longrightarrow> rr_state r = RELEASED"
  shows "same_result db db' (ord_intent_id x) x"
proof -
  have "same_result db db' (ord_intent_id x) x"
    if "finish_with aid status st reason t' eid db = Inr (res, db')" for status st reason t' eid
    using finish_with_frame [OF that] assms(3) by (simp add: same_result_def order_of_intent_def)
  then show ?thesis
    using assms(1) settled_effect [OF _ assms(2-4)]
    by (auto simp: weigh_evidence_def Let_def and_then_eq_Inr split: option.splits sum.splits)
qed

section \<open>Properties\<close>

text \<open>
  C16. An order is resolved as never submitted only on proof: both sources of the broker were
  checked, the order was unknown and at least the grace period old, and another attempt had come
  to the same finding at least the confirmation interval before.
\<close>

theorem not_found_needs_confirmation:
  assumes "apply_reconciliation_not_found aid e grace interval now w = (Inr res, w')"
    and "ar_status res = RA_RESOLVED"
  shows "confirms_both_sources e \<and>
    (\<exists>x. attempt_order (w_db w) aid = Some x \<and> not_found_proof (w_db w) aid e grace interval x)"
proof -
  have "confirms_both_sources e"
    and "op_apply_reconciliation_not_found (w_fault w) aid e grace interval now (w_db w) =
      Inr (res, w_db w')"
    using assms(1) by (auto simp: apply_reconciliation_not_found_def transaction_Inr split: if_splits)
  then show ?thesis using not_found_resolved assms(2) by blast
qed

theorem not_found_needs_confirmation_witness:
  "\<exists>x. attempt_order (w_db w_absent) ''a2'' = Some x \<and>
     not_found_proof (w_db w_absent) ''a2'' (demo_absence demo_last) 60 60 x"
proof -
  let ?run = "apply_reconciliation_not_found ''a2'' (demo_absence demo_last) 60 60 demo_last w_absent"
  have "\<exists>res. fst ?run = Inr res \<and> ar_status res = RA_RESOLVED"
    by (simp add: w_absent_db transaction_def absence_eval reconciled_outbox_def
        release_for_intent_def inject_def Let_def demo_dbs)
  then obtain res where "?run = (Inr res, snd ?run)" "ar_status res = RA_RESOLVED"
    by (metis prod.collapse)
  then show ?thesis using not_found_needs_confirmation by blast
qed

text \<open>
  C17. Positive evidence that resolves an attempt matches the order and its intent in every
  field, and leaves the order in the state the broker reported, with the evidence on the order.
\<close>

theorem resolved_order_matches_evidence:
  assumes "writer_reach sha w"
    and "apply_reconciliation_evidence sha aid e now w = (Inr res, w')"
    and "ar_status res = RA_RESOLVED"
  shows "\<exists>x t y. attempt_order_intent (w_db w) aid = Some (x, t) \<and> matching_conflict_reason x t e = None \<and>
    order_of_intent (w_db w') (ord_intent_id x) = Some y \<and>
    order_state_for_external_status (re_external_status e) = Inr (ord_state y) \<and>
    ord_resolution_evidence_id y = Some (re_evidence_id e)"
proof -
  have inv: "db_inv None (w_db w)" by (rule writer_history.reach_inv [OF assms(1)])
  have "op_apply_reconciliation_evidence sha (w_fault w) aid e now (w_db w) = Inr (res, w_db w')"
    using assms(2) by (auto simp: apply_reconciliation_evidence_def transaction_Inr)
  then obtain x t db1 where x: "attempt_order_intent (w_db w) aid = Some (x, t)"
      and rec: "record_evidence sha (w_fault w) x e now (w_db w) = Inr db1"
      and weigh: "weigh_evidence (w_fault w) aid x t e now db1 = Inr (res, w_db w')"
    using assms(3) by (auto simp: op_apply_reconciliation_evidence_def raises finish_unresolved
        split: option.splits if_splits)
  have "order_of_intent (w_db w) (ord_intent_id x) = Some x"
    using x order_by_id_intent [OF inv]
    by (auto simp: attempt_order_intent_def attempt_order_def split: option.splits)
  then have "order_of_intent db1 (ord_intent_id x) = Some x"
    using rec by (auto simp: record_evidence_def insert_evidence_def inject_def order_of_intent_def raises
        split: if_splits option.splits)
  then show ?thesis using x weigh_resolved [OF weigh assms(3)] by blast
qed

theorem resolved_order_matches_evidence_witness:
  "\<exists>y. order_of_intent (w_db (snd (apply_reconciliation_evidence demo_sha ''a2'' demo_evidence demo_last
     w_absent))) ''i2'' = Some y \<and> ord_state y = SETTLED"
proof -
  let ?run = "apply_reconciliation_evidence demo_sha ''a2'' demo_evidence demo_last w_absent"
  have "\<exists>res. fst ?run = Inr res \<and> ar_status res = RA_RESOLVED"
    by (simp add: w_absent_db evidence_eval transaction_def demo_dbs)
  then obtain res where res: "?run = (Inr res, snd ?run)" "ar_status res = RA_RESOLVED"
    by (metis prod.collapse)
  have "map_option (ord_intent_id \<circ> fst) (attempt_order_intent (w_db w_absent) ''a2'') = Some ''i2''"
    by (simp add: w_absent_db attempt_eval demo_dbs)
  then show ?thesis
    using resolved_order_matches_evidence [OF w_absent_reach res] by (auto simp: demo_evidence_def)
qed

text \<open>
  C18. Late evidence on an order that is settled already does not count its result again: the
  reservations and the digit runtime stay as they are, and so do the state of the order, its
  profit or loss and the number of times it was applied.
\<close>

theorem late_evidence_counts_nothing:
  assumes "writer_reach sha w" and "attempt_order_intent (w_db w) aid = Some (x, t)"
    and "ord_state x = SETTLED"
    and "apply_reconciliation_evidence sha aid e now w = (Inr res, w')"
  shows "same_result (w_db w) (w_db w') (ord_intent_id x) x"
proof -
  have inv: "db_inv None (w_db w)" by (rule writer_history.reach_inv [OF assms(1)])
  have x: "order_of_intent (w_db w) (ord_intent_id x) = Some x"
    using assms(2) order_by_id_intent [OF inv]
    by (auto simp: attempt_order_intent_def attempt_order_def split: option.splits)
  have released: "rr_state r = RELEASED"
    if "r \<in> set (risk_reservations (w_db w))" "rr_intent_id r = ord_intent_id x" for r
    using order_reservation_pair [OF inv conjunct1 [OF find_SomeD [OF x [unfolded order_of_intent_def]]] that] assms(3)
    by (cases "rr_state r") (auto simp: pair_ok_def is_terminal_def)
  have op: "op_apply_reconciliation_evidence sha (w_fault w) aid e now (w_db w) = Inr (res, w_db w')"
    using assms(4) by (auto simp: apply_reconciliation_evidence_def transaction_Inr)
  show ?thesis
  proof (cases "\<exists>db1. record_evidence sha (w_fault w) x e now (w_db w) = Inr db1 \<and>
      weigh_evidence (w_fault w) aid x t e now db1 = Inr (res, w_db w')")
    case True
    then obtain db1 where rec: "record_evidence sha (w_fault w) x e now (w_db w) = Inr db1"
      and weigh: "weigh_evidence (w_fault w) aid x t e now db1 = Inr (res, w_db w')" by blast
    note frame = record_evidence_frame [OF rec]
    have "same_result db1 (w_db w') (ord_intent_id x) x"
      by (rule settled_weighing [OF weigh assms(3)]) (use x released frame in \<open>auto simp: order_of_intent_def\<close>)
    then show ?thesis using frame by (simp add: same_result_def)
  next
    case False
    then have "finish_with aid RA_CONFLICT (ord_state x) (Some ''RECONCILIATION_EVIDENCE_CONFLICT'')
        now None (w_db w) = Inr (res, w_db w')"
      using op assms(2) by (auto simp: op_apply_reconciliation_evidence_def and_then_eq_Inr split: if_splits)
    then show ?thesis
      using finish_with_frame x by (simp add: same_result_def order_of_intent_def)
  qed
qed

theorem late_evidence_counts_nothing_witness:
  "\<exists>x. ord_realized_pnl_minor x = Some (- 100) \<and> same_result
     (w_db (snd (begin_reconciliation_attempt ''a1'' ''o1'' ''cor1'' demo_now w_settled)))
     (w_db (snd (apply_reconciliation_evidence demo_sha ''a1''
        (demo_evidence\<lparr>re_client_order_ref := ''o1'', re_broker_order_id := Some ''b1''\<rparr>) demo_later
        (snd (begin_reconciliation_attempt ''a1'' ''o1'' ''cor1'' demo_now w_settled))))) ''i1'' x"
proof -
  let ?w = "snd (begin_reconciliation_attempt ''a1'' ''o1'' ''cor1'' demo_now w_settled)"
  let ?run = "apply_reconciliation_evidence demo_sha ''a1''
    (demo_evidence\<lparr>re_client_order_ref := ''o1'', re_broker_order_id := Some ''b1''\<rparr>) demo_later ?w"
  have r: "writer_reach demo_sha ?w" by (rule reach_step [OF demo_reach(6) ws_begin])
  have "\<exists>x t. attempt_order_intent (w_db ?w) ''a1'' = Some (x, t) \<and> ord_state x = SETTLED \<and>
      ord_intent_id x = ''i1'' \<and> ord_realized_pnl_minor x = Some (- 100)"
    by (simp add: w_settled_db attempt_eval demo_dbs)
  then obtain x t where x: "attempt_order_intent (w_db ?w) ''a1'' = Some (x, t)" "ord_state x = SETTLED"
      "ord_intent_id x = ''i1''" "ord_realized_pnl_minor x = Some (- 100)" by blast
  have f: "w_fault ?w = (\<lambda>_. None)" by (simp add: begin_reconciliation_attempt_def)
  have "\<exists>res. fst ?run = Inr res"
    by (simp add: f w_settled_db evidence_eval transaction_def demo_dbs)
  then obtain res where "?run = (Inr res, snd ?run)" by (metis prod.collapse)
  from late_evidence_counts_nothing [OF r x(1,2) this] show ?thesis using x(3,4) by auto
qed

end
