(* ===== verification/RiskProps.thy ===== *)
theory RiskProps
  imports CoreInv ReconciliationProps
begin

text \<open>
  Properties of the risk ledger, of the stakes it allocates and of the health gate.
\<close>

section \<open>Lemmas\<close>

text \<open>What the entry check never touches.\<close>

definition same_policy :: "ledger \<Rightarrow> ledger \<Rightarrow> bool" where
  "same_policy l l' \<longleftrightarrow> rl_digit_config l' = rl_digit_config l \<and> rl_config l' = rl_config l \<and>
     rl_expected_stake l' = rl_expected_stake l"

lemma same_policy_simps [simp]:
  "same_policy l l" "same_policy l (l'\<lparr>rl_state := s\<rparr>) = same_policy l l'"
  by (simp_all add: same_policy_def)

lemma restore_policy: "same_policy l (snd (restore_digit_runtime fp tick now row l))"
  by (auto simp: restore_digit_runtime_def same_policy_def Let_def split: option.splits sum.splits)

lemma restore_state: "rl_state (snd (restore_digit_runtime fp tick now row l)) = rl_state l"
  by (auto simp: restore_digit_runtime_def Let_def split: option.splits sum.splits)

lemma end_cooldown_frame:
  assumes "end_cooldown rd (l, g) = (res, l', g')"
  shows "same_policy l l' \<and> rl_state l' = rl_state l"
proof -
  let ?l = "sequence_cleared (l\<lparr>rl_cooldown_deadline := None, rl_digit_losses := 0\<rparr>)"
  have "same_policy l ?l" "rl_state ?l = rl_state l" by (simp_all add: sequence_cleared_def same_policy_def)
  moreover have "l' = ?l \<or> (\<exists>row. l' = snd (restore_digit_runtime (rd_fp rd) (rd_tick rd) (rd_now rd) row ?l))"
    using assms by (auto simp: end_cooldown_def Let_def split: option.splits sum.splits prod.splits)
      (metis snd_conv)+
  ultimately show ?thesis
    using restore_policy restore_state by (auto simp: same_policy_def)
qed

text \<open>An entry that is let through.\<close>

lemma check_allowed:
  assumes "check_digit_entry rd config (l, g) = (Inr (True, reason), l', g')"
  shows "valid_digit_config config \<and> 0 < dc_daily_stop_loss_minor_units config + rl_digit_daily_pnl l' \<and>
    same_policy l l' \<and> rl_state l' \<noteq> RISK_LOCKED"
proof -
  have v: "valid_digit_config config" and s: "rl_state l \<noteq> RISK_LOCKED"
    using assms by (auto simp: check_digit_entry_def split: prod.splits bool.splits if_splits)
  show ?thesis
  proof (cases "rl_cooldown_deadline l")
    case None
    then show ?thesis
      using assms v s by (auto simp: check_digit_entry_def budget_check_def
          split: prod.splits bool.splits if_splits)
  next
    case (Some d)
    obtain res l1 g1 where e: "end_cooldown rd (l, g) = (res, l1, g1)" by (cases "end_cooldown rd (l, g)") auto
    have "res = Inr () \<and> budget_check config (l1, g1) = (Inr (True, reason), l', g')"
      using assms Some e
      by (cases res) (auto simp: check_digit_entry_def split: prod.splits bool.splits if_splits)
    then show ?thesis
      using v s end_cooldown_frame [OF e] by (auto simp: budget_check_def split: if_splits)
  qed
qed

lemma entry_stake_InrD:
  assumes "digit_entry_stake rd ratio (l, g) = (Inr m, l', g')"
  shows "\<exists>l1 reason. check_digit_entry rd (rl_digit_config l) (l, g) = (Inr (True, reason), l1, g') \<and>
    allocate_stake ratio l1 = (Inr m, l')"
  using assms by (auto simp: digit_entry_stake_def split: prod.splits sum.splits if_splits)

lemma ledger_recovery_bounds:
  assumes "ledger_recovery_stake l ratio = Inr stake" and "0 < rl_step l" and "0 < rl_sequence_loss l"
  shows "dc_stake_minor_units (rl_digit_config l) \<le> stake \<and>
    stake \<le> dc_martingale_max_stake_minor_units (rl_digit_config l) \<and> stake \<le> remaining_loss_budget l"
proof -
  let ?c = "rl_digit_config l"
  obtain cfg m where cfg: "bounded_martingale_config ?c = Inr cfg"
    and m: "recovery_stake cfg (rl_step l) (rl_sequence_loss l) ratio (remaining_loss_budget l) = Inr m"
      "stake = minor_units m"
    using assms(1) by (auto simp: ledger_recovery_stake_def raises)
  show ?thesis using recovery_stake_InrD [OF m(1) assms(2,3)] m(2) progression_of [OF cfg] by auto
qed

lemma entry_stake_facts:
  assumes "digit_entry_stake rd ratio (l, g) = (Inr m, l', g')"
  shows "0 < remaining_loss_budget l' \<and> rl_digit_config l' = rl_digit_config l \<and> (rl_step l' \<le> 0 \<longrightarrow> minor_units m = dc_stake_minor_units (rl_digit_config l)) \<and>
    (0 < rl_step l' \<and> 0 < rl_sequence_loss l' \<longrightarrow>
       dc_stake_minor_units (rl_digit_config l) \<le> minor_units m \<and>
       minor_units m \<le> dc_martingale_max_stake_minor_units (rl_digit_config l) \<and>
       minor_units m \<le> remaining_loss_budget l')"
proof -
  obtain l1 reason where c: "check_digit_entry rd (rl_digit_config l) (l, g) = (Inr (True, reason), l1, g')"
    and a: "allocate_stake ratio l1 = (Inr m, l')"
    using entry_stake_InrD [OF assms] by blast
  note ok = check_allowed [OF c]
  show ?thesis
  proof (cases "rl_step l1 \<le> 0")
    case True
    then show ?thesis
      using a ok by (auto simp: allocate_stake_def Let_def same_policy_def remaining_loss_budget_def dest!: Money_InrD)
  next
    case False
    obtain q stake where q: "ratio = Some q" "ledger_recovery_stake l1 q = Inr stake"
      using a False by (auto simp: allocate_stake_def split: option.splits sum.splits)
    with a False have "minor_units m = stake"
        "l' = l1\<lparr>rl_last_ratio := Some q, rl_expected_stake := Some stake\<rparr>"
      by (auto simp: allocate_stake_def dest!: Money_InrD)
    then show ?thesis
      using False ok ledger_recovery_bounds [OF q(2)] by (auto simp: remaining_loss_budget_def same_policy_def)
  qed
qed

lemma reason_among:
  assumes "finite rs" and "rs \<noteq> {}"
  shows "\<exists>r\<in>rs. hs_reason_code (state_from_reasons rs) = Some r"
  using assms find_SomeD [of "\<lambda>c. c \<in> rs" PRIORITY] Min_in [OF assms]
  by (auto simp: state_from_reasons_def split: option.splits)

section \<open>Properties\<close>

text \<open>
  C19. The stake of a digit entry is bounded: outside a recovery it is the base stake, and within
  one it is at least the base stake and at most the cap of the progression and the budget left
  before the daily stop.
\<close>

theorem entry_stake_bounded:
  assumes "digit_entry_stake rd ratio (l, g) = (Inr m, l', g')"
  shows "(rl_step l' \<le> 0 \<longrightarrow> minor_units m = dc_stake_minor_units (rl_digit_config l)) \<and>
    (0 < rl_step l' \<and> 0 < rl_sequence_loss l' \<longrightarrow>
       dc_stake_minor_units (rl_digit_config l) \<le> minor_units m \<and>
       minor_units m \<le> dc_martingale_max_stake_minor_units (rl_digit_config l) \<and>
       minor_units m \<le> remaining_loss_budget l')"
  using entry_stake_facts [OF assms] by blast

text \<open>The ledger of the witnesses: one loss into a recovery, five dollars before the stop.\<close>

definition demo_digit_config :: digit_risk_config where
  "demo_digit_config = DigitRiskConfig\<lparr>dc_martingale_enabled := True, dc_max_consecutive_losses := 3\<rparr>"

definition demo_ledger :: ledger where
  "demo_ledger = \<lparr>rl_config = default_risk_config, rl_digit_config = demo_digit_config,
     rl_digit_daily_pnl = - 100, rl_digit_losses = 1, rl_cooldown_deadline = None, rl_step = 1,
     rl_recovery_symbol = Some ''R_100'', rl_sequence_loss = 100, rl_expected_stake = None,
     rl_last_ratio = None, rl_restored = [], rl_daily_pnl = - 100, rl_losses = 1, rl_state = NORMAL\<rparr>"

definition demo_readings :: readings where
  "demo_readings = \<lparr>rd_fp = (\<lambda>_. ''f1''), rd_tick = 0, rd_now = demo_now, rd_expirer = None\<rparr>"

lemma demo_config_valid: "validate_digit_risk_config demo_digit_config = (True, None)"
  by (simp add: validate_digit_risk_config_def digit_risk_faults_def demo_digit_config_def DigitRiskConfig_def
      finite_and_def DERIV_SYNTHETIC_INDEX_ALLOWLIST_def DERIV_DIGIT_STRATEGY_ALLOWLIST_def
      DERIV_DEFAULT_DIGIT_STRATEGY_IDS_def)

lemma demo_check:
  assumes "rl_state l = NORMAL" and "rl_cooldown_deadline l = None"
    and "- 5000 < rl_digit_daily_pnl l" and "rl_digit_daily_pnl l < 3000"
  shows "check_digit_entry rd demo_digit_config (l, g) = (Inr (True, None), l, g)"
proof -
  have "dc_daily_stop_loss_minor_units demo_digit_config = 5000" "dc_daily_take_profit_minor_units demo_digit_config = 3000"
    by (simp_all add: demo_digit_config_def DigitRiskConfig_def)
  then show ?thesis using assms by (simp add: check_digit_entry_def demo_config_valid budget_check_def)
qed

lemma demo_recovery: "ledger_recovery_stake demo_ledger (Finite (1 / 2)) = Inr 200"
  using ctx_of_int [of 200]
  by (simp add: ledger_recovery_stake_def bounded_martingale_config_def BoundedMartingaleConfig_def
      Money_def string_eval recovery_stake_def required_stake_def dec_div_def quantize_one_def
      remaining_loss_budget_def demo_ledger_def demo_digit_config_def DigitRiskConfig_def)

lemma demo_entry: "digit_entry_stake demo_readings (Some (Finite (1 / 2))) (demo_ledger, g) =
   (Inr \<lparr>minor_units = 200, currency = ''USD''\<rparr>,
    demo_ledger\<lparr>rl_last_ratio := Some (Finite (1 / 2)), rl_expected_stake := Some 200\<rparr>, g)"
proof -
  have "rl_digit_config demo_ledger = demo_digit_config" "0 < rl_step demo_ledger"
    "dc_currency demo_digit_config = ''USD''"
    "check_digit_entry demo_readings demo_digit_config (demo_ledger, g) = (Inr (True, None), demo_ledger, g)"
    using demo_check [of demo_ledger]
    by (simp_all add: demo_ledger_def demo_digit_config_def DigitRiskConfig_def)
  then show ?thesis
    by (simp add: digit_entry_stake_def allocate_stake_def demo_recovery Money_def string_eval)
qed

theorem entry_stake_bounded_witness:
  "100 \<le> minor_units \<lparr>minor_units = 200, currency = ''USD''\<rparr> \<and>
   minor_units \<lparr>minor_units = 200, currency = ''USD''\<rparr> \<le> remaining_loss_budget demo_ledger"
  using entry_stake_bounded [OF demo_entry [of None]]
  by (simp add: demo_ledger_def demo_digit_config_def DigitRiskConfig_def remaining_loss_budget_def)

text \<open>
  C20. A recovery stake pays for its share: at the quoted profit ratio it wins back at least the
  outstanding loss divided by the attempts that are left, up to the rounding of the quotients to
  28 digits. On the last attempt that is the whole loss.
\<close>

theorem recovery_stake_recovers:
  assumes "recovery_stake cfg step outstanding (Finite r) budget = Inr m" and "0 < step" and "0 < outstanding"
  shows "of_int outstanding / of_int (mc_max_steps cfg - step + 1) * (1 - 2 * rounding_error) \<le>
    of_int (minor_units m) * r"
  using recovery_share [OF assms] .

text \<open>
  C21. One entry cannot pass the daily stop by more than its own stake less one unit, and a
  recovery entry cannot pass it at all: if the entry loses no more than its stake, the day's
  result stays above the stop less the base stake, and in a recovery at or above the stop.
\<close>

theorem stop_loss_overshoot_bounded:
  assumes "digit_entry_stake rd ratio (l, g) = (Inr m, l', g')" and "- minor_units m \<le> pnl"
  shows "(rl_step l' \<le> 0 \<longrightarrow> - (dc_daily_stop_loss_minor_units (rl_digit_config l) +
       dc_stake_minor_units (rl_digit_config l)) < rl_digit_daily_pnl l' + pnl) \<and>
    (0 < rl_step l' \<and> 0 < rl_sequence_loss l' \<longrightarrow>
       - dc_daily_stop_loss_minor_units (rl_digit_config l) \<le> rl_digit_daily_pnl l' + pnl)"
  using entry_stake_facts [OF assms(1)] assms(2) by (auto simp: remaining_loss_budget_def)

theorem stop_loss_overshoot_bounded_witness:
  "- dc_daily_stop_loss_minor_units demo_digit_config \<le> rl_digit_daily_pnl demo_ledger - 200"
  using stop_loss_overshoot_bounded [OF demo_entry [of None], of "- 200"]
  by (simp add: demo_ledger_def)

text \<open>
  The base stake is not compared with the budget that is left: with one unit left before the
  stop, an entry outside a recovery is still given the whole base stake.
\<close>

lemma base_stake_ignores_budget:
  "\<exists>l m l'. digit_entry_stake demo_readings None (l, None) = (Inr m, l', None) \<and>
     remaining_loss_budget l' = 1 \<and> minor_units m = 100"
proof -
  let ?l = "demo_ledger\<lparr>rl_step := 0, rl_digit_daily_pnl := - 4999\<rparr>"
  have "check_digit_entry demo_readings demo_digit_config (?l, None) = (Inr (True, None), ?l, None)"
    by (rule demo_check) (simp_all add: demo_ledger_def)
  moreover have "rl_digit_config ?l = demo_digit_config" by (simp add: demo_ledger_def)
  ultimately have "digit_entry_stake demo_readings None (?l, None) =
      (Inr \<lparr>minor_units = 100, currency = ''USD''\<rparr>, ?l\<lparr>rl_expected_stake := Some 100\<rparr>, None)"
    by (simp add: digit_entry_stake_def allocate_stake_def)
      (simp add: demo_digit_config_def DigitRiskConfig_def Money_def string_eval)
  then show ?thesis
    by (intro exI conjI) (auto simp: remaining_loss_budget_def demo_ledger_def demo_digit_config_def DigitRiskConfig_def)
qed

definition demo_progression :: martingale_config where
  "demo_progression = \<lparr>mc_base_stake = \<lparr>minor_units = 100, currency = ''USD''\<rparr>, mc_multiplier = 2,
     mc_max_steps = 2, mc_max_stake = \<lparr>minor_units = 400, currency = ''USD''\<rparr>,
     mc_daily_stop_loss = \<lparr>minor_units = 5000, currency = ''USD''\<rparr>\<rparr>"

theorem recovery_stake_recovers_witness:
  "100 / 2 * (1 - 2 * rounding_error) \<le> 200 * (1 / 2)"
proof -
  have "recovery_stake demo_progression 1 100 (Finite (1 / 2)) 4900 =
      Inr \<lparr>minor_units = 200, currency = ''USD''\<rparr>"
    using ctx_of_int [of 200]
    by (simp add: recovery_stake_def demo_progression_def required_stake_def dec_div_def quantize_one_def
        Money_def string_eval)
  from recovery_stake_recovers [OF this] show ?thesis by (simp add: demo_progression_def)
qed

text \<open>The guards a reservation has passed.\<close>

lemma reserve_facts:
  assumes "reserve rd port request (l, g) = (Inr m, l', g')"
  shows "m = req_amount request \<and> currency m = gc_reference_currency (rl_config l) \<and> 0 < minor_units m \<and>
    rl_state l' = NORMAL \<and> rl_config l' = rl_config l \<and>
    (\<exists>xs. port = Some (Inr xs) \<and> exposure_total xs + minor_units m \<le> gc_global_max_exposure_minor_units (rl_config l) \<and>
       exposure_on (canonicalize_symbol (req_symbol request)) xs + minor_units m \<le>
         gc_max_exposure_per_symbol_minor_units (rl_config l)) \<and>
    (is_bounded_digit_product (req_product request) \<longrightarrow>
       0 < remaining_loss_budget l' \<and> (dc_martingale_enabled (rl_digit_config l) \<longrightarrow>
         current_digit_stake (l'\<lparr>rl_expected_stake := rl_expected_stake l\<rparr>) = Inr (minor_units m)))"
proof -
  let ?digit = "is_bounded_digit_product (req_product request)"
  have cur: "currency (req_amount request) = gc_reference_currency (rl_config l)"
    using assms by (auto simp: reserve_def split: if_splits)
  obtain l1 g1 where d: "(if ?digit then digit_reserve_check rd request (l, g) else (Inr (), l, g)) = (Inr (), l1, g1)"
    and s: "ledger_state_check request (l1, g1) = (Inr (), l1, g1)"
    and e: "exposure_check port request (l1, g1) = (Inr m, l', g')"
    using assms cur
    by (auto simp: reserve_def ledger_state_check_def split: if_splits sum.splits prod.splits)
  have digit: "same_policy l l1 \<and> (?digit \<longrightarrow> 0 < remaining_loss_budget l1 \<and>
      (dc_martingale_enabled (rl_digit_config l) \<longrightarrow> current_digit_stake l1 = Inr (minor_units (req_amount request))))"
    using d by (auto simp: digit_reserve_check_def remaining_loss_budget_def same_policy_def
        split: if_splits prod.splits sum.splits dest!: check_allowed)
  obtain xs where x: "port = Some (Inr xs)" "m = req_amount request" "l' = l1\<lparr>rl_expected_stake := None\<rparr>"
      "exposure_total xs + minor_units m \<le> gc_global_max_exposure_minor_units (rl_config l1)"
      "exposure_on (canonicalize_symbol (req_symbol request)) xs + minor_units m \<le>
         gc_max_exposure_per_symbol_minor_units (rl_config l1)"
    using e by (auto simp: exposure_check_def read_active_exposure_def Let_def
        split: option.splits sum.splits exc.splits if_splits)
  have "rl_state l1 = NORMAL \<and> 0 < minor_units (req_amount request)"
    using s by (cases "rl_state l1") (auto simp: ledger_state_check_def split: if_splits)
  moreover have "current_digit_stake (l1\<lparr>rl_expected_stake := rl_expected_stake l\<rparr>) = current_digit_stake l1"
    using digit by (cases l1) (simp add: same_policy_def)
  ultimately show ?thesis
    using cur digit x by (auto simp: same_policy_def remaining_loss_budget_def)
qed


lemma demo_reserve:
  "reserve rd (Some (Inr [])) demo_request (demo_ledger\<lparr>rl_step := 0\<rparr>, g) =
     (Inr \<lparr>minor_units = 100, currency = ''USD''\<rparr>, demo_ledger\<lparr>rl_step := 0\<rparr>,
      gate_clear ''HG_EXPOSURE_CURRENCY_MISMATCH'' (gate_clear ''HG_EXPOSURE_UNKNOWN'' g))"
proof -
  let ?l = "demo_ledger\<lparr>rl_step := 0\<rparr>"
  have c: "rl_digit_config ?l = demo_digit_config" "rl_config ?l = default_risk_config"
    "rl_expected_stake ?l = None" "rl_state ?l = NORMAL" "rl_step ?l = 0" by (simp_all add: demo_ledger_def)
  have "digit_reserve_check rd demo_request (?l, g) = (Inr (), ?l, g)"
  proof -
    have "check_digit_entry rd demo_digit_config (?l, g) = (Inr (True, None), ?l, g)"
      by (rule demo_check) (simp_all add: demo_ledger_def)
    moreover have "dc_stake_minor_units demo_digit_config = 100"
      by (simp add: demo_digit_config_def DigitRiskConfig_def)
    ultimately show ?thesis
      by (simp add: digit_reserve_check_def c current_digit_stake_def demo_request_def)
  qed
  moreover have "?l\<lparr>rl_expected_stake := None\<rparr> = ?l" by (simp add: demo_ledger_def)
  ultimately show ?thesis
    by (simp add: reserve_def c ledger_state_check_def exposure_check_def read_active_exposure_def
        exposure_on_def exposure_total_def default_risk_config_def demo_request_def is_bounded_digit_product_def
        DERIV_BOUNDED_STAKE_PRODUCTS_def string_eval)
qed


text \<open>
  C23. The gate is the set of reasons that apply to an account. An order may enter exactly when
  that set is empty and the database is healthy; otherwise the answer carries the failure of the
  database or one of the reasons.
\<close>

theorem gate_answers_reasons:
  assumes "finite (gate_reasons g brk account_id)"
  shows "(fst (can_enter_order dh brk account_id g) \<longleftrightarrow>
       database_state dh = None \<and> gate_reasons g brk account_id = {}) \<and>
    (case snd (can_enter_order dh brk account_id g) of
       None \<Rightarrow> fst (can_enter_order dh brk account_id g)
     | Some r \<Rightarrow> database_state dh \<noteq> None \<or> r \<in> gate_reasons g brk account_id)"
proof (cases "database_state dh")
  case None
  have opens: "fst (can_enter_order dh brk account_id g) \<longleftrightarrow> gate_reasons g brk account_id = {}"
    using None database_state_None [of dh] by (simp add: can_enter_iff)
  show ?thesis
  proof (cases "hg_blockers g = {}")
    case True
    let ?rs = "scope_reasons g (upper brk, account_id) \<union>
      (if account_id \<noteq> ''market-data'' then scope_reasons g (upper brk, ''market-data'') else {})"
    have "?rs = gate_reasons g brk account_id" using True by (auto simp: gate_reasons_def)
    then have "can_enter_order dh brk account_id g =
        (if gate_reasons g brk account_id = {} then (True, None)
         else (False, hs_reason_code (state_from_reasons (gate_reasons g brk account_id))))"
      using None True by (simp add: can_enter_order_def Let_def global_state_def state_for_def state_from_reasons_open)
    then show ?thesis
      using None reason_among [OF assms] by (cases "gate_reasons g brk account_id = {}") auto
  next
    case False
    then have "can_enter_order dh brk account_id g = (False, hs_reason_code (state_from_reasons (hg_blockers g)))"
      using None by (simp add: can_enter_order_def Let_def global_state_def state_from_reasons_open)
    moreover have "finite (hg_blockers g)" "hg_blockers g \<subseteq> gate_reasons g brk account_id"
      using assms by (auto simp: gate_reasons_def)
    ultimately show ?thesis
      using None False opens reason_among [of "hg_blockers g"] by auto
  qed
next
  case (Some s)
  have "\<exists>r. hs_reason_code s = Some r"
    using Some by (auto simp: database_state_def split: option.splits if_splits)
  then show ?thesis
    using Some database_state_closed [OF Some] by (auto simp: can_enter_order_def Let_def global_state_def)
qed

theorem gate_answers_reasons_witness:
  "snd (can_enter_order None ''DERIV'' ''VRTC1'' (block_scope ''DERIV'' ''market-data'' ''MD_CLOCK_UNTRUSTED'' HealthGate)) =
     Some ''MD_CLOCK_UNTRUSTED''"
  using gate_answers_reasons [of "block_scope ''DERIV'' ''market-data'' ''MD_CLOCK_UNTRUSTED'' HealthGate"
      "''DERIV''" "''VRTC1''" None]
  by (simp add: gate_reasons_block_scope gate_reasons_initial covers_def string_eval database_state_def
      split: option.splits)

end
