(* ===== verification/GateStays.thy ===== *)
theory GateStays
  imports RiskProps
begin

text \<open>
  Which blockers of the health gate the Core lifts by itself. Every operation that runs without
  an operator keeps all other global blockers, so they hold until an operator, a restart or a new
  session lifts them.
\<close>

section \<open>Blockers that stay\<close>

text \<open>
  The blockers the Core lifts by itself. Every other global blocker is lifted by an operator, by
  a restart or by a new session.
\<close>

definition lifted :: "string set" where
  "lifted = {''HG_COOLDOWN_ACTIVE'', ''HG_EXPOSURE_UNKNOWN'', ''HG_EXPOSURE_CURRENCY_MISMATCH'',
     ''HG_ORDER_UNKNOWN'', ''HG_RECONCILIATION_REQUIRED'', ''HG_RECONCILIATION_UNAVAILABLE'',
     ''HG_SETTLEMENT_UNKNOWN''}"

definition stays :: "gate \<Rightarrow> gate \<Rightarrow> bool" where
  "stays g g' \<longleftrightarrow> hg_blockers g - lifted \<subseteq> hg_blockers g'"

named_theorems gate_stays \<open>operations that keep the blockers an operator lifts\<close>

lemma stays_refl [simp]: "stays g g" by (auto simp: stays_def)

lemma stays_trans: "stays g h \<Longrightarrow> stays h k \<Longrightarrow> stays g k"
  by (auto simp: stays_def)

lemma stays_block [gate_stays]: "stays g h \<Longrightarrow> stays g (block r h)"
  "stays g h \<Longrightarrow> stays g (block_scope b a r h)" "stays g h \<Longrightarrow> stays g (clear_scope b a r h)"
  "r \<in> lifted \<Longrightarrow> stays g h \<Longrightarrow> stays g (clear_if r h)"
  by (auto simp: stays_def block_def block_scope_def Let_def hg_blockers_clear_scope clear_if_def)

text \<open>The same for a call of the ledger.\<close>

lemma rel_stays_refl [simp]: "rel_option stays g g"
  by (cases g) simp_all

lemma rel_stays_trans: "rel_option stays g h \<Longrightarrow> rel_option stays h k \<Longrightarrow> rel_option stays g k"
  by (cases g; cases h; cases k) (auto intro: stays_trans)

lemma rel_stays_ops [intro!]:
  "rel_option stays g h \<Longrightarrow> rel_option stays g (gate_block r h)"
  "r \<in> lifted \<Longrightarrow> rel_option stays g h \<Longrightarrow> rel_option stays g (gate_clear r h)"
  by (cases g; cases h; simp add: gate_stays)+

lemma rel_stays_cleared: "rel_option stays (gate_clear r g) h \<Longrightarrow> r \<in> lifted \<Longrightarrow> rel_option stays g h"
  by (rule rel_stays_trans) auto

lemma lifted_simps [simp]:
  "''HG_COOLDOWN_ACTIVE'' \<in> lifted" "''HG_EXPOSURE_UNKNOWN'' \<in> lifted"
  "''HG_EXPOSURE_CURRENCY_MISMATCH'' \<in> lifted" "''HG_ORDER_UNKNOWN'' \<in> lifted"
  "''HG_RECONCILIATION_REQUIRED'' \<in> lifted" "''HG_RECONCILIATION_UNAVAILABLE'' \<in> lifted"
  "''HG_SETTLEMENT_UNKNOWN'' \<in> lifted"
  by (simp_all add: lifted_def)

lemma end_cooldown_stays: "end_cooldown rd (l, g) = (res, l', g') \<Longrightarrow> rel_option stays g g'"
  by (auto simp: end_cooldown_def Let_def split: option.splits sum.splits prod.splits if_splits)

lemma budget_check_stays: "budget_check config (l, g) = (res, l', g') \<Longrightarrow> rel_option stays g g'"
  by (auto simp: budget_check_def split: if_splits)

lemma check_stays: "check_digit_entry rd config (l, g) = (res, l', g') \<Longrightarrow> rel_option stays g g'"
  by (auto simp: check_digit_entry_def split: option.splits sum.splits prod.splits if_splits bool.splits
      dest: end_cooldown_stays budget_check_stays intro: rel_stays_trans)

lemma refresh_stays: "refresh_digit_health_gate rd (l, g) = (res, l', g') \<Longrightarrow> rel_option stays g g'"
  by (auto simp: refresh_digit_health_gate_def split: sum.splits prod.splits dest: check_stays)

lemma digit_reserve_stays: "digit_reserve_check rd request (l, g) = (res, l', g') \<Longrightarrow> rel_option stays g g'"
  by (auto simp: digit_reserve_check_def split: sum.splits prod.splits if_splits dest: check_stays)

lemma state_check_stays: "ledger_state_check request (l, g) = (res, l', g') \<Longrightarrow> rel_option stays g g'"
  by (auto simp: ledger_state_check_def split: if_splits)

lemma read_stays: "read_active_exposure port (l, g) = (res, l', g') \<Longrightarrow> rel_option stays g g'"
  by (auto simp: read_active_exposure_def split: option.splits sum.splits exc.splits if_splits
      intro: rel_stays_trans)

lemma exposure_stays: "exposure_check port request (l, g) = (res, l', g') \<Longrightarrow> rel_option stays g g'"
  by (auto simp: exposure_check_def Let_def split: sum.splits prod.splits if_splits dest: read_stays)

lemma reserve_stays: "reserve rd port request (l, g) = (res, l', g') \<Longrightarrow> rel_option stays g g'"
  unfolding reserve_def
  by (auto split: sum.splits prod.splits if_splits
      dest!: digit_reserve_stays state_check_stays exposure_stays intro: rel_stays_trans)

lemma update_stays: "update_digit_risk_config rd config r (l, g) = (res, l', g') \<Longrightarrow> rel_option stays g g'"
  unfolding update_digit_risk_config_def reset_digit_recovery_state_def Let_def
  by (auto split: sum.splits prod.splits if_splits bool.splits dest!: check_stays intro: rel_stays_cleared)


text \<open>The operations of the Core.\<close>

abbreviation core_stays :: "core \<Rightarrow> core \<Rightarrow> bool" where
  "core_stays c c' \<equiv> stays (co_gate c) (co_gate c')"

interpretation gate_runs: reconcile_relation core_stays
  by unfold_locales (auto simp: on_gate_def intro: stays_trans stays_block)

lemma stays_on_gate: "(\<And>g. stays g (f g)) \<Longrightarrow> core_stays c (on_gate f c)"
  by (simp add: on_gate_def)

lemma stays_on_ledger:
  assumes "\<And>rd db l g res l' g'. call rd db (l, g) = (res, l', g') \<Longrightarrow> rel_option stays g g'"
  shows "core_stays c (snd (on_ledger fp tick now checks call c))"
proof -
  obtain ended w where e: "(if checks \<and> cooldown_over tick (rl_digit_config (co_ledger c)) (co_ledger c)
      then expire_digit_cooldown now (co_writer c) else (Inr None, co_writer c)) = (ended, w)" by fastforce
  obtain res l g where call: "call \<lparr>rd_fp = fp, rd_tick = tick, rd_now = now, rd_expirer = Some ended\<rparr> (w_db w)
      (co_ledger c, Some (co_gate c)) = (res, l, g)" by (metis prod_cases3)
  have "rel_option stays (Some (co_gate c)) g" by (rule assms [OF call])
  then show ?thesis using e call by (cases g) (simp_all add: on_ledger_def Let_def)
qed

lemmas stays_gate_ops = stays_on_gate stays_block stays_refl

lemma stays_refresh_gate [gate_stays]: "core_stays c (snd (refresh_gate fp tick now c))"
  unfolding refresh_gate_def by (rule stays_on_ledger) (rule refresh_stays)

lemma stays_reserve_risk [gate_stays]: "core_stays c (snd (reserve_risk fp tick now request c))"
  unfolding reserve_risk_def by (rule stays_on_ledger) (rule reserve_stays)

lemma stays_ledger_update [gate_stays]: "core_stays c (snd (ledger_update fp tick now config r c))"
  unfolding ledger_update_def by (rule stays_on_ledger) (rule update_stays)

lemma stays_record_outcome [gate_stays]: "core_stays c (snd (record_outcome command outcome b r now c))"
  unfolding record_outcome_def by (rule gate_runs.seq) (auto intro!: stays_gate_ops)

lemma stays_dispatch_next [gate_stays]: "core_stays c (snd (dispatch_next worker brk acc t1 t2 c))"
  unfolding dispatch_next_def
  by (rule gate_runs.seq)
    (auto intro!: gate_runs.seq stays_gate_ops stays_record_outcome
      split: option.splits submission.splits delivery_certainty.splits)

lemma stays_persist_order [gate_stays]: "core_stays c (snd (persist_order request command ids now c))"
proof -
  let ?f = "persist_intent_reservation_outbox request command (po_intent_id ids)
    (po_reservation_id ids) (po_order_id ids) now
    (Some (gc_global_max_exposure_minor_units (rl_config (co_ledger c))))
    (Some (gc_max_exposure_per_symbol_minor_units (rl_config (co_ledger c))))
    (Some (gc_reference_currency (rl_config (co_ledger c))))"
  obtain r c1 where f: "on_writer ?f c = (r, c1)" by (cases "on_writer ?f c")
  then have "co_gate c1 = co_gate c" by (metis gate_on_writer snd_conv)
  then show ?thesis
    unfolding persist_order_def Let_def f
    by (cases r) (auto split: exc.splits intro!: stays_gate_ops)
qed

lemma stays_submit [gate_stays]: "core_stays c (snd (submit env request dispatch c))"
  unfolding submit_def
  by (intro gate_runs.seq gate_stays) (auto intro!: gate_runs.seq stays_dispatch_next)

lemma stays_dispatch_pending [gate_stays]: "core_stays c (snd (runtime_dispatch_pending worker t1 t2 c))"
  unfolding runtime_dispatch_pending_def dispatch_pending_def
  by (auto intro!: gate_runs.seq stays_dispatch_next)

lemma stays_reload [gate_stays]: "core_stays c (snd (reload_digit_runtime fp tick t1 t2 c))"
  unfolding reload_digit_runtime_def by (rule gate_runs.seq) (auto split: prod.splits)

lemma stays_restore [gate_stays]: "core_stays c (snd (restore_reservations c))"
  by (auto simp: restore_reservations_def split: sum.splits)

lemma stays_handle_event [gate_stays]: "core_stays c (snd (handle_event_result fp tick t1 t2 e res c))"
proof -
  have "core_stays d (apply_result_to_ledger pnl d)" for pnl d
    by (auto simp: apply_result_to_ledger_def apply_realized_pnl_def Let_def intro!: stays_gate_ops)
  then have "core_stays d (snd (reload_digit_runtime fp tick t1 t2 (apply_result_to_ledger pnl d)))" for pnl d
    by (rule stays_trans [OF _ stays_reload])
  then have "core_stays d (snd (count_event_result fp tick t1 t2 e res d))" for d
    unfolding count_event_result_def by (auto split: option.splits sum.splits intro!: gate_runs.seq)
  moreover have "core_stays c (note_event_state e res c)"
    by (simp add: note_event_state_def Let_def stays_gate_ops)
  ultimately show ?thesis
    by (auto simp: handle_event_result_def stays_gate_ops split: event_status.splits intro: stays_trans)
qed


lemma stays_clear_gates [gate_stays]: "core_stays c (clear_gates_after_positive_cycle a s c)"
  by (auto simp: clear_gates_after_positive_cycle_def Let_def on_gate_def intro!: stays_block)

lemma stays_run_once [gate_stays]: "core_stays c (snd (run_once env c))"
  unfolding run_once_def reconcile_all_def Let_def on_reconciliation_cycle_completed_def
  by (intro gate_runs.seq gate_runs.reconcile_each stays_restore) (auto intro: stays_clear_gates)

lemma stays_reconcile_order [gate_stays]: "core_stays c (snd (reconcile_order env oid c))"
  unfolding reconcile_order_def
  by (auto intro!: gate_runs.seq gate_runs.reconcile stays_clear_gates split: option.splits)

lemma stays_process_event [gate_stays]:
  "core_stays c (snd (process_event fp tick t0 t1 t2 (Some (event_fallback env)) e c))"
proof -
  have "core_stays d (snd (reconcile_order env oid (on_gate (block_scope b a r) d)))" for d oid b a r
    by (rule stays_trans [OF _ stays_reconcile_order]) (simp add: stays_gate_ops)
  then have "core_stays d (snd (gap_fallback (Some (event_fallback env)) e d))" for d
    unfolding gap_fallback_def Let_def event_fallback_def
    by (auto intro!: gate_runs.seq stays_gate_ops)
  then show ?thesis
    unfolding process_event_def by (intro gate_runs.seq stays_handle_event stays_restore) auto
qed

lemma stays_update_config [gate_stays]:
  "core_stays c (snd (runtime_update_digit_config fp str_of tick now saved config c))"
proof -
  have undo: "core_stays d (snd (then_do (ledger_update fp tick now previous False d) (\<lambda>_ c3.
      then_do (on_writer (configure_digit_risk_runtime (digit_runtime_policy fp str_of (co_ledger c3))
        False now) c3) (\<lambda>_ c4. (Inr (False, r), c4)))))" for d previous and r :: "string option"
    by (intro gate_runs.seq stays_ledger_update) auto
  have "core_stays d (snd (case on_writer f d of (res, c2) \<Rightarrow>
      if (case res of Inr _ \<Rightarrow> saved | Inl _ \<Rightarrow> False) then (Inr (True, None), c2)
      else then_do (ledger_update fp tick now previous False c2) (\<lambda>_ c3.
        then_do (on_writer (configure_digit_risk_runtime (digit_runtime_policy fp str_of (co_ledger c3))
          False now) c3) (\<lambda>_ c4. (Inr (False, r), c4)))))"
    for d previous and r :: "string option" and f :: "writer \<Rightarrow> (exc + unit) \<times> writer"
  proof (cases "on_writer f d")
    case (Pair res c2)
    then have "co_gate c2 = co_gate d" using gate_on_writer by (metis snd_conv)
    then show ?thesis using undo [of c2 previous r] unfolding Pair by simp
  qed
  then show ?thesis
    unfolding runtime_update_digit_config_def Let_def
    by (auto intro!: gate_runs.seq stays_ledger_update)
qed

lemma stays_reset_recovery [gate_stays]: "core_stays c (snd (reset_recovery fp str_of now c))"
proof -
  have "co_gate d1 = co_gate d" if "on_writer f d = (res, d1)" for f d and res :: "exc + unit" and d1
    using that gate_on_writer by (metis snd_conv)
  then show ?thesis
    unfolding reset_recovery_def
    by (auto simp: with_gate_def reset_digit_recovery_state_def split: prod.splits sum.splits
        intro!: stays_block)
qed

lemma stays_scheduler_turn [gate_stays]: "core_stays c (fst (scheduler_turn triggered env before c s))"
  using stays_run_once [of c env]
  by (auto simp: scheduler_turn_def on_gate_def split: prod.splits sum.splits intro: stays_block)

end
