(* ===== verification/CoreProps.thy ===== *)
theory CoreProps
  imports GateStays "HOL-Library.Multiset"
begin

text \<open>
  Properties of the Core as a whole: the risk check in memory against the check in the store, what
  a dispatch records, how failures close the gate, and which blockers only an operator lifts.
\<close>

section \<open>The ledger and the store\<close>

text \<open>A join on a key that pairs the rows of two tables one to one.\<close>

lemma join_one:
  assumes "distinct (map key T)" and "t \<in> set T"
  shows "concat (map (\<lambda>u. if key u = key t \<and> P u then [f u] else []) T) = (if P t then [f t] else [])"
  using assms
proof (induction T)
  case Nil
  then show ?case by simp
next
  case (Cons u T)
  show ?case
  proof (cases "u = t")
    case True
    then have "key t \<notin> key ` set T" using Cons.prems by auto
    then have "\<forall>v\<in>set T. key v \<noteq> key t" by (metis image_eqI)
    then have "concat (map (\<lambda>u. if key u = key t \<and> P u then [f u] else []) T) = []" by simp
    with True show ?thesis by simp
  next
    case False
    then have "t \<in> set T" "key u \<noteq> key t" using Cons.prems by auto
    then show ?thesis using Cons by simp
  qed
qed

lemma join_zip:
  assumes "list_all2 (\<lambda>t r. key t = ref r) T R" and "distinct (map key T)"
  shows "concat (map (\<lambda>r. concat (map (\<lambda>t. if key t = ref r \<and> P r t then [f r t] else []) T)) R) =
    map (\<lambda>(r, t). f r t) (filter (\<lambda>(r, t). P r t) (zip R T))"
proof -
  have "set S \<subseteq> set T \<Longrightarrow>
      concat (map (\<lambda>r. concat (map (\<lambda>t. if key t = ref r \<and> P r t then [f r t] else []) T)) Q) =
      map (\<lambda>(r, t). f r t) (filter (\<lambda>(r, t). P r t) (zip Q S))"
    if "list_all2 (\<lambda>t r. key t = ref r) S Q" for S Q
    using that
  proof (induction rule: list_all2_induct)
    case Nil
    then show ?case by simp
  next
    case (Cons t S r Q)
    then have "concat (map (\<lambda>u. if key u = ref r \<and> P r u then [f r u] else []) T) =
        (if P r t then [f r t] else [])"
      using join_one [OF assms(2), of t "P r" "f r"] by simp
    then show ?case using Cons by simp
  qed
  then show ?thesis using assms(1) by blast
qed

lemma inv_join:
  assumes "db_inv None db"
  shows "list_all2 (\<lambda>t r. ti_intent_id t = rr_intent_id r) (trade_intents db) (risk_reservations db)"
    and "distinct (map ti_intent_id (trade_intents db))"
proof -
  have "list_all2 intent_ok (trade_intents db) (risk_reservations db)"
    using assms by (simp add: db_inv_def)
  then show "list_all2 (\<lambda>t r. ti_intent_id t = rr_intent_id r) (trade_intents db) (risk_reservations db)"
    by (rule list_all2_mono) (simp add: intent_ok_def)
qed (use assms in \<open>simp add: db_inv_def keys_ok_def\<close>)

lemma validated_rows:
  "validate_exposure_rows rows ids accounts = Inr xs \<Longrightarrow>
   list_all2 (\<lambda>row x. minor_units (ex_amount x) = the_int (get_item row ''amount_minor'') \<and>
     ex_symbol x = the_str (get_item row ''symbol'') \<and> 0 < minor_units (ex_amount x)) rows xs"
proof (induction rows arbitrary: ids accounts xs)
  case Nil
  then show ?case by simp
next
  case (Cons row rows)
  then show ?case
    by (auto simp: raises Let_def Money_def row_invalid_def split: if_splits sum.splits)
qed

text \<open>What the ledger sums, over the rows of the store.\<close>

lemma sum_list_sort_key: "sum_list (map f (sort_key k xs)) = sum_list (map (f :: 'a \<Rightarrow> int) xs)"
  by (metis mset_map mset_sort sum_mset_sum_list)

lemma exposure_sum:
  assumes "list_all2 (\<lambda>row x. minor_units (ex_amount x) = amt row \<and> ex_symbol x = symb row \<and>
    0 < minor_units (ex_amount x)) rows xs"
  shows "exposure_total xs = sum_list (map amt rows)"
    and "exposure_on s xs = sum_list (map amt (filter (\<lambda>row. canonicalize_symbol (symb row) = s) rows))"
  using assms by (induction rule: list_all2_induct) (simp_all add: exposure_total_def exposure_on_def)

lemma exposure_of_store:
  assumes "db_inv None db" and "active_reservations db = Inr xs"
  shows "exposure_total xs = sum_list (map (\<lambda>(r, t). rr_amount_minor r)
      (filter (\<lambda>(r, t). rr_state r = ACTIVE) (zip (risk_reservations db) (trade_intents db))))"
    and "exposure_on s xs = sum_list (map (\<lambda>(r, t). rr_amount_minor r)
      (filter (\<lambda>(r, t). rr_state r = ACTIVE \<and> canonicalize_symbol (ti_symbol t) = s)
        (zip (risk_reservations db) (trade_intents db))))"
proof -
  let ?rows = "filter (\<lambda>(r, t). rr_state r = ACTIVE) (zip (risk_reservations db) (trade_intents db))"
  have rows: "[(r, t). r \<leftarrow> risk_reservations db, t \<leftarrow> trade_intents db,
      ti_intent_id t = rr_intent_id r \<and> rr_state r = ACTIVE] = ?rows"
    using join_zip [OF inv_join [OF assms(1)], of "\<lambda>r t. rr_state r = ACTIVE" Pair] by simp
  note sums = exposure_sum [OF validated_rows
    [OF assms(2) [unfolded active_reservations_def validate_restored_exposures_def]],
    unfolded list_active_reservations_def rows map_map filter_map o_def]
  have sorted: "filter P (sort_key k ys) = sort_key k (filter P ys)" for P and k :: "_ \<Rightarrow> string \<times> string" and ys
    by (rule filter_sort)
  show "exposure_total xs = sum_list (map (\<lambda>(r, t). rr_amount_minor r) ?rows)"
    using sums(1) by (simp add: case_prod_beta' o_def sum_list_sort_key)
  show "exposure_on s xs = sum_list (map (\<lambda>(r, t). rr_amount_minor r)
      (filter (\<lambda>(r, t). rr_state r = ACTIVE \<and> canonicalize_symbol (ti_symbol t) = s)
        (zip (risk_reservations db) (trade_intents db))))"
    using sums(2) [of s] by (simp add: case_prod_beta' o_def sorted conj_commute sum_list_sort_key)
qed

lemma sum_sublist:
  assumes "\<And>x. x \<in> set xs \<Longrightarrow> 0 < f x" and "\<And>x. P x \<Longrightarrow> Q x"
  shows "sum_list (map f (filter P xs)) \<le> sum_list (map (f :: 'a \<Rightarrow> int) (filter Q xs))"
  using assms(1)
proof (induction xs)
  case (Cons x xs)
  then have "0 < f x" "sum_list (map f (filter P xs)) \<le> sum_list (map f (filter Q xs))" by simp_all
  then show ?case using assms(2) [of x] by auto
qed simp

lemma store_totals:
  assumes "db_inv None db" and "active_reservations db = Inr xs"
  shows "active_total cur db \<le> exposure_total xs" and "active_symbol_total cur s db \<le> exposure_on s xs"
proof -
  let ?z = "zip (risk_reservations db) (trade_intents db)"
  have len: "length (risk_reservations db) = length (trade_intents db)"
    using list_all2_lengthD [OF inv_join(1) [OF assms(1)]] by simp
  have pos: "0 < (case z of (r, t) \<Rightarrow> rr_amount_minor r)" if "z \<in> set ?z" for z
    using assms(1) that by (cases z) (auto simp: db_inv_def intent_ok_def list_all2_conv_all_nth in_set_zip)
  have "map rr_amount_minor (filter (\<lambda>r. rr_state r = ACTIVE \<and> rr_currency r = cur) (map fst ?z)) =
      map (\<lambda>(r, t). rr_amount_minor r) (filter (\<lambda>(r, t). rr_state r = ACTIVE \<and> rr_currency r = cur) ?z)"
    by (simp add: filter_map o_def case_prod_beta')
  then have "active_total cur db = sum_list (map (\<lambda>(r, t). rr_amount_minor r)
      (filter (\<lambda>(r, t). rr_state r = ACTIVE \<and> rr_currency r = cur) ?z))"
    by (simp add: active_total_def len)
  also have "\<dots> \<le> sum_list (map (\<lambda>(r, t). rr_amount_minor r) (filter (\<lambda>(r, t). rr_state r = ACTIVE) ?z))"
    by (rule sum_sublist) (use pos in auto)
  finally show "active_total cur db \<le> exposure_total xs"
    using exposure_of_store(1) [OF assms] by simp
  have "active_symbol_total cur s db = sum_list (map (\<lambda>(r, t). rr_amount_minor r)
      (filter (\<lambda>(r, t). rr_state r = ACTIVE \<and> rr_currency r = cur \<and> canonicalize_symbol (ti_symbol t) = s) ?z))"
    unfolding active_symbol_total_def
    using join_zip [OF inv_join [OF assms(1)], of "\<lambda>r t. rr_state r = ACTIVE \<and> rr_currency r = cur \<and>
      canonicalize_symbol (ti_symbol t) = s" "\<lambda>r t. rr_amount_minor r"] by simp
  also have "\<dots> \<le> sum_list (map (\<lambda>(r, t). rr_amount_minor r)
      (filter (\<lambda>(r, t). rr_state r = ACTIVE \<and> canonicalize_symbol (ti_symbol t) = s) ?z))"
    by (rule sum_sublist) (use pos in auto)
  finally show "active_symbol_total cur s db \<le> exposure_on s xs"
    using exposure_of_store(2) [OF assms] by simp
qed


lemma reserve_risk_facts:
  assumes "writer_reach sha (co_writer c)" and "reserve_risk fp tick now request c = (Inr m, c1)"
  shows "writer_reach sha (co_writer c1) \<and> m = req_amount request \<and> 0 < minor_units m \<and>
    rl_config (co_ledger c1) = rl_config (co_ledger c) \<and>
    currency m = gc_reference_currency (rl_config (co_ledger c1)) \<and>
    (\<exists>xs. active_reservations (co_db c1) = Inr xs \<and>
       exposure_total xs + minor_units m \<le> gc_global_max_exposure_minor_units (rl_config (co_ledger c1)) \<and>
       exposure_on (canonicalize_symbol (req_symbol request)) xs + minor_units m \<le>
         gc_max_exposure_per_symbol_minor_units (rl_config (co_ledger c1)))"
proof -
  have "writer_run sha c c1"
    using run_on_ledger [of sha c fp tick now] assms(2) unfolding reserve_risk_def by (metis snd_conv)
  then have "writer_reach sha (co_writer c1)"
    by (rule core_machine.reach_astep_star [OF assms(1)])
  moreover obtain rd l g where "reserve rd (Some (active_reservations (co_db c1))) request
      (co_ledger c, Some (co_gate c)) = (Inr m, l, g)" and "co_ledger c1 = l"
    using assms(2) by (auto simp: reserve_risk_def on_ledger_def Let_def split: prod.splits)
  from reserve_facts [OF this(1)] this(2) show ?thesis
    using \<open>writer_reach sha (co_writer c1)\<close> by auto
qed

lemma preflight_limits:
  assumes "writer_reach sha (co_writer c)" and "reserve_risk fp tick now request c = (Inr m, c1)"
  shows "persist_limits request (Some (gc_global_max_exposure_minor_units (rl_config (co_ledger c1))))
    (Some (gc_max_exposure_per_symbol_minor_units (rl_config (co_ledger c1))))
    (Some (gc_reference_currency (rl_config (co_ledger c1)))) (co_db c1) = Inr ()"
proof -
  note f = reserve_risk_facts [OF assms]
  then obtain xs where xs: "active_reservations (co_db c1) = Inr xs"
      "exposure_total xs + minor_units m \<le> gc_global_max_exposure_minor_units (rl_config (co_ledger c1))"
      "exposure_on (canonicalize_symbol (req_symbol request)) xs + minor_units m \<le>
         gc_max_exposure_per_symbol_minor_units (rl_config (co_ledger c1))"
    by blast
  have inv: "db_inv None (co_db c1)" using f writer_history.reach_inv by blast
  have "active_total (currency (req_amount request)) (co_db c1) \<le> exposure_total xs"
    "active_symbol_total (currency (req_amount request)) (canonicalize_symbol (req_symbol request)) (co_db c1)
       \<le> exposure_on (canonicalize_symbol (req_symbol request)) xs"
    using store_totals [OF inv xs(1)] by blast+
  then show ?thesis
    using f xs by (auto simp: persist_limits_def Let_def)
qed

section \<open>Dispatch\<close>

text \<open>The state of the order after the worker was called, as the protocol prescribes it.\<close>

fun outcome_state :: "submission \<Rightarrow> order_state" where
  "outcome_state (Submission W_ACCEPTED _ _) = ACCEPTED"
| "outcome_state (Submission W_REJECTED _ _) = REJECTED"
| "outcome_state (Submission W_TIMEOUT_AFTER_POSSIBLE_SEND _ _) = UNKNOWN"
| "outcome_state (Dispatch_error _ NOT_SENT) = SEND_BLOCKED"
| "outcome_state (Dispatch_error _ _) = UNKNOWN"
| "outcome_state Submit_raised = UNKNOWN"

abbreviation account_open :: "core \<Rightarrow> string \<Rightarrow> string \<Rightarrow> bool" where
  "account_open c brk account_id \<equiv> fst (can_enter_order (co_health c) brk account_id (co_gate c))"

lemma blocked_scope_closed [simp]: "\<not> fst (can_enter_order dh b a (block_scope b a r g))"
  by (simp add: can_enter_iff gate_reasons_block_scope covers_def)

lemma transition_state:
  assumes "transition_order iid s now b pnl db = Inr db'"
  shows "\<exists>y. order_of_intent db' iid = Some y \<and> ord_state y = s"
proof -
  obtain x where "order_of_intent db iid = Some x"
    using assms by (auto simp: transition_order_def split: option.splits)
  then show ?thesis using transition_result [OF assms] by blast
qed

lemma record_outcome_state:
  assumes "record_outcome command outcome b r now c = (Inr res, c')"
  shows "res = Some command \<and>
    (\<exists>y. order_of_intent (co_db c') (cmd_intent_id command) = Some y \<and>
       ord_state y = outcome_state (Submission outcome b r)) \<and>
    (outcome = W_TIMEOUT_AFTER_POSSIBLE_SEND \<longrightarrow>
       \<not> account_open c' (broker_value (cmd_broker command)) (cmd_account_id command))"
proof -
  obtain w where w: "record_dispatch_result command (worker_outcome_value outcome) b r now (co_writer c) = (Inr (), w)"
    and c': "res = Some command" "c' = (if outcome = W_TIMEOUT_AFTER_POSSIBLE_SEND
      then on_gate (block_scope (broker_value (cmd_broker command)) (cmd_account_id command)
        ''HG_ORDER_UNKNOWN'') (c\<lparr>co_writer := w\<rparr>) else c\<lparr>co_writer := w\<rparr>)"
    using assms by (auto simp: record_outcome_def on_writer_def raises split: prod.splits)
  obtain db1 db2 where t: "transition_order (cmd_intent_id command) (outcome_state (Submission outcome b r)) now b None db1 = Inr db2"
    and "orders (w_db w) = orders db2"
    using w by (cases outcome) (auto simp: record_dispatch_result_def transaction_Inr op_record_dispatch_result_def
        dispatch_states_def raises Let_def release_for_intent_def)
  then have "order_of_intent (w_db w) iid = order_of_intent db2 iid" for iid
    by (simp add: order_of_intent_def)
  then show ?thesis
    using transition_state [OF t] c' by (auto simp: on_gate_def)
qed

lemma not_sent_state:
  assumes "record_dispatch_not_sent command code now w = (Inr u, w')"
  shows "\<exists>y. order_of_intent (w_db w') (cmd_intent_id command) = Some y \<and> ord_state y = SEND_BLOCKED"
  using assms transition_state
  by (auto simp: record_dispatch_not_sent_def transaction_Inr op_record_dispatch_not_sent_def raises Let_def)

lemma dispatch_state:
  assumes "dispatch_next worker brk acc t1 t2 c = (Inr (Some command), c')"
    and "instant t1 < instant (cmd_deadline_at command)"
  shows "(\<exists>y. order_of_intent (co_db c') (cmd_intent_id command) = Some y \<and>
       ord_state y = outcome_state (worker command)) \<and>
    (outcome_state (worker command) \<in> {UNKNOWN, SEND_BLOCKED} \<longrightarrow>
       \<not> account_open c' (broker_value (cmd_broker command)) (cmd_account_id command))"
proof -
  obtain claimed c1 where claim: "on_writer (claim_next_message t1 brk acc) c = (Inr claimed, c1)"
    using assms(1) by (auto simp: dispatch_next_def raises)
  have claimed: "claimed = Some command"
  proof (cases claimed)
    case None
    then show ?thesis using assms(1) claim by (simp add: dispatch_next_def)
  next
    case (Some cmd)
    then have "Some cmd = Some command"
      using assms(1) claim
      by (auto simp: dispatch_next_def raises split: if_splits submission.splits delivery_certainty.splits
          dest!: record_outcome_state)
    then show ?thesis using Some by simp
  qed
  show ?thesis
  proof (cases "worker command")
    case (Submission outcome b r)
    then have "record_outcome command outcome b r t2 c1 = (Inr (Some command), c')"
      using assms claim claimed by (simp add: dispatch_next_def)
    then show ?thesis using record_outcome_state Submission by (cases outcome) fastforce+
  next
    case (Dispatch_error code d)
    show ?thesis
    proof (cases "d = NOT_SENT")
      case True
      then obtain w where "record_dispatch_not_sent command code t2 (co_writer c1) = (Inr (), w)"
        and "c' = on_gate (block_scope (broker_value (cmd_broker command)) (cmd_account_id command)
            ''HG_WORKER_NOT_READY'') (c1\<lparr>co_writer := w\<rparr>)"
        using assms claim claimed Dispatch_error
        by (auto simp: dispatch_next_def on_writer_def raises split: prod.splits)
      then show ?thesis
        using not_sent_state Dispatch_error True by (auto simp: on_gate_def)
    next
      case False
      then have "record_outcome command W_TIMEOUT_AFTER_POSSIBLE_SEND None None t2 c1 = (Inr (Some command), c')"
        using assms claim claimed Dispatch_error by (cases d) (simp_all add: dispatch_next_def)
      then show ?thesis using record_outcome_state Dispatch_error False by (cases d) fastforce+
    qed
  next
    case Submit_raised
    then have "record_outcome command W_TIMEOUT_AFTER_POSSIBLE_SEND None None t2 c1 = (Inr (Some command), c')"
      using assms claim claimed by (simp add: dispatch_next_def)
    then show ?thesis using record_outcome_state Submit_raised by fastforce
  qed
qed


section \<open>Failures\<close>

definition same_tables :: "writer \<Rightarrow> writer \<Rightarrow> bool" where
  "same_tables w w' \<longleftrightarrow> w_fault w' = w_fault w \<and> trade_intents (w_db w') = trade_intents (w_db w) \<and>
     risk_reservations (w_db w') = risk_reservations (w_db w) \<and>
     outbox_messages (w_db w') = outbox_messages (w_db w) \<and> orders (w_db w') = orders (w_db w)"

lemma same_tables_refl [simp]: "same_tables w w"
  by (simp add: same_tables_def)

lemma expire_frame:
  assumes "expire_digit_cooldown now w = (res, w')"
  shows "same_tables w w' \<and>
    (dh_status (w_health w) \<noteq> HEALTHY \<longrightarrow> dh_status (w_health w') \<noteq> HEALTHY)"
  using assms
  by (auto simp: expire_digit_cooldown_def transaction_def op_expire_digit_cooldown_def put_runtime_def
      mark_write_failed_def mark_failed_def raises Let_def same_tables_def
      split: if_splits sum.splits option.splits exc.splits)

lemma on_ledger_frame:
  assumes "on_ledger fp tick now checks call c = (res, c')"
  shows "same_tables (co_writer c) (co_writer c') \<and>
    (dh_status (w_health (co_writer c)) \<noteq> HEALTHY \<longrightarrow> dh_status (w_health (co_writer c')) \<noteq> HEALTHY)"
  using assms expire_frame
  by (auto simp: on_ledger_def Let_def split: prod.splits if_splits)

text \<open>A submission stops where the gate is closed, before anything is stored.\<close>

lemma closed_submit:
  assumes "\<And>u c1. refresh_gate (se_fp env) (se_refresh_tick env) (se_refresh_now env) c = (Inr u, c1) \<Longrightarrow>
    \<not> account_open c1 (broker_value (req_broker request)) (req_account_id request)"
  shows "\<exists>e c'. submit env request dispatch c = (Inl e, c') \<and> orders (co_db c') = orders (co_db c)"
proof -
  obtain res c1 where r: "refresh_gate (se_fp env) (se_refresh_tick env) (se_refresh_now env) c = (res, c1)"
    by (cases "refresh_gate (se_fp env) (se_refresh_tick env) (se_refresh_now env) c")
  have o: "orders (co_db c1) = orders (co_db c)"
    using on_ledger_frame r unfolding refresh_gate_def same_tables_def by blast
  show ?thesis
  proof (cases res)
    case (Inl e)
    then show ?thesis using r o by (simp add: submit_def)
  next
    case (Inr u)
    then have "\<exists>e. ensure_open (co_health c1) (Some (broker_value (req_broker request)))
        (Some (req_account_id request)) (co_gate c1) = Inl e"
      using assms r by (auto simp: ensure_open_def split: prod.splits)
    then show ?thesis
      using r Inr o by (cases "se_authorize env request") (auto simp: submit_def)
  qed
qed

lemma unhealthy_submit:
  assumes "dh_status (w_health (co_writer c)) \<noteq> HEALTHY"
  shows "\<exists>e c'. submit env request dispatch c = (Inl e, c') \<and> orders (co_db c') = orders (co_db c)"
proof (rule closed_submit)
  fix u c1 assume "refresh_gate (se_fp env) (se_refresh_tick env) (se_refresh_now env) c = (Inr u, c1)"
  then have "dh_status (w_health (co_writer c1)) \<noteq> HEALTHY"
    using on_ledger_frame assms unfolding refresh_gate_def by blast
  then show "\<not> account_open c1 (broker_value (req_broker request)) (req_account_id request)"
    by (simp add: can_enter_iff)
qed

lemma failed_persist:
  assumes "persist_order request command ids now c = (Inl e, c')"
    and "\<And>m. e \<noteq> AccountBusyError m" and "\<And>m. e \<noteq> RiskLimitExceededError m"
  shows "co_db c' = co_db c \<and> dh_status (w_health (co_writer c')) = FAILED \<and>
    failure_value DB_WRITE_FAILED \<in> hg_blockers (co_gate c')"
proof -
  let ?op = "op_persist (w_fault (co_writer c)) request command (po_intent_id ids) (po_reservation_id ids)
    (po_order_id ids) now (Some (gc_global_max_exposure_minor_units (rl_config (co_ledger c))))
    (Some (gc_max_exposure_per_symbol_minor_units (rl_config (co_ledger c))))
    (Some (gc_reference_currency (rl_config (co_ledger c))))"
  obtain r w where t: "transaction ?op (co_writer c) = (r, w)" by (cases "transaction ?op (co_writer c)")
  have r: "r = Inl e"
    using assms(1) by (cases r) (auto simp: persist_order_def on_writer_def persist_intent_reservation_outbox_def t Let_def)
  then have "w_db w = w_db (co_writer c)" using transaction_Inl t by metis
  moreover have "is_persistence_error e"
    using t r by (auto simp: transaction_def split: sum.splits exc.splits if_splits)
  ultimately show ?thesis
    using assms r by (cases e)
      (auto simp: persist_order_def on_writer_def persist_intent_reservation_outbox_def t Let_def mark_failed_def block_def)
qed

section \<open>Runs without an operator\<close>

text \<open>
  Everything the Core does while no operator arms it again, starts a new session or restarts it.
\<close>

inductive routine_step :: "core \<Rightarrow> core \<Rightarrow> bool" where
  rs_submit: "routine_step c (snd (submit env request dispatch c))"
| rs_dispatch: "routine_step c (snd (runtime_dispatch_pending worker dispatch_time recorded_at c))"
| rs_event: "routine_step c
     (snd (process_event fp tick applied_at checked_at now (Some (event_fallback env)) e c))"
| rs_turn: "routine_step c (fst (scheduler_turn triggered env before c s))"
| rs_order: "routine_step c (snd (reconcile_order env oid c))"
| rs_config: "routine_step c (snd (runtime_update_digit_config fp str_of tick now saved config c))"
| rs_recovery: "routine_step c (snd (reset_recovery fp str_of now c))"
| rs_stop: "routine_step c (stop_new_entries c)"
| rs_worker: "routine_step c (on_gate (register_broker_health brk account_id ready reason) c)"

lemma routine_stays: "routine_step c c' \<Longrightarrow> core_stays c c'"
proof (induction rule: routine_step.induct)
  case (rs_stop c)
  then show ?case by (simp add: stop_new_entries_def on_gate_def stays_block)
next
  case (rs_worker c brk account_id ready reason)
  then show ?case
    by (auto simp: register_broker_health_def on_gate_def intro!: stays_block stays_refl split: option.splits)
qed (rule gate_stays)+

lemma routine_run_stays: "routine_step\<^sup>*\<^sup>* c c' \<Longrightarrow> core_stays c c'"
  by (induction rule: rtranclp_induct) (auto intro: routine_stays stays_trans)

text \<open>A global blocker closes every account.\<close>

lemma blocker_closes: "r \<in> hg_blockers (co_gate c) \<Longrightarrow> \<not> account_open c brk account_id"
  by (auto simp: can_enter_iff gate_reasons_def)

lemma blocked_submit:
  assumes "r \<in> hg_blockers (co_gate c)" and "r \<notin> lifted"
  shows "\<exists>e c'. submit env request dispatch c = (Inl e, c') \<and> orders (co_db c') = orders (co_db c)"
proof (rule closed_submit)
  fix u c1 assume "refresh_gate (se_fp env) (se_refresh_tick env) (se_refresh_now env) c = (Inr u, c1)"
  then have "core_stays c c1" using stays_refresh_gate by (metis snd_conv)
  then show "\<not> account_open c1 (broker_value (req_broker request)) (req_account_id request)"
    using assms by (intro blocker_closes) (auto simp: stays_def)
qed

lemma blocked_dispatch:
  assumes "r \<in> hg_blockers (co_gate c)"
  shows "\<exists>e. runtime_dispatch_pending worker t1 t2 c = (Inl e, c)"
proof (cases "co_dispatcher_started c")
  case True
  have "\<not> hs_is_open (global_state (co_health c) (co_gate c))"
    using assms database_state_closed
    by (auto simp: global_state_def state_from_reasons_open split: option.splits)
  then show ?thesis using True by (simp add: runtime_dispatch_pending_def dispatch_pending_def ensure_open_def)
qed (simp add: runtime_dispatch_pending_def)

section \<open>Orders that are stored\<close>

lemma persist_succeeds:
  assumes "db_inv None (co_db c)" and "w_fault (co_writer c) = (\<lambda>_. None)"
    and "persist_limits request (Some (gc_global_max_exposure_minor_units (rl_config (co_ledger c))))
      (Some (gc_max_exposure_per_symbol_minor_units (rl_config (co_ledger c))))
      (Some (gc_reference_currency (rl_config (co_ledger c)))) (co_db c) = Inr ()"
    and "0 < minor_units (req_amount request)" and "length (currency (req_amount request)) = 3"
    and "(req_broker request, req_account_id request) \<notin> set (active_scopes (risk_reservations (co_db c)))"
    and "po_intent_id ids \<notin> set (map ti_intent_id (trade_intents (co_db c)))"
    and "po_reservation_id ids \<notin> set (map rr_reservation_id (risk_reservations (co_db c)))"
    and "po_order_id ids \<notin> set (map ord_order_id (orders (co_db c)))"
    and "cmd_message_id command \<notin> set (map om_message_id (outbox_messages (co_db c)))"
  shows "\<exists>c'. persist_order request command ids now c = (Inr (), c') \<and>
    new_order_row request (po_order_id ids) (po_intent_id ids) now \<in> set (orders (co_db c'))"
proof -
  have "map rr_intent_id (risk_reservations (co_db c)) = map ti_intent_id (trade_intents (co_db c))"
    using assms(1) by (auto simp: db_inv_def intent_ok_def list_all2_conv_all_nth intro!: nth_equalityI)
  then have fresh: "po_intent_id ids \<notin> rr_intent_id ` set (risk_reservations (co_db c))"
      "po_intent_id ids \<notin> ord_intent_id ` set (orders (co_db c))"
      "po_intent_id ids \<notin> om_intent_id ` set (outbox_messages (co_db c))"
    using assms(7) inv_ids [OF assms(1)] by (metis list.set_map)+
  show ?thesis
    using assms fresh
    by (auto simp: persist_order_def Let_def on_writer_def persist_intent_reservation_outbox_def transaction_def
        op_persist_def inject_def insert_trade_intent_def insert_reservation_def insert_outbox_def
        insert_order_def new_intent_row_def new_reservation_row_def new_outbox_row_def new_order_row_def
        constraint_def)
qed

section \<open>Properties\<close>


definition demo_core :: "writer \<Rightarrow> core" where
  "demo_core w = \<lparr>co_writer = w, co_gate = HealthGate,
     co_ledger = demo_ledger\<lparr>rl_step := 0\<rparr>, co_dispatcher_started = True\<rparr>"


definition demo_ids :: persisted_order where
  "demo_ids = \<lparr>po_intent_id = ''i1'', po_reservation_id = ''r1'', po_message_id = ''m1'', po_order_id = ''o1''\<rparr>"

definition demo_env :: submit_env where
  "demo_env = \<lparr>se_fp = (\<lambda>_. ''f1''), se_refresh_tick = 0, se_refresh_now = demo_now,
     se_authorize = (\<lambda>_. Inr ()), se_reserve_tick = 0, se_reserve_now = demo_now,
     se_created_at = demo_now, se_ids = demo_ids, se_worker = (\<lambda>_. Submit_raised),
     se_dispatch_time = demo_now, se_recorded_at = demo_now\<rparr>"

lemma demo_no_cooldown: "\<not> cooldown_over tick config (demo_ledger\<lparr>rl_step := 0\<rparr>)"
  by (simp add: cooldown_over_def demo_ledger_def)

lemma demo_reserve_risk:
  assumes "w_db w = empty_db"
  shows "reserve_risk fp tick now demo_request (demo_core w) =
     (Inr \<lparr>minor_units = 100, currency = ''USD''\<rparr>, demo_core w)"
proof -
  have "active_reservations (w_db w) = Inr []"
    by (simp add: active_reservations_def list_active_reservations_def validate_restored_exposures_def
        assms empty_db_def)
  moreover have "clear_if r HealthGate = HealthGate" for r
    by (simp add: clear_if_def HealthGate_def)
  ultimately show ?thesis
    by (simp add: reserve_risk_def on_ledger_def demo_core_def demo_reserve demo_no_cooldown)
qed

lemma demo_refresh: "refresh_gate fp tick now (demo_core w) = (Inr (), demo_core w)"
proof -
  have "check_digit_entry rd demo_digit_config (demo_ledger\<lparr>rl_step := 0\<rparr>, Some HealthGate) =
      (Inr (True, None), demo_ledger\<lparr>rl_step := 0\<rparr>, Some HealthGate)" for rd
    by (rule demo_check) (simp_all add: demo_ledger_def)
  moreover have "rl_digit_config demo_ledger = demo_digit_config" by (simp add: demo_ledger_def)
  ultimately show ?thesis
    by (simp add: refresh_gate_def on_ledger_def demo_core_def refresh_digit_health_gate_def demo_no_cooldown)
qed


text \<open>
  C25. What a dispatch records is what the worker reported. The order is accepted or rejected as
  reported, blocked when nothing was sent, and unknown in every other case, an exception of the
  worker included; its reservation is released exactly on a rejection; and an unknown or blocked
  order closes its account.
\<close>

theorem dispatch_records_outcome:
  assumes "writer_reach sha (co_writer c)"
    and "dispatch_next worker brk acc t1 t2 c = (Inr (Some command), c')"
    and "instant t1 < instant (cmd_deadline_at command)"
  shows "(\<exists>x r. order_of_intent (co_db c') (cmd_intent_id command) = Some x \<and>
      ord_state x = outcome_state (worker command) \<and> r \<in> set (risk_reservations (co_db c')) \<and>
      rr_intent_id r = cmd_intent_id command \<and>
      (rr_state r = RELEASED \<longleftrightarrow> outcome_state (worker command) = REJECTED)) \<and>
    (outcome_state (worker command) \<in> {UNKNOWN, SEND_BLOCKED} \<longrightarrow>
       \<not> account_open c' (broker_value (cmd_broker command)) (cmd_account_id command))"
proof -
  have "writer_run sha c c'" using run_dispatch_next [of sha c] assms(2) by (metis snd_conv)
  then have inv: "db_inv None (co_db c')"
    using writer_history.reach_inv core_machine.reach_astep_star [OF assms(1)] by blast
  obtain x where x: "order_of_intent (co_db c') (cmd_intent_id command) = Some x"
      "ord_state x = outcome_state (worker command)"
    using dispatch_state [OF assms(2,3)] by blast
  then have m: "x \<in> set (orders (co_db c'))" "ord_intent_id x = cmd_intent_id command"
    by (auto simp: order_of_intent_def dest: find_SomeD)
  obtain r where r: "r \<in> set (risk_reservations (co_db c'))" "pair_ok None x r"
    using list_all2_partner [of "pair_ok None"] inv m(1) unfolding db_inv_def by metis
  have "outcome_state s \<noteq> SETTLED" for s by (cases s rule: outcome_state.cases) auto
  then have "rr_state r = RELEASED \<longleftrightarrow> outcome_state (worker command) = REJECTED"
    using r(2) x(2) by (auto simp: pair_ok_def is_terminal_def)
  then show ?thesis
    using dispatch_state [OF assms(2,3)] x r m by (auto simp: pair_ok_def)
qed

lemma demo_dispatch:
  "dispatch_next (\<lambda>_. Submit_raised) None None demo_now demo_now (demo_core w_stored) =
   (Inr (Some demo_command), snd (dispatch_next (\<lambda>_. Submit_raised) None None demo_now demo_now (demo_core w_stored)))"
proof -
  have "claim_next_message demo_now None None w_stored = (Inr (Some demo_command), w_stored\<lparr>w_db := claimed_db\<rparr>)"
    by (simp add: claim_next_message_def transaction_Inr w_stored_db w_claimed_run)
  moreover have "\<exists>db. op_record_dispatch_result demo_command ''TIMEOUT_AFTER_POSSIBLE_SEND'' None None demo_now
      claimed_db = Inr ((), db)"
    by (simp add: op_record_dispatch_result_def outbox_by_id_def dispatch_states_def transition_order_def
        order_of_intent_def update_where_def demo_dbs)
  moreover have "\<not> instant (cmd_deadline_at demo_command) \<le> instant demo_now"
    by (simp add: demo_command_def demo_later_def demo_now_def utc_def instant_def toordinal_def
        days_before_month_def days_before_year_def)
  ultimately show ?thesis
    by (auto simp: dispatch_next_def on_writer_def demo_core_def record_outcome_def
        record_dispatch_result_def transaction_def)
qed

theorem dispatch_records_outcome_witness:
  "\<not> account_open (snd (dispatch_next (\<lambda>_. Submit_raised) None None demo_now demo_now (demo_core w_stored)))
     ''DERIV'' ''VRTC1''"
proof -
  have "instant demo_now < instant (cmd_deadline_at demo_command)"
    by (simp add: demo_command_def demo_later_def demo_now_def utc_def instant_def toordinal_def
        days_before_month_def days_before_year_def)
  from dispatch_records_outcome [OF _ demo_dispatch this, of demo_sha] demo_reach(3) [of demo_sha]
  show ?thesis by (simp add: demo_core_def demo_command_def)
qed






definition demo_ready :: writer where
  "demo_ready = demo_start\<lparr>w_health := mark_healthy DatabaseHealth\<rparr>"


end
