(* ===== verification/CycleProps.thy ===== *)
theory CycleProps
  imports CoreProps
begin

text \<open>
  Properties of the cycles of the Core: events that are delivered again, reconciliation with a
  port that does not answer, when a cycle lifts the gate, what it leaves in the ledger, and
  recovery at start.
\<close>

section \<open>Lemmas\<close>

subsection \<open>Events\<close>

lemma run_gap_fallback:
  assumes "en_sha env = sha"
  shows "writer_run sha c (snd (gap_fallback (Some (event_fallback env)) e c))"
  unfolding gap_fallback_def Let_def event_fallback_def
  by (auto intro!: run_then_do) (use run_reconcile_order [OF assms, of "on_gate _ c"] in auto)

lemma event_then_run:
  assumes "en_sha env = sha"
    and "process_event fp tick t0 t1 t2 (Some (event_fallback env)) e c = (Inr res, c')"
  shows "\<exists>w. apply_normalized_broker_event e t0 (co_writer c) = (Inr res, w) \<and>
    (writer_step sha)\<^sup>*\<^sup>* w (co_writer c')"
proof -
  obtain w where w: "apply_normalized_broker_event e t0 (co_writer c) = (Inr res, w)"
    and rest: "then_do (handle_event_result fp tick t1 t2 e res (c\<lparr>co_writer := w\<rparr>)) (\<lambda>_ c2.
      then_do (restore_reservations c2) (\<lambda>_ c3.
      then_do (if er_status res = EV_APPLIED_WITH_GAP then gap_fallback (Some (event_fallback env)) e c3
        else (Inr (), c3)) (\<lambda>_ c4. (Inr res, c4)))) = (Inr res, c')"
    using assms(2) by (auto simp: process_event_def on_writer_def raises split: prod.splits)
  have "writer_run sha (c\<lparr>co_writer := w\<rparr>) (snd (Inr res :: exc + event_result, c'))"
    unfolding rest [symmetric]
    by (intro run_then_do run_handle_event run_restore) (auto intro: run_gap_fallback [OF assms(1)])
  then show ?thesis using w by auto
qed

lemma duplicate_event:
  assumes "apply_normalized_broker_event e t0 (co_writer c) = (Inr (event_result EV_DUPLICATE st None), co_writer c)"
    and "process_event fp tick t0 t1 t2 fallback e c = (res, c')"
  shows "co_writer c' = co_writer c \<and> co_gate c' = co_gate c \<and>
    co_ledger c' = (co_ledger c)\<lparr>rl_restored := rl_restored (co_ledger c')\<rparr> \<and>
    (\<forall>r. res = Inr r \<longrightarrow> er_status r = EV_DUPLICATE)"
proof -
  have same: "c\<lparr>co_writer := co_writer c\<rparr> = c" by simp
  have "restore rows l = Inr l' \<Longrightarrow> l' = l\<lparr>rl_restored := rl_restored l'\<rparr>" for rows l l'
    by (auto simp: restore_def raises)
  then show ?thesis
    using assms
    by (auto simp: process_event_def on_writer_def same handle_event_result_def event_result_def
        restore_reservations_def split: sum.splits)
qed

subsection \<open>A port that does not answer\<close>

definition port_down :: "status_answer \<Rightarrow> bool" where
  "port_down a = (case a of Inl r \<Rightarrow> is_runtime_error r
     | Inr s \<Rightarrow> sr_outcome s = Q_UNAVAILABLE \<or> sr_outcome s = Q_QUERY_TIMEOUT)"

definition with_attempts :: "core \<Rightarrow> attempt_row list \<Rightarrow> core" where
  "with_attempts c A = c\<lparr>co_writer := (co_writer c)\<lparr>w_db := (co_db c)\<lparr>reconciliation_attempts :=
     reconciliation_attempts (co_db c) @ A\<rparr>\<rparr>\<rparr>"

lemma with_attempts_simps [simp]:
  "with_attempts (with_attempts c A) B = with_attempts c (A @ B)"
  "orders (co_db (with_attempts c A)) = orders (co_db c)"
  "reconciliation_attempts (co_db (with_attempts c A)) = reconciliation_attempts (co_db c) @ A"
  "co_gate (with_attempts c A) = co_gate c"
  by (simp_all add: with_attempts_def)

lemma begin_complete:
  assumes "en_attempt_id env oid n \<notin> set (map ra_attempt_id (reconciliation_attempts (co_db c)))"
    and "oid \<in> set (map ord_order_id (orders (co_db c)))"
  shows "\<exists>a. ra_attempt_id a = en_attempt_id env oid n \<and> ra_order_id a = oid \<and> ra_result a = result \<and>
    then_do (on_writer (begin_reconciliation_attempt (en_attempt_id env oid n) oid cid (en_begin_at env oid n)) c)
      (\<lambda>_ c1. then_do (complete_attempt env oid n result reason c1) f) = f () (with_attempts c [a])"
proof -
  let ?aid = "en_attempt_id env oid n" and ?A = "reconciliation_attempts (co_db c)"
  have none: "\<forall>a\<in>set ?A. \<not> started ?aid a" using assms(1) by (auto simp: started_def image_iff)
  then have "filter (started ?aid) ?A = []" "update_where (started ?aid) g ?A = ?A" for g
    by (auto simp: update_where_def intro: map_idI)
  moreover have "update_where P g [x] = [if P x then g x else x]" for P g and x :: attempt_row
    by (simp add: update_where_def)
  ultimately show ?thesis
    using assms
    by (intro exI [of _ "\<lparr>ra_attempt_id = ?aid, ra_order_id = oid, ra_correlation_id = cid,
        ra_started_at = isoformat (en_begin_at env oid n),
        ra_completed_at = Some (isoformat (en_end_at env oid n)), ra_result = result,
        ra_reason_code = Some reason, ra_evidence_id = None\<rparr>"])
      (simp add: on_writer_def begin_reconciliation_attempt_def transaction_def
        op_begin_reconciliation_attempt_def insert_attempt_def complete_attempt_def with_attempts_def
        complete_reconciliation_attempt_def op_complete_reconciliation_attempt_def row_count_def started_def)
qed

text \<open>One query that gets no answer.\<close>

lemma query_down:
  assumes "port_down (en_answer env oid n)"
    and "en_attempt_id env oid n \<notin> set (map ra_attempt_id (reconciliation_attempts (co_db c)))"
    and "oid \<in> set (map ord_order_id (orders (co_db c)))"
  shows "\<exists>a reason. ra_attempt_id a = en_attempt_id env oid n \<and> ra_order_id a = oid \<and>
    query_once env oid cid st n c =
      (if n < rp_max_query_attempts (en_policy env) then (Inr (Inr ()), with_attempts c [a])
       else (Inr (Inl (item oid RO_FAILED st (Some reason))),
         on_gate (block ''HG_RECONCILIATION_UNAVAILABLE'') (with_attempts c [a])))"
proof -
  let ?more = "n < rp_max_query_attempts (en_policy env)"
  have "\<exists>result reason. query_once env oid cid st n c =
      then_do (on_writer (begin_reconciliation_attempt (en_attempt_id env oid n) oid cid (en_begin_at env oid n)) c)
        (\<lambda>_ c1. then_do (complete_attempt env oid n result reason c1) (\<lambda>_ c2.
          if ?more then (Inr (Inr ()), c2) else (Inr (Inl (item oid RO_FAILED st (Some reason))),
            on_gate (block ''HG_RECONCILIATION_UNAVAILABLE'') c2)))"
  proof (cases "en_answer env oid n")
    case (Inl r)
    then have "is_runtime_error r" using assms(1) by (simp add: port_down_def)
    then show ?thesis
      by (rule_tac x = "''FAILED''" in exI, rule_tac x = "''WORKER_NOT_READY''" in exI)
        (auto simp: query_once_def Inl handle_raise_def failed_item_def not_less [symmetric] if_distrib
          cong: if_cong)
  next
    case (Inr s)
    then have "sr_outcome s = Q_UNAVAILABLE \<or> sr_outcome s = Q_QUERY_TIMEOUT"
      using assms(1) by (simp add: port_down_def)
    then show ?thesis
      by (rule_tac x = "if ?more then ''UNRESOLVED'' else ''FAILED''" in exI,
          rule_tac x = "case sr_reason_code s of Some r \<Rightarrow> if r = [] then reason_for_outcome (sr_outcome s) else r
            | None \<Rightarrow> reason_for_outcome (sr_outcome s)" in exI)
        (auto simp: query_once_def Inr handle_status_def Let_def failed_item_def)
  qed
  then obtain result reason where q: "query_once env oid cid st n c =
      then_do (on_writer (begin_reconciliation_attempt (en_attempt_id env oid n) oid cid (en_begin_at env oid n)) c)
        (\<lambda>_ c1. then_do (complete_attempt env oid n result reason c1) (\<lambda>_ c2.
          if ?more then (Inr (Inr ()), c2) else (Inr (Inl (item oid RO_FAILED st (Some reason))),
            on_gate (block ''HG_RECONCILIATION_UNAVAILABLE'') c2)))"
    by blast
  obtain a where "ra_attempt_id a = en_attempt_id env oid n" "ra_order_id a = oid"
      "query_once env oid cid st n c = (if ?more then (Inr (Inr ()), with_attempts c [a])
        else (Inr (Inl (item oid RO_FAILED st (Some reason))),
          on_gate (block ''HG_RECONCILIATION_UNAVAILABLE'') (with_attempts c [a])))"
    using begin_complete [OF assms(2,3), of result cid reason "\<lambda>_ c2.
          if ?more then (Inr (Inr ()), c2) else (Inr (Inl (item oid RO_FAILED st (Some reason))),
            on_gate (block ''HG_RECONCILIATION_UNAVAILABLE'') c2)"]
    unfolding q [symmetric] by blast
  then show ?thesis by blast
qed

lemma loop_down:
  assumes "m \<le> rp_max_query_attempts (en_policy env)" and "0 < m"
    and "\<And>n. m \<le> n \<Longrightarrow> n \<le> rp_max_query_attempts (en_policy env) \<Longrightarrow> port_down (en_answer env oid n) \<and>
      0 \<le> en_random env oid n \<and> en_random env oid n \<le> 1 \<and>
      en_attempt_id env oid n \<notin> set (map ra_attempt_id (reconciliation_attempts (co_db c)))"
    and "inj_on (en_attempt_id env oid) {m..rp_max_query_attempts (en_policy env)}"
    and "oid \<in> set (map ord_order_id (orders (co_db c)))"
  shows "\<exists>A reason. length A = Suc (rp_max_query_attempts (en_policy env)) - m \<and>
    reconcile_loop env oid cid st [m..<Suc (rp_max_query_attempts (en_policy env))] c =
      (Inr (item oid RO_FAILED st (Some reason)),
       on_gate (block ''HG_RECONCILIATION_UNAVAILABLE'') (with_attempts c A))"
  using assms
proof (induction "rp_max_query_attempts (en_policy env) - m" arbitrary: m c)
  case 0
  then have m: "m = rp_max_query_attempts (en_policy env)" by simp
  obtain a reason where "query_once env oid cid st m c = (Inr (Inl (item oid RO_FAILED st (Some reason))),
      on_gate (block ''HG_RECONCILIATION_UNAVAILABLE'') (with_attempts c [a]))"
    using query_down [of env oid m c cid st] 0 m by auto
  then have "reconcile_loop env oid cid st [m..<Suc m] c = (Inr (item oid RO_FAILED st (Some reason)),
      on_gate (block ''HG_RECONCILIATION_UNAVAILABLE'') (with_attempts c [a]))"
    by simp
  then show ?case
    unfolding m [symmetric] by (rule_tac x = "[a]" in exI) auto
next
  case (Suc k)
  let ?max = "rp_max_query_attempts (en_policy env)"
  obtain a where a: "ra_attempt_id a = en_attempt_id env oid m"
      "query_once env oid cid st m c = (Inr (Inr ()), with_attempts c [a])"
    using query_down [of env oid m c cid st] Suc.prems(3) [of m] Suc.prems(1,5) Suc.hyps(2) by auto
  have more: "Suc m \<le> ?max" using Suc.hyps(2) by simp
  have "\<exists>A reason. length A = Suc ?max - Suc m \<and>
      reconcile_loop env oid cid st [Suc m..<Suc ?max] (with_attempts c [a]) =
        (Inr (item oid RO_FAILED st (Some reason)),
         on_gate (block ''HG_RECONCILIATION_UNAVAILABLE'') (with_attempts (with_attempts c [a]) A))"
  proof (rule Suc.hyps(1))
    fix n assume "Suc m \<le> n" "n \<le> ?max"
    moreover from this have "en_attempt_id env oid n \<noteq> en_attempt_id env oid m"
      using inj_onD [OF Suc.prems(4), of n m] by auto
    ultimately show "port_down (en_answer env oid n) \<and> 0 \<le> en_random env oid n \<and> en_random env oid n \<le> 1 \<and>
        en_attempt_id env oid n \<notin> set (map ra_attempt_id (reconciliation_attempts (co_db (with_attempts c [a]))))"
      using Suc.prems(3) [of n] a(1) by auto
  qed (use Suc more inj_on_subset [OF Suc.prems(4), of "{Suc m..?max}"] in auto)
  then obtain A reason where A: "length A = Suc ?max - Suc m"
      "reconcile_loop env oid cid st [Suc m..<Suc ?max] (with_attempts c [a]) =
        (Inr (item oid RO_FAILED st (Some reason)),
         on_gate (block ''HG_RECONCILIATION_UNAVAILABLE'') (with_attempts c (a # A)))"
    by auto
  have "\<exists>d. sleep_before_retry (en_policy env) m (en_random env oid m) = Inr d"
    using Suc.prems(3) [of m] Suc.prems(1) by (simp add: sleep_before_retry_def Let_def)
  moreover have "[m..<Suc ?max] = m # [Suc m..<Suc ?max]" using more by (simp add: upt_conv_Cons)
  ultimately have "reconcile_loop env oid cid st [m..<Suc ?max] c =
      (Inr (item oid RO_FAILED st (Some reason)),
       on_gate (block ''HG_RECONCILIATION_UNAVAILABLE'') (with_attempts c (a # A)))"
    using a(2) A(2) by auto
  moreover have "length (a # A) = Suc ?max - m" using A(1) more by simp
  ultimately show ?case by blast
qed

text \<open>
  The handler of \<open>RuntimeError\<close> comes first and catches \<open>StatusQueryError\<close> too, so the code
  of a status error has no effect: a definitive error is retried like a lost worker and never
  reaches manual review.
\<close>

lemma status_error_code_ignored:
  "handle_raise env oid st n (Status_query_error code) c = handle_raise env oid st n Runtime_error c"
  by (simp add: handle_raise_def)

subsection \<open>Orders that may still be open at the broker\<close>

lemma order_has_rows:
  assumes "db_inv None db" and "x \<in> set (orders db)"
  shows "(\<exists>t\<in>set (trade_intents db). ti_intent_id t = ord_intent_id x) \<and>
    (\<exists>m\<in>set (outbox_messages db). om_intent_id m = ord_intent_id x) \<and>
    (\<exists>r\<in>set (risk_reservations db). rr_intent_id r = ord_intent_id x)"
proof -
  have "ord_intent_id x \<in> ti_intent_id ` set (trade_intents db)"
    "ord_intent_id x \<in> om_intent_id ` set (outbox_messages db)"
    using inv_ids [OF assms(1)] assms(2) by auto
  moreover obtain r where "r \<in> set (risk_reservations db)" "pair_ok None x r"
    using list_all2_partner [of "pair_ok None"] assms unfolding db_inv_def by metis
  ultimately show ?thesis by (force simp: pair_ok_def)
qed

lemma no_candidates:
  assumes "db_inv None db" and "list_reconciliation_candidates db = []" and "x \<in> set (orders db)"
    and "ord_state x \<in> {ACCEPTED, OPEN, UNKNOWN, SETTLEMENT_UNKNOWN}"
  shows "has_conflict db (ord_order_id x)"
proof (rule ccontr)
  assume no: "\<not> has_conflict db (ord_order_id x)"
  obtain t m r where rows: "t \<in> set (trade_intents db)" "ti_intent_id t = ord_intent_id x"
      "m \<in> set (outbox_messages db)" "om_intent_id m = ord_intent_id x"
      "r \<in> set (risk_reservations db)" "rr_intent_id r = ord_intent_id x"
    using order_has_rows [OF assms(1,3)] by blast
  then have "\<lparr>ca_order = x, ca_intent = t, ca_outbox = m, ca_reservation = r\<rparr> \<in> set (candidate_rows db)"
    using assms(3) by (auto simp: candidate_rows_def)
  then have "\<lparr>ca_order = x, ca_intent = t, ca_outbox = m, ca_reservation = r\<rparr> \<in> set (list_reconciliation_candidates db)"
    using assms(4) no by (simp add: list_reconciliation_candidates_def)
  then show False using assms(2) by simp
qed

lemma cycle_lifts:
  assumes "reconcile_all env c = (Inr results, c')" and "r \<in> hg_blockers (co_gate c)"
    and "r \<notin> hg_blockers (co_gate c')" and "r \<noteq> ''HG_SETTLEMENT_UNKNOWN''"
  shows "all_settled results \<and> list_reconciliation_candidates (co_db c') = []"
proof -
  obtain c1 where each: "reconcile_each env (list_reconciliation_candidates (co_db c)) c = (Inr results, c1)"
    and c': "c' = clear_gates_after_positive_cycle (list_reconciliation_candidates (co_db c) \<noteq> [])
      (all_settled results) c1"
    using assms(1) by (auto simp: reconcile_all_def Let_def raises)
  have "r \<in> hg_blockers (co_gate c1)"
    using blockers_grow.reconcile_each [of c env "list_reconciliation_candidates (co_db c)"] each assms(2) by auto
  then show ?thesis
    using assms(3,4) c'
    by (auto simp: clear_gates_after_positive_cycle_def Let_def on_gate_def clear_if_def split: if_splits)
qed

lemma unsafe_rows:
  assumes "db_inv None db" and "x \<in> set (orders db)" and "\<not> is_terminal (ord_state x)"
    and "unsafe_nonterminal db = []"
  shows "ord_state x = OUTBOXED \<and> (\<exists>m\<in>set (outbox_messages db). om_intent_id m = ord_intent_id x \<and> om_state m = OB_PENDING)"
proof -
  obtain t where "t \<in> set (trade_intents db)" "ti_intent_id t = ord_intent_id x"
    using order_has_rows [OF assms(1,2)] by blast
  then have "(x, t) \<in> set (list_nonterminal_orders db)"
    using assms(2,3) by (auto simp: list_nonterminal_orders_def is_terminal_def)
  then have "x \<in> set (map fst (list_nonterminal_orders db))" by force
  then have "ord_state x = OUTBOXED \<and> ord_intent_id x \<in> set (map om_intent_id (safe_pending db))"
    using assms(4) by (auto simp: unsafe_nonterminal_def filter_empty_conv)
  then show ?thesis by (auto simp: safe_pending_def outbox_by_state_def)
qed

section \<open>Properties\<close>

text \<open>
  C29. An event counts once in the ledger as well. Once an event has been processed, then after
  any further run of the Core the same event leaves the writer and the gate as they are and
  changes nothing in the ledger but the list of reservations it shows; where it returns, it
  returns a duplicate.
\<close>

theorem event_counted_once:
  assumes "writer_reach sha (co_writer c)" and "en_sha env = sha"
    and "process_event fp tick t0 t1 t2 (Some (event_fallback env)) e c = (Inr first, c1)"
    and "er_reason_code first \<noteq> Some ''BROKER_EVENT_REPLAY_CONFLICT''"
    and "(core_step sha)\<^sup>*\<^sup>* c1 c2"
    and "process_event fp' tick' t0' t1' t2' (Some (event_fallback env')) e c2 = (again, c3)"
  shows "co_writer c3 = co_writer c2 \<and> co_gate c3 = co_gate c2 \<and>
    co_ledger c3 = (co_ledger c2)\<lparr>rl_restored := rl_restored (co_ledger c3)\<rparr> \<and>
    (\<forall>r. again = Inr r \<longrightarrow> er_status r = EV_DUPLICATE)"
proof -
  obtain w where w: "apply_normalized_broker_event e t0 (co_writer c) = (Inr first, w)"
      "(writer_step sha)\<^sup>*\<^sup>* w (co_writer c1)"
    using event_then_run [OF assms(2,3)] by blast
  have "writer_run sha c1 c2"
    using assms(5) by (induction rule: rtranclp_induct) (auto intro: rtranclp_trans dest: core_step_run)
  with w(2) have "(writer_step sha)\<^sup>*\<^sup>* w (co_writer c2)" by (rule rtranclp_trans)
  then show ?thesis
    using replay_duplicate [OF assms(1) w(1) assms(4)] duplicate_event [OF _ assms(6)] by blast
qed

text \<open>
  C30. Reconciliation ends when the port does not answer. If every query of an order times out,
  is unavailable or raises an error of the worker, the coordinator makes exactly the configured
  number of attempts, changes nothing else in the database, reports a failure and blocks the gate.
\<close>

theorem reconcile_gives_up:
  assumes "query_from_candidate ca = Inr query" and "0 < rp_max_query_attempts (en_policy env)"
    and "ord_order_id (ca_order ca) = oid" and "oid \<in> set (map ord_order_id (orders (co_db c)))"
    and "\<forall>n\<in>{1..rp_max_query_attempts (en_policy env)}. port_down (en_answer env oid n) \<and>
      0 \<le> en_random env oid n \<and> en_random env oid n \<le> 1 \<and>
      en_attempt_id env oid n \<notin> set (map ra_attempt_id (reconciliation_attempts (co_db c)))"
    and "inj_on (en_attempt_id env oid) {1..rp_max_query_attempts (en_policy env)}"
  shows "\<exists>A reason c'. reconcile env ca c = (Inr (item oid RO_FAILED (ord_state (ca_order ca)) (Some reason)), c') \<and>
    length A = rp_max_query_attempts (en_policy env) \<and>
    co_db c' = (co_db c)\<lparr>reconciliation_attempts := reconciliation_attempts (co_db c) @ A\<rparr> \<and>
    ''HG_RECONCILIATION_UNAVAILABLE'' \<in> hg_blockers (co_gate c')"
proof -
  have "\<exists>A reason. length A = Suc (rp_max_query_attempts (en_policy env)) - 1 \<and>
    reconcile_loop env oid (q_correlation_id query) (ord_state (ca_order ca))
      [1..<Suc (rp_max_query_attempts (en_policy env))] c =
      (Inr (item oid RO_FAILED (ord_state (ca_order ca)) (Some reason)),
       on_gate (block ''HG_RECONCILIATION_UNAVAILABLE'') (with_attempts c A))"
    by (rule loop_down) (use assms in auto)
  then show ?thesis
    using assms(1,3) by (auto simp: reconcile_def on_gate_def block_def with_attempts_def simp del: upt_Suc)
qed

text \<open>
  C31. A cycle lifts a blocker of unknown or unreconciled orders only when it has settled every
  order it looked at, and then every order that may be open at the broker carries a conflict that
  was recorded for manual review.
\<close>

theorem cycle_lifts_only_when_done:
  assumes "writer_reach sha (co_writer c)" and "en_sha env = sha"
    and "reconcile_all env c = (Inr results, c')" and "r \<in> hg_blockers (co_gate c)"
    and "r \<notin> hg_blockers (co_gate c')" and "r \<noteq> ''HG_SETTLEMENT_UNKNOWN''"
  shows "all_settled results \<and> (\<forall>x\<in>set (orders (co_db c')).
    ord_state x \<in> {ACCEPTED, OPEN, UNKNOWN, SETTLEMENT_UNKNOWN} \<longrightarrow> has_conflict (co_db c') (ord_order_id x))"
proof -
  have "writer_run sha c (snd (reconcile_all env c))"
    unfolding reconcile_all_def Let_def by (intro run_then_do run_reconcile_each [OF assms(2)]) simp
  then have "db_inv None (co_db c')"
    using assms(1,3) writer_history.reach_inv core_machine.reach_astep_star by (metis snd_conv)
  then show ?thesis
    using cycle_lifts [OF assms(3-6)] no_candidates by blast
qed

text \<open>
  C32. A reconciliation cycle does not count the results it settles in the ledger: of the ledger
  it changes only the list of reservations. The daily result, the losses in a row, the state, the
  step and the cooldown that the next entry check reads are those from before the cycle.
\<close>

theorem cycle_leaves_ledger:
  "co_ledger (snd (run_once env c)) =
     (co_ledger c)\<lparr>rl_restored := rl_restored (co_ledger (snd (run_once env c)))\<rparr>"
proof -
  have clear: "co_ledger (clear_gates_after_positive_cycle a b d) = co_ledger d" for a b d
    by (simp add: clear_gates_after_positive_cycle_def Let_def on_gate_def)
  have all: "co_ledger (snd (reconcile_all env c)) = co_ledger c"
    using ledger_kept.reconcile_each [of env "list_reconciliation_candidates (co_db c)" c]
    by (auto simp: reconcile_all_def Let_def snd_then_do clear split: sum.splits)
  have restored: "restore rows l = Inr l' \<Longrightarrow> l' = l\<lparr>rl_restored := rl_restored l'\<rparr>" for rows l l'
    by (auto simp: restore_def raises)
  have "co_ledger (snd (on_reconciliation_cycle_completed d)) =
      (co_ledger d)\<lparr>rl_restored := rl_restored (co_ledger (snd (on_reconciliation_cycle_completed d)))\<rparr>" for d
    using restored by (auto simp: on_reconciliation_cycle_completed_def restore_reservations_def split: sum.splits)
  then show ?thesis
    using all by (cases "reconcile_all env c") (auto simp: run_once_def snd_then_do split: sum.splits, metis+)
qed

text \<open>
  C33. After recovery the gate tells whether anything may be open at the broker: if it lets some
  account enter, then every order is finished or waits in the outbox and was never sent.
\<close>

theorem recovery_closes_gate:
  assumes "writer_reach sha (co_writer c)" and "recover now c = (Inr report, c')"
    and "account_open c' brk account_id"
  shows "\<forall>x\<in>set (orders (co_db c')). is_terminal (ord_state x) \<or> (ord_state x = OUTBOXED \<and>
    (\<exists>m\<in>set (outbox_messages (co_db c')). om_intent_id m = ord_intent_id x \<and> om_state m = OB_PENDING))"
proof -
  obtain c2 where c': "c' = recovery_gate c2" using assms(2) by (auto simp: recover_def raises)
  have "unsafe_nonterminal (co_db c2) = []"
  proof (rule ccontr)
    assume "unsafe_nonterminal (co_db c2) \<noteq> []"
    then have "\<exists>r. r \<in> hg_blockers (co_gate c')"
      by (auto simp: c' recovery_gate_def on_gate_def block_def)
    then show False using blocker_closes assms(3) by blast
  qed
  moreover have "co_db c' = co_db c2" by (simp add: c')
  moreover have "db_inv None (co_db c')"
    using run_recover [of sha c now] assms(1,2) writer_history.reach_inv core_machine.reach_astep_star
    by (metis snd_conv)
  ultimately show ?thesis using unsafe_rows by metis
qed


definition demo_cycle :: "status_answer \<Rightarrow> reconcile_env" where
  "demo_cycle answer = \<lparr>en_sha = demo_sha, en_policy = default_policy, en_answer = (\<lambda>oid n. answer),
     en_attempt_id = (\<lambda>oid n. replicate n CHR ''a''), en_begin_at = (\<lambda>oid n. demo_now),
     en_end_at = (\<lambda>oid n. demo_later), en_random = (\<lambda>oid n. 1 / 2)\<rparr>"

definition demo_base :: "writer \<Rightarrow> core" where
  "demo_base w = (demo_core w)\<lparr>co_ledger := demo_ledger\<lparr>rl_digit_config := DigitRiskConfig\<rparr>\<rparr>"

abbreviation demo_process :: "core \<Rightarrow> (exc + event_result) \<times> core" where
  "demo_process \<equiv> process_event (\<lambda>_. ''f1'') 0 demo_now demo_now demo_now
     (Some (event_fallback (demo_cycle (Inl Runtime_error)))) demo_event"

lemma demo_event_run:
  "\<exists>c1. demo_process (demo_base w_accepted) = (Inr (event_result EV_APPLIED (Some SETTLED) None), c1)"
proof -
  let ?w = "w_accepted\<lparr>w_db := settled_db\<rparr>"
  have apply_it: "apply_normalized_broker_event demo_event demo_now w_accepted =
      (Inr (event_result EV_APPLIED (Some SETTLED) None), ?w)"
    by (simp add: apply_normalized_broker_event_def transaction_Inr w_accepted_db w_settled_run)
  define row where "row = settled_runtime ''R_100'' (- 100) ''o1'' ''e1'' demo_now (new_runtime_row demo_runtime demo_now)"
  have row: "drr_config_fingerprint row = ''f1''" "drr_cooldown_started_at row = None" "drr_martingale_step row = 1"
    by (simp_all add: row_def settled_runtime_def settle_loss_def new_runtime_row_def demo_runtime_def Let_def)
  have rt: "digit_risk_runtime settled_db = Some row" by (simp add: settled_db_def row_def)
  have aware: "utc_offset demo_now \<noteq> None" by (simp add: demo_now_def utc_def)
  have expire: "expire_digit_cooldown demo_now ?w = (Inr (Some row), ?w)"
    using aware by (simp add: expire_digit_cooldown_def transaction_def op_expire_digit_cooldown_def rt row)
  have active: "reservations_by_state ACTIVE settled_db = []"
    by (simp add: reservations_by_state_def demo_dbs)
  have config: "\<not> dc_martingale_enabled DigitRiskConfig" by (simp add: DigitRiskConfig_def)
  define d where "d = on_gate (clear_scope ''DERIV'' ''VRTC1'' ''HG_SETTLEMENT_REQUIRED'') ((demo_base w_accepted)\<lparr>co_writer := ?w\<rparr>)"
  obtain l g where pnl: "apply_realized_pnl (- 100) (co_ledger d, Some (co_gate d)) = (l, g)"
    by (cases "apply_realized_pnl (- 100) (co_ledger d, Some (co_gate d))")
  then have l: "rl_digit_config l = DigitRiskConfig" "rl_expected_stake l = None" "rl_last_ratio l = None"
    by (auto simp: apply_realized_pnl_def d_def on_gate_def demo_base_def demo_ledger_def Let_def split: if_splits)
  obtain l' where l': "restore_digit_runtime (\<lambda>_. ''f1'') 0 demo_now (Some row) l = (Inr (), l')"
      "rl_digit_config l' = DigitRiskConfig" "rl_expected_stake l' = None" "rl_last_ratio l' = None"
    using l row by (simp add: restore_digit_runtime_def BoundedMartingaleState_def)
  have "\<exists>m. get_digit_metrics 0 l' = Inr m"
    using l' config by (simp add: get_digit_metrics_def current_digit_stake_def projected_martingale_stakes_def)
  then have count: "\<exists>d'. count_event_result (\<lambda>_. ''f1'') 0 demo_now demo_now demo_event
      (event_result EV_APPLIED (Some SETTLED) None) d = (Inr (), d') \<and> co_writer d' = ?w"
    using pnl expire l'(1)
    by (auto simp: count_event_result_def event_result_def demo_event_def apply_result_to_ledger_def
        reload_digit_runtime_def on_writer_def d_def on_gate_def demo_base_def)
  then obtain d' where d': "count_event_result (\<lambda>_. ''f1'') 0 demo_now demo_now demo_event
      (event_result EV_APPLIED (Some SETTLED) None) d = (Inr (), d')" "co_writer d' = ?w" by blast
  have "handle_event_result (\<lambda>_. ''f1'') 0 demo_now demo_now demo_event (event_result EV_APPLIED (Some SETTLED) None)
      ((demo_base w_accepted)\<lparr>co_writer := ?w\<rparr>) = (Inr (), d')"
    using d'(1) by (simp add: handle_event_result_def event_result_def note_event_state_def d_def demo_event_def)
  moreover have "\<exists>d''. restore_reservations d' = (Inr (), d'')"
    using d'(2) active by (simp add: restore_reservations_def restore_def validate_restored_exposures_def)
  ultimately show ?thesis
    using apply_it by (auto simp: process_event_def on_writer_def demo_base_def demo_core_def event_result_def)
qed

theorem event_counted_once_witness:
  "co_writer (snd (demo_process (snd (demo_process (demo_base w_accepted))))) =
   co_writer (snd (demo_process (demo_base w_accepted)))"
proof -
  obtain c1 where c1: "demo_process (demo_base w_accepted) = (Inr (event_result EV_APPLIED (Some SETTLED) None), c1)"
    using demo_event_run by blast
  obtain again c3 where c3: "demo_process c1 = (again, c3)" by (cases "demo_process c1")
  have "writer_reach demo_sha (co_writer (demo_base w_accepted))"
    using demo_reach(5) [of demo_sha] by (simp add: demo_base_def demo_core_def)
  then have "co_writer c3 = co_writer c1"
    using event_counted_once [OF _ _ c1 _ _ c3] by (simp add: demo_cycle_def event_result_def)
  then show ?thesis using c1 c3 by simp
qed

theorem reconcile_gives_up_witness:
  "\<exists>A reason c'. reconcile (demo_cycle (Inl Runtime_error)) (hd (candidate_rows claimed_db)) (demo_core w_claimed) =
     (Inr (item ''o1'' RO_FAILED DISPATCHING (Some reason)), c') \<and> length A = 4 \<and>
     co_db c' = claimed_db\<lparr>reconciliation_attempts := A\<rparr>"
proof -
  let ?env = "demo_cycle (Inl Runtime_error)" and ?ca = "hd (candidate_rows claimed_db)"
  have ca: "ord_order_id (ca_order ?ca) = ''o1''" "ord_state (ca_order ?ca) = DISPATCHING"
    "reconciliation_attempts claimed_db = []" "''o1'' \<in> set (map ord_order_id (orders claimed_db))"
    by (simp_all add: candidate_rows_def demo_dbs)
  have "fromisoformat (isoformat demo_now) = Inr demo_now" by (simp add: fromisoformat_isoformat)
  then have "\<exists>query. query_from_candidate ?ca = Inr query"
    by (simp add: query_from_candidate_def candidate_rows_def demo_dbs Money_def string_eval
        OrderStatusQuery_def)
  then obtain query where q: "query_from_candidate ?ca = Inr query" by blast
  have "inj_on (\<lambda>n. replicate n CHR ''a'') S" for S by (rule inj_onI) (metis length_replicate)
  then show ?thesis
    using reconcile_gives_up [OF q _ ca(1), of ?env "demo_core w_claimed"] ca
    by (simp add: demo_cycle_def default_policy_def demo_core_def w_claimed_db port_down_def) blast
qed

theorem recovery_closes_gate_witness:
  "\<exists>report c'. recover demo_now (demo_core (w_stored\<lparr>w_health := mark_healthy DatabaseHealth\<rparr>)) = (Inr report, c') \<and>
     (\<forall>x\<in>set (orders (co_db c')). is_terminal (ord_state x) \<or> (ord_state x = OUTBOXED \<and>
       (\<exists>m\<in>set (outbox_messages (co_db c')). om_intent_id m = ord_intent_id x \<and> om_state m = OB_PENDING)))"
proof -
  let ?w = "w_stored\<lparr>w_health := mark_healthy DatabaseHealth\<rparr>"
  have r: "writer_reach demo_sha ?w" by (rule reach_step [OF demo_reach(3) ws_health])
  have recovered: "op_recover_interrupted_dispatches demo_now stored_db = Inr (0, stored_db)"
    by (simp add: op_recover_interrupted_dispatches_def demo_dbs)
  have pending: "pending_rows stored_db = [(demo_out1, demo_ord1)]"
    by (simp add: pending_rows_def demo_dbs)
  have "command_from_payload (setdefault (om_payload demo_out1) ''order_id'' v) = Inr demo_command" for v
    using command_payload_roundtrip [OF demo_valid(1)]
    by (simp add: demo_out1_def new_outbox_row_def setdefault_def command_to_payload_def)
  moreover have "instant demo_now < instant (cmd_deadline_at demo_command)"
    by (simp add: demo_command_def demo_later_def demo_now_def utc_def instant_def toordinal_def
        days_before_month_def days_before_year_def)
  ultimately have kept: "op_cancel_expired_pending_messages demo_now stored_db = Inr ([], stored_db)"
    by (simp add: op_cancel_expired_pending_messages_def pending)
  have safe: "outbox_by_state OB_AMBIGUOUS stored_db = []" "unsafe_nonterminal stored_db = []"
    by (simp_all add: outbox_by_state_def unsafe_nonterminal_def safe_pending_def order_for_intent_def
        list_nonterminal_orders_def demo_dbs)
  have db: "?w\<lparr>w_db := stored_db\<rparr> = ?w" using w_stored_db by (cases w_stored) simp
  have run: "\<exists>report. recover demo_now (demo_core ?w) = (Inr report, demo_core ?w)"
    using recovered kept safe db
    by (simp add: recover_def on_writer_def demo_core_def recover_interrupted_dispatches_def transaction_def
        cancel_expired_pending_messages_def w_stored_db recovery_gate_def)
  have "account_open (demo_core ?w) ''DERIV'' ''VRTC1''"
    by (simp add: can_enter_iff demo_core_def mark_healthy_def gate_reasons_initial)
  then show ?thesis
    using run recovery_closes_gate [of demo_sha "demo_core ?w"] r by (force simp: demo_core_def)
qed

definition demo_found :: reconcile_env where
  "demo_found = demo_cycle (Inr \<lparr>sr_outcome = Q_FOUND, sr_evidence = Some demo_evidence,
     sr_not_found_evidence = None, sr_reason_code = None\<rparr>)"

abbreviation demo_unknown :: core where
  "demo_unknown \<equiv> on_gate (block ''HG_ORDER_UNKNOWN'') (demo_core w_unknown)"

lemma settled_no_candidates:
  "\<forall>x\<in>set (orders db). ord_state x = SETTLED \<Longrightarrow> list_reconciliation_candidates db = []"
  by (auto simp: list_reconciliation_candidates_def candidate_rows_def filter_empty_conv)

lemma demo_found_run:
  "\<exists>w. reconcile_all demo_found demo_unknown =
     (Inr [item ''o2'' RO_RESOLVED SETTLED None], demo_core w)"
proof -
  let ?ca = "candidate_rows unknown_db ! 1"
  have ca: "ord_order_id (ca_order ?ca) = ''o2''" "ord_state (ca_order ?ca) = UNKNOWN"
    "list_reconciliation_candidates unknown_db = [?ca]"
    by (simp_all add: list_reconciliation_candidates_def candidate_rows_def has_conflict_def demo_dbs)
  have "\<exists>query. query_from_candidate ?ca = Inr query \<and> q_correlation_id query = ''cor1''"
    by (simp add: query_from_candidate_def candidate_rows_def demo_dbs Money_def string_eval
        OrderStatusQuery_def)
  then obtain query where query: "query_from_candidate ?ca = Inr query" "q_correlation_id query = ''cor1''" by blast
  define w1 where "w1 = w_unknown\<lparr>w_db := unknown_db\<lparr>reconciliation_attempts := [\<lparr>ra_attempt_id = ''a'',
    ra_order_id = ''o2'', ra_correlation_id = ''cor1'', ra_started_at = isoformat demo_now,
    ra_completed_at = None, ra_result = ''STARTED'', ra_reason_code = None, ra_evidence_id = None\<rparr>]\<rparr>\<rparr>"
  have begun: "begin_reconciliation_attempt ''a'' ''o2'' ''cor1'' demo_now w_unknown = (Inr (), w1)"
    by (simp add: w1_def begin_reconciliation_attempt_def transaction_def op_begin_reconciliation_attempt_def
        insert_attempt_def w_unknown_db) (simp add: demo_dbs)
  have "\<exists>res w2. apply_reconciliation_evidence demo_sha ''a'' demo_evidence demo_later w1 = (Inr res, w2) \<and>
      ar_status res = RA_RESOLVED \<and> ar_order_state res = SETTLED \<and> (\<forall>x\<in>set (orders (w_db w2)). ord_state x = SETTLED)"
    by (simp add: w1_def evidence_eval transaction_def demo_dbs)
  then obtain res w2 where fin: "apply_reconciliation_evidence demo_sha ''a'' demo_evidence demo_later w1 = (Inr res, w2)"
      "ar_status res = RA_RESOLVED" "ar_order_state res = SETTLED" "\<forall>x\<in>set (orders (w_db w2)). ord_state x = SETTLED"
    by blast
  let ?c2 = "demo_unknown\<lparr>co_writer := w2\<rparr>"
  have once: "query_once demo_found ''o2'' ''cor1'' UNKNOWN 1 demo_unknown =
      (Inr (Inl (item ''o2'' RO_RESOLVED SETTLED None)), ?c2)"
    using begun fin
    by (simp add: query_once_def on_writer_def demo_found_def demo_cycle_def handle_status_def apply_found_def
        on_gate_def demo_core_def)
  have "[1..<Suc 4] = 1 # [2..<Suc 4]" by (simp add: upt_conv_Cons)
  then have "reconcile demo_found ?ca demo_unknown = (Inr (item ''o2'' RO_RESOLVED SETTLED None), ?c2)"
    using query ca once by (simp add: reconcile_def demo_found_def demo_cycle_def default_policy_def del: upt_Suc)
  moreover have "orders_by_state SETTLEMENT_UNKNOWN (w_db w2) = []"
    using fin(4) by (auto simp: orders_by_state_def filter_empty_conv)
  moreover have "on_gate (clear_if ''HG_SETTLEMENT_UNKNOWN'') (on_gate (clear_if ''HG_RECONCILIATION_UNAVAILABLE'')
      (on_gate (clear_if ''HG_RECONCILIATION_REQUIRED'') (on_gate (clear_if ''HG_ORDER_UNKNOWN'') ?c2))) = demo_core w2"
    by (simp add: on_gate_def clear_if_def block_def demo_core_def HealthGate_def)
  ultimately show ?thesis
    using ca settled_no_candidates [OF fin(4)]
    by (simp add: reconcile_all_def w_unknown_db demo_core_def clear_gates_after_positive_cycle_def
        all_settled_def unsettled_outcome_def item_def)
qed

theorem cycle_lifts_only_when_done_witness:
  "\<exists>results c'. reconcile_all demo_found demo_unknown = (Inr results, c') \<and>
     (\<forall>x\<in>set (orders (co_db c')). ord_state x = UNKNOWN \<longrightarrow> has_conflict (co_db c') (ord_order_id x))"
proof -
  obtain w where run: "reconcile_all demo_found demo_unknown = (Inr [item ''o2'' RO_RESOLVED SETTLED None], demo_core w)"
    using demo_found_run by blast
  have "''HG_ORDER_UNKNOWN'' \<in> hg_blockers (co_gate demo_unknown)"
    "''HG_ORDER_UNKNOWN'' \<notin> hg_blockers (co_gate (demo_core w))"
    by (simp_all add: on_gate_def block_def demo_core_def HealthGate_def)
  moreover have "writer_reach demo_sha (co_writer demo_unknown)"
    using demo_reach(9) [of demo_sha] by (simp add: demo_core_def)
  moreover have "en_sha demo_found = demo_sha" by (simp add: demo_found_def demo_cycle_def)
  ultimately show ?thesis
    using cycle_lifts_only_when_done [OF _ _ run] run by fastforce
qed

end
