(* ===== verification/TickBuffer.thy ===== *)
theory TickBuffer
  imports Decimals
begin

text \<open>
  The window of digit ticks (\<open>packages/market_data/tick_ring_buffer.py\<close>): a ring of fixed capacity
  with running counts of the last digits and of the transitions between consecutive digits. The
  reference is the plain list of the last ticks; the lemmas show that the ring holds exactly that
  list and that the running counts are those of the list.
\<close>

section \<open>Ticks\<close>

text \<open>
  A quote as the code sees it: a finite \<open>Decimal\<close> with its sign, digits and exponent, another
  \<open>Decimal\<close>, or a value of another type.
\<close>

datatype tick_quote =
    Quote (quote_negative: bool) (quote_digits: "nat list") (quote_exponent: int)
  | Quote_special
  | Quote_not_decimal

definition quote_value :: "tick_quote \<Rightarrow> rat" where
  "quote_value q = (case q of
     Quote neg ds e \<Rightarrow> (if neg then -1 else 1) * of_nat (foldl (\<lambda>a d. a * 10 + d) 0 ds) * pow10 e
   | _ \<Rightarrow> 0)"

record digit_tick =
  dt_epoch :: int
  dt_quote_decimal :: tick_quote
  dt_last_digit :: int
  dt_received_at_monotonic :: rat

definition DigitTick :: "int \<Rightarrow> tick_quote \<Rightarrow> int \<Rightarrow> rat \<Rightarrow> exc + digit_tick" where
  "DigitTick epoch quote last_digit received =
     and_then (raise_if (epoch \<le> 0) (ValueError ''tick epoch must be a positive integer'')) (\<lambda>_.
     and_then (raise_if (quote = Quote_special \<or> quote_value quote \<le> 0)
       (ValueError ''tick quote must be a positive finite Decimal'')) (\<lambda>_.
     and_then (raise_if (\<not> (0 \<le> last_digit \<and> last_digit \<le> 9))
       (ValueError ''last digit must be between zero and nine'')) (\<lambda>_.
     and_then (raise_if (received < 0)
       (ValueError ''monotonic receipt time cannot be negative'')) (\<lambda>_.
     Inr \<lparr>dt_epoch = epoch, dt_quote_decimal = quote, dt_last_digit = last_digit,
       dt_received_at_monotonic = received\<rparr>))))"

section \<open>The ring\<close>

record ring =
  rb_capacity :: nat
  rb_ticks :: "digit_tick option list"
  rb_frequency_counts :: "int list"
  rb_transition_counts :: "int list list"
  rb_start :: nat
  rb_size :: nat

definition TickRingBuffer :: "int \<Rightarrow> exc + ring" where
  "TickRingBuffer capacity =
     (if capacity \<le> 0 then Inl (ValueError ''tick ring-buffer capacity must be a positive integer'')
      else Inr \<lparr>rb_capacity = nat capacity, rb_ticks = replicate (nat capacity) None,
        rb_frequency_counts = replicate 10 0, rb_transition_counts = replicate 10 (replicate 10 0),
        rb_start = 0, rb_size = 0\<rparr>)"

definition bump :: "int \<Rightarrow> int \<Rightarrow> int list \<Rightarrow> int list" where
  "bump d delta counts = counts[nat d := counts ! nat d + delta]"

definition bump_transition :: "int \<Rightarrow> int \<Rightarrow> int \<Rightarrow> int list list \<Rightarrow> int list list" where
  "bump_transition a b delta counts = counts[nat a := bump b delta (counts ! nat a)]"

text \<open>
  The branch that evicts the oldest tick. Its first assertion comes before any change, its second
  after the frequency count has changed.
\<close>

definition evict :: "ring \<Rightarrow> (exc + unit) \<times> ring" where
  "evict r = (case rb_ticks r ! rb_start r of
     None \<Rightarrow> (Inl (AssertionError []), r)
   | Some evicted \<Rightarrow>
       let r1 = r\<lparr>rb_frequency_counts := bump (dt_last_digit evicted) (-1) (rb_frequency_counts r)\<rparr>;
           next_start = (rb_start r + 1) mod rb_capacity r in
       if 1 < rb_capacity r
       then (case rb_ticks r ! next_start of
           None \<Rightarrow> (Inl (AssertionError []), r1)
         | Some successor \<Rightarrow> (Inr (), r1\<lparr>rb_transition_counts :=
             bump_transition (dt_last_digit evicted) (dt_last_digit successor) (-1)
               (rb_transition_counts r), rb_start := next_start\<rparr>))
       else (Inr (), r1\<lparr>rb_start := next_start\<rparr>))"

definition place :: "digit_tick \<Rightarrow> nat \<Rightarrow> digit_tick option \<Rightarrow> ring \<Rightarrow> ring" where
  "place tick index previous r =
     (let r1 = r\<lparr>rb_ticks := (rb_ticks r)[index := Some tick],
            rb_frequency_counts := bump (dt_last_digit tick) 1 (rb_frequency_counts r)\<rparr> in
      case previous of None \<Rightarrow> r1
      | Some p \<Rightarrow> r1\<lparr>rb_transition_counts :=
          bump_transition (dt_last_digit p) (dt_last_digit tick) 1 (rb_transition_counts r1)\<rparr>)"

definition insert_tick :: "digit_tick \<Rightarrow> ring \<Rightarrow> (exc + digit_tick) \<times> ring" where
  "insert_tick tick r =
     (let newest = (if 0 < rb_size r then rb_ticks r ! ((rb_start r + rb_size r - 1) mod rb_capacity r)
            else None) in
      if rb_size r = rb_capacity r
      then (case evict r of
          (Inl e, r1) \<Rightarrow> (Inl e, r1)
        | (Inr _, r1) \<Rightarrow> (Inr tick, place tick (rb_start r) (if 1 < rb_capacity r then newest else None) r1))
      else (Inr tick, place tick ((rb_start r + rb_size r) mod rb_capacity r) newest
        (r\<lparr>rb_size := rb_size r + 1\<rparr>)))"

definition checked_tick :: "rat \<Rightarrow> tick_quote \<Rightarrow> int \<Rightarrow> exc + digit_tick" where
  "checked_tick received quote epoch =
     and_then (raise_if (quote = Quote_not_decimal) (TypeError ''tick quote must use Decimal'')) (\<lambda>_.
     and_then (raise_if (quote = Quote_special \<or> quote_value quote \<le> 0)
       (ValueError ''tick quote must be positive and finite'')) (\<lambda>_.
     and_then (raise_if (epoch \<le> 0) (ValueError ''tick epoch must be a positive integer'')) (\<lambda>_.
     DigitTick epoch quote (int (last (quote_digits quote))) received)))"

definition push_tick :: "rat \<Rightarrow> tick_quote \<Rightarrow> int \<Rightarrow> ring \<Rightarrow> (exc + digit_tick) \<times> ring" where
  "push_tick received quote epoch r = (case checked_tick received quote epoch of
     Inl e \<Rightarrow> (Inl e, r) | Inr tick \<Rightarrow> insert_tick tick r)"

definition get_frequency_percentage :: "ring \<Rightarrow> rat list" where
  "get_frequency_percentage r =
     (if rb_size r = 0 then replicate 10 0
      else map (\<lambda>count. dec_div (ctx (of_int count * 100)) (of_nat (rb_size r))) (rb_frequency_counts r))"

fun read_history :: "ring \<Rightarrow> nat list \<Rightarrow> exc + int list" where
  "read_history r [] = Inr []"
| "read_history r (offset # offsets) =
     (case rb_ticks r ! ((rb_start r + offset) mod rb_capacity r) of
        None \<Rightarrow> Inl (AssertionError [])
      | Some tick \<Rightarrow> and_then (read_history r offsets) (\<lambda>ds. Inr (dt_last_digit tick # ds)))"

definition get_digit_history :: "int \<Rightarrow> ring \<Rightarrow> exc + int list" where
  "get_digit_history limit r =
     (if limit < 0 then Inl (ValueError ''digit history limit must be a non-negative integer'')
      else let count = min (nat limit) (rb_size r); first = rb_size r - count in
        read_history r [first..<rb_size r])"

section \<open>Frequency snapshots\<close>

record frequency_snapshot =
  fs_symbol :: string
  fs_total_ticks :: int
  fs_frequency_counts :: "int list"
  fs_frequency_percentages :: "decimal list"
  fs_transport_latency_microseconds :: int

definition percentage_invalid :: "decimal \<Rightarrow> bool" where
  "percentage_invalid v \<longleftrightarrow> (case v of Special \<Rightarrow> True | Finite q \<Rightarrow> q < 0 \<or> 100 < q)"

definition DigitFrequencySnapshot :: "frequency_snapshot \<Rightarrow> exc + frequency_snapshot" where
  "DigitFrequencySnapshot s =
     and_then (raise_if (fs_symbol s = [] \<or> 32 < length (fs_symbol s))
       (ValueError ''frequency snapshot symbol is invalid'')) (\<lambda>_.
     and_then (raise_if (fs_total_ticks s < 0) (ValueError ''frequency snapshot total is invalid'')) (\<lambda>_.
     and_then (raise_if (length (fs_frequency_counts s) \<noteq> 10 \<or> list_ex (\<lambda>v. v < 0) (fs_frequency_counts s))
       (ValueError ''frequency snapshot counts are invalid'')) (\<lambda>_.
     and_then (raise_if (sum_list (fs_frequency_counts s) \<noteq> fs_total_ticks s)
       (ValueError ''frequency snapshot total does not match counts'')) (\<lambda>_.
     and_then (raise_if (length (fs_frequency_percentages s) \<noteq> 10 \<or>
         list_ex percentage_invalid (fs_frequency_percentages s))
       (ValueError ''frequency snapshot percentages are invalid'')) (\<lambda>_.
     and_then (raise_if (fs_transport_latency_microseconds s < 0)
       (ValueError ''transport latency is invalid'')) (\<lambda>_.
     Inr s))))))"

text \<open>The text of a \<open>Decimal\<close> is an argument.\<close>

definition snapshot_to_payload :: "(decimal \<Rightarrow> string) \<Rightarrow> frequency_snapshot \<Rightarrow> payload" where
  "snapshot_to_payload str_of s =
     [(''frequency_counts'', PList (map PInt (fs_frequency_counts s))),
      (''frequency_percentages'', PList (map (PStr \<circ> str_of) (fs_frequency_percentages s))),
      (''symbol'', PStr (fs_symbol s)), (''total_ticks'', PInt (fs_total_ticks s)),
      (''transport_latency_microseconds'', PInt (fs_transport_latency_microseconds s))]"

fun list_items :: "pyval \<Rightarrow> pyval list option" where
  "list_items (PList xs) = Some xs"
| "list_items _ = None"

definition snapshot_fields :: "string set" where
  "snapshot_fields = {''frequency_counts'', ''frequency_percentages'', ''symbol'', ''total_ticks'',
     ''transport_latency_microseconds''}"

text \<open>A text that is no number raises \<open>InvalidOperation\<close>.\<close>

fun decimals_of :: "pyval list \<Rightarrow> exc + decimal list" where
  "decimals_of [] = Inr []"
| "decimals_of (v # vs) = (case Decimal_of (the_str v) of
     None \<Rightarrow> Inl InvalidOperation
   | Some d \<Rightarrow> and_then (decimals_of vs) (\<lambda>ds. Inr (d # ds)))"

definition snapshot_from_payload :: "payload \<Rightarrow> exc + frequency_snapshot" where
  "snapshot_from_payload p =
     (if set (map fst p) \<noteq> snapshot_fields
      then Inl (ValueError ''frequency snapshot payload fields are invalid'')
      else case (list_items (get_item p ''frequency_counts''), list_items (get_item p ''frequency_percentages'')) of
          (Some counts, Some percentages) \<Rightarrow>
            if \<not> list_all is_int counts \<or> \<not> list_all is_str percentages \<or>
               \<not> is_str (get_item p ''symbol'') \<or> \<not> is_int (get_item p ''total_ticks'') \<or>
               \<not> is_int (get_item p ''transport_latency_microseconds'')
            then Inl (ValueError ''frequency snapshot payload types are invalid'')
            else and_then (decimals_of percentages) (\<lambda>ds.
              DigitFrequencySnapshot \<lparr>fs_symbol = the_str (get_item p ''symbol''),
                fs_total_ticks = the_int (get_item p ''total_ticks''),
                fs_frequency_counts = map the_int counts, fs_frequency_percentages = ds,
                fs_transport_latency_microseconds = the_int (get_item p ''transport_latency_microseconds'')\<rparr>)
        | _ \<Rightarrow> Inl (ValueError ''frequency snapshot payload types are invalid''))"

section \<open>The window as a list\<close>

definition slot :: "ring \<Rightarrow> nat \<Rightarrow> nat" where
  "slot r i = (rb_start r + i) mod rb_capacity r"

definition window :: "ring \<Rightarrow> digit_tick list" where
  "window r = map (\<lambda>i. the (rb_ticks r ! slot r i)) [0..<rb_size r]"

definition count_digit :: "int \<Rightarrow> int list \<Rightarrow> int" where
  "count_digit d ds = int (length (filter (\<lambda>x. x = d) ds))"

definition count_pair :: "int \<Rightarrow> int \<Rightarrow> int list \<Rightarrow> int" where
  "count_pair a b ds = int (length (filter (\<lambda>p. p = (a, b)) (zip ds (tl ds))))"

definition tally :: "int list \<Rightarrow> int list" where
  "tally ds = map (\<lambda>d. count_digit (int d) ds) [0..<10]"

definition tally_pairs :: "int list \<Rightarrow> int list list" where
  "tally_pairs ds = map (\<lambda>a. map (\<lambda>b. count_pair (int a) (int b) ds) [0..<10]) [0..<10]"

definition one_digit :: "int \<Rightarrow> bool" where
  "one_digit d \<longleftrightarrow> 0 \<le> d \<and> d \<le> 9"

definition window_digits :: "ring \<Rightarrow> int list" where
  "window_digits r = map dt_last_digit (window r)"

definition ring_shape :: "ring \<Rightarrow> bool" where
  "ring_shape r \<longleftrightarrow> length (rb_ticks r) = rb_capacity r \<and> rb_start r < rb_capacity r \<and>
     rb_size r \<le> rb_capacity r \<and> (\<forall>i<rb_size r. rb_ticks r ! slot r i \<noteq> None)"

definition ring_ok :: "ring \<Rightarrow> bool" where
  "ring_ok r \<longleftrightarrow> ring_shape r \<and> list_all one_digit (window_digits r) \<and>
     rb_frequency_counts r = tally (window_digits r) \<and>
     rb_transition_counts r = tally_pairs (window_digits r)"

text \<open>What a push does to the list: append, and drop the oldest when it is too long.\<close>

definition push_window :: "nat \<Rightarrow> 'a \<Rightarrow> 'a list \<Rightarrow> 'a list" where
  "push_window capacity x xs = (if length xs = capacity then tl xs else xs) @ [x]"

lemma length_window [simp]: "length (window r) = rb_size r"
  by (simp add: window_def)

lemma length_window_digits [simp]: "length (window_digits r) = rb_size r"
  by (simp add: window_digits_def)

lemma nth_window: "i < rb_size r \<Longrightarrow> window r ! i = the (rb_ticks r ! slot r i)"
  by (simp add: window_def)

text \<open>A slot of the ring holds one position of the window.\<close>

lemma slot_inj:
  assumes "s < c" "i < c" "j < c" "(s + i) mod c = (s + j) mod (c::nat)"
  shows "i = j"
proof -
  have "(s + k) mod c = (if s + k < c then s + k else s + k - c)" if "k < c" for k
    using assms(1) that by (simp add: mod_if)
  with assms show ?thesis by (auto split: if_splits)
qed

section \<open>Counting\<close>

lemma bump_map:
  assumes "0 \<le> d" "d \<le> 9"
  shows "bump d x (map f [0..<10]) = map (\<lambda>i. f i + (if int i = d then x else 0)) [0..<10]"
  using assms by (auto simp: bump_def list_eq_iff_nth_eq nth_list_update)

lemma bump_transition_map:
  assumes "0 \<le> a" "a \<le> 9" "0 \<le> b" "b \<le> 9"
  shows "bump_transition a b x (map (\<lambda>i. map (f i) [0..<10]) [0..<10]) =
    map (\<lambda>i. map (\<lambda>j. f i j + (if int i = a \<and> int j = b then x else 0)) [0..<10]) [0..<10]"
  using assms by (auto simp: bump_transition_def bump_map list_eq_iff_nth_eq nth_list_update)

lemma count_digit_simps [simp]:
  "count_digit d [] = 0"
  "count_digit d (x # xs) = count_digit d xs + (if d = x then 1 else 0)"
  "count_digit d (xs @ ys) = count_digit d xs + count_digit d ys"
  by (simp_all add: count_digit_def)

lemma count_pair_short [simp]: "count_pair a b [] = 0" "count_pair a b [x] = 0"
  by (simp_all add: count_pair_def)

lemma count_pair_Cons [simp]:
  "count_pair a b (x # y # xs) = count_pair a b (y # xs) + (if a = x \<and> b = y then 1 else 0)"
  by (auto simp: count_pair_def)

lemma count_pair_append:
  "xs \<noteq> [] \<Longrightarrow> count_pair a b (xs @ [y]) = count_pair a b xs + (if a = last xs \<and> b = y then 1 else 0)"
  by (induction xs rule: induct_list012) auto

lemma bump_tally_in: "one_digit d \<Longrightarrow> bump d 1 (tally ds) = tally (ds @ [d])"
  by (simp add: tally_def one_digit_def bump_map)

lemma bump_tally_out: "one_digit d \<Longrightarrow> bump d (-1) (tally (d # ds)) = tally ds"
  by (simp add: tally_def one_digit_def bump_map)

lemma bump_pairs_in:
  "one_digit d \<Longrightarrow> one_digit (last ds) \<Longrightarrow> ds \<noteq> [] \<Longrightarrow>
   bump_transition (last ds) d 1 (tally_pairs ds) = tally_pairs (ds @ [d])"
  by (simp add: tally_pairs_def one_digit_def bump_transition_map count_pair_append)

lemma bump_pairs_out:
  "one_digit a \<Longrightarrow> one_digit b \<Longrightarrow>
   bump_transition a b (-1) (tally_pairs (a # b # ds)) = tally_pairs (b # ds)"
  by (simp add: tally_pairs_def one_digit_def bump_transition_map)

lemma tally_pairs_short: "tally_pairs [a] = tally_pairs []"
  by (simp add: tally_pairs_def)

section \<open>Insertion\<close>

lemma window_room:
  fixes r :: ring and t :: digit_tick
  assumes "ring_shape r" "rb_size r < rb_capacity r"
  defines "r' \<equiv> r\<lparr>rb_size := rb_size r + 1, rb_ticks := (rb_ticks r)[slot r (rb_size r) := Some t]\<rparr>"
  shows "ring_shape r'" "window r' = window r @ [t]"
proof -
  have slots: "rb_ticks r' ! slot r' i = (if i = rb_size r then Some t else rb_ticks r ! slot r i)"
    if "i \<le> rb_size r" for i
    using that assms slot_inj [of "rb_start r" "rb_capacity r" i "rb_size r"]
    by (auto simp: ring_shape_def slot_def r'_def nth_list_update)
  show "ring_shape r'"
    using assms slots by (auto simp: ring_shape_def less_Suc_eq r'_def)
  show "window r' = window r @ [t]"
    using slots by (auto simp: list_eq_iff_nth_eq nth_window nth_append r'_def less_Suc_eq)
qed

lemma window_full:
  fixes r :: ring and t :: digit_tick
  assumes "ring_shape r" "rb_size r = rb_capacity r"
  defines "r' \<equiv> r\<lparr>rb_start := (rb_start r + 1) mod rb_capacity r,
    rb_ticks := (rb_ticks r)[rb_start r := Some t]\<rparr>"
  shows "ring_shape r'" "window r' = tl (window r) @ [t]"
proof -
  have moved: "slot r' i = slot r (Suc i)" for i
    by (simp add: slot_def r'_def mod_simps)
  have wrapped: "Suc (rb_start r + i) mod rb_capacity r = rb_start r" if "Suc i = rb_capacity r" for i
    using that assms(1) by (metis add_Suc_right mod_add_self2 mod_less ring_shape_def)
  have slots: "rb_ticks r' ! slot r' i = (if Suc i = rb_size r then Some t else rb_ticks r ! slot r (Suc i))"
    if "i < rb_size r" for i
    using that assms(1,2) slot_inj [of "rb_start r" "rb_capacity r" "Suc i" 0] wrapped [of i] unfolding moved
    by (auto simp: ring_shape_def slot_def r'_def nth_list_update)
  have "rb_ticks r' ! slot r' i \<noteq> None" if "i < rb_size r" for i
    using that assms(1) slots [OF that] by (auto simp: ring_shape_def)
  then show "ring_shape r'"
    using assms(1,2) by (auto simp: ring_shape_def r'_def)
  have "window r' ! i = (tl (window r) @ [t]) ! i" if "i < rb_size r" for i
    using that slots [OF that] by (auto simp: nth_window nth_append nth_tl r'_def)
  then show "window r' = tl (window r) @ [t]"
    using assms(1,2) by (auto simp: list_eq_iff_nth_eq ring_shape_def r'_def)
qed

lemma counts_ignored [simp]:
  "ring_shape (r\<lparr>rb_frequency_counts := f\<rparr>) = ring_shape r"
  "ring_shape (r\<lparr>rb_transition_counts := m\<rparr>) = ring_shape r"
  "window (r\<lparr>rb_frequency_counts := f\<rparr>) = window r"
  "window (r\<lparr>rb_transition_counts := m\<rparr>) = window r"
  by (simp_all add: ring_shape_def window_def slot_def)

lemma newest_tick:
  assumes "ring_shape r" "0 < rb_size r"
  shows "\<exists>p. rb_ticks r ! ((rb_start r + rb_size r - 1) mod rb_capacity r) = Some p \<and>
    dt_last_digit p = last (window_digits r)"
proof -
  have "last (window_digits r) = dt_last_digit (window r ! (rb_size r - 1))"
    using assms(2) by (simp add: window_digits_def last_map last_conv_nth flip: length_greater_0_conv)
  moreover have "rb_ticks r ! slot r (rb_size r - 1) \<noteq> None"
    using assms by (simp add: ring_shape_def)
  moreover have "slot r (rb_size r - 1) = (rb_start r + rb_size r - 1) mod rb_capacity r"
    using assms by (simp add: slot_def)
  ultimately show ?thesis
    using assms nth_window [of "rb_size r - 1" r] by auto
qed

lemma digits_split:
  assumes "ring_shape r" "0 < rb_size r"
  shows "\<exists>t. rb_ticks r ! rb_start r = Some t \<and> window_digits r = dt_last_digit t # tl (window_digits r)"
proof -
  obtain t where t: "rb_ticks r ! slot r 0 = Some t" "slot r 0 = rb_start r"
    using assms by (auto simp: ring_shape_def slot_def)
  have "window r = window r ! 0 # tl (window r)"
    using assms by (metis Cons_nth_drop_Suc drop0 drop_Suc length_window)
  then have "map dt_last_digit (window r) = map dt_last_digit (t # tl (window r))"
    using assms(2) t(1) nth_window [of 0 r] by simp
  then show ?thesis
    using t by (simp add: window_digits_def map_tl)
qed

text \<open>Inserting into a ring with room, and into a full one.\<close>

lemma insert_room:
  assumes "ring_ok r" "one_digit (dt_last_digit t)" "rb_size r < rb_capacity r"
  shows "\<exists>r'. insert_tick t r = (Inr t, r') \<and> ring_ok r' \<and> window r' = window r @ [t]"
proof -
  define w where "w = r\<lparr>rb_size := rb_size r + 1, rb_ticks := (rb_ticks r)[slot r (rb_size r) := Some t]\<rparr>"
  let ?ds = "window_digits r"
  have shape: "ring_shape r" "list_all one_digit ?ds"
      "rb_frequency_counts r = tally ?ds" "rb_transition_counts r = tally_pairs ?ds"
    using assms(1) by (simp_all add: ring_ok_def)
  have w: "ring_shape w" "window w = window r @ [t]" "window_digits w = ?ds @ [dt_last_digit t]"
    using window_room [OF shape(1) assms(3), of t] by (simp_all add: w_def window_digits_def)
  have "insert_tick t r = (Inr t, w\<lparr>rb_frequency_counts := tally (?ds @ [dt_last_digit t]),
      rb_transition_counts := tally_pairs (?ds @ [dt_last_digit t])\<rparr>)"
  proof (cases "rb_size r = 0")
    case True
    then have "?ds = []" using length_window_digits [of r] by (metis length_0_conv)
    then show ?thesis
      using True assms(2,3) shape(3,4) bump_tally_in [OF assms(2), of ?ds]
      by (simp add: insert_tick_def place_def w_def slot_def tally_pairs_short)
  next
    case False
    then obtain p where p: "rb_ticks r ! ((rb_start r + rb_size r - 1) mod rb_capacity r) = Some p"
        "dt_last_digit p = last ?ds"
      using newest_tick [OF shape(1)] by blast
    have "?ds \<noteq> []" using False length_window_digits [of r] by (metis length_0_conv)
    then have "bump_transition (dt_last_digit p) (dt_last_digit t) 1 (tally_pairs ?ds) =
        tally_pairs (?ds @ [dt_last_digit t])"
      using p(2) shape(2) assms(2) bump_pairs_in [of "dt_last_digit t" ?ds] by (simp add: list_all_iff)
    then show ?thesis
      using False assms(3) shape(3,4) p(1) bump_tally_in [OF assms(2), of ?ds]
      by (simp add: insert_tick_def place_def w_def slot_def)
  qed
  then show ?thesis
    using w shape(2) assms(2) by (simp add: ring_ok_def window_digits_def)
qed

lemma successor_tick:
  assumes "ring_shape r" "1 < rb_size r"
  shows "\<exists>t. rb_ticks r ! ((rb_start r + 1) mod rb_capacity r) = Some t \<and>
    tl (window_digits r) = dt_last_digit t # tl (tl (window_digits r))"
proof -
  obtain t where t: "rb_ticks r ! slot r 1 = Some t"
    using assms by (auto simp: ring_shape_def)
  have "tl (window r) = window r ! 1 # tl (tl (window r))"
    using assms by (metis Cons_nth_drop_Suc One_nat_def drop0 drop_Suc length_window)
  then have "map dt_last_digit (tl (window r)) = map dt_last_digit (t # tl (tl (window r)))"
    using assms(2) t nth_window [of 1 r] by simp
  then show ?thesis
    using t by (simp add: slot_def window_digits_def map_tl)
qed

lemma evict_counts:
  assumes "ring_ok r" "rb_size r = rb_capacity r"
  shows "evict r = (Inr (), r\<lparr>rb_frequency_counts := tally (tl (window_digits r)),
    rb_transition_counts := tally_pairs (tl (window_digits r)),
    rb_start := (rb_start r + 1) mod rb_capacity r\<rparr>)"
proof -
  have shape: "ring_shape r" "0 < rb_size r"
    using assms by (auto simp: ring_ok_def ring_shape_def)
  obtain a ds where a: "rb_ticks r ! rb_start r = Some a" "window_digits r = dt_last_digit a # ds"
    using digits_split [OF shape] by auto
  then have digit: "one_digit (dt_last_digit a)" and ds: "list_all one_digit ds"
    using assms(1) by (auto simp: ring_ok_def)
  show ?thesis
  proof (cases "1 < rb_capacity r")
    case True
    then obtain b where b: "rb_ticks r ! ((rb_start r + 1) mod rb_capacity r) = Some b"
        "ds = dt_last_digit b # tl ds"
      using successor_tick [OF shape(1)] assms(2) a(2) by auto
    then have "one_digit (dt_last_digit b)"
      using ds by (metis list.pred_inject(2))
    then have "bump_transition (dt_last_digit a) (dt_last_digit b) (-1) (rb_transition_counts r) =
        tally_pairs ds"
      using assms(1) a(2) b(2) digit bump_pairs_out by (metis ring_ok_def)
    then show ?thesis
      using assms(1) a b(1) True digit by (simp add: evict_def ring_ok_def bump_tally_out)
  next
    case False
    then have "ds = []"
      using assms(2) shape(2) a(2) length_window_digits [of r] by (cases ds) auto
    then show ?thesis
      using assms(1) a False digit by (simp add: evict_def ring_ok_def bump_tally_out tally_pairs_short)
  qed
qed

lemma insert_full:
  assumes "ring_ok r" "one_digit (dt_last_digit t)" "rb_size r = rb_capacity r"
  shows "\<exists>r'. insert_tick t r = (Inr t, r') \<and> ring_ok r' \<and> window r' = tl (window r) @ [t]"
proof -
  define w where "w = r\<lparr>rb_start := (rb_start r + 1) mod rb_capacity r,
    rb_ticks := (rb_ticks r)[rb_start r := Some t]\<rparr>"
  let ?ds = "tl (window_digits r)"
  have shape: "ring_shape r" "0 < rb_size r" "list_all one_digit (window_digits r)"
    using assms by (auto simp: ring_ok_def ring_shape_def)
  then have tl_digits: "list_all one_digit ?ds"
    by (cases "window_digits r") auto
  have w: "ring_shape w" "window w = tl (window r) @ [t]" "window_digits w = ?ds @ [dt_last_digit t]"
    using window_full [OF shape(1) assms(3), of t] by (simp_all add: w_def window_digits_def map_tl)
  have cap: "1 < rb_capacity r \<longleftrightarrow> ?ds \<noteq> []"
  proof -
    have "length ?ds = rb_capacity r - 1" using assms(3) by simp
    then show ?thesis by (cases ?ds) auto
  qed
  obtain p where p: "rb_ticks r ! ((rb_start r + rb_size r - 1) mod rb_capacity r) = Some p"
      "dt_last_digit p = last (window_digits r)"
    using newest_tick shape by blast
  have pairs: "bump_transition (dt_last_digit p) (dt_last_digit t) 1 (tally_pairs ?ds) =
      tally_pairs (?ds @ [dt_last_digit t])" if "?ds \<noteq> []"
  proof -
    have "last ?ds \<in> set ?ds"
      using that by (rule last_in_set)
    moreover have "last ?ds = dt_last_digit p"
      unfolding p(2) using that by (simp only: last_tl simp_thms)
    ultimately show ?thesis
      using that tl_digits assms(2) bump_pairs_in [of "dt_last_digit t" ?ds] by (auto simp: list_all_iff)
  qed
  have "insert_tick t r = (Inr t, w\<lparr>rb_frequency_counts := tally (?ds @ [dt_last_digit t]),
      rb_transition_counts := tally_pairs (?ds @ [dt_last_digit t])\<rparr>)"
  proof (cases "?ds = []")
    case True
    then show ?thesis
      using cap assms(2,3) evict_counts [OF assms(1,3)] bump_tally_in [OF assms(2), of ?ds]
      by (simp add: insert_tick_def place_def w_def tally_pairs_short)
  next
    case False
    then show ?thesis
      using cap p(1) pairs [OF False] shape(2) assms(2,3) evict_counts [OF assms(1,3)]
        bump_tally_in [OF assms(2), of ?ds]
      by (simp add: insert_tick_def place_def w_def)
  qed
  then show ?thesis
    using w tl_digits assms(2) by (simp add: ring_ok_def window_digits_def)
qed

lemma insert_tick_window:
  assumes "ring_ok r" "one_digit (dt_last_digit t)"
  shows "\<exists>r'. insert_tick t r = (Inr t, r') \<and> ring_ok r' \<and>
    window r' = push_window (rb_capacity r) t (window r)"
proof (cases "rb_size r = rb_capacity r")
  case True
  then show ?thesis using insert_full [OF assms] by (simp add: push_window_def)
next
  case False
  then have "rb_size r < rb_capacity r"
    using assms(1) by (auto simp: ring_ok_def ring_shape_def)
  then show ?thesis
    using insert_room [OF assms] False by (simp add: push_window_def)
qed

lemma insert_tick_capacity:
  "ring_ok r \<Longrightarrow> rb_capacity (snd (insert_tick t r)) = rb_capacity r"
  by (cases "rb_size r = rb_capacity r")
    (auto simp: insert_tick_def place_def evict_counts Let_def split: option.splits)

section \<open>A feed of ticks\<close>

type_synonym feed = "(rat \<times> tick_quote \<times> int) list"

fun push_all :: "feed \<Rightarrow> ring \<Rightarrow> ring" where
  "push_all [] r = r"
| "push_all ((received, quote, epoch) # feed) r = push_all feed (snd (push_tick received quote epoch r))"

text \<open>The ticks of a feed that pass the checks, and the last ones of a list.\<close>

fun accepted :: "feed \<Rightarrow> digit_tick list" where
  "accepted [] = []"
| "accepted ((received, quote, epoch) # feed) =
     (case checked_tick received quote epoch of Inl _ \<Rightarrow> accepted feed | Inr t \<Rightarrow> t # accepted feed)"

definition last_n :: "nat \<Rightarrow> 'a list \<Rightarrow> 'a list" where
  "last_n n xs = drop (length xs - n) xs"

lemma push_window_last_n:
  "0 < n \<Longrightarrow> push_window n x (last_n n xs) = last_n n (xs @ [x])"
  by (cases "length xs < n")
    (auto simp: push_window_def last_n_def drop_Suc Suc_diff_le tl_drop simp flip: drop_Suc)

lemma last_n_map: "last_n n (map f xs) = map f (last_n n xs)"
  by (simp add: last_n_def drop_map)

lemma checked_tick_digit: "checked_tick received quote epoch = Inr t \<Longrightarrow> one_digit (dt_last_digit t)"
  by (auto simp: checked_tick_def DigitTick_def one_digit_def raises)

lemma push_all_window:
  assumes "ring_ok r" "window r = last_n (rb_capacity r) xs"
  shows "ring_ok (push_all feed r) \<and>
    window (push_all feed r) = last_n (rb_capacity r) (xs @ accepted feed)"
  using assms
proof (induction feed r arbitrary: xs rule: push_all.induct)
  case (2 received quote epoch feed r)
  show ?case
  proof (cases "checked_tick received quote epoch")
    case (Inl e)
    with 2 show ?thesis by (simp add: push_tick_def)
  next
    case (Inr t)
    obtain r' where r': "insert_tick t r = (Inr t, r')" "ring_ok r'"
        "window r' = push_window (rb_capacity r) t (window r)"
      using insert_tick_window [OF "2.prems"(1) checked_tick_digit [OF Inr]] by blast
    have "0 < rb_capacity r"
      using "2.prems"(1) by (auto simp: ring_ok_def ring_shape_def)
    moreover have "rb_capacity r' = rb_capacity r"
      using insert_tick_capacity [OF "2.prems"(1), of t] r'(1) by simp
    ultimately show ?thesis
      using "2.IH" [of "xs @ [t]"] "2.prems"(2) r' Inr by (simp add: push_tick_def push_window_last_n)
  qed
qed simp

lemma new_ring:
  "TickRingBuffer capacity = Inr r \<Longrightarrow> ring_ok r \<and> window r = [] \<and> rb_capacity r = nat capacity \<and> 0 < capacity"
  by (auto simp: TickRingBuffer_def ring_ok_def ring_shape_def window_digits_def window_def tally_def
      tally_pairs_def map_replicate_const split: if_splits)

lemma read_history_window:
  "ring_shape r \<Longrightarrow> \<forall>i\<in>set is. i < rb_size r \<Longrightarrow> read_history r is = Inr (map (\<lambda>i. window_digits r ! i) is)"
  by (induction "is") (auto simp: ring_shape_def window_digits_def nth_window slot_def split: option.split)

lemma history_window:
  assumes "ring_shape r" "0 \<le> limit"
  shows "get_digit_history limit r = Inr (last_n (nat limit) (window_digits r))"
proof -
  have "map (\<lambda>i. window_digits r ! i) [k..<rb_size r] = drop k (window_digits r)" for k
    by (metis add_0 drop_map drop_upt length_window_digits map_nth)
  moreover have "rb_size r - min (nat limit) (rb_size r) = rb_size r - nat limit"
    by simp
  ultimately show ?thesis
    using assms read_history_window [OF assms(1)] by (simp add: get_digit_history_def Let_def last_n_def)
qed

text \<open>
  C34. Whatever ticks are pushed into a new ring, rejected ones included, the ring is the plain list
  of the last ticks accepted, as many as its capacity: the running frequency counts are the counts
  of the digits of that list, the running transition counts are the counts of its consecutive
  pairs, and the history of the last digits is the end of it. The constant-time updates and
  evictions never drift, and no assertion of the code fails.
\<close>

theorem ring_tracks_last_ticks:
  assumes "TickRingBuffer capacity = Inr r"
    and "digits_seen = map dt_last_digit (last_n (nat capacity) (accepted feed))"
  shows "rb_frequency_counts (push_all feed r) = map (\<lambda>d. count_digit (int d) digits_seen) [0..<10] \<and>
    rb_transition_counts (push_all feed r) =
      map (\<lambda>a. map (\<lambda>b. count_pair (int a) (int b) digits_seen) [0..<10]) [0..<10] \<and>
    (\<forall>limit\<ge>0. get_digit_history limit (push_all feed r) = Inr (last_n (nat limit) digits_seen))"
proof -
  have "ring_ok (push_all feed r)" "window (push_all feed r) = last_n (nat capacity) (accepted feed)"
    using new_ring [OF assms(1)] push_all_window [of r "[]" feed] by (auto simp: last_n_def)
  then show ?thesis
    using history_window
    by (auto simp: ring_ok_def window_digits_def assms(2) tally_def tally_pairs_def)
qed

definition demo_feed :: feed where
  "demo_feed = [(1, Quote False [1, 2, 7] (-2), 100), (2, Quote False [1, 2, 9] (-2), 101),
     (3, Quote True [1] 0, 102), (4, Quote False [1, 3, 0] (-2), 103)]"

lemma demo_accepted: "map dt_last_digit (last_n 2 (accepted demo_feed)) = [9, 0]"
  by (simp add: demo_feed_def checked_tick_def DigitTick_def quote_value_def raise_if_def last_n_def pow10_def)

theorem ring_tracks_last_ticks_witness:
  "\<exists>r. TickRingBuffer 2 = Inr r \<and>
     rb_frequency_counts (push_all demo_feed r) = [1, 0, 0, 0, 0, 0, 0, 0, 0, 1] \<and>
     get_digit_history 5 (push_all demo_feed r) = Inr [9, 0]"
proof -
  obtain r where r: "TickRingBuffer 2 = Inr r"
    by (simp add: TickRingBuffer_def)
  show ?thesis
    using r ring_tracks_last_ticks [OF r, of "[9, 0]" demo_feed] demo_accepted
    by (auto simp: upt_rec last_n_def)
qed

section \<open>Snapshots\<close>

text \<open>Reading back what \<open>to_payload\<close> writes, for a text of decimals that \<open>Decimal\<close> reads back.\<close>

lemma decimals_of_str:
  "\<forall>d\<in>set ds. Decimal_of (str_of d) = Some d \<Longrightarrow> decimals_of (map (PStr \<circ> str_of) ds) = Inr ds"
  by (induction ds) auto

lemma snapshot_roundtrip:
  assumes "\<forall>d\<in>set (fs_frequency_percentages s). Decimal_of (str_of d) = Some d"
  shows "snapshot_from_payload (snapshot_to_payload str_of s) = DigitFrequencySnapshot s"
  using decimals_of_str [OF assms]
  by (cases s) (auto simp: snapshot_from_payload_def snapshot_to_payload_def snapshot_fields_def get_item_def
      list_all_iff comp_def)

end
