(* ===== verification/CandleStore.thy ===== *)
theory CandleStore
  imports Domain "HOL-Library.Product_Lexorder" "HOL-Library.List_Lexorder" "HOL-Library.Char_ord"
begin

text \<open>
  Closed candles and the two stores behind the \<open>CandleStore\<close> protocol: the in-memory one
  (\<open>packages/market_data/store.py\<close>) and the SQLite one
  (\<open>packages/persistence/candle_repository.py\<close>), with the ingress in front of them
  (\<open>packages/market_data/ingress.py\<close>) and the candle types
  (\<open>packages/market_data/models.py\<close>). The digest of a canonical payload is an argument.
\<close>

section \<open>Candles\<close>

record candle_envelope =
  ce_broker :: broker
  ce_symbol :: string
  ce_timeframe_seconds :: int
  ce_open_time_ms :: int
  ce_close_time_ms :: int
  ce_open_units :: int
  ce_high_units :: int
  ce_low_units :: int
  ce_close_units :: int
  ce_price_scale :: int
  ce_is_closed :: bool
  ce_source :: string
  ce_source_event_id :: string
  ce_source_timestamp_ms :: int
  ce_received_timestamp_ms :: int

record closed_candle =
  cc_broker :: broker
  cc_symbol :: string
  cc_timeframe_seconds :: int
  cc_open_time_ms :: int
  cc_close_time_ms :: int
  cc_open_units :: int
  cc_high_units :: int
  cc_low_units :: int
  cc_close_units :: int
  cc_price_scale :: int
  cc_source :: string
  cc_source_event_id :: string
  cc_source_timestamp_ms :: int
  cc_received_timestamp_ms :: int
  cc_candle_id :: string

definition required_int :: "payload \<Rightarrow> string \<Rightarrow> exc + int" where
  "required_int p name = (let v = get_item p name in
     if is_int v then Inr (the_int v) else Inl (ValueError (name @ '' must be an integer'')))"

definition required_str :: "payload \<Rightarrow> string \<Rightarrow> exc + string" where
  "required_str p name = (let v = get_item p name in
     if is_str v \<and> \<not> blank (the_str v) then Inr (the_str v)
     else Inl (ValueError (name @ '' must be a non-empty string'')))"

definition envelope_fields :: "string set" where
  "envelope_fields = {''broker'', ''symbol'', ''timeframe_seconds'', ''open_time_ms'', ''close_time_ms'',
     ''open_units'', ''high_units'', ''low_units'', ''close_units'', ''price_scale'', ''is_closed'',
     ''source'', ''source_event_id'', ''source_timestamp_ms'', ''received_timestamp_ms''}"

fun is_bool :: "pyval \<Rightarrow> bool" where
  "is_bool (PBool b) = True"
| "is_bool _ = False"

fun the_bool :: "pyval \<Rightarrow> bool" where
  "the_bool (PBool b) = b"
| "the_bool _ = False"

definition envelope_from_external_payload :: "pyval \<Rightarrow> exc + candle_envelope" where
  "envelope_from_external_payload raw = (case raw of
     PDict p \<Rightarrow>
       and_then (raise_if (set (map fst p) \<noteq> envelope_fields)
         (ValueError ''candle payload schema is invalid'')) (\<lambda>_.
       and_then (raise_if (\<not> is_bool (get_item p ''is_closed''))
         (ValueError ''is_closed must be a boolean'')) (\<lambda>_.
       and_then (required_str p ''broker'') (\<lambda>b.
       and_then (broker_of b) (\<lambda>brk.
       and_then (required_str p ''symbol'') (\<lambda>symbol.
       and_then (required_int p ''timeframe_seconds'') (\<lambda>timeframe.
       and_then (required_int p ''open_time_ms'') (\<lambda>open_time.
       and_then (required_int p ''close_time_ms'') (\<lambda>close_time.
       and_then (required_int p ''open_units'') (\<lambda>open_units.
       and_then (required_int p ''high_units'') (\<lambda>high.
       and_then (required_int p ''low_units'') (\<lambda>low.
       and_then (required_int p ''close_units'') (\<lambda>close.
       and_then (required_int p ''price_scale'') (\<lambda>scale.
       and_then (required_str p ''source'') (\<lambda>source.
       and_then (required_str p ''source_event_id'') (\<lambda>event_id.
       and_then (required_int p ''source_timestamp_ms'') (\<lambda>source_ms.
       and_then (required_int p ''received_timestamp_ms'') (\<lambda>received_ms.
       Inr \<lparr>ce_broker = brk, ce_symbol = symbol, ce_timeframe_seconds = timeframe,
         ce_open_time_ms = open_time, ce_close_time_ms = close_time, ce_open_units = open_units,
         ce_high_units = high, ce_low_units = low, ce_close_units = close, ce_price_scale = scale,
         ce_is_closed = the_bool (get_item p ''is_closed''), ce_source = source,
         ce_source_event_id = event_id, ce_source_timestamp_ms = source_ms,
         ce_received_timestamp_ms = received_ms\<rparr>)))))))))))))))))
   | _ \<Rightarrow> Inl (ValueError ''candle payload must be an object''))"

definition envelope_from_closed_candle :: "closed_candle \<Rightarrow> candle_envelope" where
  "envelope_from_closed_candle c =
     \<lparr>ce_broker = cc_broker c, ce_symbol = cc_symbol c, ce_timeframe_seconds = cc_timeframe_seconds c,
      ce_open_time_ms = cc_open_time_ms c, ce_close_time_ms = cc_close_time_ms c,
      ce_open_units = cc_open_units c, ce_high_units = cc_high_units c, ce_low_units = cc_low_units c,
      ce_close_units = cc_close_units c, ce_price_scale = cc_price_scale c, ce_is_closed = True,
      ce_source = cc_source c, ce_source_event_id = cc_source_event_id c,
      ce_source_timestamp_ms = cc_source_timestamp_ms c,
      ce_received_timestamp_ms = cc_received_timestamp_ms c\<rparr>"

type_synonym series_key = "broker \<times> string \<times> int"

definition cc_series_key :: "closed_candle \<Rightarrow> series_key" where
  "cc_series_key c = (cc_broker c, cc_symbol c, cc_timeframe_seconds c)"

definition candle_identity :: "closed_candle \<Rightarrow> payload" where
  "candle_identity c =
     [(''broker'', PStr (broker_value (cc_broker c))), (''close_time_ms'', PInt (cc_close_time_ms c)),
      (''close_units'', PInt (cc_close_units c)), (''high_units'', PInt (cc_high_units c)),
      (''low_units'', PInt (cc_low_units c)), (''open_time_ms'', PInt (cc_open_time_ms c)),
      (''open_units'', PInt (cc_open_units c)), (''price_scale'', PInt (cc_price_scale c)),
      (''symbol'', PStr (cc_symbol c)), (''timeframe_seconds'', PInt (cc_timeframe_seconds c))]"

definition compute_candle_id :: "(payload \<Rightarrow> string) \<Rightarrow> closed_candle \<Rightarrow> string" where
  "compute_candle_id sha c = sha (candle_identity c)"

text \<open>The constructor: its checks, then the computed id.\<close>

definition ClosedCandle :: "(payload \<Rightarrow> string) \<Rightarrow> closed_candle \<Rightarrow> exc + closed_candle" where
  "ClosedCandle sha c =
     and_then (raise_if (blank (cc_symbol c)) (ValueError ''symbol cannot be empty'')) (\<lambda>_.
     and_then (raise_if (blank (cc_source c)) (ValueError ''source cannot be empty'')) (\<lambda>_.
     and_then (raise_if (blank (cc_source_event_id c)) (ValueError ''source_event_id cannot be empty'')) (\<lambda>_.
     and_then (raise_if (cc_timeframe_seconds c \<le> 0 \<or> cc_price_scale c \<le> 0)
       (ValueError ''timeframe and price scale must be positive'')) (\<lambda>_.
     and_then (raise_if (cc_open_time_ms c < 0 \<or> cc_close_time_ms c \<le> cc_open_time_ms c)
       (ValueError ''candle timestamps are invalid'')) (\<lambda>_.
     and_then (raise_if (cc_close_time_ms c - cc_open_time_ms c \<noteq> cc_timeframe_seconds c * 1000)
       (ValueError ''candle duration does not match timeframe'')) (\<lambda>_.
     and_then (raise_if (cc_source_timestamp_ms c < 0 \<or> cc_received_timestamp_ms c < 0)
       (ValueError ''source and received timestamps cannot be negative'')) (\<lambda>_.
     and_then (raise_if (list_ex (\<lambda>price. price \<le> 0)
         [cc_open_units c, cc_high_units c, cc_low_units c, cc_close_units c])
       (ValueError ''candle prices must be positive integers'')) (\<lambda>_.
     and_then (raise_if (\<not> (cc_low_units c \<le> cc_open_units c \<and> cc_open_units c \<le> cc_high_units c \<and>
         cc_low_units c \<le> cc_close_units c \<and> cc_close_units c \<le> cc_high_units c))
       (ValueError ''candle OHLC range is inconsistent'')) (\<lambda>_.
     Inr (c\<lparr>cc_candle_id := compute_candle_id sha c\<rparr>))))))))))"

definition candle_from_envelope :: "(payload \<Rightarrow> string) \<Rightarrow> candle_envelope \<Rightarrow> exc + closed_candle" where
  "candle_from_envelope sha e =
     (if \<not> ce_is_closed e then Inl (ValueError ''open candle cannot enter the closed candle domain'')
      else ClosedCandle sha \<lparr>cc_broker = ce_broker e, cc_symbol = ce_symbol e,
        cc_timeframe_seconds = ce_timeframe_seconds e, cc_open_time_ms = ce_open_time_ms e,
        cc_close_time_ms = ce_close_time_ms e, cc_open_units = ce_open_units e,
        cc_high_units = ce_high_units e, cc_low_units = ce_low_units e,
        cc_close_units = ce_close_units e, cc_price_scale = ce_price_scale e, cc_source = ce_source e,
        cc_source_event_id = ce_source_event_id e, cc_source_timestamp_ms = ce_source_timestamp_ms e,
        cc_received_timestamp_ms = ce_received_timestamp_ms e, cc_candle_id = []\<rparr>)"

section \<open>The store in memory\<close>

datatype candle_store_outcome = STORED | DUPLICATE | OUT_OF_ORDER | GAPPED

record candle_store =
  ms_max_candles :: int
  ms_ids :: "string set"
  ms_series :: "series_key \<Rightarrow> closed_candle list"

definition InMemoryCandleStore :: "int \<Rightarrow> exc + candle_store" where
  "InMemoryCandleStore max_candles =
     (if max_candles \<le> 0 then Inl (ValueError ''max_candles must be positive'')
      else Inr \<lparr>ms_max_candles = max_candles, ms_ids = {}, ms_series = (\<lambda>_. [])\<rparr>)"

text \<open>Where a candle falls after the last close of its series.\<close>

definition append_order :: "int option \<Rightarrow> closed_candle \<Rightarrow> candle_store_outcome" where
  "append_order last_close c = (case last_close of
     None \<Rightarrow> STORED
   | Some t \<Rightarrow> if cc_close_time_ms c \<le> t \<or> cc_open_time_ms c < t then OUT_OF_ORDER
       else if cc_open_time_ms c \<noteq> t then GAPPED else STORED)"

definition last_close_of :: "closed_candle list \<Rightarrow> int option" where
  "last_close_of cs = (if cs = [] then None else Some (cc_close_time_ms (last cs)))"

definition memory_append ::
  "closed_candle \<Rightarrow> candle_store \<Rightarrow> (exc + candle_store_outcome) \<times> candle_store" where
  "memory_append c s =
     (if cc_candle_id c \<in> ms_ids s then (Inr DUPLICATE, s)
      else let candles = ms_series s (cc_series_key c); placed = append_order (last_close_of candles) c in
        if placed \<noteq> STORED then (Inr placed, s)
        else if ms_max_candles s \<le> int (card (ms_ids s))
        then (Inl (CandleStoreFullError ''candle store capacity reached''), s)
        else (Inr STORED, s\<lparr>ms_series := (ms_series s)(cc_series_key c := candles @ [c]),
          ms_ids := insert (cc_candle_id c) (ms_ids s)\<rparr>))"

definition memory_contains :: "string \<Rightarrow> candle_store \<Rightarrow> bool" where
  "memory_contains candle_id s \<longleftrightarrow> candle_id \<in> ms_ids s"

definition in_range :: "int option \<Rightarrow> int option \<Rightarrow> int \<Rightarrow> bool" where
  "in_range start end t \<longleftrightarrow>
     (case start of None \<Rightarrow> True | Some a \<Rightarrow> a \<le> t) \<and> (case end of None \<Rightarrow> True | Some b \<Rightarrow> t \<le> b)"

definition memory_range :: "series_key \<Rightarrow> int option \<Rightarrow> int option \<Rightarrow> candle_store \<Rightarrow> closed_candle list" where
  "memory_range key start end s =
     filter (\<lambda>c. in_range start end (cc_close_time_ms c)) (ms_series s key)"

section \<open>The store in SQLite\<close>

record candle_row =
  cr_candle_id :: string
  cr_broker :: string
  cr_symbol :: string
  cr_timeframe_seconds :: int
  cr_open_time_ms :: int
  cr_close_time_ms :: int
  cr_open_units :: int
  cr_high_units :: int
  cr_low_units :: int
  cr_close_units :: int
  cr_price_scale :: int
  cr_source :: string
  cr_source_event_id :: string
  cr_source_timestamp_ms :: int
  cr_received_timestamp_ms :: int
  cr_inserted_at_ms :: int

text \<open>The constraints of the table: its checks, the primary key and the unique index on the close.\<close>

definition row_checks :: "candle_row \<Rightarrow> bool" where
  "row_checks r \<longleftrightarrow> 0 < cr_timeframe_seconds r \<and> 0 \<le> cr_open_time_ms r \<and>
     cr_open_time_ms r < cr_close_time_ms r \<and> 0 < cr_open_units r \<and> 0 < cr_high_units r \<and>
     0 < cr_low_units r \<and> 0 < cr_close_units r \<and> 0 < cr_price_scale r \<and>
     0 \<le> cr_source_timestamp_ms r \<and> 0 \<le> cr_received_timestamp_ms r \<and> 0 \<le> cr_inserted_at_ms r"

definition row_series :: "candle_row \<Rightarrow> string \<times> string \<times> int" where
  "row_series r = (cr_broker r, cr_symbol r, cr_timeframe_seconds r)"

definition insert_candle :: "candle_row \<Rightarrow> candle_row list \<Rightarrow> exc + candle_row list" where
  "insert_candle r rows =
     (if \<not> row_checks r \<or>
         list_ex (\<lambda>q. cr_candle_id q = cr_candle_id r) rows \<or>
         list_ex (\<lambda>q. row_series q = row_series r \<and> cr_close_time_ms q = cr_close_time_ms r) rows
      then Inl (StrategyDataError ''strategy data transaction failed'') else Inr (rows @ [r]))"

definition candle_row_of :: "closed_candle \<Rightarrow> candle_row" where
  "candle_row_of c =
     \<lparr>cr_candle_id = cc_candle_id c, cr_broker = broker_value (cc_broker c), cr_symbol = cc_symbol c,
      cr_timeframe_seconds = cc_timeframe_seconds c, cr_open_time_ms = cc_open_time_ms c,
      cr_close_time_ms = cc_close_time_ms c, cr_open_units = cc_open_units c,
      cr_high_units = cc_high_units c, cr_low_units = cc_low_units c,
      cr_close_units = cc_close_units c, cr_price_scale = cc_price_scale c, cr_source = cc_source c,
      cr_source_event_id = cc_source_event_id c, cr_source_timestamp_ms = cc_source_timestamp_ms c,
      cr_received_timestamp_ms = cc_received_timestamp_ms c,
      cr_inserted_at_ms = cc_received_timestamp_ms c\<rparr>"

definition series_values :: "closed_candle \<Rightarrow> string \<times> string \<times> int" where
  "series_values c = (broker_value (cc_broker c), cc_symbol c, cc_timeframe_seconds c)"

type_synonym row_id = "(string \<times> string \<times> int) \<times> int \<times> int \<times> (int \<times> int \<times> int \<times> int) \<times> int"

definition identity_tuple :: "closed_candle \<Rightarrow> row_id" where
  "identity_tuple c = (series_values c, cc_open_time_ms c, cc_close_time_ms c,
     (cc_open_units c, cc_high_units c, cc_low_units c, cc_close_units c), cc_price_scale c)"

definition row_identity :: "candle_row \<Rightarrow> row_id" where
  "row_identity r = (row_series r, cr_open_time_ms r, cr_close_time_ms r,
     (cr_open_units r, cr_high_units r, cr_low_units r, cr_close_units r), cr_price_scale r)"

definition candle_from_row :: "(payload \<Rightarrow> string) \<Rightarrow> candle_row \<Rightarrow> exc + closed_candle" where
  "candle_from_row sha r =
     and_then (broker_of (cr_broker r)) (\<lambda>brk.
     and_then (ClosedCandle sha \<lparr>cc_broker = brk, cc_symbol = cr_symbol r,
       cc_timeframe_seconds = cr_timeframe_seconds r, cc_open_time_ms = cr_open_time_ms r,
       cc_close_time_ms = cr_close_time_ms r, cc_open_units = cr_open_units r,
       cc_high_units = cr_high_units r, cc_low_units = cr_low_units r,
       cc_close_units = cr_close_units r, cc_price_scale = cr_price_scale r,
       cc_source = cr_source r, cc_source_event_id = cr_source_event_id r,
       cc_source_timestamp_ms = cr_source_timestamp_ms r,
       cc_received_timestamp_ms = cr_received_timestamp_ms r, cc_candle_id = []\<rparr>) (\<lambda>c.
     if cc_candle_id c \<noteq> cr_candle_id r then Inl (CandleConflictError ''persisted candle hash is invalid'')
     else Inr c))"

datatype candle_append_result = CA_STORED | CA_ALREADY_EXISTS

definition sqlite_store ::
  "closed_candle \<Rightarrow> candle_row list \<Rightarrow> (exc + candle_append_result) \<times> candle_row list" where
  "sqlite_store c rows = (case List.find (\<lambda>r. cr_candle_id r = cc_candle_id c) rows of
     Some r \<Rightarrow>
       (if row_identity r \<noteq> identity_tuple c
        then Inl (CandleConflictError ''candle id has incompatible persisted content'')
        else Inr CA_ALREADY_EXISTS, rows)
   | None \<Rightarrow>
       if list_ex (\<lambda>r. row_series r = series_values c \<and> cr_close_time_ms r = cc_close_time_ms c) rows
       then (Inl (CandleConflictError ''candle stream close already has different content''), rows)
       else (case insert_candle (candle_row_of c) rows of
           Inl e \<Rightarrow> (Inl e, rows) | Inr rows' \<Rightarrow> (Inr CA_STORED, rows')))"

definition sqlite_get :: "(payload \<Rightarrow> string) \<Rightarrow> string \<Rightarrow> candle_row list \<Rightarrow> exc + closed_candle option" where
  "sqlite_get sha candle_id rows = (case List.find (\<lambda>r. cr_candle_id r = candle_id) rows of
     None \<Rightarrow> Inr None | Some r \<Rightarrow> and_then (candle_from_row sha r) (\<lambda>c. Inr (Some c)))"

text \<open>\<open>ORDER BY close_time_ms DESC LIMIT 1\<close> on the rows of a series.\<close>

definition latest_close :: "string \<times> string \<times> int \<Rightarrow> candle_row list \<Rightarrow> int option" where
  "latest_close key rows = (let closes = map cr_close_time_ms (filter (\<lambda>r. row_series r = key) rows) in
     if closes = [] then None else Some (Max (set closes)))"

definition sqlite_append ::
  "(payload \<Rightarrow> string) \<Rightarrow> closed_candle \<Rightarrow> candle_row list \<Rightarrow>
     (exc + candle_store_outcome) \<times> candle_row list" where
  "sqlite_append sha c rows = (case sqlite_get sha (cc_candle_id c) rows of
     Inl e \<Rightarrow> (Inl e, rows)
   | Inr (Some existing) \<Rightarrow>
       (if identity_tuple existing \<noteq> identity_tuple c
        then Inl (CandleConflictError ''candle id has incompatible persisted content'')
        else Inr DUPLICATE, rows)
   | Inr None \<Rightarrow>
       let placed = append_order (latest_close (series_values c) rows) c in
       if placed \<noteq> STORED then (Inr placed, rows)
       else (case sqlite_store c rows of
           (Inl e, rows') \<Rightarrow> (Inl e, rows')
         | (Inr CA_STORED, rows') \<Rightarrow> (Inr STORED, rows')
         | (Inr CA_ALREADY_EXISTS, rows') \<Rightarrow> (Inr DUPLICATE, rows')))"

definition sqlite_contains :: "(payload \<Rightarrow> string) \<Rightarrow> string \<Rightarrow> candle_row list \<Rightarrow> exc + bool" where
  "sqlite_contains sha candle_id rows = and_then (sqlite_get sha candle_id rows) (\<lambda>c. Inr (c \<noteq> None))"

fun candles_from_rows :: "(payload \<Rightarrow> string) \<Rightarrow> candle_row list \<Rightarrow> exc + closed_candle list" where
  "candles_from_rows sha [] = Inr []"
| "candles_from_rows sha (r # rs) =
     and_then (candle_from_row sha r) (\<lambda>c. and_then (candles_from_rows sha rs) (\<lambda>cs. Inr (c # cs)))"

definition sqlite_range ::
  "(payload \<Rightarrow> string) \<Rightarrow> series_key \<Rightarrow> int option \<Rightarrow> int option \<Rightarrow> candle_row list \<Rightarrow>
     exc + closed_candle list" where
  "sqlite_range sha key start end rows = (case key of (brk, symbol, timeframe) \<Rightarrow>
     candles_from_rows sha (sort_key (\<lambda>r. (cr_close_time_ms r, cr_candle_id r))
       (filter (\<lambda>r. row_series r = (broker_value brk, symbol, timeframe) \<and>
          in_range start end (cr_close_time_ms r)) rows)))"

section \<open>Ingress\<close>

datatype ingress_status = IN_ACCEPTED | IN_DUPLICATE | IN_OUT_OF_ORDER | IN_INVALID

record ingress_result =
  ir_status :: ingress_status
  ir_reason_code :: string
  ir_candle :: "closed_candle option"

definition rejected_candle :: "string \<Rightarrow> ingress_result" where
  "rejected_candle reason = \<lparr>ir_status = IN_INVALID, ir_reason_code = reason, ir_candle = None\<rparr>"

definition outcome_result :: "candle_store_outcome \<Rightarrow> closed_candle \<Rightarrow> ingress_result" where
  "outcome_result out c = (case out of
     STORED \<Rightarrow> \<lparr>ir_status = IN_ACCEPTED, ir_reason_code = ''CANDLE_ACCEPTED'', ir_candle = Some c\<rparr>
   | DUPLICATE \<Rightarrow> \<lparr>ir_status = IN_DUPLICATE, ir_reason_code = ''CANDLE_DUPLICATE'', ir_candle = Some c\<rparr>
   | OUT_OF_ORDER \<Rightarrow>
       \<lparr>ir_status = IN_OUT_OF_ORDER, ir_reason_code = ''CANDLE_OUT_OF_ORDER'', ir_candle = Some c\<rparr>
   | GAPPED \<Rightarrow> \<lparr>ir_status = IN_INVALID, ir_reason_code = ''CANDLE_GAP'', ir_candle = Some c\<rparr>)"

text \<open>The ingress over any store: \<open>append\<close> is an argument.\<close>

type_synonym 's store_append = "closed_candle \<Rightarrow> 's \<Rightarrow> (exc + candle_store_outcome) \<times> 's"

definition ingest_candle :: "'s store_append \<Rightarrow> closed_candle \<Rightarrow> 's \<Rightarrow> (exc + ingress_result) \<times> 's" where
  "ingest_candle put c s = (case put c s of
     (Inl (CandleStoreFullError m), s') \<Rightarrow> (Inr (rejected_candle ''MARKET_CANDLE_STORE_CAPACITY''), s')
   | (Inl e, s') \<Rightarrow> (Inl e, s')
   | (Inr out, s') \<Rightarrow> (Inr (outcome_result out c), s'))"

definition ingest_envelope ::
  "(payload \<Rightarrow> string) \<Rightarrow> 's store_append \<Rightarrow> candle_envelope \<Rightarrow> 's \<Rightarrow> (exc + ingress_result) \<times> 's" where
  "ingest_envelope sha put e s = (case candle_from_envelope sha e of
     Inl _ \<Rightarrow> (Inr (rejected_candle ''MARKET_CANDLE_NOT_CLOSED_OR_INVALID''), s)
   | Inr c \<Rightarrow> ingest_candle put c s)"

definition ingest_external ::
  "(payload \<Rightarrow> string) \<Rightarrow> 's store_append \<Rightarrow> pyval \<Rightarrow> 's \<Rightarrow> (exc + ingress_result) \<times> 's" where
  "ingest_external sha put raw s = (case envelope_from_external_payload raw of
     Inl _ \<Rightarrow> (Inr (rejected_candle ''MARKET_CANDLE_PAYLOAD_INVALID''), s)
   | Inr e \<Rightarrow> ingest_envelope sha put e s)"

section \<open>Valid candles and gap-free series\<close>

declare split_paired_All [simp del] split_paired_Ex [simp del]

text \<open>A candle as the constructor leaves it: checked, with its own id.\<close>

definition valid_candle :: "(payload \<Rightarrow> string) \<Rightarrow> closed_candle \<Rightarrow> bool" where
  "valid_candle sha c \<longleftrightarrow> ClosedCandle sha c = Inr c"

lemma constructed_valid: "ClosedCandle sha c = Inr c' \<Longrightarrow> valid_candle sha c'"
  by (cases c) (auto simp: valid_candle_def ClosedCandle_def compute_candle_id_def candle_identity_def raises)

lemma valid_candle_iff:
  "valid_candle sha c \<longleftrightarrow>
     \<not> blank (cc_symbol c) \<and> \<not> blank (cc_source c) \<and> \<not> blank (cc_source_event_id c) \<and>
     0 < cc_timeframe_seconds c \<and> 0 < cc_price_scale c \<and> 0 \<le> cc_open_time_ms c \<and>
     cc_close_time_ms c = cc_open_time_ms c + cc_timeframe_seconds c * 1000 \<and>
     0 \<le> cc_source_timestamp_ms c \<and> 0 \<le> cc_received_timestamp_ms c \<and> 0 < cc_low_units c \<and>
     cc_low_units c \<le> cc_open_units c \<and> cc_open_units c \<le> cc_high_units c \<and>
     cc_low_units c \<le> cc_close_units c \<and> cc_close_units c \<le> cc_high_units c \<and>
     cc_candle_id c = compute_candle_id sha c"
  by (cases c) (auto simp: valid_candle_def ClosedCandle_def raises compute_candle_id_def candle_identity_def)

text \<open>Each candle opens when the one before it closes.\<close>

fun gap_free :: "closed_candle list \<Rightarrow> bool" where
  "gap_free (a # b # cs) \<longleftrightarrow> cc_open_time_ms b = cc_close_time_ms a \<and> gap_free (b # cs)"
| "gap_free _ \<longleftrightarrow> True"

lemma gap_free_snoc:
  "gap_free (cs @ [c]) \<longleftrightarrow>
     gap_free cs \<and> (cs \<noteq> [] \<longrightarrow> cc_open_time_ms c = cc_close_time_ms (last cs))"
  by (induction cs rule: gap_free.induct) auto

lemma append_order_stored:
  "append_order (last_close_of cs) c = STORED \<Longrightarrow> gap_free cs \<Longrightarrow> gap_free (cs @ [c])"
  by (auto simp: append_order_def last_close_of_def gap_free_snoc split: if_splits)

lemma gap_free_position:
  assumes "gap_free cs" "\<forall>c\<in>set cs. valid_candle sha c \<and> cc_timeframe_seconds c = tf" "i < length cs"
  shows "cc_open_time_ms (cs ! i) = cc_open_time_ms (hd cs) + int i * (tf * 1000)"
  using assms
proof (induction cs arbitrary: i rule: gap_free.induct)
  case (1 a b cs)
  show ?case
  proof (cases i)
    case (Suc j)
    then have "cc_open_time_ms ((b # cs) ! j) = cc_open_time_ms b + int j * (tf * 1000)"
      using "1.IH" [of j] "1.prems" by simp
    moreover have "cc_open_time_ms b = cc_open_time_ms a + tf * 1000"
      using "1.prems"(1,2) by (auto simp: valid_candle_iff)
    ultimately show ?thesis using Suc by (simp add: algebra_simps)
  qed simp
qed auto

section \<open>What a candle store promises\<close>

text \<open>
  The contract of \<open>CandleStore\<close>: \<open>put\<close> is \<open>append\<close> and \<open>series\<close> the candles of a
  series in order. A candle is appended to its own series, when the store says so and only then,
  and only where it follows the last one.
\<close>

definition contiguous :: "('s \<Rightarrow> bool) \<Rightarrow> ('s \<Rightarrow> series_key \<Rightarrow> closed_candle list) \<Rightarrow> 's \<Rightarrow> bool" where
  "contiguous ok series s \<longleftrightarrow> ok s \<and> (\<forall>key. gap_free (series s key))"

locale candle_log =
  fixes sha :: "payload \<Rightarrow> string"
    and put :: "closed_candle \<Rightarrow> 's \<Rightarrow> (exc + candle_store_outcome) \<times> 's"
    and series :: "'s \<Rightarrow> series_key \<Rightarrow> closed_candle list"
    and ok :: "'s \<Rightarrow> bool"
  assumes put_ok: "ok s \<Longrightarrow> valid_candle sha c \<Longrightarrow> ok (snd (put c s))"
    and put_series: "ok s \<Longrightarrow> valid_candle sha c \<Longrightarrow> series (snd (put c s)) key =
      series s key @ (if fst (put c s) = Inr STORED \<and> key = cc_series_key c then [c] else [])"
    and put_follows: "ok s \<Longrightarrow> valid_candle sha c \<Longrightarrow> fst (put c s) = Inr STORED \<Longrightarrow>
      append_order (last_close_of (series s (cc_series_key c))) c = STORED"
    and series_valid: "ok s \<Longrightarrow> c \<in> set (series s key) \<Longrightarrow> valid_candle sha c \<and> cc_series_key c = key"
begin

lemma put_contiguous:
  assumes "contiguous ok series s" "valid_candle sha c"
  shows "contiguous ok series (snd (put c s))"
proof -
  have "gap_free (series (snd (put c s)) key)" for key
    using assms put_series [of s c key] append_order_stored [OF put_follows [of s c]]
    by (cases "fst (put c s) = Inr STORED \<and> key = cc_series_key c") (auto simp: contiguous_def)
  then show ?thesis
    using assms by (simp add: contiguous_def put_ok)
qed

lemma ingest_contiguous:
  assumes "contiguous ok series s"
  shows "contiguous ok series (snd (ingest_external sha put raw s))"
    and "contiguous ok series (snd (ingest_envelope sha put e s))"
proof -
  have candle: "snd (ingest_candle put c s) = snd (put c s)" for c
    by (auto simp: ingest_candle_def split: prod.split sum.split exc.split)
  show envelope: "contiguous ok series (snd (ingest_envelope sha put e s))" for e
    using assms put_contiguous [OF assms constructed_valid]
    by (auto simp: ingest_envelope_def candle candle_from_envelope_def split: sum.split if_splits)
  show "contiguous ok series (snd (ingest_external sha put raw s))"
    using assms envelope by (simp add: ingest_external_def split: sum.split)
qed

text \<open>The ingress accepts a candle exactly when it becomes the last one of its series.\<close>

lemma ingest_accepts:
  assumes "ok s" "fst (ingest_envelope sha put e s) = Inr r" "ir_status r = IN_ACCEPTED"
  shows "\<exists>c. candle_from_envelope sha e = Inr c \<and> ir_candle r = Some c \<and>
    series (snd (ingest_envelope sha put e s)) (cc_series_key c) = series s (cc_series_key c) @ [c]"
proof -
  obtain c where c: "candle_from_envelope sha e = Inr c"
    using assms(2,3) by (cases "candle_from_envelope sha e")
      (auto simp: ingest_envelope_def rejected_candle_def)
  then have valid: "valid_candle sha c"
    by (auto simp: candle_from_envelope_def dest: constructed_valid split: if_splits)
  have "fst (put c s) = Inr STORED \<and> ir_candle r = Some c"
    using assms(2,3) c
    by (auto simp: ingest_envelope_def ingest_candle_def rejected_candle_def outcome_result_def
        split: prod.splits sum.splits exc.splits candle_store_outcome.splits)
  moreover have "snd (ingest_envelope sha put e s) = snd (put c s)"
    using c by (auto simp: ingest_envelope_def ingest_candle_def split: prod.split sum.split exc.split)
  ultimately show ?thesis
    using c put_series [OF assms(1) valid] by simp
qed

text \<open>Every candle of a series sits at its place in time.\<close>

lemma series_position:
  assumes "contiguous ok series s" "i < length (series s (brk, symbol, tf))"
  shows "valid_candle sha (series s (brk, symbol, tf) ! i) \<and>
    cc_open_time_ms (series s (brk, symbol, tf) ! i) =
      cc_open_time_ms (hd (series s (brk, symbol, tf))) + int i * (tf * 1000)"
proof -
  have "\<forall>c\<in>set (series s (brk, symbol, tf)). valid_candle sha c \<and> cc_timeframe_seconds c = tf"
    using assms(1) series_valid by (auto simp: contiguous_def cc_series_key_def)
  moreover have "gap_free (series s (brk, symbol, tf))"
    using assms(1) by (simp add: contiguous_def)
  ultimately show ?thesis
    using assms(2) gap_free_position [of "series s (brk, symbol, tf)" sha tf i] by simp
qed

end

subsection \<open>The store in memory\<close>

definition memory_ok :: "(payload \<Rightarrow> string) \<Rightarrow> candle_store \<Rightarrow> bool" where
  "memory_ok sha s \<longleftrightarrow> finite (ms_ids s) \<and> int (card (ms_ids s)) \<le> ms_max_candles s \<and>
     (\<forall>key. \<forall>c\<in>set (ms_series s key). valid_candle sha c \<and> cc_series_key c = key \<and> cc_candle_id c \<in> ms_ids s)"

lemma memory_append_stored:
  "fst (memory_append c s) = Inr STORED \<Longrightarrow>
     append_order (last_close_of (ms_series s (cc_series_key c))) c = STORED \<and>
     cc_candle_id c \<notin> ms_ids s \<and> int (card (ms_ids s)) < ms_max_candles s \<and>
     snd (memory_append c s) = s\<lparr>ms_series := (ms_series s)(cc_series_key c := ms_series s (cc_series_key c) @ [c]),
       ms_ids := insert (cc_candle_id c) (ms_ids s)\<rparr>"
  by (auto simp: memory_append_def Let_def split: if_splits)

lemma memory_append_same: "fst (memory_append c s) \<noteq> Inr STORED \<Longrightarrow> snd (memory_append c s) = s"
  by (auto simp: memory_append_def Let_def split: if_splits)

interpretation memory_log: candle_log sha memory_append ms_series "memory_ok sha" for sha
proof
  fix s c key
  assume ok: "memory_ok sha s" and c: "valid_candle sha c"
  show "memory_ok sha (snd (memory_append c s))"
    using ok c memory_append_stored [of c s] memory_append_same [of c s]
    by (cases "fst (memory_append c s) = Inr STORED") (auto simp: memory_ok_def)
  show "ms_series (snd (memory_append c s)) key = ms_series s key @
      (if fst (memory_append c s) = Inr STORED \<and> key = cc_series_key c then [c] else [])"
    using memory_append_stored [of c s] memory_append_same [of c s]
    by (cases "fst (memory_append c s) = Inr STORED") auto
next
  fix s c
  assume "fst (memory_append c s) = Inr STORED"
  then show "append_order (last_close_of (ms_series s (cc_series_key c))) c = STORED"
    using memory_append_stored by blast
qed (auto simp: memory_ok_def)

subsection \<open>The store in SQLite\<close>

definition sql_key :: "series_key \<Rightarrow> string \<times> string \<times> int" where
  "sql_key key = (case key of (brk, symbol, tf) \<Rightarrow> (broker_value brk, symbol, tf))"

definition row_candle :: "(payload \<Rightarrow> string) \<Rightarrow> candle_row \<Rightarrow> closed_candle" where
  "row_candle sha r = (case candle_from_row sha r of Inr c \<Rightarrow> c)"

definition rows_of :: "series_key \<Rightarrow> candle_row list \<Rightarrow> candle_row list" where
  "rows_of key rows = filter (\<lambda>r. row_series r = sql_key key) rows"

definition sqlite_series :: "(payload \<Rightarrow> string) \<Rightarrow> candle_row list \<Rightarrow> series_key \<Rightarrow> closed_candle list" where
  "sqlite_series sha rows key = map (row_candle sha) (rows_of key rows)"

definition sqlite_ok :: "(payload \<Rightarrow> string) \<Rightarrow> candle_row list \<Rightarrow> bool" where
  "sqlite_ok sha rows \<longleftrightarrow> (\<forall>r\<in>set rows. \<exists>c. valid_candle sha c \<and> r = candle_row_of c) \<and>
     (\<forall>key. gap_free (sqlite_series sha rows key))"

lemma broker_value_inj [simp]: "broker_value a = broker_value b \<longleftrightarrow> a = b"
  by (cases a; cases b) simp_all

lemma sql_key_inj [simp]: "sql_key a = sql_key b \<longleftrightarrow> a = b"
  by (auto simp: sql_key_def split: prod.splits)

lemma row_series_of [simp]: "row_series (candle_row_of c) = sql_key (cc_series_key c)"
  by (simp add: row_series_def candle_row_of_def sql_key_def cc_series_key_def)

lemma series_values_key [simp]: "series_values c = sql_key (cc_series_key c)"
  by (simp add: series_values_def sql_key_def cc_series_key_def)

lemma row_of_fields [simp]:
  "cr_candle_id (candle_row_of c) = cc_candle_id c"
  "cr_close_time_ms (candle_row_of c) = cc_close_time_ms c"
  by (simp_all add: candle_row_of_def)

lemma row_identity_of: "row_identity (candle_row_of c) = identity_tuple c"
  by (simp add: row_identity_def identity_tuple_def) (simp add: candle_row_of_def)

text \<open>Reading back the row of a valid candle.\<close>

lemma candle_from_row_of: "valid_candle sha c \<Longrightarrow> candle_from_row sha (candle_row_of c) = Inr c"
  by (cases c) (auto simp: candle_from_row_def candle_row_of_def valid_candle_iff ClosedCandle_def
      raise_if_def compute_candle_id_def candle_identity_def)

lemma row_candle_of [simp]: "valid_candle sha c \<Longrightarrow> row_candle sha (candle_row_of c) = c"
  by (simp add: row_candle_def candle_from_row_of)

lemma rows_of_key: "r \<in> set (rows_of key rows) \<Longrightarrow> sqlite_ok sha rows \<Longrightarrow>
  \<exists>c. valid_candle sha c \<and> r = candle_row_of c \<and> cc_series_key c = key"
  by (fastforce simp: rows_of_def sqlite_ok_def)

lemma sqlite_series_closes:
  assumes "sqlite_ok sha rows"
  shows "map cc_close_time_ms (sqlite_series sha rows key) = map cr_close_time_ms (rows_of key rows)"
  using rows_of_key [OF _ assms, of _ key] by (fastforce simp: sqlite_series_def)

lemma gap_free_last_max:
  assumes "gap_free cs" "\<forall>c\<in>set cs. valid_candle sha c" "cs \<noteq> []"
  shows "Max (set (map cc_close_time_ms cs)) = cc_close_time_ms (last cs)"
  using assms
proof (induction cs rule: gap_free.induct)
  case (1 a b cs)
  then have "Max (set (map cc_close_time_ms (b # cs))) = cc_close_time_ms (last (b # cs))"
    by simp
  moreover have "cc_close_time_ms a < cc_close_time_ms b"
    using "1.prems" by (auto simp: valid_candle_iff)
  then have "cc_close_time_ms a \<le> Max (set (map cc_close_time_ms (b # cs)))"
    by (intro order.trans [OF less_imp_le Max_ge]) auto
  ultimately show ?case by (simp add: max_def)
qed auto

lemma latest_close_series:
  assumes "sqlite_ok sha rows"
  shows "latest_close (sql_key key) rows = last_close_of (sqlite_series sha rows key)"
proof -
  let ?cs = "sqlite_series sha rows key"
  have "\<forall>c\<in>set ?cs. valid_candle sha c"
    using rows_of_key [OF _ assms, of _ key] by (fastforce simp: sqlite_series_def)
  moreover have "gap_free ?cs"
    using assms by (simp add: sqlite_ok_def)
  moreover have "latest_close (sql_key key) rows =
      (if map cc_close_time_ms ?cs = [] then None else Some (Max (set (map cc_close_time_ms ?cs))))"
    unfolding sqlite_series_closes [OF assms] by (simp add: latest_close_def Let_def rows_of_def)
  ultimately show ?thesis
    using gap_free_last_max [of ?cs sha] by (auto simp: last_close_of_def)
qed

text \<open>Appending to the table, by what the lookup of the id finds.\<close>

lemma sqlite_find:
  assumes "sqlite_ok sha rows" "List.find (\<lambda>r. cr_candle_id r = i) rows = Some r"
  shows "\<exists>c. valid_candle sha c \<and> cc_candle_id c = i \<and> r = candle_row_of c \<and> r \<in> set rows"
proof -
  have "r \<in> set rows" "cr_candle_id r = i"
    using assms(2) by (auto simp: find_Some_iff)
  with assms(1) show ?thesis by (fastforce simp: sqlite_ok_def)
qed

lemma sqlite_append_new:
  assumes "sqlite_ok sha rows" "valid_candle sha c"
    "\<forall>r\<in>set rows. cr_candle_id r \<noteq> cc_candle_id c"
  shows "sqlite_append sha c rows =
    (let placed = append_order (last_close_of (sqlite_series sha rows (cc_series_key c))) c in
     (Inr placed, if placed = STORED then rows @ [candle_row_of c] else rows))"
proof -
  have find: "List.find (\<lambda>r. cr_candle_id r = cc_candle_id c) rows = None"
    using assms(3) by (simp add: find_None_iff)
  have "row_checks (candle_row_of c)"
    using assms(2) by (auto simp: valid_candle_iff row_checks_def candle_row_of_def)
  moreover have "\<not> list_ex (\<lambda>r. row_series r = series_values c \<and> cr_close_time_ms r = cc_close_time_ms c) rows"
    if "append_order (latest_close (sql_key (cc_series_key c)) rows) c = STORED"
  proof
    assume "list_ex (\<lambda>r. row_series r = series_values c \<and> cr_close_time_ms r = cc_close_time_ms c) rows"
    then have "cc_close_time_ms c \<in> set (map cr_close_time_ms (rows_of (cc_series_key c) rows))"
      by (force simp: list_ex_iff rows_of_def)
    then have "cc_close_time_ms c \<le> Max (set (map cr_close_time_ms (rows_of (cc_series_key c) rows)))"
        "rows_of (cc_series_key c) rows \<noteq> []"
      by auto
    then show False
      using that by (auto simp: append_order_def latest_close_def Let_def rows_of_def split: if_splits)
  qed
  moreover have "\<not> list_ex (\<lambda>q. cr_candle_id q = cc_candle_id c) rows"
    using assms(3) by (auto simp: list_ex_iff)
  ultimately show ?thesis
    using find
    by (auto simp: sqlite_append_def sqlite_get_def sqlite_store_def insert_candle_def Let_def
        simp flip: latest_close_series [OF assms(1)])
qed

lemma sqlite_append_known:
  assumes "sqlite_ok sha rows" "r \<in> set rows" "cr_candle_id r = cc_candle_id c"
  shows "snd (sqlite_append sha c rows) = rows \<and> fst (sqlite_append sha c rows) \<noteq> Inr STORED"
proof -
  obtain q where "List.find (\<lambda>r. cr_candle_id r = cc_candle_id c) rows = Some q"
    using assms(2,3) by (cases "List.find (\<lambda>r. cr_candle_id r = cc_candle_id c) rows")
      (auto simp: find_None_iff)
  moreover from this obtain c' where "valid_candle sha c'" "q = candle_row_of c'"
    using sqlite_find [OF assms(1)] by blast
  ultimately show ?thesis
    by (auto simp: sqlite_append_def sqlite_get_def candle_from_row_of)
qed

lemma sqlite_series_snoc:
  "valid_candle sha c \<Longrightarrow> sqlite_series sha (rows @ [candle_row_of c]) key =
     sqlite_series sha rows key @ (if key = cc_series_key c then [c] else [])"
  by (auto simp: sqlite_series_def rows_of_def)

lemma sqlite_ok_snoc:
  assumes "sqlite_ok sha rows" "valid_candle sha c"
    "append_order (last_close_of (sqlite_series sha rows (cc_series_key c))) c = STORED"
  shows "sqlite_ok sha (rows @ [candle_row_of c])"
  using assms append_order_stored [OF assms(3)] by (auto simp: sqlite_ok_def sqlite_series_snoc)

interpretation sqlite_log: candle_log sha "sqlite_append sha" "sqlite_series sha" "sqlite_ok sha" for sha
proof
  fix rows c key
  assume ok: "sqlite_ok sha rows" and c: "valid_candle sha c"
  show "sqlite_ok sha (snd (sqlite_append sha c rows))"
    using ok c sqlite_append_known [OF ok] sqlite_append_new [OF ok c] sqlite_ok_snoc [OF ok c]
    by (cases "\<forall>r\<in>set rows. cr_candle_id r \<noteq> cc_candle_id c") (auto simp: Let_def)
  show "sqlite_series sha (snd (sqlite_append sha c rows)) key = sqlite_series sha rows key @
      (if fst (sqlite_append sha c rows) = Inr STORED \<and> key = cc_series_key c then [c] else [])"
    using ok c sqlite_append_known [OF ok] sqlite_append_new [OF ok c]
    by (cases "\<forall>r\<in>set rows. cr_candle_id r \<noteq> cc_candle_id c") (auto simp: Let_def sqlite_series_snoc)
next
  fix rows c
  assume ok: "sqlite_ok sha rows" and c: "valid_candle sha c" and "fst (sqlite_append sha c rows) = Inr STORED"
  then show "append_order (last_close_of (sqlite_series sha rows (cc_series_key c))) c = STORED"
    using sqlite_append_known [OF ok] sqlite_append_new [OF ok c]
    by (cases "\<forall>r\<in>set rows. cr_candle_id r \<noteq> cc_candle_id c") (auto simp: Let_def)
next
  fix rows c key
  assume "sqlite_ok sha rows" "c \<in> set (sqlite_series sha rows key)"
  then show "valid_candle sha c \<and> cc_series_key c = key"
    using rows_of_key [of _ key rows sha] by (fastforce simp: sqlite_series_def)
qed

section \<open>The SQLite store implements the store in memory\<close>

fun run_appends ::
  "(closed_candle \<Rightarrow> 's \<Rightarrow> (exc + candle_store_outcome) \<times> 's) \<Rightarrow> closed_candle list \<Rightarrow> 's \<Rightarrow>
     (exc + candle_store_outcome) list \<times> 's" where
  "run_appends put [] s = ([], s)"
| "run_appends put (c # cs) s = (case put c s of (out, s1) \<Rightarrow>
     case run_appends put cs s1 of (outs, s2) \<Rightarrow> (out # outs, s2))"

definition stores_agree :: "(payload \<Rightarrow> string) \<Rightarrow> candle_row list \<Rightarrow> candle_store \<Rightarrow> bool" where
  "stores_agree sha rows s \<longleftrightarrow> sqlite_ok sha rows \<and> memory_ok sha s \<and>
     ms_ids s = cr_candle_id ` set rows \<and> ms_series s = sqlite_series sha rows"

text \<open>No two of the candles share a digest without being the same candle data.\<close>

definition collision_free :: "closed_candle set \<Rightarrow> bool" where
  "collision_free C \<longleftrightarrow>
     (\<forall>c\<in>C. \<forall>d\<in>C. cc_candle_id c = cc_candle_id d \<longrightarrow> candle_identity c = candle_identity d)"

lemma same_identity: "candle_identity c = candle_identity d \<Longrightarrow> identity_tuple c = identity_tuple d"
  by (simp add: candle_identity_def identity_tuple_def sql_key_def cc_series_key_def)

lemma stores_agree_step:
  assumes agree: "stores_agree sha rows s" and c: "valid_candle sha c"
    and free: "collision_free C" "c \<in> C" "\<forall>r\<in>set rows. \<exists>d\<in>C. r = candle_row_of d"
    and room: "int (card (ms_ids s)) < ms_max_candles s"
  shows "fst (sqlite_append sha c rows) = fst (memory_append c s) \<and>
    stores_agree sha (snd (sqlite_append sha c rows)) (snd (memory_append c s)) \<and>
    snd (sqlite_append sha c rows) \<in> {rows, rows @ [candle_row_of c]}"
proof -
  have ok: "sqlite_ok sha rows" "memory_ok sha s"
    and ids: "ms_ids s = cr_candle_id ` set rows" and ser: "ms_series s = sqlite_series sha rows"
    using agree by (simp_all add: stores_agree_def)
  show ?thesis
  proof (cases "cc_candle_id c \<in> ms_ids s")
    case True
    then have "List.find (\<lambda>r. cr_candle_id r = cc_candle_id c) rows \<noteq> None"
      by (auto simp: ids find_None_iff)
    then obtain q d where q: "List.find (\<lambda>r. cr_candle_id r = cc_candle_id c) rows = Some q"
        "valid_candle sha d" "cc_candle_id d = cc_candle_id c" "q = candle_row_of d" "q \<in> set rows"
      using sqlite_find [OF ok(1)] by blast
    obtain e where e: "e \<in> C" "candle_row_of d = candle_row_of e"
      using free(3) q(4,5) by blast
    then have "identity_tuple d = identity_tuple c"
      using free(1,2) q(3) same_identity [of e c]
      by (metis collision_free_def row_of_fields(1) row_identity_of)
    then show ?thesis
      using True q agree
      by (simp add: memory_append_def sqlite_append_def sqlite_get_def candle_from_row_of)
  next
    case False
    then have new: "\<forall>r\<in>set rows. cr_candle_id r \<noteq> cc_candle_id c"
      unfolding ids by (metis imageI)
    have mem: "memory_append c s = (let placed = append_order (last_close_of (ms_series s (cc_series_key c))) c in
        (Inr placed, if placed = STORED then s\<lparr>ms_series := (ms_series s)(cc_series_key c :=
          ms_series s (cc_series_key c) @ [c]), ms_ids := insert (cc_candle_id c) (ms_ids s)\<rparr> else s))"
      using False room by (auto simp: memory_append_def Let_def)
    have "(sqlite_series sha rows)(cc_series_key c := sqlite_series sha rows (cc_series_key c) @ [c]) =
        sqlite_series sha (rows @ [candle_row_of c])"
      using c by (auto simp: sqlite_series_snoc fun_eq_iff)
    then show ?thesis
      using agree memory_log.put_ok [OF ok(2) c] sqlite_log.put_ok [OF ok(1) c]
      unfolding mem sqlite_append_new [OF ok(1) c new]
      by (auto simp: Let_def stores_agree_def ser ids)
  qed
qed

lemma run_appends_agree:
  assumes "stores_agree sha rows s" "\<forall>c\<in>set cs. valid_candle sha c" "set cs \<subseteq> C" "collision_free C"
    "\<forall>r\<in>set rows. \<exists>d\<in>C. r = candle_row_of d" "int (card (ms_ids s)) + int (length cs) \<le> ms_max_candles s"
  shows "fst (run_appends (sqlite_append sha) cs rows) = fst (run_appends memory_append cs s) \<and>
    stores_agree sha (snd (run_appends (sqlite_append sha) cs rows)) (snd (run_appends memory_append cs s))"
  using assms
proof (induction cs arbitrary: rows s)
  case (Cons c cs)
  obtain out rows' where sql: "sqlite_append sha c rows = (out, rows')" by fastforce
  obtain out' s' where mem: "memory_append c s = (out', s')" by fastforce
  have step: "out = out'" "stores_agree sha rows' s'" "rows' \<in> {rows, rows @ [candle_row_of c]}"
    using stores_agree_step [OF Cons.prems(1), of c C] Cons.prems sql mem by auto
  have "card (ms_ids s') \<le> card (ms_ids s) + 1 \<and> ms_max_candles s' = ms_max_candles s"
    using memory_append_stored [of c s] memory_append_same [of c s] mem Cons.prems(1)
    by (cases "fst (memory_append c s) = Inr STORED") (auto simp: stores_agree_def memory_ok_def)
  moreover have "\<forall>r\<in>set rows'. \<exists>d\<in>C. r = candle_row_of d"
    using step(3) Cons.prems(3,5) by auto
  ultimately show ?case
    using Cons.IH [OF step(2)] Cons.prems step(1) sql mem by (auto split: prod.split)
qed simp

lemma sorted_closes:
  assumes "gap_free cs" "\<forall>c\<in>set cs. valid_candle sha c"
  shows "sorted_wrt (\<lambda>a b. cc_close_time_ms a < cc_close_time_ms b) cs"
  using assms
proof (induction cs rule: gap_free.induct)
  case (1 a b cs)
  then show ?case by (fastforce simp: valid_candle_iff)
qed auto

lemma candles_from_valid_rows:
  "\<forall>r\<in>set rs. \<exists>c. valid_candle sha c \<and> r = candle_row_of c \<Longrightarrow>
     candles_from_rows sha rs = Inr (map (row_candle sha) rs)"
  by (induction rs) (auto simp: candle_from_row_of)

lemma sqlite_range_series:
  assumes "sqlite_ok sha rows"
  shows "sqlite_range sha key start end rows =
    Inr (filter (\<lambda>c. in_range start end (cc_close_time_ms c)) (sqlite_series sha rows key))"
proof -
  let ?rs = "filter (\<lambda>r. in_range start end (cr_close_time_ms r)) (rows_of key rows)"
  let ?order = "\<lambda>r. (cr_close_time_ms r, cr_candle_id r)"
  have rows: "\<exists>c. valid_candle sha c \<and> r = candle_row_of c \<and> cc_series_key c = key"
    if "r \<in> set (rows_of key rows)" for r
    using rows_of_key [OF that assms] .
  then have "\<forall>c\<in>set (sqlite_series sha rows key). valid_candle sha c"
    by (fastforce simp: sqlite_series_def)
  then have "sorted_wrt (\<lambda>a b. cc_close_time_ms a < cc_close_time_ms b) (sqlite_series sha rows key)"
    using assms sorted_closes by (auto simp: sqlite_ok_def)
  then have "sorted_wrt (<) (map cr_close_time_ms (rows_of key rows))"
    by (simp add: sorted_wrt_map flip: sqlite_series_closes [OF assms])
  then have "sorted_wrt (\<lambda>a b. cr_close_time_ms a < cr_close_time_ms b) ?rs"
    by (simp add: sorted_wrt_map sorted_wrt_filter)
  then have "sorted (map ?order ?rs)"
    by (auto simp: sorted_wrt_map less_eq_prod_def elim: sorted_wrt_mono_rel [rotated])
  then have "sort_key ?order ?rs = ?rs"
    by (rule sort_key_id_if_sorted)
  moreover have "filter (\<lambda>r. row_series r = sql_key key \<and> in_range start end (cr_close_time_ms r)) rows = ?rs"
    by (simp add: rows_of_def conj_commute)
  moreover have "candles_from_rows sha ?rs = Inr (map (row_candle sha) ?rs)"
    using rows by (intro candles_from_valid_rows) auto
  moreover have "map (row_candle sha) ?rs =
      filter (\<lambda>c. in_range start end (cc_close_time_ms c)) (sqlite_series sha rows key)"
    using rows by (fastforce simp: sqlite_series_def filter_map comp_def intro!: arg_cong [where f = "map _"] filter_cong)
  ultimately show ?thesis
    by (simp add: sqlite_range_def sql_key_def split: prod.splits)
qed

lemma stores_agree_empty:
  "InMemoryCandleStore max_candles = Inr s \<Longrightarrow> stores_agree sha [] s \<and> ms_ids s = {} \<and> ms_max_candles s = max_candles"
  by (auto simp: InMemoryCandleStore_def stores_agree_def sqlite_ok_def memory_ok_def sqlite_series_def
      rows_of_def fun_eq_iff split: if_splits)


definition demo_sha :: "payload \<Rightarrow> string" where
  "demo_sha p = (case get_item p ''close_time_ms'' of PInt n \<Rightarrow> replicate (nat (n div 60000)) CHR ''c'' | _ \<Rightarrow> [])"

definition demo_candle :: "int \<Rightarrow> closed_candle" where
  "demo_candle n = \<lparr>cc_broker = Broker_DERIV, cc_symbol = ''R_100'', cc_timeframe_seconds = 60,
     cc_open_time_ms = n * 60000, cc_close_time_ms = (n + 1) * 60000, cc_open_units = 10,
     cc_high_units = 12, cc_low_units = 9, cc_close_units = 11, cc_price_scale = 100,
     cc_source = ''LIVE'', cc_source_event_id = ''e'', cc_source_timestamp_ms = 0,
     cc_received_timestamp_ms = 0, cc_candle_id = replicate (nat (n + 1)) CHR ''c''\<rparr>"

lemma demo_candle_valid: "0 \<le> n \<Longrightarrow> ClosedCandle demo_sha (demo_candle n) = Inr (demo_candle n)"
  by (simp add: ClosedCandle_def demo_candle_def compute_candle_id_def candle_identity_def demo_sha_def
      raise_if_def string_eval)

definition demo_candles :: "closed_candle list" where
  "demo_candles = [demo_candle 5, demo_candle 5, demo_candle 7, demo_candle 6]"

definition demo_store :: "closed_candle list \<Rightarrow> candle_store" where
  "demo_store cs = \<lparr>ms_max_candles = 4, ms_ids = set (map cc_candle_id cs),
     ms_series = (\<lambda>key. if key = (Broker_DERIV, ''R_100'', 60) then cs else [])\<rparr>"

lemma demo_store_append:
  "memory_append (demo_candle n) (demo_store cs) =
     (let placed = append_order (last_close_of cs) (demo_candle n) in
      if cc_candle_id (demo_candle n) \<in> set (map cc_candle_id cs) then (Inr DUPLICATE, demo_store cs)
      else if placed \<noteq> STORED then (Inr placed, demo_store cs)
      else if 4 \<le> card (set (map cc_candle_id cs))
      then (Inl (CandleStoreFullError ''candle store capacity reached''), demo_store cs)
      else (Inr STORED, demo_store (cs @ [demo_candle n])))"
  by (auto simp: memory_append_def demo_store_def demo_candle_def cc_series_key_def Let_def fun_eq_iff)

lemma demo_candles_memory:
  assumes "InMemoryCandleStore 4 = Inr s"
  shows "fst (run_appends memory_append demo_candles s) = [Inr STORED, Inr DUPLICATE, Inr GAPPED, Inr STORED]"
    and "memory_range (Broker_DERIV, ''R_100'', 60) None None (snd (run_appends memory_append demo_candles s)) =
      [demo_candle 5, demo_candle 6]"
proof -
  have s: "s = demo_store []"
    using assms by (auto simp: InMemoryCandleStore_def demo_store_def)
  have "run_appends memory_append demo_candles s =
      ([Inr STORED, Inr DUPLICATE, Inr GAPPED, Inr STORED], demo_store [demo_candle 5, demo_candle 6])"
    by (simp add: s demo_candles_def demo_store_append append_order_def last_close_of_def)
      (simp add: demo_candle_def)
  then show "fst (run_appends memory_append demo_candles s) = [Inr STORED, Inr DUPLICATE, Inr GAPPED, Inr STORED]"
    and "memory_range (Broker_DERIV, ''R_100'', 60) None None (snd (run_appends memory_append demo_candles s)) =
      [demo_candle 5, demo_candle 6]"
    by (simp_all add: memory_range_def in_range_def demo_store_def)
qed

lemma demo_collision_free:
  "collision_free (set demo_candles)" "\<forall>c\<in>set demo_candles. ClosedCandle demo_sha c = Inr c"
  by (simp_all add: collision_free_def demo_candles_def demo_candle_valid) (simp add: demo_candle_def)

lemma demo_sqlite_range:
  "sqlite_range demo_sha (Broker_DERIV, ''R_100'', 60) None None
     (snd (run_appends (sqlite_append demo_sha) demo_candles [])) = Inr [demo_candle 5, demo_candle 6]"
proof -
  obtain s where s: "InMemoryCandleStore 4 = Inr s"
    by (simp add: InMemoryCandleStore_def)
  have "stores_agree demo_sha (snd (run_appends (sqlite_append demo_sha) demo_candles []))
      (snd (run_appends memory_append demo_candles s))"
    using run_appends_agree [of demo_sha "[]" s demo_candles "set demo_candles"] stores_agree_empty [OF s]
      demo_collision_free by (auto simp: valid_candle_def demo_candles_def)
  then show ?thesis
    using demo_candles_memory(2) [OF s] by (simp add: stores_agree_def sqlite_range_series memory_range_def)
qed


section \<open>What the ingress keeps\<close>

fun ingest_all ::
  "(payload \<Rightarrow> string) \<Rightarrow> ('s \<Rightarrow> pyval \<Rightarrow> 's) \<Rightarrow> pyval list \<Rightarrow> 's \<Rightarrow> 's" where
  "ingest_all sha feed [] s = s"
| "ingest_all sha feed (raw # raws) s = ingest_all sha feed raws (feed s raw)"

definition sqlite_feed :: "(payload \<Rightarrow> string) \<Rightarrow> candle_row list \<Rightarrow> pyval \<Rightarrow> candle_row list" where
  "sqlite_feed sha rows raw = snd (ingest_external sha (sqlite_append sha) raw rows)"

lemma ingest_all_contiguous:
  "contiguous (sqlite_ok sha) (sqlite_series sha) rows \<Longrightarrow>
     contiguous (sqlite_ok sha) (sqlite_series sha) (ingest_all sha (sqlite_feed sha) raws rows)"
  by (induction raws arbitrary: rows) (simp_all add: sqlite_feed_def sqlite_log.ingest_contiguous(1))

text \<open>
  C36. Whatever payloads a source sends, in whatever order, the durable candles of a series are
  well-formed and gap-free: reading the series back raises nothing, every candle satisfies the
  checks of its constructor and carries its own digest, and the candle at position i opens exactly
  i timeframes after the first one.
\<close>

theorem durable_series_well_formed:
  "\<exists>cs. sqlite_range sha (brk, symbol, tf) None None (ingest_all sha (sqlite_feed sha) raws []) = Inr cs \<and>
     (\<forall>i<length cs. ClosedCandle sha (cs ! i) = Inr (cs ! i) \<and> cc_series_key (cs ! i) = (brk, symbol, tf) \<and>
       cc_open_time_ms (cs ! i) = cc_open_time_ms (hd cs) + int i * (tf * 1000))"
proof -
  let ?rows = "ingest_all sha (sqlite_feed sha) raws []"
  have c: "contiguous (sqlite_ok sha) (sqlite_series sha) ?rows"
    by (intro ingest_all_contiguous)
      (simp add: contiguous_def sqlite_ok_def sqlite_series_def rows_of_def)
  then have ok: "sqlite_ok sha ?rows"
    by (simp add: contiguous_def)
  then have "sqlite_range sha (brk, symbol, tf) None None ?rows = Inr (sqlite_series sha ?rows (brk, symbol, tf))"
    by (simp add: sqlite_range_series in_range_def)
  then show ?thesis
    using sqlite_log.series_position [OF c] sqlite_log.series_valid [OF ok nth_mem]
    by (auto simp: valid_candle_def)
qed

definition demo_payload :: "int \<Rightarrow> pyval" where
  "demo_payload n = PDict [(''broker'', PStr (broker_value Broker_DERIV)), (''symbol'', PStr ''R_100''),
     (''timeframe_seconds'', PInt 60), (''open_time_ms'', PInt (n * 60000)),
     (''close_time_ms'', PInt ((n + 1) * 60000)), (''open_units'', PInt 10), (''high_units'', PInt 12),
     (''low_units'', PInt 9), (''close_units'', PInt 11), (''price_scale'', PInt 100),
     (''is_closed'', PBool True), (''source'', PStr ''LIVE''), (''source_event_id'', PStr ''e''),
     (''source_timestamp_ms'', PInt 0), (''received_timestamp_ms'', PInt 0)]"

lemma demo_envelope:
  "envelope_from_external_payload (demo_payload n) = Inr (envelope_from_closed_candle (demo_candle n))"
  by (simp add: envelope_from_external_payload_def demo_payload_def envelope_fields_def raise_if_def
      required_str_def required_int_def blank_def strip_def lstrip_def is_space_def char_code_def
      envelope_from_closed_candle_def demo_candle_def broker_of_def enum_of_def)

lemma candle_of_own_envelope:
  "valid_candle sha c \<Longrightarrow> candle_from_envelope sha (envelope_from_closed_candle c) = Inr c"
  by (cases c) (auto simp: candle_from_envelope_def envelope_from_closed_candle_def valid_candle_iff
      ClosedCandle_def raise_if_def compute_candle_id_def candle_identity_def)

lemma demo_feed_appends:
  "\<forall>n\<in>set ns. 0 \<le> n \<Longrightarrow> ingest_all demo_sha (sqlite_feed demo_sha) (map demo_payload ns) rows =
     snd (run_appends (sqlite_append demo_sha) (map demo_candle ns) rows)"
proof (induction ns arbitrary: rows)
  case (Cons n ns)
  then have "sqlite_feed demo_sha rows (demo_payload n) = snd (sqlite_append demo_sha (demo_candle n) rows)"
    by (auto simp: sqlite_feed_def ingest_external_def demo_envelope ingest_envelope_def ingest_candle_def
        candle_of_own_envelope valid_candle_def demo_candle_valid split: prod.split sum.split exc.split)
  then show ?case
    using Cons by (simp split: prod.split)
qed simp

theorem durable_series_well_formed_witness:
  "sqlite_range demo_sha (Broker_DERIV, ''R_100'', 60) None None
     (ingest_all demo_sha (sqlite_feed demo_sha) (map demo_payload [5, 5, 7, 6]) []) =
       Inr [demo_candle 5, demo_candle 6] \<and>
   cc_open_time_ms ([demo_candle 5, demo_candle 6] ! 1) = cc_open_time_ms (demo_candle 5) + 1 * (60 * 1000)"
proof -
  let ?rows = "ingest_all demo_sha (sqlite_feed demo_sha) (map demo_payload [5, 5, 7, 6]) []"
  have "?rows = snd (run_appends (sqlite_append demo_sha) demo_candles [])"
    by (subst demo_feed_appends) (simp_all add: demo_candles_def)
  then have "sqlite_range demo_sha (Broker_DERIV, ''R_100'', 60) None None ?rows =
      Inr [demo_candle 5, demo_candle 6]"
    using demo_sqlite_range by simp
  then show ?thesis
    using durable_series_well_formed [of demo_sha Broker_DERIV "''R_100''" 60 "map demo_payload [5, 5, 7, 6]"]
    by (auto simp: numeral_2_eq_2)
qed

end
