(* ===== verification/LiveCandles.thy ===== *)
theory LiveCandles
  imports CandleStore Decimals "HOL-Library.Sublist"
begin

text \<open>
  Building closed candles from live ticks: \<open>ClosedCandleAggregator\<close> of
  \<open>packages/market_pipeline/live.py\<close>, with the series identity of
  \<open>packages/market_pipeline/models.py\<close> and the tick of \<open>packages/domain/market.py\<close>. The
  reference is the list of accepted ticks cut into runs of one bucket each; the lemmas show that
  the candles the aggregator emits are those of the finished runs.
\<close>

section \<open>Ticks and series\<close>

text \<open>The text of an integer, as \<open>str\<close> writes it.\<close>

fun nat_str :: "nat \<Rightarrow> string" where
  "nat_str n = (if n < 10 then [digit n] else nat_str (n div 10) @ [digit (n mod 10)])"

declare nat_str.simps [simp del]

definition int_str :: "int \<Rightarrow> string" where
  "int_str i = (if i < 0 then CHR ''-'' # nat_str (nat (- i)) else nat_str (nat i))"

record market_tick =
  mt_broker :: broker
  mt_broker_symbol :: string
  mt_epoch :: int
  mt_quote :: rat
  mt_received_at :: datetime
  mt_subscription_id :: string
  mt_source :: string

definition MarketTick ::
  "broker \<Rightarrow> string \<Rightarrow> int \<Rightarrow> decimal \<Rightarrow> datetime \<Rightarrow> string \<Rightarrow> string \<Rightarrow> exc + market_tick" where
  "MarketTick brk symbol epoch quote received subscription source =
     and_then (require_aware_utc received ''received_at'') (\<lambda>_.
     and_then (raise_if (epoch \<le> 0 \<or> symbol = [] \<or> subscription = [])
       (ValueError ''tick identity and timestamp are required'')) (\<lambda>_.
     case quote of
       Special \<Rightarrow> Inl (ValueError ''tick quote must be a positive finite decimal'')
     | Finite q \<Rightarrow> if q \<le> 0 then Inl (ValueError ''tick quote must be a positive finite decimal'')
         else Inr \<lparr>mt_broker = brk, mt_broker_symbol = symbol, mt_epoch = epoch, mt_quote = q,
           mt_received_at = received, mt_subscription_id = subscription, mt_source = source\<rparr>))"

definition decimal_prices :: "closed_candle \<Rightarrow> rat list" where
  "decimal_prices c = map (\<lambda>units. dec_div (of_int units) (of_int (cc_price_scale c)))
     [cc_open_units c, cc_high_units c, cc_low_units c, cc_close_units c]"

record market_series_id =
  sid_broker :: broker
  sid_broker_symbol :: string
  sid_canonical_symbol :: string
  sid_product :: string
  sid_timeframe_seconds :: int
  sid_context :: string

definition MarketSeriesId :: "market_series_id \<Rightarrow> exc + market_series_id" where
  "MarketSeriesId s =
     and_then (raise_if (list_ex blank
         [sid_broker_symbol s, sid_canonical_symbol s, sid_product s, sid_context s])
       (ValueError ''market series identity cannot be blank'')) (\<lambda>_.
     and_then (raise_if (sid_timeframe_seconds s \<le> 0)
       (ValueError ''market series timeframe must be positive'')) (\<lambda>_.
     Inr s))"

fun join_text :: "string \<Rightarrow> string list \<Rightarrow> string" where
  "join_text sep [] = []"
| "join_text sep [x] = x"
| "join_text sep (x # xs) = x @ sep @ join_text sep xs"

definition sid_key :: "market_series_id \<Rightarrow> string" where
  "sid_key s = join_text '':'' [broker_value (sid_broker s), sid_broker_symbol s, sid_canonical_symbol s,
     sid_product s, int_str (sid_timeframe_seconds s), sid_context s]"

section \<open>The aggregator\<close>

datatype aggregation_status = AG_ACCUMULATED | AG_CLOSED | AG_DUPLICATE | AG_OUT_OF_ORDER | AG_GAPPED

record aggregation_result =
  ar_status :: aggregation_status
  ar_candle :: "closed_candle option"
  ar_reason_code :: string

record open_bucket =
  ob_open_epoch :: int
  ob_open_units :: int
  ob_high_units :: int
  ob_low_units :: int
  ob_close_units :: int
  ob_first_tick_epoch :: int
  ob_last_tick_epoch :: int
  ob_subscription_id :: string

type_synonym tick_identity = "int \<times> rat \<times> string"

record aggregator =
  ag_series :: market_series_id
  ag_price_scale :: int
  ag_bucket :: "open_bucket option"
  ag_max_seen_ticks :: int
  ag_seen :: "tick_identity set"
  ag_seen_order :: "tick_identity list"

definition ClosedCandleAggregator :: "market_series_id \<Rightarrow> int \<Rightarrow> int \<Rightarrow> exc + aggregator" where
  "ClosedCandleAggregator series scale max_seen =
     (if scale \<le> 0 \<or> max_seen \<le> 0 then Inl (ValueError ''live candle price scale must be positive'')
      else Inr \<lparr>ag_series = series, ag_price_scale = scale, ag_bucket = None,
        ag_max_seen_ticks = max_seen, ag_seen = {}, ag_seen_order = []\<rparr>)"

definition epoch_ms :: "datetime \<Rightarrow> exc + int" where
  "epoch_ms t = (case utc_offset t of
     None \<Rightarrow> Inl (ValueError ''live tick received_at must be timezone-aware'')
   | Some _ \<Rightarrow> Inr ((instant t - instant (utc 1970 1 1 0 0 0 0)) div 1000))"

definition remember :: "tick_identity \<Rightarrow> aggregator \<Rightarrow> aggregator" where
  "remember identity a =
     (let a1 = (if ag_max_seen_ticks a \<le> int (length (ag_seen_order a))
            then a\<lparr>ag_seen := ag_seen a - {hd (ag_seen_order a)}, ag_seen_order := tl (ag_seen_order a)\<rparr>
            else a) in
      a1\<lparr>ag_seen := insert identity (ag_seen a1), ag_seen_order := ag_seen_order a1 @ [identity]\<rparr>)"

definition price_units :: "int \<Rightarrow> rat \<Rightarrow> exc + int" where
  "price_units scale quote = (let scaled = ctx (quote * of_int scale); integral = round_half_even scaled in
     if scaled \<noteq> of_int integral then Inl (ValueError ''live tick precision exceeds configured price scale'')
     else Inr integral)"

definition new_bucket :: "int \<Rightarrow> int \<Rightarrow> market_tick \<Rightarrow> open_bucket" where
  "new_bucket bucket_open units tick =
     \<lparr>ob_open_epoch = bucket_open, ob_open_units = units, ob_high_units = units, ob_low_units = units,
      ob_close_units = units, ob_first_tick_epoch = mt_epoch tick, ob_last_tick_epoch = mt_epoch tick,
      ob_subscription_id = mt_subscription_id tick\<rparr>"

definition close_bucket ::
  "(payload \<Rightarrow> string) \<Rightarrow> aggregator \<Rightarrow> open_bucket \<Rightarrow> market_tick \<Rightarrow> exc + closed_candle" where
  "close_bucket sha a b evidence_tick =
     (let s = ag_series a; close_ms = (ob_open_epoch b + sid_timeframe_seconds s) * 1000 in
      and_then (epoch_ms (mt_received_at evidence_tick)) (\<lambda>received_ms.
      ClosedCandle sha \<lparr>cc_broker = sid_broker s, cc_symbol = sid_broker_symbol s,
        cc_timeframe_seconds = sid_timeframe_seconds s, cc_open_time_ms = ob_open_epoch b * 1000,
        cc_close_time_ms = close_ms, cc_open_units = ob_open_units b, cc_high_units = ob_high_units b,
        cc_low_units = ob_low_units b, cc_close_units = ob_close_units b,
        cc_price_scale = ag_price_scale a, cc_source = ''DERIV_TICKS_READ_ONLY'',
        cc_source_event_id = join_text ''|'' [ob_subscription_id b, int_str (ob_first_tick_epoch b),
          int_str (ob_last_tick_epoch b)],
        cc_source_timestamp_ms = close_ms, cc_received_timestamp_ms = received_ms, cc_candle_id = []\<rparr>))"

definition agg_result :: "aggregation_status \<Rightarrow> closed_candle option \<Rightarrow> string \<Rightarrow> aggregation_result" where
  "agg_result status candle reason = \<lparr>ar_status = status, ar_candle = candle, ar_reason_code = reason\<rparr>"

definition bucket_open :: "aggregator \<Rightarrow> market_tick \<Rightarrow> int" where
  "bucket_open a tick = (let tf = sid_timeframe_seconds (ag_series a) in (mt_epoch tick div tf) * tf)"

text \<open>A tick with its price in units, against the open bucket.\<close>

definition place_tick ::
  "(payload \<Rightarrow> string) \<Rightarrow> market_tick \<Rightarrow> int \<Rightarrow> aggregator \<Rightarrow> (exc + aggregation_result) \<times> aggregator" where
  "place_tick sha tick units a = (case ag_bucket a of
     None \<Rightarrow> (Inr (agg_result AG_ACCUMULATED None ''LIVE_CANDLE_STARTED''),
       a\<lparr>ag_bucket := Some (new_bucket (bucket_open a tick) units tick)\<rparr>)
   | Some b \<Rightarrow>
       if bucket_open a tick < ob_open_epoch b \<or> mt_epoch tick < ob_last_tick_epoch b
       then (Inr (agg_result AG_OUT_OF_ORDER None ''LIVE_TICK_OUT_OF_ORDER''), a)
       else if bucket_open a tick = ob_open_epoch b
       then (Inr (agg_result AG_ACCUMULATED None ''LIVE_CANDLE_UPDATED''),
         a\<lparr>ag_bucket := Some (b\<lparr>ob_high_units := max (ob_high_units b) units,
           ob_low_units := min (ob_low_units b) units, ob_close_units := units,
           ob_last_tick_epoch := mt_epoch tick\<rparr>)\<rparr>)
       else (case close_bucket sha a b tick of
           Inl e \<Rightarrow> (Inl e, a)
         | Inr candle \<Rightarrow>
             (Inr (if bucket_open a tick \<noteq> ob_open_epoch b + sid_timeframe_seconds (ag_series a)
                then agg_result AG_GAPPED (Some candle) ''LIVE_CANDLE_GAP''
                else agg_result AG_CLOSED (Some candle) ''LIVE_CANDLE_CLOSED''),
              a\<lparr>ag_bucket := Some (new_bucket (bucket_open a tick) units tick)\<rparr>)))"

definition ingest_tick ::
  "(payload \<Rightarrow> string) \<Rightarrow> market_tick \<Rightarrow> aggregator \<Rightarrow> (exc + aggregation_result) \<times> aggregator" where
  "ingest_tick sha tick a =
     (let identity = (mt_epoch tick, mt_quote tick, mt_subscription_id tick) in
      if mt_broker tick \<noteq> sid_broker (ag_series a) \<or> mt_broker_symbol tick \<noteq> sid_broker_symbol (ag_series a)
      then (Inl (ValueError ''live tick does not match aggregator series''), a)
      else if identity \<in> ag_seen a then (Inr (agg_result AG_DUPLICATE None ''LIVE_TICK_DUPLICATE''), a)
      else let a1 = remember identity a in
        case price_units (ag_price_scale a) (mt_quote tick) of
          Inl e \<Rightarrow> (Inl e, a1)
        | Inr units \<Rightarrow> place_tick sha tick units a1)"

definition reset_aggregator :: "aggregator \<Rightarrow> aggregator" where
  "reset_aggregator a = a\<lparr>ag_bucket := None, ag_seen := {}, ag_seen_order := []\<rparr>"

definition seen_tick_count :: "aggregator \<Rightarrow> nat" where
  "seen_tick_count a = card (ag_seen a)"

section \<open>Runs of ticks\<close>

text \<open>A list cut into maximal runs with one value of \<open>f\<close> each.\<close>

fun runs :: "('a \<Rightarrow> 'b) \<Rightarrow> 'a list \<Rightarrow> 'a list list" where
  "runs f [] = []"
| "runs f (x # xs) = (case runs f xs of
     [] \<Rightarrow> [[x]] | g # gs \<Rightarrow> if f x = f (hd g) then (x # g) # gs else [x] # g # gs)"

lemma runs_empty_iff [simp]: "runs f xs = [] \<longleftrightarrow> xs = []"
  by (cases xs) (auto split: list.split)

lemma runs_nonempty: "g \<in> set (runs f xs) \<Longrightarrow> g \<noteq> []"
  by (induction xs arbitrary: g) (auto split: list.splits if_splits)

lemma concat_runs [simp]: "concat (runs f xs) = xs"
  by (induction xs) (auto split: list.splits)

lemma runs_same: "g \<in> set (runs f xs) \<Longrightarrow> \<forall>x\<in>set g. f x = f (hd g)"
  by (induction xs arbitrary: g) (auto split: list.splits if_splits)

lemma last_runs [simp]: "xs \<noteq> [] \<Longrightarrow> last (last (runs f xs)) = last xs"
proof (induction xs)
  case (Cons x xs)
  then show ?case
    using runs_nonempty [of _ f xs] by (cases "xs = []") (auto split: list.split)
qed simp

lemma runs_snoc:
  "runs f (xs @ [y]) = (if xs = [] then [[y]]
     else if f (last xs) = f y then butlast (runs f xs) @ [last (runs f xs) @ [y]]
     else runs f xs @ [[y]])"
proof (induction xs)
  case (Cons x xs)
  show ?case
  proof (cases "xs = []")
    case False
    then obtain g gs where g: "runs f xs = g # gs"
      by (cases "runs f xs") auto
    moreover have "g \<noteq> []"
      using runs_nonempty [of g f xs] g by simp
    ultimately show ?thesis
      using Cons False by (cases gs) (auto simp: hd_append)
  qed simp
qed simp

text \<open>Each finished run with the run that follows it.\<close>

definition finished :: "'a list list \<Rightarrow> ('a list \<times> 'a) list" where
  "finished gs = zip gs (map hd (tl gs))"

lemma finished_new: "gs \<noteq> [] \<Longrightarrow> finished (gs @ [[y]]) = finished gs @ [(last gs, y)]"
proof -
  assume "gs \<noteq> []"
  then obtain hs g where gs: "gs = hs @ [g]" by (metis rev_exhaust)
  have "length (map hd (tl (hs @ [g]))) = length hs" by simp
  then show ?thesis
    by (simp add: finished_def gs zip_append1 zip_append2 del: map_tl length_map)
      (cases hs; simp add: zip_append)
qed

lemma finished_grow:
  assumes "gs \<noteq> []" "last gs \<noteq> []"
  shows "finished (butlast gs @ [last gs @ [y]]) = finished gs"
proof -
  obtain hs g where gs: "gs = hs @ [g]" using assms(1) by (metis rev_exhaust)
  have "length (map hd (tl (hs @ [g']))) \<le> length hs" for g' :: "'a list"
    by simp
  then have "finished (hs @ [g']) = zip hs (map hd (tl (hs @ [g'])))" for g'
    by (simp add: finished_def zip_append1)
  then show ?thesis
    using assms(2) by (cases hs) (simp_all add: gs)
qed

section \<open>What the aggregator emits\<close>

definition accepts_tick :: "exc + aggregation_result \<Rightarrow> bool" where
  "accepts_tick r = (case r of Inl _ \<Rightarrow> False
     | Inr res \<Rightarrow> ar_status res \<noteq> AG_DUPLICATE \<and> ar_status res \<noteq> AG_OUT_OF_ORDER)"

definition emitted :: "exc + aggregation_result \<Rightarrow> closed_candle list" where
  "emitted r = (case r of Inl _ \<Rightarrow> []
     | Inr res \<Rightarrow> (case ar_candle res of None \<Rightarrow> [] | Some c \<Rightarrow> [c]))"

lemma result_simps [simp]:
  "accepts_tick (Inl e) = False"
  "accepts_tick (Inr (agg_result status c reason)) \<longleftrightarrow> status \<noteq> AG_DUPLICATE \<and> status \<noteq> AG_OUT_OF_ORDER"
  "emitted (Inl e) = []"
  "emitted (Inr (agg_result status c reason)) = (case c of None \<Rightarrow> [] | Some x \<Rightarrow> [x])"
  by (simp_all add: accepts_tick_def emitted_def agg_result_def)

text \<open>A feed: the ticks accepted, the candles emitted, and the aggregator after it.\<close>

fun feed_ticks ::
  "(payload \<Rightarrow> string) \<Rightarrow> market_tick list \<Rightarrow> aggregator \<Rightarrow> market_tick list \<times> closed_candle list \<times> aggregator" where
  "feed_ticks sha [] a = ([], [], a)"
| "feed_ticks sha (t # ts) a = (case ingest_tick sha t a of (r, a1) \<Rightarrow>
     case feed_ticks sha ts a1 of (acc, cs, a2) \<Rightarrow>
       ((if accepts_tick r then t # acc else acc), emitted r @ cs, a2))"

definition tick_units :: "int \<Rightarrow> market_tick \<Rightarrow> int" where
  "tick_units scale t = (case price_units scale (mt_quote t) of Inl _ \<Rightarrow> 0 | Inr u \<Rightarrow> u)"

text \<open>The bucket of a run of ticks, from the whole run.\<close>

definition run_bucket :: "aggregator \<Rightarrow> market_tick list \<Rightarrow> open_bucket" where
  "run_bucket a g = (let units = tick_units (ag_price_scale a) in
     \<lparr>ob_open_epoch = bucket_open a (hd g), ob_open_units = units (hd g),
      ob_high_units = Max (units ` set g), ob_low_units = Min (units ` set g),
      ob_close_units = units (last g), ob_first_tick_epoch = mt_epoch (hd g),
      ob_last_tick_epoch = mt_epoch (last g), ob_subscription_id = mt_subscription_id (hd g)\<rparr>)"

definition same_config :: "aggregator \<Rightarrow> aggregator \<Rightarrow> bool" where
  "same_config a b \<longleftrightarrow> ag_series a = ag_series b \<and> ag_price_scale a = ag_price_scale b"

text \<open>
  \<open>tracks a0 acc cs a\<close>: after accepting the ticks \<open>acc\<close> and emitting \<open>cs\<close>, the open bucket is
  that of the last run and the candles are those of the runs before it.
\<close>

definition tracks ::
  "(payload \<Rightarrow> string) \<Rightarrow> aggregator \<Rightarrow> market_tick list \<Rightarrow> closed_candle list \<Rightarrow> aggregator \<Rightarrow> bool" where
  "tracks sha a0 acc cs a \<longleftrightarrow> same_config a a0 \<and>
     ag_bucket a = (if acc = [] then None else Some (run_bucket a0 (last (runs (bucket_open a0) acc)))) \<and>
     map Inr cs = map (\<lambda>(g, t). close_bucket sha a0 (run_bucket a0 g) t) (finished (runs (bucket_open a0) acc)) \<and>
     sorted (map mt_epoch acc)"

lemma run_bucket_single: "run_bucket a [t] = new_bucket (bucket_open a t) (tick_units (ag_price_scale a) t) t"
  by (simp add: run_bucket_def new_bucket_def Let_def)

lemma run_bucket_snoc:
  "g \<noteq> [] \<Longrightarrow> run_bucket a (g @ [t]) = (run_bucket a g)
     \<lparr>ob_high_units := max (ob_high_units (run_bucket a g)) (tick_units (ag_price_scale a) t),
      ob_low_units := min (ob_low_units (run_bucket a g)) (tick_units (ag_price_scale a) t),
      ob_close_units := tick_units (ag_price_scale a) t, ob_last_tick_epoch := mt_epoch t\<rparr>"
  by (simp add: run_bucket_def Let_def max.commute min.commute)

lemma close_bucket_config: "same_config a b \<Longrightarrow> close_bucket sha a = close_bucket sha b"
  by (simp add: same_config_def close_bucket_def fun_eq_iff)

lemma bucket_open_config: "same_config a b \<Longrightarrow> bucket_open a = bucket_open b"
  by (simp add: same_config_def bucket_open_def fun_eq_iff)

lemma same_config_remember [simp]: "same_config (remember i a) b = same_config a b"
  "ag_bucket (remember i a) = ag_bucket a" "ag_price_scale (remember i a) = ag_price_scale a"
  by (simp_all add: remember_def same_config_def Let_def)

lemma sorted_snoc_last: "sorted xs \<Longrightarrow> (xs \<noteq> [] \<Longrightarrow> last xs \<le> y) \<Longrightarrow> sorted (xs @ [y :: int])"
proof (induction xs)
  case (Cons x xs)
  then have "x \<le> y" using last_in_set [of "x # xs"] by fastforce
  moreover have "sorted (xs @ [y])" using Cons by (cases "xs = []") simp_all
  ultimately show ?case using Cons.prems(1) by auto
qed simp

lemma place_tick_tracks:
  assumes tr: "tracks sha a0 acc cs a" and units: "units = tick_units (ag_price_scale a0) t"
    and place: "place_tick sha t units a = (r, a')"
  shows "tracks sha a0 (if accepts_tick r then acc @ [t] else acc) (cs @ emitted r) a'"
proof (cases "acc = []")
  case True
  then show ?thesis
    using assms by (auto simp: tracks_def place_tick_def run_bucket_single same_config_def finished_def bucket_open_def)
next
  case False
  let ?f = "bucket_open a0" and ?g = "last (runs (bucket_open a0) acc)" and ?b = "run_bucket a0 (last (runs (bucket_open a0) acc))"
  have g: "?g \<in> set (runs ?f acc)" "?g \<noteq> []" "last ?g = last acc"
    using False runs_nonempty [of ?g ?f acc] by simp_all
  have "?f (last ?g) = ?f (hd ?g)"
    using runs_same [OF g(1)] last_in_set [OF g(2)] by blast
  then have b: "ag_bucket a = Some ?b" "ob_open_epoch ?b = ?f (last acc)"
      "ob_last_tick_epoch ?b = mt_epoch (last acc)"
    using tr False g(3) by (simp_all add: tracks_def run_bucket_def Let_def)
  have config: "same_config a a0" "bucket_open a = ?f" "close_bucket sha a = close_bucket sha a0"
    using tr bucket_open_config close_bucket_config by (auto simp: tracks_def)
  have sorted: "sorted (map mt_epoch (acc @ [t]))" if "\<not> mt_epoch t < mt_epoch (last acc)"
    using tr that False sorted_snoc_last [of "map mt_epoch acc" "mt_epoch t"] by (simp add: tracks_def last_map)
  consider (late) "?f t < ?f (last acc) \<or> mt_epoch t < mt_epoch (last acc)"
    | (same) "?f t = ?f (last acc)" "\<not> mt_epoch t < mt_epoch (last acc)"
    | (next_run) "\<not> ?f t < ?f (last acc)" "?f t \<noteq> ?f (last acc)" "\<not> mt_epoch t < mt_epoch (last acc)"
    by blast
  then show ?thesis
  proof cases
    case late
    then show ?thesis
      using place tr b config by (auto simp: place_tick_def)
  next
    case same
    then have "r = Inr (agg_result AG_ACCUMULATED None ''LIVE_CANDLE_UPDATED'')"
        "a' = a\<lparr>ag_bucket := Some (run_bucket a0 (?g @ [t]))\<rparr>"
      using place b config(2) units by (simp_all add: place_tick_def run_bucket_snoc [OF g(2)])
    then show ?thesis
      using tr same sorted [OF same(2)] False g(2)
      by (simp add: tracks_def runs_snoc finished_grow same_config_def)
  next
    case next_run
    show ?thesis
    proof (cases "close_bucket sha a0 ?b t")
      case (Inl e)
      then show ?thesis
        using place tr b config next_run by (auto simp: place_tick_def)
    next
      case (Inr c)
      then have "accepts_tick r" "emitted r = [c]" "a' = a\<lparr>ag_bucket := Some (run_bucket a0 [t])\<rparr>"
        using place b config(2,3) next_run units
        by (auto simp: place_tick_def run_bucket_single split: if_splits)
      then show ?thesis
        using tr next_run sorted [OF next_run(3)] False Inr
        by (simp add: tracks_def runs_snoc finished_new same_config_def)
    qed
  qed
qed

lemma ingest_tick_tracks:
  assumes tr: "tracks sha a0 acc cs a" and step: "ingest_tick sha t a = (r, a')"
  shows "tracks sha a0 (if accepts_tick r then acc @ [t] else acc) (cs @ emitted r) a'"
proof -
  let ?i = "(mt_epoch t, mt_quote t, mt_subscription_id t)"
  have tr': "tracks sha a0 acc cs (remember ?i a)"
    using tr by (simp add: tracks_def)
  have scale: "ag_price_scale a = ag_price_scale a0"
    using tr by (simp add: tracks_def same_config_def)
  show ?thesis
  proof (cases "price_units (ag_price_scale a0) (mt_quote t)")
    case (Inl e)
    then show ?thesis
      using tr tr' step scale
      by (auto simp: ingest_tick_def Let_def split: if_splits)
  next
    case (Inr u)
    then have "u = tick_units (ag_price_scale a0) t"
      by (simp add: tick_units_def)
    then show ?thesis
      using tr step scale Inr place_tick_tracks [OF tr', of u t r a']
      by (auto simp: ingest_tick_def Let_def split: if_splits)
  qed
qed

lemma feed_ticks_tracks:
  "tracks sha a0 acc cs a \<Longrightarrow> feed_ticks sha ts a = (acc', cs', a') \<Longrightarrow>
     tracks sha a0 (acc @ acc') (cs @ cs') a'"
proof (induction ts arbitrary: acc cs a acc' cs' a')
  case (Cons t ts)
  obtain r a1 where step: "ingest_tick sha t a = (r, a1)" by fastforce
  obtain acc2 cs2 a2 where rest: "feed_ticks sha ts a1 = (acc2, cs2, a2)" by (metis prod_cases3)
  show ?case
    using Cons.IH [OF ingest_tick_tracks [OF Cons.prems(1) step] rest] Cons.prems(2) step rest
    by (auto split: if_splits)
qed simp

lemma accepted_subseq: "feed_ticks sha ts a = (acc, cs, a') \<Longrightarrow> subseq acc ts"
proof (induction ts arbitrary: a acc cs a')
  case (Cons t ts)
  obtain r a1 where step: "ingest_tick sha t a = (r, a1)" by fastforce
  obtain acc2 cs2 a2 where rest: "feed_ticks sha ts a1 = (acc2, cs2, a2)" by (metis prod_cases3)
  show ?case
    using Cons.IH [OF rest] Cons.prems step rest by (auto split: if_splits)
qed simp

lemma close_bucket_fields:
  "close_bucket sha a b t = Inr c \<Longrightarrow>
     cc_open_units c = ob_open_units b \<and> cc_high_units c = ob_high_units b \<and>
     cc_low_units c = ob_low_units b \<and> cc_close_units c = ob_close_units b \<and>
     cc_open_time_ms c = ob_open_epoch b * 1000 \<and>
     cc_close_time_ms c = (ob_open_epoch b + sid_timeframe_seconds (ag_series a)) * 1000"
  by (auto simp: close_bucket_def ClosedCandle_def Let_def raises)

text \<open>
  C37. Whatever ticks a live feed delivers, the candles the aggregator emits are the exact summary
  of the ticks it accepted: the accepted ticks are in order of time, they fall into runs of one
  timeframe each, one candle is emitted per finished run, and it carries the first, highest, lowest
  and last price of that run and the bounds of its timeframe. Duplicates, late ticks and ticks of
  too fine a precision leave no trace in any candle.
\<close>

theorem live_candles_summarise_ticks:
  assumes "ClosedCandleAggregator series scale max_seen = Inr a0"
    and "feed_ticks sha ticks a0 = (acc, cs, a)"
    and "gs = runs (bucket_open a0) acc"
  shows "subseq acc ticks \<and> sorted (map mt_epoch acc) \<and> concat gs = acc \<and> length cs = length gs - 1 \<and>
    (\<forall>k<length cs.
       (\<forall>t\<in>set (gs ! k). bucket_open a0 t = bucket_open a0 (hd (gs ! k))) \<and>
       cc_open_units (cs ! k) = tick_units scale (hd (gs ! k)) \<and>
       cc_high_units (cs ! k) = Max (tick_units scale ` set (gs ! k)) \<and>
       cc_low_units (cs ! k) = Min (tick_units scale ` set (gs ! k)) \<and>
       cc_close_units (cs ! k) = tick_units scale (last (gs ! k)) \<and>
       cc_open_time_ms (cs ! k) = bucket_open a0 (hd (gs ! k)) * 1000 \<and>
       cc_close_time_ms (cs ! k) = (bucket_open a0 (hd (gs ! k)) + sid_timeframe_seconds series) * 1000)"
proof -
  have a0: "tracks sha a0 [] [] a0" "ag_price_scale a0 = scale" "ag_series a0 = series"
    using assms(1) by (auto simp: ClosedCandleAggregator_def tracks_def same_config_def finished_def split: if_splits)
  have tr: "tracks sha a0 acc cs a"
    using feed_ticks_tracks [OF a0(1) assms(2)] by simp
  then have map: "map Inr cs = map (\<lambda>(g, t). close_bucket sha a0 (run_bucket a0 g) t) (finished gs)"
    by (simp add: tracks_def assms(3))
  have len: "length cs = length gs - 1"
    using arg_cong [OF map, of length] by (simp add: finished_def)
  have run: "gs ! k \<in> set (runs (bucket_open a0) acc)" if "k < length cs" for k
    using that len by (simp add: assms(3))
  have candle: "\<exists>t. close_bucket sha a0 (run_bucket a0 (gs ! k)) t = Inr (cs ! k)" if "k < length cs" for k
  proof -
    have "Inr (cs ! k) = (\<lambda>(g, t). close_bucket sha a0 (run_bucket a0 g) t) (finished gs ! k)"
      using arg_cong [OF map, of "\<lambda>xs. xs ! k"] that arg_cong [OF map, of length] by simp
    then show ?thesis
      using that len by (auto simp: finished_def)
  qed
  have fields: "cc_open_units (cs ! k) = tick_units scale (hd (gs ! k)) \<and>
      cc_high_units (cs ! k) = Max (tick_units scale ` set (gs ! k)) \<and>
      cc_low_units (cs ! k) = Min (tick_units scale ` set (gs ! k)) \<and>
      cc_close_units (cs ! k) = tick_units scale (last (gs ! k)) \<and>
      cc_open_time_ms (cs ! k) = bucket_open a0 (hd (gs ! k)) * 1000 \<and>
      cc_close_time_ms (cs ! k) = (bucket_open a0 (hd (gs ! k)) + sid_timeframe_seconds series) * 1000"
    if "k < length cs" for k
    using candle [OF that] close_bucket_fields [of sha a0 "run_bucket a0 (gs ! k)" _ "cs ! k"] a0(2,3)
    by (auto simp: run_bucket_def Let_def)
  have "sorted (map mt_epoch acc)" "concat gs = acc"
    using tr by (simp_all add: tracks_def assms(3))
  then show ?thesis
    using len accepted_subseq [OF assms(2)] fields runs_same [OF run] by blast
qed

definition demo_series :: market_series_id where
  "demo_series = \<lparr>sid_broker = Broker_DERIV, sid_broker_symbol = ''R_100'', sid_canonical_symbol = ''R_100'',
     sid_product = ''DIGIT'', sid_timeframe_seconds = 60, sid_context = ''PUBLIC_MARKET''\<rparr>"

definition demo_tick :: "int \<Rightarrow> rat \<Rightarrow> market_tick" where
  "demo_tick epoch quote = \<lparr>mt_broker = Broker_DERIV, mt_broker_symbol = ''R_100'', mt_epoch = epoch,
     mt_quote = quote, mt_received_at = utc 2026 3 4 0 0 0 0, mt_subscription_id = ''s'', mt_source = ''LIVE''\<rparr>"

definition demo_ticks :: "market_tick list" where
  "demo_ticks = [demo_tick 60 3, demo_tick 70 5, demo_tick 65 1, demo_tick 90 4, demo_tick 120 7]"

lemma demo_price: "price_units 1 3 = Inr 3" "price_units 1 5 = Inr 5" "price_units 1 1 = Inr 1"
  "price_units 1 4 = Inr 4" "price_units 1 7 = Inr 7"
  by (simp_all add: price_units_def ctx_def adjusted_def round_half_even_def pow10_def Let_def quotient_of_int
      num_digits.simps)

lemma demo_epoch: "epoch_ms (utc 2026 3 4 0 0 0 0) = Inr 1772582400000"
  by (simp add: epoch_ms_def utc_def instant_def toordinal_def days_before_year_def days_before_month_def
      days_in_month_def is_leap_def upt_rec Let_def)

definition demo_live_candle :: closed_candle where
  "demo_live_candle = \<lparr>cc_broker = Broker_DERIV, cc_symbol = ''R_100'', cc_timeframe_seconds = 60,
     cc_open_time_ms = 60000, cc_close_time_ms = 120000, cc_open_units = 3, cc_high_units = 5,
     cc_low_units = 3, cc_close_units = 4, cc_price_scale = 1, cc_source = ''DERIV_TICKS_READ_ONLY'',
     cc_source_event_id = ''s|60|90'', cc_source_timestamp_ms = 120000,
     cc_received_timestamp_ms = 1772582400000, cc_candle_id = ''id''\<rparr>"

definition demo_agg :: "tick_identity list \<Rightarrow> open_bucket option \<Rightarrow> aggregator" where
  "demo_agg seen b = \<lparr>ag_series = demo_series, ag_price_scale = 1, ag_bucket = b, ag_max_seen_ticks = 100,
     ag_seen = set seen, ag_seen_order = seen\<rparr>"

definition demo_bucket :: "int \<Rightarrow> int \<Rightarrow> int \<Rightarrow> int \<Rightarrow> int \<Rightarrow> int \<Rightarrow> open_bucket" where
  "demo_bucket open_epoch first last_epoch high low close =
     \<lparr>ob_open_epoch = open_epoch, ob_open_units = first, ob_high_units = high, ob_low_units = low,
      ob_close_units = close, ob_first_tick_epoch = open_epoch, ob_last_tick_epoch = last_epoch,
      ob_subscription_id = ''s''\<rparr>"

lemma demo_ingest:
  "length seen < 100 \<Longrightarrow> (e, q, ''s'') \<notin> set seen \<Longrightarrow> price_units 1 q = Inr u \<Longrightarrow>
     ingest_tick sha (demo_tick e q) (demo_agg seen b) =
       place_tick sha (demo_tick e q) u (demo_agg (seen @ [(e, q, ''s'')]) b)"
  by (simp add: ingest_tick_def demo_tick_def demo_agg_def demo_series_def remember_def Let_def)

lemma demo_tick_fields [simp]:
  "mt_epoch (demo_tick e q) = e" "mt_subscription_id (demo_tick e q) = ''s''"
  "mt_received_at (demo_tick e q) = utc 2026 3 4 0 0 0 0"
  by (simp_all add: demo_tick_def)

lemma demo_digits: "digit 0 = CHR ''0''" "digit 6 = CHR ''6''" "digit 9 = CHR ''9''"
  by code_simp+

lemma demo_open: "bucket_open (demo_agg seen b) (demo_tick e q) = e div 60 * 60"
  by (simp add: bucket_open_def demo_agg_def demo_series_def Let_def)

lemma demo_agg_bucket: "ag_bucket (demo_agg seen b) = b" "(demo_agg seen b)\<lparr>ag_bucket := c\<rparr> = demo_agg seen c"
  by (simp_all add: demo_agg_def)

lemma demo_close:
  "close_bucket (\<lambda>_. ''id'') (demo_agg seen b) (demo_bucket 60 3 90 5 3 4) (demo_tick 120 7) = Inr demo_live_candle"
  by (simp add: close_bucket_def demo_bucket_def demo_agg_def demo_series_def demo_epoch Let_def
      ClosedCandle_def raise_if_def string_eval compute_candle_id_def demo_live_candle_def int_str_def
      nat_str.simps demo_digits)

lemma demo_feed_ticks:
  assumes "ClosedCandleAggregator demo_series 1 100 = Inr a0"
  shows "\<exists>a. feed_ticks (\<lambda>_. ''id'') demo_ticks a0 =
    ([demo_tick 60 3, demo_tick 70 5, demo_tick 90 4, demo_tick 120 7], [demo_live_candle], a)"
proof -
  let ?in = "ingest_tick (\<lambda>_. ''id'')"
  let ?i = "\<lambda>e q. (e :: int, q :: rat, ''s'')"
  have a0: "a0 = demo_agg [] None"
    using assms by (auto simp: ClosedCandleAggregator_def demo_agg_def)
  have 1: "?in (demo_tick 60 3) (demo_agg [] None) = (Inr (agg_result AG_ACCUMULATED None ''LIVE_CANDLE_STARTED''),
      demo_agg [?i 60 3] (Some (demo_bucket 60 3 60 3 3 3)))"
    by (simp add: demo_ingest demo_price place_tick_def demo_agg_bucket demo_open new_bucket_def demo_bucket_def)
  have 2: "?in (demo_tick 70 5) (demo_agg [?i 60 3] (Some (demo_bucket 60 3 60 3 3 3))) =
      (Inr (agg_result AG_ACCUMULATED None ''LIVE_CANDLE_UPDATED''),
       demo_agg [?i 60 3, ?i 70 5] (Some (demo_bucket 60 3 70 5 3 5)))"
    by (simp add: demo_ingest demo_price place_tick_def demo_agg_bucket demo_open demo_bucket_def)
  have 3: "?in (demo_tick 65 1) (demo_agg [?i 60 3, ?i 70 5] (Some (demo_bucket 60 3 70 5 3 5))) =
      (Inr (agg_result AG_OUT_OF_ORDER None ''LIVE_TICK_OUT_OF_ORDER''),
       demo_agg [?i 60 3, ?i 70 5, ?i 65 1] (Some (demo_bucket 60 3 70 5 3 5)))"
    by (simp add: demo_ingest demo_price place_tick_def demo_agg_bucket demo_open demo_bucket_def)
  have 4: "?in (demo_tick 90 4) (demo_agg [?i 60 3, ?i 70 5, ?i 65 1] (Some (demo_bucket 60 3 70 5 3 5))) =
      (Inr (agg_result AG_ACCUMULATED None ''LIVE_CANDLE_UPDATED''),
       demo_agg [?i 60 3, ?i 70 5, ?i 65 1, ?i 90 4] (Some (demo_bucket 60 3 90 5 3 4)))"
    by (simp add: demo_ingest demo_price place_tick_def demo_agg_bucket demo_open demo_bucket_def)
  have "\<exists>a. ?in (demo_tick 120 7) (demo_agg [?i 60 3, ?i 70 5, ?i 65 1, ?i 90 4] (Some (demo_bucket 60 3 90 5 3 4))) =
      (Inr (agg_result AG_CLOSED (Some demo_live_candle) ''LIVE_CANDLE_CLOSED''), a)"
    by (simp add: demo_ingest demo_price place_tick_def demo_agg_bucket demo_open demo_close)
      (simp add: demo_bucket_def demo_agg_def demo_series_def)
  with 1 2 3 4 show ?thesis
    by (auto simp: a0 demo_ticks_def)
qed

theorem live_candles_summarise_ticks_witness:
  "\<exists>a0 a. ClosedCandleAggregator demo_series 1 100 = Inr a0 \<and>
     feed_ticks (\<lambda>_. ''id'') demo_ticks a0 =
       ([demo_tick 60 3, demo_tick 70 5, demo_tick 90 4, demo_tick 120 7], [demo_live_candle], a) \<and>
     cc_high_units demo_live_candle = Max (tick_units 1 ` set [demo_tick 60 3, demo_tick 70 5, demo_tick 90 4])"
proof -
  obtain a0 where a0: "ClosedCandleAggregator demo_series 1 100 = Inr a0"
    by (simp add: ClosedCandleAggregator_def)
  obtain a where feed: "feed_ticks (\<lambda>_. ''id'') demo_ticks a0 =
      ([demo_tick 60 3, demo_tick 70 5, demo_tick 90 4, demo_tick 120 7], [demo_live_candle], a)"
    using demo_feed_ticks [OF a0] by blast
  have "a0 = demo_agg [] None"
    using a0 by (auto simp: ClosedCandleAggregator_def demo_agg_def)
  then have gs: "runs (bucket_open a0) [demo_tick 60 3, demo_tick 70 5, demo_tick 90 4, demo_tick 120 7] =
      [[demo_tick 60 3, demo_tick 70 5, demo_tick 90 4], [demo_tick 120 7]]"
    by (simp add: demo_open)
  have "\<forall>k<length [demo_live_candle]. cc_high_units ([demo_live_candle] ! k) =
      Max (tick_units 1 ` set ([[demo_tick 60 3, demo_tick 70 5, demo_tick 90 4], [demo_tick 120 7]] ! k))"
    using live_candles_summarise_ticks [OF a0 feed gs [symmetric]] by blast
  then have "cc_high_units demo_live_candle =
      Max (tick_units 1 ` set [demo_tick 60 3, demo_tick 70 5, demo_tick 90 4])"
    by (simp del: list.set)
  then show ?thesis
    using a0 feed by blast
qed

end
