(* ===== verification/MarketGate.thy ===== *)
theory MarketGate
  imports LiveCandles "HOL-Library.AList"
begin

text \<open>
  The health of a market series: \<open>MarketHealthGate\<close> of \<open>packages/market_pipeline/health.py\<close>,
  with the horizon of \<open>packages/market_pipeline/clock.py\<close> and the backfill planner of
  \<open>packages/market_pipeline/planner.py\<close>. Only a healthy series may be dispatched. The lemmas show
  what made it healthy, and what a backfill plan asks for. Emitted events are not modelled.
\<close>

section \<open>Health of a series\<close>

datatype series_health =
    SH_INITIALIZING | SH_WARMING_UP | SH_HEALTHY | SH_STALE | SH_GAPPED | SH_BACKPRESSURED
  | SH_RECONNECTING | SH_CLOCK_UNTRUSTED | SH_INCOMPATIBLE | SH_FAILED

datatype health_reason =
    MD_HEALTHY | MD_INITIAL_WARMUP | MD_SOURCE_STALE | MD_GAP_DETECTED | MD_BACKPRESSURE
  | MD_RECONNECT_REQUIRED | MD_CLOCK_UNTRUSTED | MD_SCHEMA_INCOMPATIBLE | MD_STORAGE_FAILED
  | MD_SCOPE_MISMATCH | MD_HISTORY_EXHAUSTED | MD_STALE_CONNECTION_RESPONSE
  | MD_CONTINUITY_UNPROVEN | MD_SHADOW_DIVERGENCE

record series_state =
  ss_health :: series_health
  ss_reason :: health_reason
  ss_required :: int
  ss_durable :: int
  ss_last_close :: "int option"
  ss_last_source_event :: "string option"
  ss_gap_count :: nat
  ss_backpressure :: bool
  ss_generation :: nat

text \<open>The dictionary of states, in order of registration.\<close>

type_synonym market_gate = "(market_series_id \<times> series_state) list"

definition new_series_state :: "int \<Rightarrow> series_state" where
  "new_series_state required = \<lparr>ss_health = SH_INITIALIZING, ss_reason = MD_INITIAL_WARMUP,
     ss_required = required, ss_durable = 0, ss_last_close = None, ss_last_source_event = None,
     ss_gap_count = 0, ss_backpressure = False, ss_generation = 0\<rparr>"

definition require_series :: "market_series_id \<Rightarrow> market_gate \<Rightarrow> exc + series_state" where
  "require_series sid g = (case map_of g sid of
     None \<Rightarrow> Inl (KeyError ''market series is not registered'') | Some st \<Rightarrow> Inr st)"

definition gate_register :: "market_series_id \<Rightarrow> int \<Rightarrow> market_gate \<Rightarrow> (exc + unit) \<times> market_gate" where
  "gate_register sid required g =
     (if required \<le> 0 then (Inl (ValueError ''market warmup requirement must be positive''), g)
      else case map_of g sid of
        Some st \<Rightarrow>
          (if ss_required st \<noteq> required
           then Inl (ValueError ''market series already has another warmup requirement'') else Inr (), g)
      | None \<Rightarrow> (Inr (), AList.update sid (new_series_state required) g))"

record health_snapshot =
  hs_series_id :: market_series_id
  hs_health :: series_health
  hs_reason :: health_reason
  hs_last_durable_close :: "int option"
  hs_last_source_event :: "string option"
  hs_gap_count :: nat
  hs_backpressure_active :: bool
  hs_reconnect_generation :: nat
  hs_warmup_progress :: int
  hs_warmup_required :: int
  hs_dispatch_allowed :: bool

definition series_snapshot :: "market_series_id \<Rightarrow> market_gate \<Rightarrow> exc + health_snapshot" where
  "series_snapshot sid g = and_then (require_series sid g) (\<lambda>st.
     Inr \<lparr>hs_series_id = sid, hs_health = ss_health st, hs_reason = ss_reason st,
       hs_last_durable_close = ss_last_close st, hs_last_source_event = ss_last_source_event st,
       hs_gap_count = ss_gap_count st, hs_backpressure_active = ss_backpressure st,
       hs_reconnect_generation = ss_generation st,
       hs_warmup_progress = min (ss_durable st) (ss_required st), hs_warmup_required = ss_required st,
       hs_dispatch_allowed = (ss_health st = SH_HEALTHY)\<rparr>)"

definition BROKER_PRIORITY :: "series_health list" where
  "BROKER_PRIORITY = [SH_FAILED, SH_INCOMPATIBLE, SH_CLOCK_UNTRUSTED, SH_BACKPRESSURED, SH_GAPPED,
     SH_RECONNECTING, SH_STALE, SH_WARMING_UP, SH_INITIALIZING, SH_HEALTHY]"

record broker_health =
  bh_broker :: broker
  bh_health :: series_health
  bh_active_series :: nat
  bh_blocked_series :: nat

definition broker_snapshot :: "broker \<Rightarrow> market_gate \<Rightarrow> broker_health" where
  "broker_snapshot brk g =
     (let states = map snd (filter (\<lambda>(sid, st). sid_broker sid = brk) g) in
      if states = [] then \<lparr>bh_broker = brk, bh_health = SH_INITIALIZING, bh_active_series = 0,
        bh_blocked_series = 0\<rparr>
      else \<lparr>bh_broker = brk,
        bh_health = the (List.find (\<lambda>h. list_ex (\<lambda>st. ss_health st = h) states) BROKER_PRIORITY),
        bh_active_series = length states,
        bh_blocked_series = length (filter (\<lambda>st. ss_health st \<noteq> SH_HEALTHY) states)\<rparr>)"

text \<open>\<open>None\<close> leaves a field as it is.\<close>

definition changed_state ::
  "series_health \<Rightarrow> health_reason \<Rightarrow> int option \<Rightarrow> int option \<Rightarrow> string option \<Rightarrow> series_state \<Rightarrow> series_state" where
  "changed_state health reason durable last_close last_event st =
     st\<lparr>ss_health := health, ss_reason := reason,
       ss_durable := (case durable of None \<Rightarrow> ss_durable st | Some n \<Rightarrow> n),
       ss_last_close := (case last_close of None \<Rightarrow> ss_last_close st | Some t \<Rightarrow> Some t),
       ss_last_source_event := (case last_event of None \<Rightarrow> ss_last_source_event st | Some e \<Rightarrow> Some e)\<rparr>"

definition on_series ::
  "market_series_id \<Rightarrow> (series_state \<Rightarrow> 'a \<times> series_state) \<Rightarrow> market_gate \<Rightarrow> (exc + 'a) \<times> market_gate" where
  "on_series sid f g = (case require_series sid g of
     Inl e \<Rightarrow> (Inl e, g)
   | Inr st \<Rightarrow> (case f st of (x, st') \<Rightarrow> (Inr x, AList.update sid st' g)))"

definition mark_warming_up ::
  "market_series_id \<Rightarrow> int \<Rightarrow> int option \<Rightarrow> string option \<Rightarrow> market_gate \<Rightarrow> (exc + unit) \<times> market_gate" where
  "mark_warming_up sid durable last_close last_event = on_series sid (\<lambda>st.
     ((), changed_state SH_WARMING_UP MD_INITIAL_WARMUP (Some durable) last_close last_event st))"

definition mark_gap :: "market_series_id \<Rightarrow> market_gate \<Rightarrow> (exc + unit) \<times> market_gate" where
  "mark_gap sid = on_series sid (\<lambda>st.
     ((), changed_state SH_GAPPED MD_GAP_DETECTED None None None (st\<lparr>ss_gap_count := ss_gap_count st + 1\<rparr>)))"

definition mark_backpressure :: "market_series_id \<Rightarrow> market_gate \<Rightarrow> (exc + unit) \<times> market_gate" where
  "mark_backpressure sid = on_series sid (\<lambda>st.
     ((), changed_state SH_BACKPRESSURED MD_BACKPRESSURE None None None (st\<lparr>ss_backpressure := True\<rparr>)))"

definition mark_clock_untrusted :: "market_series_id \<Rightarrow> market_gate \<Rightarrow> (exc + unit) \<times> market_gate" where
  "mark_clock_untrusted sid = on_series sid (\<lambda>st.
     ((), changed_state SH_CLOCK_UNTRUSTED MD_CLOCK_UNTRUSTED None None None st))"

definition mark_series_failed :: "market_series_id \<Rightarrow> health_reason \<Rightarrow> market_gate \<Rightarrow> (exc + unit) \<times> market_gate" where
  "mark_series_failed sid reason = on_series sid (\<lambda>st. ((), changed_state SH_FAILED reason None None None st))"

definition mark_incompatible :: "market_series_id \<Rightarrow> market_gate \<Rightarrow> (exc + unit) \<times> market_gate" where
  "mark_incompatible sid = on_series sid (\<lambda>st.
     ((), changed_state SH_INCOMPATIBLE MD_SCHEMA_INCOMPATIBLE None None None st))"

definition start_reconnect :: "market_series_id \<Rightarrow> market_gate \<Rightarrow> (exc + nat) \<times> market_gate" where
  "start_reconnect sid = on_series sid (\<lambda>st. let gen = ss_generation st + 1 in
     (gen, changed_state SH_RECONNECTING MD_RECONNECT_REQUIRED None None None (st\<lparr>ss_generation := gen\<rparr>)))"

definition mark_suspended :: "market_series_id \<Rightarrow> market_gate \<Rightarrow> (exc + nat) \<times> market_gate" where
  "mark_suspended sid = on_series sid (\<lambda>st. let gen = ss_generation st + 1 in
     (gen, changed_state SH_STALE MD_SOURCE_STALE None None None (st\<lparr>ss_generation := gen\<rparr>)))"

definition complete_recovery ::
  "market_series_id \<Rightarrow> nat \<Rightarrow> bool \<Rightarrow> bool \<Rightarrow> int \<Rightarrow> int option \<Rightarrow> string option \<Rightarrow> market_gate \<Rightarrow>
     (exc + bool) \<times> market_gate" where
  "complete_recovery sid generation continuity_valid clock_trusted durable last_close last_event =
     on_series sid (\<lambda>st.
       if generation \<noteq> ss_generation st then (False, st)
       else let (target, reason) =
             (if \<not> clock_trusted then (SH_CLOCK_UNTRUSTED, MD_CLOCK_UNTRUSTED)
              else if \<not> continuity_valid then (SH_GAPPED, MD_CONTINUITY_UNPROVEN)
              else if durable < ss_required st then (SH_WARMING_UP, MD_INITIAL_WARMUP)
              else (SH_HEALTHY, MD_HEALTHY));
           st1 = (if target = SH_HEALTHY then st\<lparr>ss_gap_count := 0, ss_backpressure := False\<rparr> else st);
           st2 = st1\<lparr>ss_durable := durable, ss_last_close := last_close, ss_last_source_event := last_event\<rparr> in
         (target = SH_HEALTHY, changed_state target reason None None None st2))"

section \<open>Runs of the gate\<close>

datatype gate_op =
    Op_register market_series_id int
  | Op_warming_up market_series_id int "int option" "string option"
  | Op_gap market_series_id
  | Op_backpressure market_series_id
  | Op_clock_untrusted market_series_id
  | Op_failed market_series_id health_reason
  | Op_incompatible market_series_id
  | Op_reconnect market_series_id
  | Op_suspended market_series_id
  | Op_complete market_series_id nat bool bool int "int option" "string option"

fun op_series :: "gate_op \<Rightarrow> market_series_id" where
  "op_series (Op_register sid _) = sid"
| "op_series (Op_warming_up sid _ _ _) = sid"
| "op_series (Op_gap sid) = sid"
| "op_series (Op_backpressure sid) = sid"
| "op_series (Op_clock_untrusted sid) = sid"
| "op_series (Op_failed sid _) = sid"
| "op_series (Op_incompatible sid) = sid"
| "op_series (Op_reconnect sid) = sid"
| "op_series (Op_suspended sid) = sid"
| "op_series (Op_complete sid _ _ _ _ _ _) = sid"

fun run_op :: "gate_op \<Rightarrow> market_gate \<Rightarrow> market_gate" where
  "run_op (Op_register sid n) g = snd (gate_register sid n g)"
| "run_op (Op_warming_up sid n t e) g = snd (mark_warming_up sid n t e g)"
| "run_op (Op_gap sid) g = snd (mark_gap sid g)"
| "run_op (Op_backpressure sid) g = snd (mark_backpressure sid g)"
| "run_op (Op_clock_untrusted sid) g = snd (mark_clock_untrusted sid g)"
| "run_op (Op_failed sid r) g = snd (mark_series_failed sid r g)"
| "run_op (Op_incompatible sid) g = snd (mark_incompatible sid g)"
| "run_op (Op_reconnect sid) g = snd (start_reconnect sid g)"
| "run_op (Op_suspended sid) g = snd (mark_suspended sid g)"
| "run_op (Op_complete sid gen cont clk n t e) g = snd (complete_recovery sid gen cont clk n t e g)"

definition run_ops :: "gate_op list \<Rightarrow> market_gate \<Rightarrow> market_gate" where
  "run_ops ops g = fold run_op ops g"

lemma map_of_on_series:
  "map_of (snd (on_series sid f g)) s =
     (if s = sid then map_option (\<lambda>st. snd (f st)) (map_of g sid) else map_of g s)"
  by (auto simp: on_series_def require_series_def AList.update_conv' split: option.split prod.split)

lemmas gate_marks = mark_warming_up_def mark_gap_def mark_backpressure_def mark_clock_untrusted_def
  mark_series_failed_def mark_incompatible_def start_reconnect_def mark_suspended_def

lemma other_series: "op_series op \<noteq> s \<Longrightarrow> map_of (run_op op g) s = map_of g s"
  by (cases op) (auto simp: gate_marks complete_recovery_def map_of_on_series gate_register_def AList.update_conv' split: option.split)

text \<open>Only a complete recovery of the current generation makes a series healthy.\<close>

lemma recovered_state:
  assumes "map_of g s = Some st" "map_of (snd (complete_recovery s gen cont clk n t e g)) s = Some st'"
  shows "gen \<noteq> ss_generation st \<and> st' = st \<or>
    gen = ss_generation st \<and> ss_generation st' = gen \<and> ss_required st' = ss_required st \<and>
      (ss_health st' = SH_HEALTHY \<longleftrightarrow> clk \<and> cont \<and> ss_required st \<le> n)"
  using assms
  by (cases "gen = ss_generation st"; cases clk; cases cont; cases "n < ss_required st")
    (simp_all add: complete_recovery_def map_of_on_series changed_state_def, safe, simp_all)

lemma marked_unhealthy:
  assumes "op_series op = s" "\<forall>n. op \<noteq> Op_register s n" "\<forall>gen cont clk n t e. op \<noteq> Op_complete s gen cont clk n t e"
    "map_of (run_op op g) s = Some st'"
  shows "ss_health st' \<noteq> SH_HEALTHY"
  using assms by (cases op) (auto simp: gate_marks map_of_on_series changed_state_def Let_def)

lemma registered_same:
  "map_of (snd (gate_register s n g)) s = Some st' \<Longrightarrow> ss_health st' = SH_HEALTHY \<Longrightarrow> map_of g s = Some st'"
  by (auto simp: gate_register_def AList.update_conv' new_series_state_def split: if_splits option.splits)

lemma made_healthy:
  assumes "map_of (run_op op g) s = Some st'" "ss_health st' = SH_HEALTHY"
  shows "(\<exists>n t e. op = Op_complete s (ss_generation st') True True n t e \<and> ss_required st' \<le> n) \<or>
    (map_of g s = Some st' \<and>
      (op_series op = s \<longrightarrow> (\<exists>n. op = Op_register s n) \<or>
        (\<exists>gen cont clk n t e. op = Op_complete s gen cont clk n t e \<and> gen \<noteq> ss_generation st')))"
proof -
  consider (other) "op_series op \<noteq> s" | (reg) n where "op = Op_register s n"
    | (complete) gen cont clk n t e where "op = Op_complete s gen cont clk n t e"
    using marked_unhealthy [OF _ _ _ assms(1)] assms(2) by blast
  then show ?thesis
  proof cases
    case other
    then show ?thesis using assms other_series by auto
  next
    case reg
    then show ?thesis using assms registered_same [of s n g st'] by simp
  next
    case complete
    then have run: "map_of (snd (complete_recovery s gen cont clk n t e g)) s = Some st'"
      using assms(1) by simp
    then obtain st where st: "map_of g s = Some st"
      by (cases "map_of g s") (simp_all add: complete_recovery_def map_of_on_series)
    show ?thesis
      using recovered_state [OF st run] assms(2) complete st by (elim disjE) simp_all
  qed
qed

text \<open>An operation that leaves a healthy series as it is.\<close>

definition harmless :: "market_series_id \<Rightarrow> nat \<Rightarrow> gate_op \<Rightarrow> bool" where
  "harmless s gen op \<longleftrightarrow> op_series op \<noteq> s \<or> (\<exists>n. op = Op_register s n) \<or>
     (\<exists>g cont clk n t e. op = Op_complete s g cont clk n t e \<and> g \<noteq> gen)"

lemma healthy_since:
  assumes "map_of (run_ops ops []) s = Some st" "ss_health st = SH_HEALTHY"
  shows "\<exists>pre n t e post. ops = pre @ Op_complete s (ss_generation st) True True n t e # post \<and>
    ss_required st \<le> n \<and> list_all (harmless s (ss_generation st)) post"
  using assms
proof (induction ops rule: rev_induct)
  case (snoc op ops)
  have step: "map_of (run_op op (run_ops ops [])) s = Some st"
    using snoc.prems(1) by (simp add: run_ops_def)
  from made_healthy [OF step snoc.prems(2)] show ?case
  proof (elim disjE)
    assume "\<exists>n t e. op = Op_complete s (ss_generation st) True True n t e \<and> ss_required st \<le> n"
    then show ?thesis by fastforce
  next
    assume kept: "map_of (run_ops ops []) s = Some st \<and>
      (op_series op = s \<longrightarrow> (\<exists>n. op = Op_register s n) \<or>
        (\<exists>gen cont clk n t e. op = Op_complete s gen cont clk n t e \<and> gen \<noteq> ss_generation st))"
    then obtain pre n t e post where "ops = pre @ Op_complete s (ss_generation st) True True n t e # post"
        "ss_required st \<le> n" "list_all (harmless s (ss_generation st)) post"
      using snoc.IH snoc.prems(2) by blast
    moreover have "harmless s (ss_generation st) op"
      using kept by (auto simp: harmless_def)
    ultimately have "ops @ [op] = pre @ Op_complete s (ss_generation st) True True n t e # (post @ [op])"
        "ss_required st \<le> n" "list_all (harmless s (ss_generation st)) (post @ [op])"
      by simp_all
    then show ?thesis by blast
  qed
qed (simp add: run_ops_def)

text \<open>
  C38. A series may be dispatched only on the strength of a recovery that proved it: whatever
  operations were applied to a new gate, a series whose snapshot allows dispatch was last changed
  by a complete recovery of its current connection generation, with a trusted clock, proven
  continuity and at least the required number of durable candles. Every gap, back pressure,
  reconnect, suspension, failure or renewed warm-up closes it again, and a recovery that answers
  an earlier connection opens nothing.
\<close>

theorem dispatch_needs_current_recovery:
  assumes "series_snapshot s (run_ops ops []) = Inr h" "hs_dispatch_allowed h"
  shows "\<exists>pre n t e post.
    ops = pre @ Op_complete s (hs_reconnect_generation h) True True n t e # post \<and>
    hs_warmup_required h \<le> n \<and> list_all (harmless s (hs_reconnect_generation h)) post"
proof -
  obtain st where "map_of (run_ops ops []) s = Some st" "ss_health st = SH_HEALTHY"
      "hs_reconnect_generation h = ss_generation st" "hs_warmup_required h = ss_required st"
    using assms by (auto simp: series_snapshot_def require_series_def split: option.splits)
  then show ?thesis
    using healthy_since [of ops s st] by simp
qed

definition demo_gate_ops :: "gate_op list" where
  "demo_gate_ops = [Op_register demo_series 2, Op_reconnect demo_series,
     Op_complete demo_series 0 True True 5 None None, Op_complete demo_series 1 True True 2 (Some 60) None]"

theorem dispatch_needs_current_recovery_witness:
  "\<exists>h. series_snapshot demo_series (run_ops demo_gate_ops []) = Inr h \<and> hs_dispatch_allowed h \<and>
     (\<exists>pre n t e post. demo_gate_ops = pre @ Op_complete demo_series 1 True True n t e # post \<and> 2 \<le> n)"
proof -
  obtain h where h: "series_snapshot demo_series (run_ops demo_gate_ops []) = Inr h" "hs_dispatch_allowed h"
      "hs_reconnect_generation h = 1" "hs_warmup_required h = 2"
    by (simp add: run_ops_def demo_gate_ops_def gate_register_def new_series_state_def start_reconnect_def
        complete_recovery_def on_series_def require_series_def changed_state_def series_snapshot_def Let_def)
  show ?thesis
    using dispatch_needs_current_recovery [OF h(1,2)] h(1,2) unfolding h(3,4) by blast
qed

section \<open>Backfill plans\<close>

record trusted_horizon =
  th_source_epoch_seconds :: int
  th_close_epoch_ms :: int
  th_observed_monotonic :: rat

definition TrustedClosedHorizon :: "trusted_horizon \<Rightarrow> exc + trusted_horizon" where
  "TrustedClosedHorizon h =
     and_then (raise_if (th_source_epoch_seconds h \<le> 0 \<or> th_close_epoch_ms h < 0)
       (ValueError ''trusted closed horizon is invalid'')) (\<lambda>_.
     and_then (raise_if (th_observed_monotonic h < 0)
       (ValueError ''trusted horizon monotonic time cannot be negative'')) (\<lambda>_.
     Inr h))"

definition trusted_closed_horizon ::
  "market_series_id \<Rightarrow> int option \<Rightarrow> rat \<Rightarrow> exc + trusted_horizon option" where
  "trusted_closed_horizon sid source_epoch observed = (case source_epoch of
     None \<Rightarrow> Inr None
   | Some epoch \<Rightarrow>
       if epoch \<le> 0 then Inl (ValueError ''source epoch must be positive'')
       else let tf = sid_timeframe_seconds sid; closed = (epoch div tf) * tf in
         and_then (TrustedClosedHorizon \<lparr>th_source_epoch_seconds = epoch, th_close_epoch_ms = closed * 1000,
           th_observed_monotonic = observed\<rparr>) (\<lambda>h. Inr (Some h)))"

record backfill_plan =
  bp_series_id :: market_series_id
  bp_generation :: int
  bp_start_close_epoch_ms :: int
  bp_end_close_epoch_ms :: int
  bp_count :: int
  bp_overlap_candles :: int
  bp_trusted_closed_horizon_ms :: int

definition end_epoch_seconds :: "backfill_plan \<Rightarrow> int" where
  "end_epoch_seconds p = bp_end_close_epoch_ms p div 1000"

record planner =
  pl_max_candles_per_batch :: int
  pl_backfill_overlap_candles :: int

definition BackfillPlanner :: "int \<Rightarrow> int \<Rightarrow> exc + planner" where
  "BackfillPlanner max_batch overlap =
     and_then (raise_if (max_batch \<le> 0) (ValueError ''backfill batch size must be positive'')) (\<lambda>_.
     and_then (raise_if (\<not> (1 \<le> overlap \<and> overlap \<le> max_batch))
       (ValueError ''backfill overlap is outside the bounded batch'')) (\<lambda>_.
     Inr \<lparr>pl_max_candles_per_batch = max_batch, pl_backfill_overlap_candles = overlap\<rparr>))"

definition make_plan ::
  "market_series_id \<Rightarrow> int \<Rightarrow> trusted_horizon \<Rightarrow> int \<Rightarrow> int \<Rightarrow> int \<Rightarrow> int \<Rightarrow> backfill_plan" where
  "make_plan sid generation h start_close end_close count overlap =
     \<lparr>bp_series_id = sid, bp_generation = generation, bp_start_close_epoch_ms = start_close,
      bp_end_close_epoch_ms = end_close, bp_count = count, bp_overlap_candles = overlap,
      bp_trusted_closed_horizon_ms = th_close_epoch_ms h\<rparr>"

text \<open>The two branches of \<open>plan\<close>: after a durable close, and for an empty series.\<close>

definition plan_after ::
  "planner \<Rightarrow> market_series_id \<Rightarrow> int \<Rightarrow> trusted_horizon \<Rightarrow> int \<Rightarrow> int \<Rightarrow> int \<Rightarrow> bool \<Rightarrow>
     exc + backfill_plan option" where
  "plan_after pl sid generation h last_close durable required force_overlap =
     (let tf = sid_timeframe_seconds sid * 1000; trusted = th_close_epoch_ms h;
          overlap = pl_backfill_overlap_candles pl in
      if (trusted - last_close) mod tf \<noteq> 0
      then Inl (ValueError ''durable boundary and trusted horizon have different phases'')
      else let missing = max 0 ((trusted - last_close) div tf); warmup_missing = max 0 (required - durable) in
        if missing = 0 \<and> warmup_missing = 0
        then (if \<not> force_overlap then Inr None
          else let count = min overlap durable in
            if count \<le> 0 then Inr None
            else Inr (Some (make_plan sid generation h (last_close - (count - 1) * tf) last_close count count)))
        else let advance = min (max missing warmup_missing) (pl_max_candles_per_batch pl - overlap) in
          if advance \<le> 0 then Inl (ValueError ''backfill batch cannot advance beyond overlap'')
          else let count = advance + overlap; end_close = min trusted (last_close + advance * tf) in
            Inr (Some (make_plan sid generation h (end_close - (count - 1) * tf) end_close count overlap)))"

definition plan_empty ::
  "planner \<Rightarrow> market_series_id \<Rightarrow> int \<Rightarrow> trusted_horizon \<Rightarrow> int \<Rightarrow> exc + backfill_plan option" where
  "plan_empty pl sid generation h required =
     (let tf = sid_timeframe_seconds sid * 1000; trusted = th_close_epoch_ms h; available = trusted div tf in
      if available \<le> 0 then Inr None
      else let target = min required available; count = min target (pl_max_candles_per_batch pl);
          target_start = trusted - (target - 1) * tf in
        Inr (Some (make_plan sid generation h target_start (target_start + (count - 1) * tf) count
          (pl_backfill_overlap_candles pl))))"

definition plan ::
  "planner \<Rightarrow> market_series_id \<Rightarrow> int \<Rightarrow> trusted_horizon \<Rightarrow> int option \<Rightarrow> int \<Rightarrow> int \<Rightarrow> bool \<Rightarrow>
     exc + backfill_plan option" where
  "plan pl sid generation h last_durable_close durable required force_overlap =
     (if generation < 0 \<or> durable < 0 \<or> required \<le> 0 then Inl (ValueError ''backfill planner state is invalid'')
      else case last_durable_close of
        Some t \<Rightarrow> plan_after pl sid generation h t durable required force_overlap
      | None \<Rightarrow> plan_empty pl sid generation h required)"

text \<open>A plan asks for a bounded batch of candles of the series that ends at or before the horizon.\<close>

lemma plan_after_cases:
  assumes "plan_after pl sid generation h t durable required force = Inr (Some p)"
  defines "tf \<equiv> sid_timeframe_seconds sid * 1000" and "overlap \<equiv> pl_backfill_overlap_candles pl"
  obtains (overlap) count where "(th_close_epoch_ms h - t) div tf \<le> 0" "0 < count" "count \<le> overlap"
      "p = make_plan sid generation h (t - (count - 1) * tf) t count count"
    | (advance) advance end_close where "0 < advance" "advance \<le> pl_max_candles_per_batch pl - overlap"
      "end_close = min (th_close_epoch_ms h) (t + advance * tf)" "(th_close_epoch_ms h - t) mod tf = 0"
      "p = make_plan sid generation h (end_close - (advance + overlap - 1) * tf) end_close (advance + overlap) overlap"
proof -
  define missing where "missing = max 0 ((th_close_epoch_ms h - t) div tf)"
  define warmup where "warmup = max 0 (required - durable)"
  define adv where "adv = min (max missing warmup) (pl_max_candles_per_batch pl - overlap)"
  note unfolded = assms(1) [unfolded plan_after_def Let_def tf_def [symmetric] overlap_def [symmetric]
      missing_def [symmetric] warmup_def [symmetric] adv_def [symmetric]]
  have phase: "(th_close_epoch_ms h - t) mod tf = 0"
    using unfolded by (simp split: if_splits)
  show ?thesis
  proof (cases "missing = 0 \<and> warmup = 0")
    case True
    then show ?thesis
      using unfolded phase overlap [of "min overlap durable"] by (auto simp: missing_def max_def min_le_iff_disj not_le split: if_splits)
  next
    case False
    then show ?thesis
      using unfolded phase advance [of adv "min (th_close_epoch_ms h) (t + adv * tf)"]
      by (auto simp: adv_def min_le_iff_disj not_le split: if_splits)
  qed
qed

lemma plan_after_bounded:
  assumes "plan_after pl sid generation h t durable required force = Inr (Some p)" "t \<le> th_close_epoch_ms h"
    "pl_backfill_overlap_candles pl \<le> pl_max_candles_per_batch pl" "0 < pl_backfill_overlap_candles pl"
  shows "0 < bp_count p \<and> bp_count p \<le> pl_max_candles_per_batch pl \<and>
    bp_end_close_epoch_ms p \<le> th_close_epoch_ms h \<and>
    bp_start_close_epoch_ms p = bp_end_close_epoch_ms p - (bp_count p - 1) * (sid_timeframe_seconds sid * 1000)"
  using assms(1) by (cases rule: plan_after_cases) (use assms(2-4) in \<open>auto simp: make_plan_def\<close>)

lemma plan_empty_bounded:
  assumes "plan_empty pl sid generation h required = Inr (Some p)" "0 < required"
    "0 < sid_timeframe_seconds sid" "0 < pl_max_candles_per_batch pl"
  shows "0 < bp_count p \<and> bp_count p \<le> pl_max_candles_per_batch pl \<and>
    bp_end_close_epoch_ms p \<le> th_close_epoch_ms h \<and>
    bp_start_close_epoch_ms p = bp_end_close_epoch_ms p - (bp_count p - 1) * (sid_timeframe_seconds sid * 1000)"
proof -
  let ?tf = "sid_timeframe_seconds sid * 1000" and ?target = "min required (th_close_epoch_ms h div (sid_timeframe_seconds sid * 1000))"
  let ?count = "min ?target (pl_max_candles_per_batch pl)"
  have p: "p = make_plan sid generation h (th_close_epoch_ms h - (?target - 1) * ?tf)
      (th_close_epoch_ms h - (?target - 1) * ?tf + (?count - 1) * ?tf) ?count (pl_backfill_overlap_candles pl)"
      "0 < ?target"
    using assms(1,2) by (auto simp: plan_empty_def Let_def split: if_splits)
  have "(?count - 1) * ?tf \<le> (?target - 1) * ?tf"
    using assms(3) by (intro mult_right_mono) auto
  then show ?thesis
    using p assms(4) by (simp add: make_plan_def)
qed

lemma plan_bounded:
  assumes "BackfillPlanner max_batch overlap = Inr pl" "0 < sid_timeframe_seconds sid"
    "plan pl sid generation h last_close durable required force = Inr (Some p)"
    "case last_close of None \<Rightarrow> True | Some t \<Rightarrow> t \<le> th_close_epoch_ms h"
  shows "0 < bp_count p \<and> bp_count p \<le> max_batch \<and> bp_end_close_epoch_ms p \<le> th_close_epoch_ms h \<and>
    bp_start_close_epoch_ms p = bp_end_close_epoch_ms p - (bp_count p - 1) * (sid_timeframe_seconds sid * 1000)"
  using assms plan_after_bounded [of pl sid generation h _ durable required force p]
    plan_empty_bounded [of pl sid generation h required p]
  by (auto simp: BackfillPlanner_def plan_def raises split: if_splits option.splits)

text \<open>A plan after a durable close leaves no hole: it reaches back to that close and beyond it.\<close>

lemma plan_after_advances:
  assumes "plan_after pl sid generation h t durable required force = Inr (Some p)" "t < th_close_epoch_ms h"
    "0 < sid_timeframe_seconds sid" "0 < pl_backfill_overlap_candles pl"
  shows "bp_start_close_epoch_ms p \<le> t \<and> t + sid_timeframe_seconds sid * 1000 \<le> bp_end_close_epoch_ms p"
proof -
  define tf where "tf = sid_timeframe_seconds sid * 1000"
  have tf: "0 < tf" using assms(3) by (simp add: tf_def)
  from assms(1) show ?thesis
  proof (cases rule: plan_after_cases)
    case (overlap count)
    have "(th_close_epoch_ms h - t) mod tf = 0"
      using assms(1) by (simp add: plan_after_def Let_def tf_def split: if_splits)
    then have "th_close_epoch_ms h - t = ((th_close_epoch_ms h - t) div tf) * tf"
      using div_mult_mod_eq [of "th_close_epoch_ms h - t" tf] by simp
    also have "\<dots> \<le> 0" using overlap(1) tf by (intro mult_nonpos_nonneg) (simp_all add: tf_def)
    finally show ?thesis using assms(2) by simp
  next
    case (advance adv end_close)
    have "th_close_epoch_ms h = t + ((th_close_epoch_ms h - t) div tf) * tf"
      using advance(4)[folded tf_def] div_mult_mod_eq [of "th_close_epoch_ms h - t" tf] by simp
    moreover have "1 \<le> (th_close_epoch_ms h - t) div tf"
      using assms(2) tf advance(4)[folded tf_def] by (simp add: int_one_le_iff_zero_less pos_imp_zdiv_pos_iff zdvd_imp_le dvd_eq_mod_eq_0)
    then have "1 * tf \<le> ((th_close_epoch_ms h - t) div tf) * tf"
      using tf by (intro mult_right_mono) simp_all
    moreover have "1 * tf \<le> adv * tf" "adv * tf \<le> (adv + pl_backfill_overlap_candles pl - 1) * tf"
      using advance(1) tf assms(4) by (intro mult_right_mono; simp)+
    ultimately show ?thesis
      unfolding tf_def [symmetric] using advance(3,5)[folded tf_def] by (auto simp: make_plan_def)
  qed
qed

text \<open>
  When the durable candles reach the horizon but are fewer than the warm-up needs, the plan asks
  for older candles. No store accepts any of them, so such a request never adds a candle.
\<close>

lemma warmup_request_adds_nothing:
  assumes "plan_after pl sid generation h t durable required force = Inr (Some p)" "th_close_epoch_ms h = t"
    "last_close_of (ms_series s (cc_series_key c)) = Some t" "cc_close_time_ms c \<le> bp_end_close_epoch_ms p"
  shows "fst (memory_append c s) \<noteq> Inr STORED"
proof
  assume "fst (memory_append c s) = Inr STORED"
  then have "t < cc_close_time_ms c"
    using memory_append_stored [of c s] assms(3) by (auto simp: append_order_def split: if_splits)
  moreover have "bp_end_close_epoch_ms p \<le> t"
    using assms(1) by (cases rule: plan_after_cases) (use assms(2) in \<open>auto simp: make_plan_def\<close>)
  ultimately show False using assms(4) by simp
qed

end
