(* ===== verification/MarketScheduler.thy ===== *)
theory MarketScheduler
  imports MarketGate
begin

text \<open>
  The scheduler of backfills, \<open>packages/market_pipeline/scheduler.py\<close>: which series is due, the
  order in which due series are served, the delays after a failure and the detection of a suspended
  machine. The job that recovers one series is an argument; it may change the health gate and may raise.
  The clock and the jitter sample are arguments too, and seconds are rationals. Emitted events are not
  modelled.
\<close>

section \<open>Delays\<close>

record backfill_retry =
  bt_maximum_attempts :: nat
  bt_initial_delay_seconds :: rat
  bt_multiplier :: rat
  bt_maximum_delay_seconds :: rat
  bt_jitter_ratio :: rat

definition ReadOnlyBackfillRetryPolicy :: "backfill_retry \<Rightarrow> exc + backfill_retry" where
  "ReadOnlyBackfillRetryPolicy p =
     and_then (raise_if (bt_maximum_attempts p = 0) (ValueError ''read-only retry attempts must be positive'')) (\<lambda>_.
     and_then (raise_if (bt_initial_delay_seconds p \<le> 0 \<or> bt_multiplier p < 1)
       (ValueError ''read-only retry backoff is invalid'')) (\<lambda>_.
     and_then (raise_if (bt_maximum_delay_seconds p < bt_initial_delay_seconds p)
       (ValueError ''read-only retry maximum delay is invalid'')) (\<lambda>_.
     and_then (raise_if (\<not> (0 \<le> bt_jitter_ratio p \<and> bt_jitter_ratio p \<le> 1))
       (ValueError ''read-only retry jitter ratio is invalid'')) (\<lambda>_.
     Inr p))))"

definition backfill_delay :: "backfill_retry \<Rightarrow> nat \<Rightarrow> rat \<Rightarrow> exc + rat" where
  "backfill_delay p failures sample =
     and_then (raise_if (failures = 0) (ValueError ''failure count must be positive'')) (\<lambda>_.
     let base = min (bt_maximum_delay_seconds p) (bt_initial_delay_seconds p * bt_multiplier p ^ (failures - 1)) in
     and_then (raise_if (\<not> (0 \<le> sample \<and> sample \<le> 1)) (ValueError ''jitter sample must be between zero and one'')) (\<lambda>_.
     let spread = base * bt_jitter_ratio p in
     Inr (min (bt_maximum_delay_seconds p) (base - spread + 2 * spread * sample))))"

section \<open>The scheduler\<close>

record job_result =
  jr_generation :: nat
  jr_success :: bool
  jr_last_durable_close_epoch :: "int option"
  jr_recovery_required :: bool
  jr_reason :: health_reason

text \<open>A job gives its result, or \<open>None\<close> when it raises, and the health gate it leaves.\<close>

type_synonym backfill_job = "market_series_id \<Rightarrow> nat \<Rightarrow> market_gate \<Rightarrow> job_result option \<times> market_gate"

record schedule_state =
  sh_last_durable_close_epoch :: "int option"
  sh_last_attempt_monotonic :: "rat option"
  sh_next_due_monotonic :: rat
  sh_failure_count :: nat
  sh_reconnect_generation :: nat
  sh_health :: series_health
  sh_recovery_required :: bool
  sh_reason :: health_reason

record scheduler =
  sc_interval :: rat
  sc_suspension_threshold :: rat
  sc_max_concurrency :: nat
  sc_retry :: backfill_retry
  sc_states :: "(market_series_id \<times> schedule_state) list"
  sc_order :: "market_series_id list"
  sc_cursor :: nat
  sc_active :: "market_series_id list"
  sc_last_tick :: "rat option"
  sc_health :: market_gate
  sc_failures :: nat
  sc_retries :: nat

definition MarketBackfillScheduler :: "rat \<Rightarrow> rat \<Rightarrow> int \<Rightarrow> backfill_retry \<Rightarrow> market_gate \<Rightarrow> exc + scheduler" where
  "MarketBackfillScheduler interval_seconds suspension_threshold max_concurrency retry health =
     and_then (raise_if (interval_seconds \<le> 0 \<or> suspension_threshold \<le> 0)
       (ValueError ''scheduler durations must be positive'')) (\<lambda>_.
     and_then (raise_if (max_concurrency \<le> 0) (ValueError ''backfill concurrency must be positive'')) (\<lambda>_.
     Inr \<lparr>sc_interval = interval_seconds, sc_suspension_threshold = suspension_threshold,
       sc_max_concurrency = nat max_concurrency, sc_retry = retry, sc_states = [], sc_order = [], sc_cursor = 0,
       sc_active = [], sc_last_tick = None, sc_health = health, sc_failures = 0, sc_retries = 0\<rparr>))"

definition register_series ::
  "market_series_id \<Rightarrow> int option \<Rightarrow> rat \<Rightarrow> rat \<Rightarrow> scheduler \<Rightarrow> (exc + unit) \<times> scheduler" where
  "register_series sid last_close initial_delay now s =
     (if initial_delay < 0 then (Inl (ValueError ''initial scheduler delay cannot be negative''), s)
      else if map_of (sc_states s) sid \<noteq> None then (Inr (), s)
      else case series_snapshot sid (sc_health s) of
        Inl e \<Rightarrow> (Inl e, s)
      | Inr snapshot \<Rightarrow> (Inr (), s\<lparr>sc_states := AList.update sid
            \<lparr>sh_last_durable_close_epoch = last_close, sh_last_attempt_monotonic = None,
             sh_next_due_monotonic = now + initial_delay, sh_failure_count = 0,
             sh_reconnect_generation = hs_reconnect_generation snapshot, sh_health = hs_health snapshot,
             sh_recovery_required = True, sh_reason = hs_reason snapshot\<rparr> (sc_states s),
           sc_order := sc_order s @ [sid]\<rparr>))"

definition put_state :: "market_series_id \<Rightarrow> schedule_state \<Rightarrow> scheduler \<Rightarrow> scheduler" where
  "put_state sid st s = s\<lparr>sc_states := AList.update sid st (sc_states s)\<rparr>"

definition trigger_backfill :: "market_series_id \<Rightarrow> rat \<Rightarrow> scheduler \<Rightarrow> (exc + unit) \<times> scheduler" where
  "trigger_backfill sid now s = (case map_of (sc_states s) sid of
     None \<Rightarrow> (Inl (KeyError ''series''), s)
   | Some st \<Rightarrow> (Inr (), put_state sid (st\<lparr>sh_next_due_monotonic := min (sh_next_due_monotonic st) now,
       sh_recovery_required := True\<rparr>) s))"

fun handle_suspension :: "rat \<Rightarrow> market_series_id list \<Rightarrow> scheduler \<Rightarrow> (exc + unit) \<times> scheduler" where
  "handle_suspension now [] s = (Inr (), s)"
| "handle_suspension now (sid # sids) s =
     (case mark_suspended sid (sc_health s) of
        (Inl e, g) \<Rightarrow> (Inl e, s\<lparr>sc_health := g\<rparr>)
      | (Inr generation, g) \<Rightarrow> (case map_of (sc_states s) sid of
          None \<Rightarrow> (Inl (KeyError ''series''), s\<lparr>sc_health := g\<rparr>)
        | Some st \<Rightarrow> handle_suspension now sids (put_state sid (st\<lparr>sh_next_due_monotonic := now,
            sh_reconnect_generation := generation, sh_recovery_required := True,
            sh_reason := MD_SOURCE_STALE\<rparr>) (s\<lparr>sc_health := g\<rparr>))))"

text \<open>The due series from the cursor on, and the cursor behind the last of them.\<close>

definition is_due :: "rat \<Rightarrow> scheduler \<Rightarrow> market_series_id \<Rightarrow> bool" where
  "is_due now s sid = (case map_of (sc_states s) sid of None \<Rightarrow> False | Some st \<Rightarrow> sh_next_due_monotonic st \<le> now)"

fun index_of :: "'a \<Rightarrow> 'a list \<Rightarrow> nat" where
  "index_of x [] = 0"
| "index_of x (y # ys) = (if x = y then 0 else Suc (index_of x ys))"

definition fair_due :: "rat \<Rightarrow> scheduler \<Rightarrow> market_series_id list \<times> scheduler" where
  "fair_due now s =
     (if sc_order s = [] then ([], s)
      else let ordered = drop (sc_cursor s) (sc_order s) @ take (sc_cursor s) (sc_order s);
               due = filter (is_due now s) ordered in
        (due, if due = [] then s
              else s\<lparr>sc_cursor := (index_of (last due) (sc_order s) + 1) mod length (sc_order s)\<rparr>))"

definition record_failure ::
  "rat \<Rightarrow> market_series_id \<Rightarrow> schedule_state \<Rightarrow> nat \<Rightarrow> rat \<Rightarrow> health_reason \<Rightarrow> scheduler \<Rightarrow> (exc + unit) \<times> scheduler" where
  "record_failure sample sid st generation now reason s0 = (let
     failures = sh_failure_count st + 1;
     s = s0\<lparr>sc_failures := sc_failures s0 + 1\<rparr>;
     (m, s') = (if bt_maximum_attempts (sc_retry s) \<le> failures
       then (case mark_series_failed sid MD_HISTORY_EXHAUSTED (sc_health s) of
           (Inl e, g) \<Rightarrow> (Inl e, s\<lparr>sc_health := g\<rparr>)
         | (Inr _, g) \<Rightarrow> (Inr (now + bt_maximum_delay_seconds (sc_retry s), MD_HISTORY_EXHAUSTED), s\<lparr>sc_health := g\<rparr>))
       else (and_then (backfill_delay (sc_retry s) failures sample) (\<lambda>d. Inr (now + d, reason)),
         s\<lparr>sc_retries := sc_retries s + 1\<rparr>)) in
     case m of
       Inl e \<Rightarrow> (Inl e, s')
     | Inr (next_due, next_reason) \<Rightarrow> (case series_snapshot sid (sc_health s') of
         Inl e \<Rightarrow> (Inl e, s')
       | Inr snapshot \<Rightarrow> (Inr (), put_state sid (st\<lparr>sh_last_attempt_monotonic := Some now,
           sh_next_due_monotonic := next_due, sh_failure_count := failures, sh_reconnect_generation := generation,
           sh_health := hs_health snapshot, sh_recovery_required := True, sh_reason := next_reason\<rparr>) s')))"

definition run_one :: "backfill_job \<Rightarrow> rat \<Rightarrow> market_series_id \<Rightarrow> rat \<Rightarrow> scheduler \<Rightarrow> (exc + unit) \<times> scheduler" where
  "run_one job sample sid now s = (case map_of (sc_states s) sid of
     None \<Rightarrow> (Inl (KeyError ''series''), s)
   | Some st \<Rightarrow> (case series_snapshot sid (sc_health s) of
       Inl e \<Rightarrow> (Inl e, s)
     | Inr snapshot \<Rightarrow> (let generation = hs_reconnect_generation snapshot;
           (outcome, g) = job sid generation (sc_health s);
           s' = s\<lparr>sc_health := g\<rparr> in
         case outcome of
           None \<Rightarrow> record_failure sample sid st generation now MD_HISTORY_EXHAUSTED s'
         | Some result \<Rightarrow>
             if jr_generation result \<noteq> generation then
               (Inr (), put_state sid (st\<lparr>sh_last_attempt_monotonic := Some now, sh_next_due_monotonic := now,
                  sh_reconnect_generation := generation, sh_recovery_required := True,
                  sh_reason := MD_STALE_CONNECTION_RESPONSE\<rparr>) s')
             else if \<not> jr_success result then record_failure sample sid st generation now (jr_reason result) s'
             else (case series_snapshot sid g of
                 Inl e \<Rightarrow> (Inl e, s')
               | Inr after \<Rightarrow> (Inr (), put_state sid (st\<lparr>
                   sh_last_durable_close_epoch := jr_last_durable_close_epoch result,
                   sh_last_attempt_monotonic := Some now, sh_next_due_monotonic := now + sc_interval s,
                   sh_failure_count := 0, sh_reconnect_generation := generation, sh_health := hs_health after,
                   sh_recovery_required := jr_recovery_required result, sh_reason := hs_reason after\<rparr>) s')))))"

fun run_due ::
  "backfill_job \<Rightarrow> rat \<Rightarrow> rat \<Rightarrow> market_series_id list \<Rightarrow> scheduler \<Rightarrow> (exc + market_series_id list) \<times> scheduler" where
  "run_due job sample now [] s = (Inr [], s)"
| "run_due job sample now (sid # sids) s =
     (if sid \<in> set (sc_active s) then run_due job sample now sids s
      else case run_one job sample sid now s of
        (Inl e, s') \<Rightarrow> (Inl e, s')
      | (Inr _, s') \<Rightarrow> (case run_due job sample now sids s' of
          (Inl e, s'') \<Rightarrow> (Inl e, s'')
        | (Inr processed, s'') \<Rightarrow> (Inr (sid # processed), s'')))"

definition tick :: "backfill_job \<Rightarrow> rat \<Rightarrow> rat \<Rightarrow> scheduler \<Rightarrow> (exc + market_series_id list) \<times> scheduler" where
  "tick job sample now s =
     (case (case sc_last_tick s of
              Some t \<Rightarrow> if sc_suspension_threshold s \<le> now - t then handle_suspension now (sc_order s) s else (Inr (), s)
            | None \<Rightarrow> (Inr (), s)) of
        (Inl e, s1) \<Rightarrow> (Inl e, s1)
      | (Inr _, s1) \<Rightarrow> (let (due, s2) = fair_due now (s1\<lparr>sc_last_tick := Some now\<rparr>) in
          run_due job sample now (take (sc_max_concurrency s2) due) s2))"

section \<open>Delays are bounded\<close>

lemma backfill_delay_bounds:
  assumes "ReadOnlyBackfillRetryPolicy p = Inr p" "backfill_delay p failures sample = Inr d"
  shows "0 \<le> d \<and> d \<le> bt_maximum_delay_seconds p"
proof -
  define base where "base = min (bt_maximum_delay_seconds p) (bt_initial_delay_seconds p * bt_multiplier p ^ (failures - 1))"
  have p: "0 < bt_initial_delay_seconds p" "1 \<le> bt_multiplier p" "bt_initial_delay_seconds p \<le> bt_maximum_delay_seconds p"
      "0 \<le> bt_jitter_ratio p" "bt_jitter_ratio p \<le> 1"
    using assms(1) by (auto simp: ReadOnlyBackfillRetryPolicy_def raises)
  have "0 \<le> base" using p(1-3) by (simp add: base_def)
  moreover have "0 \<le> sample" and d: "d = min (bt_maximum_delay_seconds p)
      (base - base * bt_jitter_ratio p + 2 * (base * bt_jitter_ratio p) * sample)"
    using assms(2) by (auto simp: backfill_delay_def base_def raises Let_def)
  moreover have "base * bt_jitter_ratio p \<le> base" using p(5) \<open>0 \<le> base\<close> by (simp add: mult_left_le)
  ultimately show ?thesis using p by simp
qed

section \<open>Which series are served\<close>

lemma put_state_simps [simp]:
  "sc_interval (put_state sid st s) = sc_interval s" "sc_suspension_threshold (put_state sid st s) = sc_suspension_threshold s"
  "sc_max_concurrency (put_state sid st s) = sc_max_concurrency s" "sc_retry (put_state sid st s) = sc_retry s"
  "sc_order (put_state sid st s) = sc_order s" "sc_cursor (put_state sid st s) = sc_cursor s"
  "sc_active (put_state sid st s) = sc_active s" "sc_last_tick (put_state sid st s) = sc_last_tick s"
  "sc_states (put_state sid st s) = AList.update sid st (sc_states s)"
  by (simp_all add: put_state_def)

text \<open>What serving a series leaves as it is, and how far ahead it can put the next attempt of any series.\<close>

definition next_due :: "scheduler \<Rightarrow> market_series_id \<Rightarrow> rat option" where
  "next_due s sid = map_option sh_next_due_monotonic (map_of (sc_states s) sid)"

definition same_plan :: "scheduler \<Rightarrow> scheduler \<Rightarrow> bool" where
  "same_plan s s' \<longleftrightarrow> sc_interval s' = sc_interval s \<and> sc_suspension_threshold s' = sc_suspension_threshold s \<and>
     sc_max_concurrency s' = sc_max_concurrency s \<and> sc_retry s' = sc_retry s \<and> sc_order s' = sc_order s \<and>
     sc_cursor s' = sc_cursor s \<and> sc_active s' = sc_active s \<and> sc_last_tick s' = sc_last_tick s"

definition patience :: "scheduler \<Rightarrow> rat" where
  "patience s = max (sc_interval s) (bt_maximum_delay_seconds (sc_retry s))"

definition all_due_by :: "rat \<Rightarrow> scheduler \<Rightarrow> bool" where
  "all_due_by t s \<longleftrightarrow> (\<forall>sid\<in>set (sc_order s). \<exists>d. next_due s sid = Some d \<and> d \<le> t)"

lemma same_plan_refl: "same_plan s s"
  by (simp add: same_plan_def)

lemma same_plan_trans: "same_plan s t \<Longrightarrow> same_plan t u \<Longrightarrow> same_plan s u"
  by (simp add: same_plan_def)

lemma next_due_put_state: "next_due (put_state sid st s) x = (if x = sid then Some (sh_next_due_monotonic st) else next_due s x)"
  by (simp add: next_due_def update_conv')

lemma put_state_all_due: "all_due_by t s \<Longrightarrow> sh_next_due_monotonic st \<le> t \<Longrightarrow> all_due_by t (put_state sid st s)"
  by (auto simp: all_due_by_def next_due_put_state)

lemma all_due_by_gate [simp]:
  "all_due_by t (s\<lparr>sc_health := g\<rparr>) = all_due_by t s" "all_due_by t (s\<lparr>sc_failures := n\<rparr>) = all_due_by t s"
  "all_due_by t (s\<lparr>sc_retries := n\<rparr>) = all_due_by t s" "all_due_by t (s\<lparr>sc_cursor := c\<rparr>) = all_due_by t s"
  "all_due_by t (s\<lparr>sc_last_tick := l\<rparr>) = all_due_by t s"
  by (simp_all add: all_due_by_def next_due_def)

definition served :: "rat \<Rightarrow> scheduler \<Rightarrow> scheduler \<Rightarrow> bool" where
  "served t s s' \<longleftrightarrow> same_plan s s' \<and> (all_due_by t s \<longrightarrow> all_due_by t s')"

lemma record_failure_served:
  assumes "ReadOnlyBackfillRetryPolicy (sc_retry s) = Inr (sc_retry s)"
  shows "served (now + patience s) s (snd (record_failure sample sid st gen now reason s))"
proof -
  have "now + d \<le> now + patience s" if "backfill_delay (sc_retry s) n sample = Inr d" for n d
    using backfill_delay_bounds [OF assms that] by (simp add: patience_def le_max_iff_disj)
  moreover have "now + bt_maximum_delay_seconds (sc_retry s) \<le> now + patience s" by (simp add: patience_def)
  ultimately show ?thesis
    by (auto simp: served_def same_plan_def record_failure_def Let_def raises
        intro!: put_state_all_due split: prod.splits sum.splits if_splits)
qed

lemma run_one_served:
  assumes "ReadOnlyBackfillRetryPolicy (sc_retry s) = Inr (sc_retry s)" "0 \<le> sc_interval s"
  shows "served (now + patience s) s (snd (run_one job sample sid now s))"
proof -
  have gate: "served (now + patience s) s (snd (record_failure sample sid st gen now reason (s\<lparr>sc_health := g\<rparr>)))"
    for st gen reason g
    using record_failure_served [of "s\<lparr>sc_health := g\<rparr>" now sample sid st gen reason] assms(1)
    by (simp add: served_def same_plan_def patience_def)
  have "now \<le> now + patience s" "now + sc_interval s \<le> now + patience s"
    using assms(2) by (simp_all add: patience_def)
  then show ?thesis
    using gate by (auto simp: run_one_def served_def same_plan_def Let_def
        intro!: put_state_all_due split: option.split sum.split prod.split)
qed

lemma run_due_served:
  assumes "ReadOnlyBackfillRetryPolicy (sc_retry s) = Inr (sc_retry s)" "0 \<le> sc_interval s"
  shows "served (now + patience s) s (snd (run_due job sample now sids s)) \<and>
    (\<forall>ps. fst (run_due job sample now sids s) = Inr ps \<longrightarrow> set ps \<subseteq> set sids)"
  using assms
proof (induction sids arbitrary: s)
  case (Cons sid sids)
  obtain r s1 where r: "run_one job sample sid now s = (r, s1)" by fastforce
  have one: "served (now + patience s) s s1" using run_one_served [OF Cons.prems, of now job sample sid] r by simp
  then have same: "sc_retry s1 = sc_retry s" "sc_interval s1 = sc_interval s" "patience s1 = patience s"
    by (simp_all add: served_def same_plan_def patience_def)
  have "served (now + patience s) s (snd (run_due job sample now sids s1)) \<and>
      (\<forall>ps. fst (run_due job sample now sids s1) = Inr ps \<longrightarrow> set ps \<subseteq> set sids)"
    using Cons.IH [of s1] Cons.prems one same by (auto simp: served_def intro: same_plan_trans)
  then show ?case
    using one Cons.IH [OF Cons.prems] r by (auto split: sum.splits prod.splits)
qed (simp add: served_def same_plan_refl)

lemma index_of_last: "distinct xs \<Longrightarrow> xs \<noteq> [] \<Longrightarrow> index_of (last xs) xs + 1 = length xs"
  by (induction xs) auto

lemma fair_due_all:
  assumes "all_due_by now s" "sc_cursor s = 0" "distinct (sc_order s)"
  shows "fst (fair_due now s) = sc_order s \<and> snd (fair_due now s) = s"
proof (cases "sc_order s = []")
  case False
  have "filter (is_due now s) (sc_order s) = sc_order s"
    using assms(1) by (auto simp: filter_id_conv all_due_by_def next_due_def is_due_def)
  then show ?thesis
    using False assms(2,3) index_of_last [of "sc_order s"] by (simp add: fair_due_def Let_def)
qed (simp add: fair_due_def)

fun run_ticks :: "backfill_job \<Rightarrow> rat \<Rightarrow> rat list \<Rightarrow> scheduler \<Rightarrow> (exc + market_series_id list) list" where
  "run_ticks job sample [] s = []"
| "run_ticks job sample (now # ts) s = (case tick job sample now s of (r, s') \<Rightarrow> r # run_ticks job sample ts s')"

fun slow_ticks :: "rat \<Rightarrow> rat \<Rightarrow> rat \<Rightarrow> rat list \<Rightarrow> bool" where
  "slow_ticks wait threshold t [] = True"
| "slow_ticks wait threshold t (now # ts) = (t + wait \<le> now \<and> now - t < threshold \<and> slow_ticks wait threshold now ts)"

lemma slow_tick:
  assumes "all_due_by (t + patience s) s" "t + patience s \<le> now" "now - t < sc_suspension_threshold s" "sc_last_tick s = Some t"
    "sc_cursor s = 0" "distinct (sc_order s)" "ReadOnlyBackfillRetryPolicy (sc_retry s) = Inr (sc_retry s)" "0 \<le> sc_interval s"
    "tick job sample now s = (r, s')"
  shows "same_plan (s\<lparr>sc_last_tick := Some now\<rparr>) s' \<and> all_due_by (now + patience s) s' \<and>
    (\<forall>ps. r = Inr ps \<longrightarrow> set ps \<subseteq> set (take (sc_max_concurrency s) (sc_order s)))"
proof -
  let ?s = "s\<lparr>sc_last_tick := Some now\<rparr>"
  have "0 \<le> patience s" using assms(8) by (simp add: patience_def)
  then have due: "all_due_by now ?s" "all_due_by (now + patience s) ?s"
    using assms(1,2) by (fastforce simp: all_due_by_def next_due_def)+
  have "fair_due now ?s = (sc_order s, ?s)"
    using fair_due_all [OF due(1)] assms(5,6) by (simp add: prod_eq_iff)
  then have "run_due job sample now (take (sc_max_concurrency s) (sc_order s)) ?s = (r, s')"
    using assms(3,4,9) by (simp add: tick_def)
  then show ?thesis
    using run_due_served [of ?s now job sample "take (sc_max_concurrency s) (sc_order s)"] assms(7,8) due(2)
    by (simp add: served_def patience_def)
qed

text \<open>
  When ticks are further apart than the interval and the longest delay, which is what happens as soon as
  serving the first series takes that long, only the first series of the list are ever served: the cursor
  moves behind the last series that is due and not behind the last one that was served.
\<close>

lemma later_series_starve:
  assumes "all_due_by (t + patience s) s" "slow_ticks (patience s) (sc_suspension_threshold s) t ts" "sc_last_tick s = Some t"
    "sc_cursor s = 0" "distinct (sc_order s)" "ReadOnlyBackfillRetryPolicy (sc_retry s) = Inr (sc_retry s)" "0 \<le> sc_interval s"
    "Inr ps \<in> set (run_ticks job sample ts s)"
  shows "set ps \<subseteq> set (take (sc_max_concurrency s) (sc_order s))"
  using assms
proof (induction ts arbitrary: s t)
  case (Cons now ts)
  obtain r s' where r: "tick job sample now s = (r, s')" by fastforce
  have step: "same_plan (s\<lparr>sc_last_tick := Some now\<rparr>) s'" "all_due_by (now + patience s) s'"
      "r = Inr ps \<longrightarrow> set ps \<subseteq> set (take (sc_max_concurrency s) (sc_order s))"
    using slow_tick [OF Cons.prems(1) _ _ Cons.prems(3-7) r] Cons.prems(2) by simp_all
  then have "patience s' = patience s" by (simp add: same_plan_def patience_def)
  then show ?case
    using Cons.IH [of now s'] Cons.prems step r by (auto simp: same_plan_def)
qed simp

end
