(* ===== verification/Protocol.thy ===== *)
theory Protocol
  imports Domain "HOL-Library.Word"
begin

text \<open>
  The messages between the processes of the desktop. The first part is
  \<open>packages/protocol/framing.py\<close>: frames of bytes with a length header of 32 bits, written
  to and read from a stream socket that delivers the bytes in pieces of any size, may time out, fail
  or close. The second part is \<open>packages/protocol/envelope.py\<close> and the part of
  \<open>packages/protocol/codec.py\<close> between an envelope and its JSON document: the checks of the
  constructor, the document that is written and the checks on the document that is read. The JSON text
  of a document is not modelled.
\<close>

section \<open>The header of a frame\<close>

type_synonym bytes = "8 word list"

text \<open>
  \<open>struct.Struct("!I")\<close>: four bytes, the most significant first. \<open>pack\<close> raises
  \<open>struct.error\<close> for a number that needs more than 32 bits.
\<close>

definition pack_header :: "nat \<Rightarrow> exc + bytes" where
  "pack_header len =
     (if len < 2 ^ 32
      then Inr [of_nat (len div 256 ^ 3), of_nat (len div 256 ^ 2), of_nat (len div 256), of_nat len]
      else Inl (StructError ''argument out of range''))"

definition unpack_header :: "bytes \<Rightarrow> nat" where
  "unpack_header bs = foldl (\<lambda>n b. n * 256 + unat b) 0 bs"

definition HEADER_SIZE :: nat where
  "HEADER_SIZE = 4"

definition MAX_FRAME_SIZE :: int where
  "MAX_FRAME_SIZE = 64 * 1024"

definition frame_payload :: "int \<Rightarrow> bytes \<Rightarrow> exc + bytes" where
  "frame_payload max_frame_size payload = (let len = length payload in
     and_then (raise_if (len = 0) (ProtocolError ''IPC_INVALID_FRAME'' ''empty frames are forbidden'')) (\<lambda>_.
     and_then (raise_if (max_frame_size < int len)
       (ProtocolError ''IPC_FRAME_TOO_LARGE'' ''frame exceeds configured maximum'')) (\<lambda>_.
     and_then (pack_header len) (\<lambda>header. Inr (header @ payload)))))"

section \<open>The socket\<close>

text \<open>
  What the reading end of a stream socket is going to deliver: pieces of the stream, a read that times
  out, a read that fails; after the last of them the peer has closed. \<open>recv\<close> returns at most
  as many bytes as it is asked for, leaves the rest for the next call, and returns no byte only when
  the peer has closed.
\<close>

datatype recv_event = Received bytes | Timed_out | Failed

datatype recv_result = Chunk bytes | Timeout_Error | OS_Error

type_synonym connection = "recv_event list"

fun recv :: "nat \<Rightarrow> connection \<Rightarrow> recv_result \<times> connection" where
  "recv n [] = (Chunk [], [])"
| "recv n (Timed_out # es) = (Timeout_Error, es)"
| "recv n (Failed # es) = (OS_Error, es)"
| "recv n (Received bs # es) =
     (if bs = [] then recv n es
      else (Chunk (take n bs), if length bs \<le> n then es else Received (drop n bs) # es))"

text \<open>\<open>_receive_exact\<close>: the chunks read so far are an argument of the loop.\<close>

function receive_exact :: "bool \<Rightarrow> bytes list \<Rightarrow> nat \<Rightarrow> connection \<Rightarrow> (exc + bytes) \<times> connection" where
  "receive_exact header chunks remaining connection =
     (if remaining = 0 then (Inr (concat chunks), connection)
      else case recv remaining connection of
        (Timeout_Error, c) \<Rightarrow>
          (Inl (ProtocolError ''IPC_FRAME_TRUNCATED'' ''frame timed out before completion''), c)
      | (OS_Error, c) \<Rightarrow>
          (Inl (ProtocolError ''IPC_CONNECTION_LOST'' ''connection failed while receiving frame''), c)
      | (Chunk chunk, c) \<Rightarrow>
          if chunk = []
          then (Inl (ProtocolError
                  (if header \<and> chunks = [] then ''IPC_CONNECTION_LOST'' else ''IPC_FRAME_TRUNCATED'')
                  ''connection closed before frame completion''), c)
          else receive_exact header (chunks @ [chunk]) (remaining - length chunk) c)"
  by pat_completeness auto
termination by (relation "measure (\<lambda>(_, _, remaining, _). remaining)") auto

declare receive_exact.simps [simp del] concat_eq_Nil_conv [simp del] Nil_eq_concat_conv [simp del]

definition receive_frame :: "int \<Rightarrow> connection \<Rightarrow> (exc + bytes) \<times> connection" where
  "receive_frame max_frame_size connection =
     (case receive_exact True [] HEADER_SIZE connection of
        (Inl e, c) \<Rightarrow> (Inl e, c)
      | (Inr header, c) \<Rightarrow> (let announced_size = unpack_header header in
          if announced_size = 0
          then (Inl (ProtocolError ''IPC_INVALID_FRAME'' ''empty frames are forbidden''), c)
          else if max_frame_size < int announced_size
          then (Inl (ProtocolError ''IPC_FRAME_TOO_LARGE'' ''announced frame exceeds configured maximum''), c)
          else receive_exact False [] announced_size c))"

text \<open>\<open>send_frame\<close>: \<open>sendall\<close> puts the whole frame at the end of what was sent.\<close>

definition send_frame :: "int \<Rightarrow> bytes \<Rightarrow> bytes \<Rightarrow> exc + bytes" where
  "send_frame max_frame_size payload sent =
     and_then (frame_payload max_frame_size payload) (\<lambda>frame. Inr (sent @ frame))"

text \<open>Several frames sent one after the other, and a number of reads one after the other.\<close>

fun send_frames :: "int \<Rightarrow> bytes list \<Rightarrow> bytes \<Rightarrow> exc + bytes" where
  "send_frames max_frame_size [] sent = Inr sent"
| "send_frames max_frame_size (p # ps) sent =
     and_then (send_frame max_frame_size p sent) (send_frames max_frame_size ps)"

fun receive_frames :: "int \<Rightarrow> nat \<Rightarrow> connection \<Rightarrow> (exc + bytes) list" where
  "receive_frames max_frame_size 0 connection = []"
| "receive_frames max_frame_size (Suc n) connection =
     (let (r, c) = receive_frame max_frame_size connection in r # receive_frames max_frame_size n c)"

section \<open>Reading a stream that is cut into pieces\<close>

lemma byte_of_nat: "unat (of_nat n :: 8 word) = n mod 256"
  by (simp add: unsigned_of_nat take_bit_eq_mod)

lemma big_endian:
  fixes n :: nat
  assumes "n < 2 ^ 32"
  shows "((n div 256 ^ 3 mod 256 * 256 + n div 256 ^ 2 mod 256) * 256 + n div 256 mod 256) * 256 + n mod 256 = n"
proof -
  define a where "a = n div 256"
  define b where "b = a div 256"
  define c where "c = b div 256"
  have "n div 256 ^ 2 = b" "n div 256 ^ 3 = c"
    by (simp_all add: a_def b_def c_def div_mult2_eq [symmetric])
  moreover have "c mod 256 = c"
    using assms by (simp add: a_def b_def c_def div_mult2_eq [symmetric] less_mult_imp_div_less)
  moreover have "c * 256 + b mod 256 = b" "b * 256 + a mod 256 = a" "a * 256 + n mod 256 = n"
    by (simp_all add: a_def b_def c_def)
  ultimately show ?thesis by (simp add: a_def)
qed

lemma header_roundtrip:
  assumes "pack_header n = Inr header"
  shows "length header = HEADER_SIZE \<and> unpack_header header = n"
proof -
  have "n < 2 ^ 32" and h: "header = [of_nat (n div 256 ^ 3), of_nat (n div 256 ^ 2), of_nat (n div 256), of_nat n]"
    using assms by (auto simp: pack_header_def split: if_splits)
  then show ?thesis
    using big_endian [of n] by (simp add: h unpack_header_def HEADER_SIZE_def byte_of_nat)
qed

lemma frame_payload_eq_Inr:
  assumes "frame_payload mx p = Inr frame"
  obtains header where "frame = header @ p" "length header = HEADER_SIZE" "unpack_header header = length p"
    "p \<noteq> []" "int (length p) \<le> mx"
  using assms header_roundtrip [of "length p"] that
  by (auto simp: frame_payload_def Let_def raises not_less)

lemma recv_closed: "concat segs = [] \<Longrightarrow> recv n (map Received segs) = (Chunk [], [])"
  by (induction segs) auto

lemma recv_piece:
  assumes "concat segs \<noteq> []" "0 < n"
  shows "\<exists>chunk segs'. recv n (map Received segs) = (Chunk chunk, map Received segs') \<and> chunk \<noteq> [] \<and>
    length chunk \<le> n \<and> chunk @ concat segs' = concat segs"
  using assms(1)
proof (induction segs)
  case (Cons bs segs)
  show ?case
  proof (cases "bs = []")
    case True
    then show ?thesis using Cons by simp
  next
    case False
    define segs' where "segs' = (if length bs \<le> n then segs else drop n bs # segs)"
    have "recv n (map Received (bs # segs)) = (Chunk (take n bs), map Received segs')"
      using False by (simp add: segs'_def)
    moreover have "take n bs \<noteq> []" "length (take n bs) \<le> n" "take n bs @ concat segs' = concat (bs # segs)"
      using False assms(2) by (auto simp: segs'_def)
    ultimately show ?thesis by blast
  qed
qed simp

lemma receive_exact_enough:
  "remaining \<le> length (concat segs) \<Longrightarrow>
   \<exists>segs'. receive_exact h chunks remaining (map Received segs) =
     (Inr (concat chunks @ take remaining (concat segs)), map Received segs') \<and>
     concat segs' = drop remaining (concat segs)"
proof (induction remaining arbitrary: chunks segs rule: less_induct)
  case (less remaining)
  show ?case
  proof (cases "remaining = 0")
    case True
    then show ?thesis by (auto simp: receive_exact.simps)
  next
    case False
    then have "concat segs \<noteq> []" using less.prems by (metis le_zero_eq list.size(3))
    then obtain chunk segs' where r: "recv remaining (map Received segs) = (Chunk chunk, map Received segs')"
        "chunk \<noteq> []" "length chunk \<le> remaining" "chunk @ concat segs' = concat segs"
      using recv_piece [of segs remaining] False by blast
    have len: "length (concat segs) = length chunk + length (concat segs')"
      by (simp add: r(4) [symmetric])
    have "remaining - length chunk < remaining" "remaining - length chunk \<le> length (concat segs')"
      using False r(2) less.prems len by auto
    then obtain segs2 where "receive_exact h (chunks @ [chunk]) (remaining - length chunk) (map Received segs') =
        (Inr (concat (chunks @ [chunk]) @ take (remaining - length chunk) (concat segs')), map Received segs2)"
        "concat segs2 = drop (remaining - length chunk) (concat segs')"
      using less.IH [of "remaining - length chunk" segs' "chunks @ [chunk]"] by blast
    then show ?thesis
      using False r by (auto simp: receive_exact.simps [of h chunks remaining] r(4) [symmetric])
  qed
qed

lemma receive_exact_short:
  "length (concat segs) < remaining \<Longrightarrow>
   fst (receive_exact h chunks remaining (map Received segs)) =
     Inl (ProtocolError (if h \<and> chunks = [] \<and> concat segs = [] then ''IPC_CONNECTION_LOST''
       else ''IPC_FRAME_TRUNCATED'') ''connection closed before frame completion'')"
proof (induction remaining arbitrary: chunks segs rule: less_induct)
  case (less remaining)
  then have nz: "remaining \<noteq> 0" by simp
  show ?case
  proof (cases "concat segs = []")
    case True
    then show ?thesis
      using nz recv_closed [of segs] by (auto simp: receive_exact.simps [of h chunks remaining])
  next
    case False
    then obtain chunk segs' where r: "recv remaining (map Received segs) = (Chunk chunk, map Received segs')"
        "chunk \<noteq> []" "length chunk \<le> remaining" "chunk @ concat segs' = concat segs"
      using recv_piece [of segs remaining] nz by blast
    have "length (concat segs) = length chunk + length (concat segs')"
      by (simp add: r(4) [symmetric])
    then have "fst (receive_exact h (chunks @ [chunk]) (remaining - length chunk) (map Received segs')) =
        Inl (ProtocolError ''IPC_FRAME_TRUNCATED'' ''connection closed before frame completion'')"
      using less.IH [of "remaining - length chunk" segs' "chunks @ [chunk]"] nz r(2) less.prems by simp
    then show ?thesis
      using nz r False by (simp add: receive_exact.simps [of h chunks remaining])
  qed
qed

text \<open>A frame whose bytes have all arrived is read, whatever follows it.\<close>

lemma receive_frame_complete:
  assumes "frame_payload mx p = Inr frame" "concat segs = frame @ rest"
  shows "\<exists>segs'. receive_frame mx (map Received segs) = (Inr p, map Received segs') \<and> concat segs' = rest"
proof -
  obtain header where f: "frame = header @ p" "length header = HEADER_SIZE" "unpack_header header = length p"
      "p \<noteq> []" "int (length p) \<le> mx"
    using frame_payload_eq_Inr [OF assms(1)] by blast
  obtain s1 where s1: "receive_exact True [] HEADER_SIZE (map Received segs) = (Inr header, map Received s1)"
      "concat s1 = p @ rest"
    using receive_exact_enough [of HEADER_SIZE segs True "[]"] assms(2) f(1,2) by auto
  obtain s2 where "receive_exact False [] (length p) (map Received s1) = (Inr p, map Received s2)"
      "concat s2 = rest"
    using receive_exact_enough [of "length p" s1 False "[]"] s1(2) by auto
  then show ?thesis
    using f s1 by (auto simp: receive_frame_def)
qed

text \<open>A frame that is cut short is never read: the reader gets an error that says where it was cut.\<close>

lemma receive_frame_cut:
  assumes "frame_payload mx p = Inr frame" "concat segs = take k frame" "k < length frame"
  shows "fst (receive_frame mx (map Received segs)) =
    Inl (ProtocolError (if k = 0 then ''IPC_CONNECTION_LOST'' else ''IPC_FRAME_TRUNCATED'')
      ''connection closed before frame completion'')"
proof -
  obtain header where f: "frame = header @ p" "length header = HEADER_SIZE" "unpack_header header = length p"
      "p \<noteq> []" "int (length p) \<le> mx"
    using frame_payload_eq_Inr [OF assms(1)] by blast
  have len: "length (concat segs) = k" using assms(2,3) by simp
  show ?thesis
  proof (cases "k < HEADER_SIZE")
    case True
    then have "fst (receive_exact True [] HEADER_SIZE (map Received segs)) =
        Inl (ProtocolError (if k = 0 then ''IPC_CONNECTION_LOST'' else ''IPC_FRAME_TRUNCATED'')
          ''connection closed before frame completion'')"
      using receive_exact_short [of segs HEADER_SIZE True "[]"] len by (auto simp: assms(2))
    then show ?thesis
      by (auto simp: receive_frame_def split: prod.splits sum.splits)
  next
    case False
    then obtain s1 where s1: "receive_exact True [] HEADER_SIZE (map Received segs) = (Inr header, map Received s1)"
        "concat s1 = take (k - HEADER_SIZE) p"
      using receive_exact_enough [of HEADER_SIZE segs True "[]"] assms(2) len f(1,2)
      by (auto simp: take_Cons' drop_take)
    have "length (concat s1) < length p"
      using s1(2) assms(3) f(1,2) False by simp
    then show ?thesis
      using receive_exact_short [of s1 "length p" False "[]"] f s1(1) False
      by (auto simp: receive_frame_def HEADER_SIZE_def)
  qed
qed

lemma send_frames_sent:
  "send_frames mx ps sent = and_then (send_frames mx ps []) (\<lambda>bs. Inr (sent @ bs))"
proof (induction ps arbitrary: sent)
  case (Cons p ps)
  show ?case
  proof (cases "frame_payload mx p")
    case (Inr frame)
    then show ?thesis
      using Cons.IH [of "sent @ frame"] Cons.IH [of frame]
      by (cases "send_frames mx ps []") (simp_all add: send_frame_def)
  qed (simp add: send_frame_def)
qed simp

lemma send_frames_Cons:
  assumes "send_frames mx (p # ps) [] = Inr stream"
  obtains frame bs where "frame_payload mx p = Inr frame" "send_frames mx ps [] = Inr bs" "stream = frame @ bs"
proof -
  obtain frame where "frame_payload mx p = Inr frame" "send_frames mx ps frame = Inr stream"
    using assms by (auto simp: send_frame_def raises)
  then show ?thesis using that by (auto simp: send_frames_sent [of mx ps frame] raises)
qed

definition frames_length :: "bytes list \<Rightarrow> nat" where
  "frames_length ps = sum_list (map (\<lambda>p. HEADER_SIZE + length p) ps)"

lemma frame_length: "frame_payload mx p = Inr frame \<Longrightarrow> length frame = HEADER_SIZE + length p"
  by (auto elim: frame_payload_eq_Inr)

text \<open>
  C39: any number of payloads is sent over a stream that delivers its bytes in pieces of any size and
  may close at any point. The reader gets, in order and unchanged, exactly the payloads whose frames
  arrived whole, and then an error: the connection is lost when it closed between two frames, and the
  frame is truncated when it closed inside one. No payload is split, joined, skipped or made up.
\<close>

theorem frames_survive_the_stream:
  assumes "send_frames mx ps [] = Inr stream" "concat segs = take k stream" "k \<le> length stream"
  shows "\<exists>m\<le>length ps. frames_length (take m ps) \<le> k \<and>
    (m < length ps \<longrightarrow> k < frames_length (take (Suc m) ps)) \<and>
    receive_frames mx (Suc m) (map Received segs) = map Inr (take m ps) @
      [Inl (ProtocolError (if frames_length (take m ps) = k then ''IPC_CONNECTION_LOST''
         else ''IPC_FRAME_TRUNCATED'') ''connection closed before frame completion'')]"
  using assms
proof (induction ps arbitrary: stream segs k)
  case Nil
  then have "fst (receive_frame mx (map Received segs)) =
      Inl (ProtocolError ''IPC_CONNECTION_LOST'' ''connection closed before frame completion'')"
    using receive_exact_short [of segs HEADER_SIZE True "[]"]
    by (auto simp: receive_frame_def HEADER_SIZE_def split: prod.splits sum.splits)
  then show ?case using Nil by (auto simp: frames_length_def Let_def split: prod.splits)
next
  case (Cons p ps)
  obtain frame bs where f: "frame_payload mx p = Inr frame" "send_frames mx ps [] = Inr bs" "stream = frame @ bs"
    using send_frames_Cons [OF Cons.prems(1)] by blast
  note len = frame_length [OF f(1)]
  show ?case
  proof (cases "k < length frame")
    case True
    then have "fst (receive_frame mx (map Received segs)) =
        Inl (ProtocolError (if k = 0 then ''IPC_CONNECTION_LOST'' else ''IPC_FRAME_TRUNCATED'')
          ''connection closed before frame completion'')"
      using receive_frame_cut [OF f(1)] Cons.prems(2) f(3) by simp
    then show ?thesis
      using True len by (intro exI [of _ 0]) (auto simp: frames_length_def Let_def split: prod.splits)
  next
    case False
    then obtain segs' where s: "receive_frame mx (map Received segs) = (Inr p, map Received segs')"
        "concat segs' = take (k - length frame) bs"
      using receive_frame_complete [OF f(1), of segs "take (k - length frame) bs"] Cons.prems(2) f(3) by auto
    have "k - length frame \<le> length bs" using Cons.prems(3) f(3) by simp
    then obtain m where m: "m \<le> length ps" "frames_length (take m ps) \<le> k - length frame"
        "m < length ps \<longrightarrow> k - length frame < frames_length (take (Suc m) ps)"
        "receive_frames mx (Suc m) (map Received segs') = map Inr (take m ps) @
          [Inl (ProtocolError (if frames_length (take m ps) = k - length frame then ''IPC_CONNECTION_LOST''
             else ''IPC_FRAME_TRUNCATED'') ''connection closed before frame completion'')]"
      using Cons.IH [OF f(2) s(2)] by blast
    have sum: "frames_length (take (Suc n) (p # ps)) = length frame + frames_length (take n ps)" for n
      using len by (simp add: frames_length_def)
    have "receive_frames mx (Suc (Suc m)) (map Received segs) = Inr p # receive_frames mx (Suc m) (map Received segs')"
      using s(1) by simp
    then show ?thesis
      using m False sum [of m] sum [of "Suc m"] by (intro exI [of _ "Suc m"]) (auto simp del: receive_frames.simps)
  qed
qed

text \<open>Two payloads whose stream closes inside the second frame, delivered in four pieces.\<close>

theorem frames_survive_the_stream_witness:
  "send_frames MAX_FRAME_SIZE [[7], [8, 9]] [] = Inr [0, 0, 0, 1, 7, 0, 0, 0, 2, 8, 9] \<and>
   (\<exists>m\<le>length [[7], [8, 9 :: 8 word]]. frames_length (take m [[7], [8, 9]]) \<le> 10 \<and>
    (m < length [[7], [8, 9 :: 8 word]] \<longrightarrow> 10 < frames_length (take (Suc m) [[7], [8, 9]])) \<and>
    receive_frames MAX_FRAME_SIZE (Suc m) (map Received [[0, 0], [0, 1, 7, 0], [], [0, 0, 2, 8]]) =
      map Inr (take m [[7], [8, 9]]) @
      [Inl (ProtocolError (if frames_length (take m [[7], [8, 9]]) = 10 then ''IPC_CONNECTION_LOST''
         else ''IPC_FRAME_TRUNCATED'') ''connection closed before frame completion'')])"
proof -
  have s: "send_frames MAX_FRAME_SIZE [[7], [8, 9]] [] = Inr [0, 0, 0, 1, 7, 0, 0, 0, 2, 8, 9]"
    by (simp add: send_frame_def frame_payload_def pack_header_def MAX_FRAME_SIZE_def Let_def)
  show ?thesis
    by (rule conjI [OF s], rule frames_survive_the_stream [OF s]) simp_all
qed

section \<open>Envelopes\<close>

datatype endpoint_role = LAUNCHER | UI | CORE | AUTH_AGENT | SIMULATED_WORKER | DERIV_WORKER | IQOPTION_WORKER

primrec role_value :: "endpoint_role \<Rightarrow> string" where
  "role_value LAUNCHER = ''LAUNCHER''"
| "role_value UI = ''UI''"
| "role_value CORE = ''CORE''"
| "role_value AUTH_AGENT = ''AUTH_AGENT''"
| "role_value SIMULATED_WORKER = ''SIMULATED_WORKER''"
| "role_value DERIV_WORKER = ''DERIV_WORKER''"
| "role_value IQOPTION_WORKER = ''IQOPTION_WORKER''"

definition role_of :: "string \<Rightarrow> exc + endpoint_role" where
  "role_of = enum_of ''EndpointRole'' (map (\<lambda>r. (r, role_value r))
     [LAUNCHER, UI, CORE, AUTH_AGENT, SIMULATED_WORKER, DERIV_WORKER, IQOPTION_WORKER])"

lemma role_of_value [simp]: "role_of (role_value r) = Inr r"
  by (cases r) (simp_all add: role_of_def enum_of_def)

text \<open>The members of the string enumeration \<open>MessageType\<close>: each is the string of its name.\<close>

definition MESSAGE_TYPES :: "string list" where
  "MESSAGE_TYPES = [
    ''UI_HANDSHAKE_REQUEST'', ''UI_HANDSHAKE_RESPONSE'', ''UI_PROJECTION_REQUEST'',
    ''UI_PROJECTION_SNAPSHOT'', ''UI_SAFE_STOP_COMMAND'', ''UI_SAFE_STOP_ACK'',
    ''UI_RESUME_COMMAND'', ''UI_RESUME_ACK'', ''UI_SHUTDOWN_REQUEST'', ''UI_SHUTDOWN_ACK'',
    ''UI_GENERATE_DIAGNOSTIC_COMMAND'', ''UI_GENERATE_DIAGNOSTIC_RESPONSE'',
    ''UI_DERIV_DEMO_CONNECT_COMMAND'', ''UI_DERIV_DEMO_CONNECT_ACK'',
    ''UI_UPDATE_DIGIT_RISK_CONFIG_COMMAND'', ''UI_UPDATE_DIGIT_RISK_CONFIG_ACK'',
    ''UI_RESET_DIGIT_TEST_SESSION_COMMAND'', ''UI_RESET_DIGIT_TEST_SESSION_ACK'',
    ''UI_IQOPTION_LOGIN_COMMAND'', ''UI_IQOPTION_LOGIN_ACK'',
    ''UI_UPDATE_IQOPTION_RISK_CONFIG_COMMAND'', ''UI_UPDATE_IQOPTION_RISK_CONFIG_ACK'',
    ''UI_IQOPTION_BOT_CONTROL_COMMAND'', ''UI_IQOPTION_BOT_CONTROL_ACK'',
    ''LIFECYCLE_HANDSHAKE_REQUEST'', ''LIFECYCLE_HANDSHAKE_RESPONSE'',
    ''CORE_LIFECYCLE_STATUS_REQUEST'', ''CORE_LIFECYCLE_STATUS_RESPONSE'',
    ''CORE_SAFE_STOP_REQUEST'', ''CORE_SAFE_STOP_ACK'', ''CORE_DRAIN_REQUEST'',
    ''CORE_DRAIN_RESPONSE'', ''CORE_WORKERS_SHUTDOWN_REQUEST'', ''CORE_WORKERS_SHUTDOWN_ACK'',
    ''CORE_AUTH_SHUTDOWN_REQUEST'', ''CORE_AUTH_SHUTDOWN_ACK'',
    ''CORE_RESTART_COMPONENT_REQUEST'', ''CORE_RESTART_COMPONENT_RESPONSE'',
    ''CORE_PROCESS_SHUTDOWN_REQUEST'', ''CORE_PROCESS_SHUTDOWN_ACK'', ''AUTH_HANDSHAKE_REQUEST'',
    ''AUTH_HANDSHAKE_RESPONSE'', ''AUTH_START_LOGIN_REQUEST'', ''AUTH_START_LOGIN_RESPONSE'',
    ''AUTH_SUBMIT_OTP_REQUEST'', ''AUTH_SUBMIT_OTP_RESPONSE'', ''AUTH_RENEW_REQUEST'',
    ''AUTH_RENEW_RESPONSE'', ''AUTH_CHECK_AUTHORIZATION_REQUEST'',
    ''AUTH_CHECK_AUTHORIZATION_RESPONSE'', ''AUTH_STATUS_REQUEST'', ''AUTH_STATUS_RESPONSE'',
    ''AUTH_SHUTDOWN_REQUEST'', ''AUTH_SHUTDOWN_ACK'', ''HELLO'', ''HELLO_ACK'', ''PING'',
    ''PONG'', ''ORDER_SUBMIT'', ''ORDER_ACCEPTED'', ''ORDER_REJECTED'', ''ORDER_STATUS_UNKNOWN'',
    ''ORDER_STATUS_REQUEST'', ''ORDER_STATUS_RESPONSE'', ''ORDER_EVENT'',
    ''BROKER_CAPABILITIES_REQUEST'', ''BROKER_CAPABILITIES_RESPONSE'',
    ''MARKET_SYMBOLS_REQUEST'', ''MARKET_SYMBOLS_RESPONSE'', ''MARKET_CONTRACTS_REQUEST'',
    ''MARKET_CONTRACTS_RESPONSE'', ''MARKET_TICK_SUBSCRIBE'', ''MARKET_TICK_SUBSCRIBED'',
    ''MARKET_TICK_EVENT'', ''MARKET_TICK_UNSUBSCRIBE'', ''MARKET_TICK_UNSUBSCRIBED'',
    ''MARKET_HISTORY_REQUEST'', ''MARKET_HISTORY_RESPONSE'', ''BROKER_CLOCK_REQUEST'',
    ''BROKER_CLOCK_RESPONSE'', ''BROKER_BALANCE_REQUEST'', ''BROKER_BALANCE_RESPONSE'',
    ''BROKER_QUOTE_REQUEST'', ''BROKER_QUOTE_RESPONSE'', ''WORKER_HEALTH_REQUEST'',
    ''WORKER_HEALTH_RESPONSE'', ''SHUTDOWN'', ''SHUTDOWN_ACK'', ''ERROR'']"

definition message_type_of :: "string \<Rightarrow> exc + string" where
  "message_type_of v = (if v \<in> set MESSAGE_TYPES then Inr v
     else Inl (ValueError (v @ '' is not a valid MessageType'')))"

record envelope =
  env_protocol_version :: int
  env_message_id :: string
  env_correlation_id :: string
  env_causation_id :: "string option"
  env_source :: endpoint_role
  env_target :: endpoint_role
  env_message_type :: string
  env_created_at_utc :: datetime
  env_deadline_at :: "datetime option"
  env_payload :: payload

abbreviation invalid_envelope :: "string \<Rightarrow> exc" where
  "invalid_envelope msg \<equiv> ProtocolError ''IPC_INVALID_ENVELOPE'' msg"

definition validate_utc :: "datetime \<Rightarrow> string \<Rightarrow> exc + unit" where
  "validate_utc t field =
     raise_if (utc_offset t \<noteq> Some 0) (invalid_envelope (field @ '' must be timezone-aware UTC''))"

definition Envelope :: "envelope \<Rightarrow> exc + envelope" where
  "Envelope e =
     and_then (raise_if (env_protocol_version e \<le> 0) (invalid_envelope ''protocol_version must be a positive integer'')) (\<lambda>_.
     and_then (raise_if (strip (env_message_id e) = []) (invalid_envelope ''message_id is required'')) (\<lambda>_.
     and_then (raise_if (strip (env_correlation_id e) = []) (invalid_envelope ''correlation_id is required'')) (\<lambda>_.
     and_then (raise_if (case env_causation_id e of None \<Rightarrow> False | Some c \<Rightarrow> strip c = [])
       (invalid_envelope ''causation_id cannot be blank'')) (\<lambda>_.
     and_then (validate_utc (env_created_at_utc e) ''created_at_utc'') (\<lambda>_.
     and_then (case env_deadline_at e of None \<Rightarrow> Inr () | Some t \<Rightarrow> validate_utc t ''deadline_at'') (\<lambda>_.
     Inr e))))))"

definition ENVELOPE_FIELDS :: "string list" where
  "ENVELOPE_FIELDS = [''protocol_version'', ''message_id'', ''correlation_id'', ''causation_id'', ''source'',
     ''target'', ''message_type'', ''created_at_utc'', ''deadline_at'', ''payload'']"

text \<open>\<open>encode_envelope\<close> up to the JSON text: the document.\<close>

definition envelope_document :: "envelope \<Rightarrow> payload" where
  "envelope_document e =
     [(''protocol_version'', PInt (env_protocol_version e)),
      (''message_id'', PStr (env_message_id e)),
      (''correlation_id'', PStr (env_correlation_id e)),
      (''causation_id'', case env_causation_id e of None \<Rightarrow> PNone | Some c \<Rightarrow> PStr c),
      (''source'', PStr (role_value (env_source e))),
      (''target'', PStr (role_value (env_target e))),
      (''message_type'', PStr (env_message_type e)),
      (''created_at_utc'', PStr (isoformat (env_created_at_utc e))),
      (''deadline_at'', case env_deadline_at e of None \<Rightarrow> PNone | Some t \<Rightarrow> PStr (isoformat t)),
      (''payload'', PDict (env_payload e))]"

definition require_type :: "payload \<Rightarrow> string \<Rightarrow> (pyval \<Rightarrow> bool) \<Rightarrow> exc + pyval" where
  "require_type document field expected_type = (let v = get_item document field in
     if expected_type v then Inr v
     else Inl (invalid_envelope (''invalid or missing envelope field: '' @ field)))"

text \<open>An exception of the call, replaced by another: \<open>try: ... except ValueError as exc: raise ...\<close>.\<close>

definition on_value_error :: "exc \<Rightarrow> exc + 'a \<Rightarrow> exc + 'a" where
  "on_value_error e m = (case m of Inl (ValueError _) \<Rightarrow> Inl e | _ \<Rightarrow> m)"

fun is_dict :: "pyval \<Rightarrow> bool" where
  "is_dict (PDict _) = True"
| "is_dict _ = False"

fun the_dict :: "pyval \<Rightarrow> payload" where
  "the_dict (PDict p) = p"
| "the_dict _ = []"

text \<open>\<open>decode_envelope\<close> from the parsed JSON document on.\<close>

definition document_fields :: "pyval \<Rightarrow> exc + payload" where
  "document_fields document = (if is_dict document \<and> set (map fst (the_dict document)) = set ENVELOPE_FIELDS
     then Inr (the_dict document) else Inl (invalid_envelope ''envelope fields do not match IPC v1''))"

definition decode_times :: "string \<Rightarrow> pyval \<Rightarrow> exc + datetime \<times> datetime option" where
  "decode_times created_value deadline_value = on_value_error (invalid_envelope ''invalid envelope timestamp'')
     (and_then (fromisoformat created_value) (\<lambda>created_at.
      if is_str deadline_value \<and> the_str deadline_value \<noteq> []
      then and_then (fromisoformat (the_str deadline_value)) (\<lambda>deadline_at. Inr (created_at, Some deadline_at))
      else Inr (created_at, None)))"

definition decode_document :: "pyval \<Rightarrow> exc + envelope" where
  "decode_document parsed =
     and_then (document_fields parsed) (\<lambda>document.
     and_then (require_type document ''protocol_version'' is_int) (\<lambda>version.
     and_then (require_type document ''message_id'' is_str) (\<lambda>message_id.
     and_then (require_type document ''correlation_id'' is_str) (\<lambda>correlation_id.
     and_then (require_type document ''source'' is_str) (\<lambda>source_value.
     and_then (require_type document ''target'' is_str) (\<lambda>target_value.
     and_then (require_type document ''message_type'' is_str) (\<lambda>message_type_value.
     and_then (require_type document ''created_at_utc'' is_str) (\<lambda>created_value.
     let causation_id = get_item document ''causation_id''; deadline_value = get_item document ''deadline_at'';
       raw_payload = get_item document ''payload'' in
     and_then (raise_if (causation_id \<noteq> PNone \<and> \<not> is_str causation_id)
       (invalid_envelope ''causation_id must be a string or null'')) (\<lambda>_.
     and_then (raise_if (deadline_value \<noteq> PNone \<and> \<not> is_str deadline_value)
       (invalid_envelope ''deadline_at must be a timestamp or null'')) (\<lambda>_.
     and_then (raise_if (\<not> is_dict raw_payload) (invalid_envelope ''payload must be an object'')) (\<lambda>_.
     and_then (on_value_error (ProtocolError ''IPC_ROLE_MISMATCH'' ''unknown IPC role'')
       (role_of (the_str source_value))) (\<lambda>source.
     and_then (on_value_error (ProtocolError ''IPC_ROLE_MISMATCH'' ''unknown IPC role'')
       (role_of (the_str target_value))) (\<lambda>target.
     and_then (on_value_error (ProtocolError ''IPC_UNKNOWN_MESSAGE_TYPE'' ''unknown IPC message type'')
       (message_type_of (the_str message_type_value))) (\<lambda>message_type.
     and_then (decode_times (the_str created_value) deadline_value) (\<lambda>(created_at, deadline_at).
     Envelope \<lparr>env_protocol_version = the_int version, env_message_id = the_str message_id,
       env_correlation_id = the_str correlation_id,
       env_causation_id = (if causation_id = PNone then None else Some (the_str causation_id)),
       env_source = source, env_target = target, env_message_type = message_type,
       env_created_at_utc = created_at, env_deadline_at = deadline_at,
       env_payload = the_dict raw_payload\<rparr>)))))))))))))))"

section \<open>Reading back an envelope\<close>

lemma on_value_error_Inr [simp]: "on_value_error e (Inr x) = Inr x"
  by (simp add: on_value_error_def)

lemma on_value_error_eq_Inr [raises]: "on_value_error e m = Inr x \<longleftrightarrow> m = Inr x"
  by (auto simp: on_value_error_def split: sum.splits exc.splits)

lemma require_type_eq_Inr [raises]:
  "require_type d field ty = Inr v \<longleftrightarrow> v = get_item d field \<and> ty v"
  by (auto simp: require_type_def Let_def)

lemma isoformat_nonempty: "isoformat t \<noteq> []"
  by (simp add: isoformat_def)

lemma decode_times_isoformat:
  assumes "valid_datetime created" "\<And>t. deadline = Some t \<Longrightarrow> valid_datetime t"
  shows "decode_times (isoformat created) (case deadline of None \<Rightarrow> PNone | Some t \<Rightarrow> PStr (isoformat t)) =
    Inr (created, deadline)"
  using assms by (cases deadline) (simp_all add: decode_times_def isoformat_nonempty)

lemma envelope_eta: "\<lparr>env_protocol_version = env_protocol_version e, env_message_id = env_message_id e, env_correlation_id
     = env_correlation_id e, env_causation_id = env_causation_id e, env_source = env_source e, env_target
     = env_target e, env_message_type = env_message_type e, env_created_at_utc = env_created_at_utc e,
     env_deadline_at = env_deadline_at e, env_payload = env_payload e\<rparr> = e"
  by simp

text \<open>The document of an envelope is read back as the same envelope.\<close>

lemma decode_document_roundtrip:
  assumes "Envelope e = Inr e" "env_message_type e \<in> set MESSAGE_TYPES" "valid_datetime (env_created_at_utc e)"
    "\<And>t. env_deadline_at e = Some t \<Longrightarrow> valid_datetime t"
  shows "decode_document (PDict (envelope_document e)) = Inr e"
proof -
  define c where "c = (case env_causation_id e of None \<Rightarrow> PNone | Some c \<Rightarrow> PStr c)"
  define d where "d = (case env_deadline_at e of None \<Rightarrow> PNone | Some t \<Rightarrow> PStr (isoformat t))"
  have doc: "envelope_document e = [(''protocol_version'', PInt (env_protocol_version e)),
      (''message_id'', PStr (env_message_id e)), (''correlation_id'', PStr (env_correlation_id e)),
      (''causation_id'', c), (''source'', PStr (role_value (env_source e))),
      (''target'', PStr (role_value (env_target e))), (''message_type'', PStr (env_message_type e)),
      (''created_at_utc'', PStr (isoformat (env_created_at_utc e))), (''deadline_at'', d),
      (''payload'', PDict (env_payload e))]"
    by (simp add: envelope_document_def c_def d_def)
  have fields: "document_fields (PDict (envelope_document e)) = Inr (envelope_document e)"
    by (simp add: document_fields_def doc ENVELOPE_FIELDS_def)
  have items: "get_item (envelope_document e) ''protocol_version'' = PInt (env_protocol_version e)"
      "get_item (envelope_document e) ''message_id'' = PStr (env_message_id e)"
      "get_item (envelope_document e) ''correlation_id'' = PStr (env_correlation_id e)"
      "get_item (envelope_document e) ''causation_id'' = c"
      "get_item (envelope_document e) ''source'' = PStr (role_value (env_source e))"
      "get_item (envelope_document e) ''target'' = PStr (role_value (env_target e))"
      "get_item (envelope_document e) ''message_type'' = PStr (env_message_type e)"
      "get_item (envelope_document e) ''created_at_utc'' = PStr (isoformat (env_created_at_utc e))"
      "get_item (envelope_document e) ''deadline_at'' = d"
      "get_item (envelope_document e) ''payload'' = PDict (env_payload e)"
    by (simp_all add: doc)
  have mt: "message_type_of (env_message_type e) = Inr (env_message_type e)"
    using assms(2) by (simp add: message_type_of_def)
  have opt: "raise_if (c \<noteq> PNone \<and> \<not> is_str c) x = Inr ()" "raise_if (d \<noteq> PNone \<and> \<not> is_str d) x = Inr ()"
      "(if c = PNone then None else Some (the_str c)) = env_causation_id e" for x
    by (simp_all add: c_def d_def split: option.split)
  have times: "decode_times (isoformat (env_created_at_utc e)) d = Inr (env_created_at_utc e, env_deadline_at e)"
    unfolding d_def using assms(3,4) by (rule decode_times_isoformat)
  show ?thesis
    unfolding decode_document_def
    by (simp add: fields require_type_def items mt opt times Let_def cong: if_cong split del: if_split)
      (simp add: envelope_eta assms(1))
qed

text \<open>Whatever is read from a peer satisfies the checks of the constructor and has a known type.\<close>

lemma Envelope_eq_Inr: "Envelope e' = Inr e \<Longrightarrow> e' = e"
  by (auto simp: Envelope_def raises)

lemma message_type_of_eq_Inr: "message_type_of v = Inr t \<Longrightarrow> t \<in> set MESSAGE_TYPES"
  by (auto simp: message_type_of_def split: if_splits)

lemma decode_document_valid:
  assumes "decode_document v = Inr e"
  shows "Envelope e = Inr e \<and> env_message_type e \<in> set MESSAGE_TYPES"
proof -
  obtain e' where "Envelope e' = Inr e" "env_message_type e' \<in> set MESSAGE_TYPES"
    using assms unfolding decode_document_def Let_def and_then_eq_Inr on_value_error_eq_Inr case_prod_beta
    by (elim exE conjE) (erule that, drule message_type_of_eq_Inr, simp)
  then show ?thesis using Envelope_eq_Inr by blast
qed

end
