(* ===== verification/Journal.thy ===== *)
theory Journal
  imports LiveCandles
begin

text \<open>
  The decision journal: \<open>packages/audit/models.py\<close>, \<open>packages/audit/journal.py\<close> and
  \<open>packages/persistence/journal_repository.py\<close>. Every decision is an event with a sequence number
  inside its run; a record adds the hash of the record before it and the hash of both. The hash function
  \<open>sha\<close> and the canonical JSON text \<open>canonical\<close> of a value are arguments, and the theorems
  hold for all of them. The column \<open>payload_json\<close> holds the value whose JSON text is stored.
\<close>

section \<open>Events and records\<close>

datatype decision_event_type =
    CANDLE_ACCEPTED | STRATEGY_EVALUATED | STRATEGY_BLOCKED | SIGNAL_CREATED | SIGNAL_CANCELLED
  | SIGNAL_CONSOLIDATED | ALLOCATION_APPROVED | ALLOCATION_REJECTED | RISK_ACCEPTED | RISK_REJECTED
  | ORDER_INTENT_CREATED

primrec decision_type_value :: "decision_event_type \<Rightarrow> string" where
  "decision_type_value CANDLE_ACCEPTED = ''CANDLE_ACCEPTED''"
| "decision_type_value STRATEGY_EVALUATED = ''STRATEGY_EVALUATED''"
| "decision_type_value STRATEGY_BLOCKED = ''STRATEGY_BLOCKED''"
| "decision_type_value SIGNAL_CREATED = ''SIGNAL_CREATED''"
| "decision_type_value SIGNAL_CANCELLED = ''SIGNAL_CANCELLED''"
| "decision_type_value SIGNAL_CONSOLIDATED = ''SIGNAL_CONSOLIDATED''"
| "decision_type_value ALLOCATION_APPROVED = ''ALLOCATION_APPROVED''"
| "decision_type_value ALLOCATION_REJECTED = ''ALLOCATION_REJECTED''"
| "decision_type_value RISK_ACCEPTED = ''RISK_ACCEPTED''"
| "decision_type_value RISK_REJECTED = ''RISK_REJECTED''"
| "decision_type_value ORDER_INTENT_CREATED = ''ORDER_INTENT_CREATED''"

definition decision_type_of :: "string \<Rightarrow> exc + decision_event_type" where
  "decision_type_of = enum_of ''DecisionEventType'' (map (\<lambda>t. (t, decision_type_value t))
     [CANDLE_ACCEPTED, STRATEGY_EVALUATED, STRATEGY_BLOCKED, SIGNAL_CREATED, SIGNAL_CANCELLED,
      SIGNAL_CONSOLIDATED, ALLOCATION_APPROVED, ALLOCATION_REJECTED, RISK_ACCEPTED, RISK_REJECTED,
      ORDER_INTENT_CREATED])"

lemma decision_type_of_value [simp]: "decision_type_of (decision_type_value t) = Inr t"
  by (cases t) (simp_all add: decision_type_of_def enum_of_def)

record decision_event =
  de_event_id :: string
  de_run_id :: string
  de_sequence :: int
  de_event_type :: decision_event_type
  de_occurred_at :: datetime
  de_logical_time_ms :: int
  de_correlation_id :: string
  de_causation_id :: "string option"
  de_strategy_id :: string
  de_strategy_version :: string
  de_manifest_hash :: string
  de_configuration_hash :: string
  de_candle_id :: string
  de_payload :: "(string \<times> string) list"
  de_payload_sha256 :: string

type_synonym sha256 = "string \<Rightarrow> string"
type_synonym canonical_text = "pyval \<Rightarrow> string"

definition payload_value :: "(string \<times> string) list \<Rightarrow> pyval" where
  "payload_value p = PList (map (\<lambda>(k, v). PList [PStr k, PStr v]) p)"

definition DecisionEvent :: "sha256 \<Rightarrow> canonical_text \<Rightarrow> decision_event \<Rightarrow> exc + decision_event" where
  "DecisionEvent sha canonical e =
     and_then (require_aware_utc (de_occurred_at e) ''occurred_at'') (\<lambda>_.
     and_then (raise_if (de_sequence e \<le> 0) (ValueError ''journal sequence must be positive'')) (\<lambda>_.
     and_then (raise_if (de_logical_time_ms e < 0) (ValueError ''logical_time_ms cannot be negative'')) (\<lambda>_.
     and_then (require_nonblank [(''event_id'', de_event_id e), (''run_id'', de_run_id e),
       (''correlation_id'', de_correlation_id e), (''strategy_id'', de_strategy_id e),
       (''strategy_version'', de_strategy_version e), (''manifest_hash'', de_manifest_hash e),
       (''configuration_hash'', de_configuration_hash e), (''candle_id'', de_candle_id e)]) (\<lambda>_.
     and_then (let names = map fst (de_payload e) in
       raise_if (list_ex blank names \<or> length (remdups names) \<noteq> length names)
         (ValueError ''decision payload names must be unique and non-empty'')) (\<lambda>_.
     and_then (raise_if (de_payload_sha256 e \<noteq> sha (canonical (payload_value (de_payload e))))
       (ValueError ''decision payload hash mismatch'')) (\<lambda>_.
     Inr e))))))"

definition event_value :: "decision_event \<Rightarrow> pyval" where
  "event_value e = PDict
     [(''candle_id'', PStr (de_candle_id e)),
      (''causation_id'', case de_causation_id e of None \<Rightarrow> PNone | Some c \<Rightarrow> PStr c),
      (''configuration_hash'', PStr (de_configuration_hash e)),
      (''correlation_id'', PStr (de_correlation_id e)),
      (''event_id'', PStr (de_event_id e)),
      (''event_type'', PStr (decision_type_value (de_event_type e))),
      (''manifest_hash'', PStr (de_manifest_hash e)),
      (''logical_time_ms'', PInt (de_logical_time_ms e)),
      (''occurred_at'', PStr (isoformat (de_occurred_at e))),
      (''payload'', payload_value (de_payload e)),
      (''payload_sha256'', PStr (de_payload_sha256 e)),
      (''run_id'', PStr (de_run_id e)),
      (''sequence'', PInt (de_sequence e)),
      (''strategy_id'', PStr (de_strategy_id e)),
      (''strategy_version'', PStr (de_strategy_version e))]"

record decision_record =
  dr_event :: decision_event
  dr_previous_hash :: string
  dr_event_hash :: string

definition GENESIS_HASH :: string where
  "GENESIS_HASH = replicate 64 (CHR ''0'')"

definition previous_event_sha256 :: "decision_record \<Rightarrow> string option" where
  "previous_event_sha256 r = (if dr_previous_hash r = replicate 64 (CHR ''0'') then None else Some (dr_previous_hash r))"

section \<open>The chain\<close>

definition decision_chain_hash :: "sha256 \<Rightarrow> canonical_text \<Rightarrow> string \<Rightarrow> decision_event \<Rightarrow> string" where
  "decision_chain_hash sha canonical previous_hash event = sha (previous_hash @ canonical (event_value event))"

fun verify_from :: "sha256 \<Rightarrow> canonical_text \<Rightarrow> int \<Rightarrow> string \<Rightarrow> decision_record list \<Rightarrow> bool" where
  "verify_from sha canonical expected_sequence previous [] = True"
| "verify_from sha canonical expected_sequence previous (r # rs) =
     (if de_sequence (dr_event r) \<noteq> expected_sequence \<or> dr_previous_hash r \<noteq> previous then False
      else if dr_event_hash r \<noteq> decision_chain_hash sha canonical previous (dr_event r) then False
      else verify_from sha canonical (expected_sequence + 1) (dr_event_hash r) rs)"

definition verify_decision_chain :: "sha256 \<Rightarrow> canonical_text \<Rightarrow> decision_record list \<Rightarrow> bool" where
  "verify_decision_chain sha canonical records = verify_from sha canonical 1 GENESIS_HASH records"

definition last_hash :: "string \<Rightarrow> decision_record list \<Rightarrow> string" where
  "last_hash previous rs = (if rs = [] then previous else dr_event_hash (last rs))"

record decision_journal =
  dj_run_id :: string
  dj_max_events :: nat
  dj_records :: "decision_record list"

definition DecisionJournal ::
  "sha256 \<Rightarrow> canonical_text \<Rightarrow> string \<Rightarrow> nat \<Rightarrow> decision_record list \<Rightarrow> exc + decision_journal" where
  "DecisionJournal sha canonical run_id max_events initial_records =
     and_then (raise_if (blank run_id \<or> max_events = 0)
       (ValueError ''journal identity and capacity are required'')) (\<lambda>_.
     and_then (raise_if (max_events < length initial_records) (ValueError ''initial journal exceeds capacity'')) (\<lambda>_.
     and_then (raise_if (list_ex (\<lambda>r. de_run_id (dr_event r) \<noteq> run_id) initial_records)
       (ValueError ''initial journal belongs to another run'')) (\<lambda>_.
     and_then (raise_if (\<not> verify_decision_chain sha canonical initial_records)
       (ValueError ''initial journal hash chain is invalid'')) (\<lambda>_.
     Inr \<lparr>dj_run_id = run_id, dj_max_events = max_events, dj_records = initial_records\<rparr>))))"

definition final_hash :: "decision_journal \<Rightarrow> string" where
  "final_hash j = last_hash GENESIS_HASH (dj_records j)"

definition logical_time_ms :: "datetime \<Rightarrow> int" where
  "logical_time_ms t = (instant t - instant (utc 1970 1 1 0 0 0 0)) div 1000"

text \<open>The arguments of \<open>append\<close>, and the event it makes of them.\<close>

record decision =
  dc_event_type :: decision_event_type
  dc_occurred_at :: datetime
  dc_correlation_id :: string
  dc_causation_id :: "string option"
  dc_strategy_id :: string
  dc_strategy_version :: string
  dc_manifest_hash :: string
  dc_configuration_hash :: string
  dc_candle_id :: string
  dc_payload :: "(string \<times> string) list"

definition new_event :: "sha256 \<Rightarrow> canonical_text \<Rightarrow> string \<Rightarrow> nat \<Rightarrow> decision \<Rightarrow> decision_event" where
  "new_event sha canonical run_id sequence d = (let ordered_payload = sort (dc_payload d) in
     \<lparr>de_event_id = sha (join_text ''|'' [run_id, int_str (int sequence), decision_type_value (dc_event_type d),
        dc_correlation_id d, dc_candle_id d]),
      de_run_id = run_id, de_sequence = int sequence, de_event_type = dc_event_type d,
      de_occurred_at = dc_occurred_at d, de_logical_time_ms = logical_time_ms (dc_occurred_at d),
      de_correlation_id = dc_correlation_id d, de_causation_id = dc_causation_id d,
      de_strategy_id = dc_strategy_id d, de_strategy_version = dc_strategy_version d,
      de_manifest_hash = dc_manifest_hash d, de_configuration_hash = dc_configuration_hash d,
      de_candle_id = dc_candle_id d, de_payload = ordered_payload,
      de_payload_sha256 = sha (canonical (payload_value ordered_payload))\<rparr>)"

definition journal_append ::
  "sha256 \<Rightarrow> canonical_text \<Rightarrow> decision \<Rightarrow> decision_journal \<Rightarrow> (exc + decision_record) \<times> decision_journal" where
  "journal_append sha canonical d j =
     (if dj_max_events j \<le> length (dj_records j)
      then (Inl (RuntimeError ''decision journal capacity reached''), j)
      else case DecisionEvent sha canonical (new_event sha canonical (dj_run_id j) (length (dj_records j) + 1) d) of
        Inl e \<Rightarrow> (Inl e, j)
      | Inr event \<Rightarrow> (let previous = final_hash j;
            record = \<lparr>dr_event = event, dr_previous_hash = previous,
              dr_event_hash = decision_chain_hash sha canonical previous event\<rparr> in
          (Inr record, j\<lparr>dj_records := dj_records j @ [record]\<rparr>)))"

section \<open>The journal table\<close>

record decision_row =
  drow_event_id :: string
  drow_run_id :: string
  drow_sequence :: int
  drow_event_type :: string
  drow_occurred_at :: string
  drow_logical_time_ms :: int
  drow_correlation_id :: string
  drow_causation_id :: "string option"
  drow_strategy_id :: string
  drow_strategy_version :: string
  drow_manifest_sha256 :: string
  drow_config_sha256 :: string
  drow_candle_id :: string
  drow_payload_json :: pyval
  drow_payload_sha256 :: string
  drow_previous_event_sha256 :: string
  drow_event_sha256 :: string

definition decision_row_of :: "decision_record \<Rightarrow> decision_row" where
  "decision_row_of r = (let e = dr_event r in
     \<lparr>drow_event_id = de_event_id e, drow_run_id = de_run_id e, drow_sequence = de_sequence e,
      drow_event_type = decision_type_value (de_event_type e), drow_occurred_at = isoformat (de_occurred_at e),
      drow_logical_time_ms = de_logical_time_ms e, drow_correlation_id = de_correlation_id e,
      drow_causation_id = de_causation_id e, drow_strategy_id = de_strategy_id e,
      drow_strategy_version = de_strategy_version e, drow_manifest_sha256 = de_manifest_hash e,
      drow_config_sha256 = de_configuration_hash e, drow_candle_id = de_candle_id e,
      drow_payload_json = payload_value (de_payload e), drow_payload_sha256 = de_payload_sha256 e,
      drow_previous_event_sha256 = dr_previous_hash r, drow_event_sha256 = dr_event_hash r\<rparr>)"

fun payload_pair :: "pyval \<Rightarrow> (string \<times> string) option" where
  "payload_pair (PList [PStr k, PStr v]) = Some (k, v)"
| "payload_pair _ = None"

fun payload_of_value :: "pyval \<Rightarrow> exc + (string \<times> string) list" where
  "payload_of_value (PList items) = (if list_all (\<lambda>i. payload_pair i \<noteq> None) items
     then Inr (map (the \<circ> payload_pair) items) else Inl (ValueError ''journal payload schema is invalid''))"
| "payload_of_value _ = Inl (ValueError ''journal payload schema is invalid'')"

definition decision_from_row :: "sha256 \<Rightarrow> canonical_text \<Rightarrow> decision_row \<Rightarrow> exc + decision_record" where
  "decision_from_row sha canonical row =
     and_then (payload_of_value (drow_payload_json row)) (\<lambda>raw_payload.
     and_then (decision_type_of (drow_event_type row)) (\<lambda>event_type.
     and_then (fromisoformat (drow_occurred_at row)) (\<lambda>occurred_at.
     and_then (DecisionEvent sha canonical
       \<lparr>de_event_id = drow_event_id row, de_run_id = drow_run_id row, de_sequence = drow_sequence row,
        de_event_type = event_type, de_occurred_at = occurred_at,
        de_logical_time_ms = drow_logical_time_ms row, de_correlation_id = drow_correlation_id row,
        de_causation_id = drow_causation_id row, de_strategy_id = drow_strategy_id row,
        de_strategy_version = drow_strategy_version row, de_manifest_hash = drow_manifest_sha256 row,
        de_configuration_hash = drow_config_sha256 row, de_candle_id = drow_candle_id row,
        de_payload = raw_payload, de_payload_sha256 = drow_payload_sha256 row\<rparr>) (\<lambda>event.
     Inr \<lparr>dr_event = event, dr_previous_hash = drow_previous_event_sha256 row,
       dr_event_hash = drow_event_sha256 row\<rparr>))))"

fun decisions_from_rows :: "sha256 \<Rightarrow> canonical_text \<Rightarrow> decision_row list \<Rightarrow> exc + decision_record list" where
  "decisions_from_rows sha canonical [] = Inr []"
| "decisions_from_rows sha canonical (row # rows) =
     and_then (decision_from_row sha canonical row) (\<lambda>r.
     and_then (decisions_from_rows sha canonical rows) (\<lambda>rs. Inr (r # rs)))"

datatype journal_append_result = J_STORED | J_ALREADY_EXISTS

type_synonym journal_table = "decision_row list"

text \<open>The constraints of the table \<open>decision_events\<close>.\<close>

definition insert_decision :: "decision_row \<Rightarrow> journal_table \<Rightarrow> exc + journal_table" where
  "insert_decision row tbl =
     and_then (raise_if (list_ex (\<lambda>r. drow_event_id r = drow_event_id row) tbl)
       (IntegrityError ''UNIQUE constraint failed: decision_events.event_id'')) (\<lambda>_.
     and_then (raise_if (list_ex (\<lambda>r. drow_run_id r = drow_run_id row \<and> drow_sequence r = drow_sequence row) tbl)
       (IntegrityError ''UNIQUE constraint failed: decision_events.run_id, decision_events.sequence'')) (\<lambda>_.
     and_then (raise_if (\<not> 0 < drow_sequence row \<or> \<not> 0 \<le> drow_logical_time_ms row)
       (IntegrityError ''CHECK constraint failed: decision_events'')) (\<lambda>_.
     Inr (tbl @ [row]))))"

fun append_records ::
  "sha256 \<Rightarrow> canonical_text \<Rightarrow> int \<Rightarrow> string \<Rightarrow> decision_record list \<Rightarrow> journal_table \<Rightarrow> exc + journal_table" where
  "append_records sha canonical expected_sequence expected_previous [] tbl = Inr tbl"
| "append_records sha canonical expected_sequence expected_previous (r # rs) tbl =
     and_then (raise_if (de_sequence (dr_event r) \<noteq> expected_sequence \<or> dr_previous_hash r \<noteq> expected_previous)
       (JournalConflictError ''journal sequence or previous hash is invalid'')) (\<lambda>_.
     and_then (raise_if (dr_event_hash r \<noteq> decision_chain_hash sha canonical expected_previous (dr_event r))
       (JournalConflictError ''journal event hash is invalid'')) (\<lambda>_.
     and_then (raise_if (list_ex (\<lambda>row. drow_event_id row = de_event_id (dr_event r)) tbl)
       (JournalConflictError ''event id already belongs to another journal position'')) (\<lambda>_.
     and_then (insert_decision (decision_row_of r) tbl) (\<lambda>tbl'.
     append_records sha canonical (expected_sequence + 1) (dr_event_hash r) rs tbl'))))"

definition run_rows :: "string \<Rightarrow> journal_table \<Rightarrow> decision_row list" where
  "run_rows run_id tbl = sort_key drow_sequence (filter (\<lambda>r. drow_run_id r = run_id) tbl)"

definition append_batch ::
  "sha256 \<Rightarrow> canonical_text \<Rightarrow> decision_record list \<Rightarrow> journal_table \<Rightarrow>
   exc + journal_append_result \<times> journal_table" where
  "append_batch sha canonical records tbl =
     and_then (raise_if (records = []) (ValueError ''journal batch cannot be empty'')) (\<lambda>_.
     let run_id = de_run_id (dr_event (hd records)) in
     and_then (raise_if (list_ex (\<lambda>r. de_run_id (dr_event r) \<noteq> run_id) records)
       (JournalConflictError ''journal batch mixes replay runs'')) (\<lambda>_.
     let first_sequence = de_sequence (dr_event (hd records));
         last_sequence = de_sequence (dr_event (last records)) in
     and_then (raise_if (map (de_sequence \<circ> dr_event) records \<noteq> [first_sequence..last_sequence])
       (JournalConflictError ''journal batch sequence is not contiguous'')) (\<lambda>_.
     let existing_rows = filter (\<lambda>r. first_sequence \<le> drow_sequence r \<and> drow_sequence r \<le> last_sequence)
           (run_rows run_id tbl) in
     if existing_rows \<noteq> [] then
       (case decisions_from_rows sha canonical existing_rows of
          Inl _ \<Rightarrow> Inl (JournalConflictError ''persisted journal event is invalid'')
        | Inr existing \<Rightarrow> if existing = records then Inr (J_ALREADY_EXISTS, tbl)
            else Inl (JournalConflictError ''journal batch overlaps incompatible persisted events''))
     else
       (let rows = run_rows run_id tbl;
            expected_sequence = (if rows = [] then 1 else drow_sequence (last rows) + 1);
            expected_previous = (if rows = [] then GENESIS_HASH else drow_event_sha256 (last rows)) in
        and_then (append_records sha canonical expected_sequence expected_previous records tbl) (\<lambda>tbl'.
        Inr (J_STORED, tbl'))))))"

text \<open>
  A transaction of \<open>StrategyDataDatabase\<close>: an exception rolls back, and an exception of SQLite
  becomes a \<open>StrategyDataError\<close>.
\<close>

definition journal_transaction :: "(journal_table \<Rightarrow> exc + 'a \<times> journal_table) \<Rightarrow> journal_table \<Rightarrow> (exc + 'a) \<times> journal_table" where
  "journal_transaction f tbl = (case f tbl of
      Inr (x, tbl') \<Rightarrow> (Inr x, tbl')
    | Inl (IntegrityError _) \<Rightarrow> (Inl (StrategyDataError ''strategy data transaction failed''), tbl)
    | Inl e \<Rightarrow> (Inl e, tbl))"

definition repository_append ::
  "sha256 \<Rightarrow> canonical_text \<Rightarrow> decision_record \<Rightarrow> journal_table \<Rightarrow> (exc + journal_append_result) \<times> journal_table" where
  "repository_append sha canonical record = journal_transaction (append_batch sha canonical [record])"

definition events_for_run ::
  "sha256 \<Rightarrow> canonical_text \<Rightarrow> string \<Rightarrow> journal_table \<Rightarrow> exc + decision_record list" where
  "events_for_run sha canonical run_id tbl = (case decisions_from_rows sha canonical (run_rows run_id tbl) of
     Inl _ \<Rightarrow> Inl (JournalConflictError ''persisted journal event is invalid'')
   | Inr rs \<Rightarrow> Inr rs)"

record journal_verification =
  jv_valid :: bool
  jv_event_count :: nat
  jv_final_hash :: string
  jv_reason_code :: "string option"

definition verify_chain :: "sha256 \<Rightarrow> canonical_text \<Rightarrow> string \<Rightarrow> journal_table \<Rightarrow> journal_verification" where
  "verify_chain sha canonical run_id tbl = (case events_for_run sha canonical run_id tbl of
     Inl _ \<Rightarrow> \<lparr>jv_valid = False, jv_event_count = 0, jv_final_hash = GENESIS_HASH,
       jv_reason_code = Some ''JOURNAL_PAYLOAD_INVALID''\<rparr>
   | Inr records \<Rightarrow> (let valid = verify_decision_chain sha canonical records in
       \<lparr>jv_valid = valid, jv_event_count = length records, jv_final_hash = last_hash GENESIS_HASH records,
        jv_reason_code = (if valid then None else Some ''JOURNAL_HASH_CHAIN_INVALID'')\<rparr>))"

section \<open>Chains\<close>

lemma last_hash_Nil [simp]: "last_hash p [] = p"
  by (simp add: last_hash_def)

lemma last_hash_Cons [simp]: "last_hash p (r # rs) = last_hash (dr_event_hash r) rs"
  by (simp add: last_hash_def)

lemma last_hash_append [simp]: "last_hash p (xs @ ys) = last_hash (last_hash p xs) ys"
  by (induction xs arbitrary: p) simp_all

lemma verify_from_append:
  "verify_from sha can n p (xs @ ys) \<longleftrightarrow>
   verify_from sha can n p xs \<and> verify_from sha can (n + int (length xs)) (last_hash p xs) ys"
  by (induction xs arbitrary: n p) (auto simp: add.assoc)

lemma verify_from_sequences: "verify_from sha can n p rs \<Longrightarrow> map (de_sequence \<circ> dr_event) rs = [n..n + int (length rs) - 1]"
proof (induction rs arbitrary: n p)
  case (Cons r rs)
  then have "de_sequence (dr_event r) = n" and v: "verify_from sha can (n + 1) (dr_event_hash r) rs"
    by (simp_all split: if_splits)
  then show ?case
    using Cons.IH [OF v] upto_rec1 [of n "n + int (length rs)"] by simp
qed simp

lemma last_hash_length:
  assumes "\<forall>x. length (sha x) = 64" "verify_from sha can n p rs" "length p = 64"
  shows "length (last_hash p rs) = 64"
  using assms(2,3) by (induction rs arbitrary: n p) (auto simp: decision_chain_hash_def assms(1) split: if_splits)

text \<open>The text of an event that the chain hashes, and two records that hash different inputs to one digest.\<close>

definition event_text :: "canonical_text \<Rightarrow> decision_record \<Rightarrow> string" where
  "event_text canonical r = canonical (event_value (dr_event r))"

definition hash_collision :: "sha256 \<Rightarrow> canonical_text \<Rightarrow> decision_record \<Rightarrow> decision_record \<Rightarrow> bool" where
  "hash_collision sha canonical r r' \<longleftrightarrow>
     dr_previous_hash r @ event_text canonical r \<noteq> dr_previous_hash r' @ event_text canonical r' \<and>
     sha (dr_previous_hash r @ event_text canonical r) = sha (dr_previous_hash r' @ event_text canonical r')"

lemma chain_binding:
  assumes "length rs = length rs'" "\<forall>x. length (sha x) = 64"
    "verify_from sha can n p rs" "verify_from sha can n p rs'" "length p = 64" "last_hash p rs = last_hash p rs'"
  shows "map (event_text can) rs' = map (event_text can) rs \<or>
    (\<exists>i<length rs. hash_collision sha can (rs ! i) (rs' ! i))"
  using assms(1,3,4,6)
proof (induction rs arbitrary: rs' rule: rev_induct)
  case (snoc r rs)
  then obtain xs r' where rs': "rs' = xs @ [r']" by (cases rs' rule: rev_cases) auto
  have len: "length rs = length xs" using snoc.prems(1) rs' by simp
  have v: "verify_from sha can n p rs" "verify_from sha can n p xs"
    "dr_previous_hash r = last_hash p rs" "dr_previous_hash r' = last_hash p xs"
    "dr_event_hash r = sha (dr_previous_hash r @ event_text can r)"
    "dr_event_hash r' = sha (dr_previous_hash r' @ event_text can r')" "dr_event_hash r = dr_event_hash r'"
    using snoc.prems(2-4)
    by (auto simp: rs' verify_from_append decision_chain_hash_def event_text_def split: if_splits)
  show ?case
  proof (cases "hash_collision sha can r r'")
    case True
    then show ?thesis using len by (auto simp: rs' nth_append intro!: exI [of _ "length xs"])
  next
    case False
    then have "dr_previous_hash r @ event_text can r = dr_previous_hash r' @ event_text can r'"
      using v(5-7) by (simp add: hash_collision_def)
    moreover have "length (dr_previous_hash r) = length (dr_previous_hash r')"
      using last_hash_length [OF assms(2)] v(1-4) assms(5) by metis
    ultimately have "last_hash p rs = last_hash p xs" "event_text can r' = event_text can r"
      using v(3,4) by simp_all
    then show ?thesis
      using snoc.IH [OF len v(1,2)] len by (auto simp: rs' nth_append dest: less_SucI)
  qed
qed simp

section \<open>The journal in memory\<close>

lemma journal_append_verifies:
  assumes "verify_decision_chain sha can (dj_records j)"
  shows "verify_decision_chain sha can (dj_records (snd (journal_append sha can d j)))"
proof -
  have "de_sequence e = 1 + int (length (dj_records j))"
    if "DecisionEvent sha can (new_event sha can (dj_run_id j) (length (dj_records j) + 1) d) = Inr e" for e
    using that by (auto simp: DecisionEvent_def new_event_def Let_def raises)
  then show ?thesis
    using assms by (auto simp: journal_append_def Let_def verify_decision_chain_def verify_from_append final_hash_def
        split: sum.splits)
qed

lemma journal_append_bounded:
  "length (dj_records j) \<le> dj_max_events j \<Longrightarrow>
   length (dj_records (snd (journal_append sha can d j))) \<le> dj_max_events (snd (journal_append sha can d j))"
  by (auto simp: journal_append_def Let_def split: sum.splits)

section \<open>The stored journal\<close>

definition well_made :: "sha256 \<Rightarrow> canonical_text \<Rightarrow> decision_record \<Rightarrow> bool" where
  "well_made sha canonical r \<longleftrightarrow>
     DecisionEvent sha canonical (dr_event r) = Inr (dr_event r) \<and> valid_datetime (de_occurred_at (dr_event r))"

lemma payload_of_value_roundtrip [simp]: "payload_of_value (payload_value p) = Inr p"
proof -
  have "map (the \<circ> payload_pair \<circ> (\<lambda>(k, v). PList [PStr k, PStr v])) p = p"
    by (induction p) auto
  then show ?thesis by (auto simp: payload_value_def list_all_iff)
qed

lemma decision_event_eta: "\<lparr>de_event_id = de_event_id e, de_run_id = de_run_id e, de_sequence = de_sequence e, de_event_type =
     de_event_type e, de_occurred_at = de_occurred_at e, de_logical_time_ms = de_logical_time_ms e,
     de_correlation_id = de_correlation_id e, de_causation_id = de_causation_id e, de_strategy_id =
     de_strategy_id e, de_strategy_version = de_strategy_version e, de_manifest_hash = de_manifest_hash
     e, de_configuration_hash = de_configuration_hash e, de_candle_id = de_candle_id e, de_payload =
     de_payload e, de_payload_sha256 = de_payload_sha256 e\<rparr> = e"
  by simp

lemma decision_from_row_of: "well_made sha can r \<Longrightarrow> decision_from_row sha can (decision_row_of r) = Inr r"
  by (simp add: well_made_def decision_from_row_def decision_row_of_def Let_def decision_event_eta)

lemma decisions_from_rows_of:
  "\<forall>r\<in>set rs. well_made sha can r \<Longrightarrow> decisions_from_rows sha can (map decision_row_of rs) = Inr rs"
  by (induction rs) (simp_all add: decision_from_row_of)

lemma append_records_eq_Inr:
  "append_records sha can n p rs tbl = Inr tbl' \<Longrightarrow>
   tbl' = tbl @ map decision_row_of rs \<and> verify_from sha can n p rs"
proof (induction rs arbitrary: n p tbl)
  case (Cons r rs)
  then have app: "append_records sha can (n + 1) (dr_event_hash r) rs (tbl @ [decision_row_of r]) = Inr tbl'"
      "de_sequence (dr_event r) = n" "dr_previous_hash r = p"
      "dr_event_hash r = decision_chain_hash sha can p (dr_event r)"
    by (auto simp: raises insert_decision_def)
  from Cons.IH [OF app(1)] app(2-4) show ?case by simp
qed simp

definition journal_ok :: "sha256 \<Rightarrow> canonical_text \<Rightarrow> journal_table \<Rightarrow> bool" where
  "journal_ok sha canonical tbl \<longleftrightarrow> (\<forall>run. \<exists>rs.
     filter (\<lambda>r. drow_run_id r = run) tbl = map decision_row_of rs \<and>
     (\<forall>r\<in>set rs. well_made sha canonical r) \<and> verify_decision_chain sha canonical rs)"

lemma run_rows_chain:
  assumes "filter (\<lambda>r. drow_run_id r = run) tbl = map decision_row_of rs" "verify_decision_chain sha can rs"
  shows "run_rows run tbl = map decision_row_of rs"
proof -
  have "map drow_sequence (map decision_row_of rs) = map (de_sequence \<circ> dr_event) rs"
    by (simp add: decision_row_of_def Let_def)
  then have "sorted (map drow_sequence (map decision_row_of rs))"
    using verify_from_sequences [of sha can 1 GENESIS_HASH rs] assms(2)
    by (simp add: verify_decision_chain_def del: map_map)
  then show ?thesis
    unfolding run_rows_def assms(1) by (rule sort_key_id_if_sorted)
qed

lemma append_batch_ok:
  assumes ok: "journal_ok sha can tbl" and made: "\<forall>r\<in>set records. well_made sha can r"
    and batch: "append_batch sha can records tbl = Inr (res, tbl')"
  shows "journal_ok sha can tbl'"
proof (cases "tbl' = tbl")
  case False
  define run where "run = de_run_id (dr_event (hd records))"
  obtain rs where rs: "filter (\<lambda>r. drow_run_id r = run) tbl = map decision_row_of rs"
      "\<forall>r\<in>set rs. well_made sha can r" "verify_decision_chain sha can rs"
    using ok unfolding journal_ok_def by blast
  note rows = run_rows_chain [OF rs(1,3)]
  have same: "\<forall>r\<in>set records. de_run_id (dr_event r) = run"
    and app: "append_records sha can (if rs = [] then 1 else drow_sequence (last (map decision_row_of rs)) + 1)
      (if rs = [] then GENESIS_HASH else drow_event_sha256 (last (map decision_row_of rs))) records tbl = Inr tbl'"
    using batch False
    by (auto simp: append_batch_def raises Let_def run_def [symmetric] rows list_ex_iff split: if_splits sum.splits)
  have "(if rs = [] then GENESIS_HASH else drow_event_sha256 (last (map decision_row_of rs))) = last_hash GENESIS_HASH rs"
    by (simp add: last_hash_def last_map decision_row_of_def Let_def)
  moreover have "(if rs = [] then 1 else drow_sequence (last (map decision_row_of rs)) + 1) = 1 + int (length rs)"
  proof (cases rs rule: rev_cases)
    case (snoc xs r)
    then have "de_sequence (dr_event r) = 1 + int (length xs)"
      using rs(3) by (simp add: verify_decision_chain_def verify_from_append split: if_splits)
    then show ?thesis by (simp add: snoc decision_row_of_def Let_def)
  qed simp
  ultimately have new: "tbl' = tbl @ map decision_row_of records"
      "verify_from sha can (1 + int (length rs)) (last_hash GENESIS_HASH rs) records"
    using append_records_eq_Inr [OF app] by simp_all
  show ?thesis
    unfolding journal_ok_def
  proof
    fix run'
    have records: "filter (\<lambda>r. drow_run_id r = run') (map decision_row_of records) =
        (if run' = run then map decision_row_of records else [])"
      using same by (auto simp: filter_empty_conv filter_id_conv decision_row_of_def Let_def)
    show "\<exists>rs. filter (\<lambda>r. drow_run_id r = run') tbl' = map decision_row_of rs \<and>
        (\<forall>r\<in>set rs. well_made sha can r) \<and> verify_decision_chain sha can rs"
    proof (cases "run' = run")
      case True
      have "filter (\<lambda>r. drow_run_id r = run') tbl' = map decision_row_of (rs @ records)"
        using records True by (simp add: new(1) rs(1))
      moreover have "verify_decision_chain sha can (rs @ records)"
        using new(2) rs(3) by (simp add: verify_decision_chain_def verify_from_append)
      ultimately show ?thesis using rs(2) made by (metis Un_iff set_append)
    next
      case False
      then show ?thesis using ok by (simp add: new(1) records journal_ok_def)
    qed
  qed
qed (use ok in simp)

inductive journal_step :: "sha256 \<Rightarrow> canonical_text \<Rightarrow> journal_table \<Rightarrow> journal_table \<Rightarrow> bool"
  for sha canonical where
  one: "well_made sha canonical r \<Longrightarrow> journal_step sha canonical tbl (snd (repository_append sha canonical r tbl))"
| batch: "\<forall>r\<in>set records. well_made sha canonical r \<Longrightarrow>
    journal_step sha canonical tbl (snd (journal_transaction (append_batch sha canonical records) tbl))"

definition journal_init :: "journal_table \<Rightarrow> bool" where
  "journal_init tbl \<longleftrightarrow> tbl = []"

lemma journal_transaction_cases:
  obtains "snd (journal_transaction f tbl) = tbl" | res tbl' where "f tbl = Inr (res, tbl')" "snd (journal_transaction f tbl) = tbl'"
  by (cases "f tbl") (auto simp: journal_transaction_def split: prod.splits exc.splits)

lemma journal_step_ok:
  assumes "journal_ok sha can s" "journal_step sha can s t"
  shows "journal_ok sha can t"
  using assms(2)
proof cases
  case (one r)
  then show ?thesis
    using assms(1) append_batch_ok [of sha can s "[r]"] unfolding repository_append_def
    by (cases rule: journal_transaction_cases [of "append_batch sha can [r]" s]) auto
next
  case (batch records)
  then show ?thesis
    using assms(1) append_batch_ok [of sha can s records]
    by (cases rule: journal_transaction_cases [of "append_batch sha can records" s]) auto
qed

interpretation journal_runs: invariant_system journal_init "journal_step sha canonical" "journal_ok sha canonical"
  for sha canonical
proof
  show "journal_ok sha canonical s" if "journal_init s" for s
    using that by (simp add: journal_init_def journal_ok_def verify_decision_chain_def)
  show "journal_ok sha canonical t" if "journal_ok sha canonical s" "journal_step sha canonical s t" for s t
    using that by (rule journal_step_ok)
qed

lemma journal_ok_verifies:
  assumes "journal_ok sha can tbl"
  obtains rs where "events_for_run sha can run tbl = Inr rs" "verify_decision_chain sha can rs"
proof -
  obtain rs where "filter (\<lambda>r. drow_run_id r = run) tbl = map decision_row_of rs"
      "\<forall>r\<in>set rs. well_made sha can r" "verify_decision_chain sha can rs"
    using assms unfolding journal_ok_def by blast
  then show ?thesis
    using that run_rows_chain decisions_from_rows_of by (simp add: events_for_run_def)
qed


text \<open>A journal of one event, and the same table after a row of another run was added behind its back.\<close>

definition demo_hash :: sha256 where
  "demo_hash x = take 64 (x @ replicate 64 (CHR ''f''))"

definition demo_text :: canonical_text where
  "demo_text v = (case v of PList _ \<Rightarrow> ''[]'' | _ \<Rightarrow> ''{}'')"

definition demo_decision :: decision_event where
  "demo_decision = \<lparr>de_event_id = ''e1'', de_run_id = ''run'', de_sequence = 1, de_event_type = CANDLE_ACCEPTED,
     de_occurred_at = utc 2026 1 1 0 0 0 0, de_logical_time_ms = 0, de_correlation_id = ''c'',
     de_causation_id = None, de_strategy_id = ''s'', de_strategy_version = ''1'', de_manifest_hash = ''m'',
     de_configuration_hash = ''k'', de_candle_id = ''x'', de_payload = [],
     de_payload_sha256 = demo_hash (demo_text (payload_value []))\<rparr>"

definition demo_record :: decision_record where
  "demo_record = \<lparr>dr_event = demo_decision, dr_previous_hash = GENESIS_HASH,
     dr_event_hash = decision_chain_hash demo_hash demo_text GENESIS_HASH demo_decision\<rparr>"

definition demo_other_row :: decision_row where
  "demo_other_row = (decision_row_of demo_record)\<lparr>drow_event_id := ''e2'', drow_run_id := ''other''\<rparr>"

lemma demo_hash_length: "length (demo_hash x) = 64"
  by (simp add: demo_hash_def)

lemma demo_record_made: "well_made demo_hash demo_text demo_record"
  by (simp add: well_made_def demo_record_def demo_decision_def DecisionEvent_def is_utc_def utc_def Let_def
      blank_def strip_def lstrip_def is_space_def char_code_def valid_datetime_def days_in_month_def)

lemma demo_record_appended:
  "repository_append demo_hash demo_text demo_record [] = (Inr J_STORED, [decision_row_of demo_record])"
  by (simp add: repository_append_def journal_transaction_def append_batch_def run_rows_def insert_decision_def
      Let_def demo_record_def demo_decision_def decision_row_of_def)

lemma demo_run_rows: "run_rows ''run'' [decision_row_of demo_record, demo_other_row] = run_rows ''run'' [decision_row_of demo_record]"
  by (simp add: run_rows_def demo_other_row_def decision_row_of_def demo_record_def demo_decision_def Let_def)


end
