(* ===== verification/Catalog.thy ===== *)
theory Catalog
  imports Decimals Domain "HOL-Library.AList"
begin

text \<open>
  The catalog of strategies: \<open>packages/strategy_catalog/models.py\<close> (manifests),
  \<open>packages/strategy_catalog/validation.py\<close> (evidence, reports and the release check),
  \<open>packages/persistence/validation_repository.py\<close> (the durable reports) and
  \<open>packages/strategy_catalog/catalog.py\<close> (registration, life cycle, activation).

  The lock of the validation registry is a \<open>threading.Lock\<close>, which a thread cannot take twice. The
  methods that take it have an argument \<open>held\<close>, true when the calling thread is inside a
  \<open>with self._lock\<close> of the registry already, and give \<open>None\<close> when the call never returns.
  Dictionaries are association lists in insertion order. SHA-256 is an argument.
\<close>

section \<open>Manifests\<close>

datatype release_status =
    DRAFT | BACKTESTED | WALK_FORWARD_VALIDATED | REPLAY_VALIDATED | PRACTICE_VALIDATED | RELEASED
  | SUSPENDED | RETIRED

primrec release_status_value :: "release_status \<Rightarrow> string" where
  "release_status_value DRAFT = ''DRAFT''"
| "release_status_value BACKTESTED = ''BACKTESTED''"
| "release_status_value WALK_FORWARD_VALIDATED = ''WALK_FORWARD_VALIDATED''"
| "release_status_value REPLAY_VALIDATED = ''REPLAY_VALIDATED''"
| "release_status_value PRACTICE_VALIDATED = ''PRACTICE_VALIDATED''"
| "release_status_value RELEASED = ''RELEASED''"
| "release_status_value SUSPENDED = ''SUSPENDED''"
| "release_status_value RETIRED = ''RETIRED''"

definition release_status_of :: "string \<Rightarrow> exc + release_status" where
  "release_status_of = enum_of ''ReleaseStatus'' (map (\<lambda>s. (s, release_status_value s))
     [DRAFT, BACKTESTED, WALK_FORWARD_VALIDATED, REPLAY_VALIDATED, PRACTICE_VALIDATED, RELEASED, SUSPENDED, RETIRED])"

datatype data_requirement = CLOSED_CANDLES

definition data_requirement_value :: "data_requirement \<Rightarrow> string" where
  "data_requirement_value d = ''CLOSED_CANDLES''"

definition data_requirement_of :: "string \<Rightarrow> exc + data_requirement" where
  "data_requirement_of = enum_of ''DataRequirement'' [(CLOSED_CANDLES, data_requirement_value CLOSED_CANDLES)]"

datatype risk_class = CONSERVATIVE | STANDARD | ELEVATED

primrec risk_class_value :: "risk_class \<Rightarrow> string" where
  "risk_class_value CONSERVATIVE = ''CONSERVATIVE''"
| "risk_class_value STANDARD = ''STANDARD''"
| "risk_class_value ELEVATED = ''ELEVATED''"

definition risk_class_of :: "string \<Rightarrow> exc + risk_class" where
  "risk_class_of = enum_of ''RiskClass'' (map (\<lambda>r. (r, risk_class_value r)) [CONSERVATIVE, STANDARD, ELEVATED])"

datatype parameter_kind = PK_INTEGER | PK_DECIMAL | PK_BOOLEAN | PK_ENUM

primrec parameter_kind_value :: "parameter_kind \<Rightarrow> string" where
  "parameter_kind_value PK_INTEGER = ''INTEGER''"
| "parameter_kind_value PK_DECIMAL = ''DECIMAL''"
| "parameter_kind_value PK_BOOLEAN = ''BOOLEAN''"
| "parameter_kind_value PK_ENUM = ''ENUM''"

definition parameter_kind_of :: "string \<Rightarrow> exc + parameter_kind" where
  "parameter_kind_of = enum_of ''ParameterKind'' (map (\<lambda>k. (k, parameter_kind_value k))
     [PK_INTEGER, PK_DECIMAL, PK_BOOLEAN, PK_ENUM])"

record parameter_spec =
  ps_name :: string
  ps_kind :: parameter_kind
  ps_required :: bool

definition ParameterSpec :: "parameter_spec \<Rightarrow> exc + parameter_spec" where
  "ParameterSpec p = and_then (raise_if (blank (ps_name p)) (ValueError ''parameter name cannot be empty'')) (\<lambda>_. Inr p)"

definition parameter_to_payload :: "parameter_spec \<Rightarrow> pyval" where
  "parameter_to_payload p = PDict [(''kind'', PStr (parameter_kind_value (ps_kind p))), (''name'', PStr (ps_name p)),
     (''required'', PBool (ps_required p))]"

fun py_bool :: "pyval \<Rightarrow> bool option" where
  "py_bool (PBool b) = Some b"
| "py_bool _ = None"

fun parameter_from_payload :: "pyval \<Rightarrow> exc + parameter_spec" where
  "parameter_from_payload (PDict d) =
     and_then (raise_if (set (map fst d) \<noteq> {''kind'', ''name'', ''required''})
       (ValueError ''parameter spec schema is invalid'')) (\<lambda>_.
     and_then (raise_if (\<not> is_str (get_item d ''name'') \<or> \<not> is_str (get_item d ''kind'') \<or>
         py_bool (get_item d ''required'') = None)
       (ValueError ''parameter spec fields are invalid'')) (\<lambda>_.
     and_then (parameter_kind_of (the_str (get_item d ''kind''))) (\<lambda>kind.
     ParameterSpec \<lparr>ps_name = the_str (get_item d ''name''), ps_kind = kind,
       ps_required = the (py_bool (get_item d ''required''))\<rparr>)))"
| "parameter_from_payload _ = Inl (ValueError ''parameter spec schema is invalid'')"

record strategy_manifest =
  sm_manifest_version :: int
  sm_strategy_id :: string
  sm_version :: string
  sm_code_hash :: string
  sm_supported_brokers :: "broker list"
  sm_supported_products :: "string list"
  sm_supported_timeframes :: "int list"
  sm_required_data :: "data_requirement list"
  sm_warmup_candles :: int
  sm_parameter_schema :: "parameter_spec list"
  sm_risk_class :: risk_class
  sm_validation_report_id :: string
  sm_release_status :: release_status
  sm_strategy_pack :: string

definition unique_nonempty :: "string list \<Rightarrow> string \<Rightarrow> exc + unit" where
  "unique_nonempty vs field = raise_if (vs = [] \<or> list_ex blank vs \<or> length (remdups vs) \<noteq> length vs)
     (ValueError (field @ '' must contain unique non-empty values''))"

definition is_hex_digest :: "string \<Rightarrow> bool" where
  "is_hex_digest s \<longleftrightarrow> length s = 64 \<and> list_all (\<lambda>c. c \<in> set ''0123456789abcdef'') s"

definition StrategyManifest :: "strategy_manifest \<Rightarrow> exc + strategy_manifest" where
  "StrategyManifest m =
     and_then (raise_if (sm_manifest_version m \<noteq> 1) (ValueError ''unsupported strategy manifest version'')) (\<lambda>_.
     and_then (require_nonblank [(''strategy_id'', sm_strategy_id m), (''version'', sm_version m),
       (''validation_report_id'', sm_validation_report_id m), (''strategy_pack'', sm_strategy_pack m)]) (\<lambda>_.
     and_then (raise_if (\<not> is_hex_digest (sm_code_hash m))
       (ValueError ''code_hash must be a lowercase SHA-256 hex digest'')) (\<lambda>_.
     and_then (raise_if (sm_supported_brokers m = [] \<or>
         length (remdups (sm_supported_brokers m)) \<noteq> length (sm_supported_brokers m))
       (ValueError ''supported_brokers must be non-empty and unique'')) (\<lambda>_.
     and_then (unique_nonempty (sm_supported_products m) ''supported_products'') (\<lambda>_.
     and_then (raise_if (sm_supported_timeframes m = [] \<or> list_ex (\<lambda>t. t \<le> 0) (sm_supported_timeframes m) \<or>
         sort (remdups (sm_supported_timeframes m)) \<noteq> sm_supported_timeframes m)
       (ValueError ''supported_timeframes must be sorted, unique and positive'')) (\<lambda>_.
     and_then (raise_if (sm_required_data m = [] \<or> length (remdups (sm_required_data m)) \<noteq> length (sm_required_data m))
       (ValueError ''required_data must be non-empty and unique'')) (\<lambda>_.
     and_then (raise_if (sm_warmup_candles m \<le> 0) (ValueError ''warmup_candles must be positive'')) (\<lambda>_.
     and_then (let names = map ps_name (sm_parameter_schema m) in raise_if (length (remdups names) \<noteq> length names)
       (ValueError ''parameter_schema names must be unique'')) (\<lambda>_.
     Inr m)))))))))"

definition manifest_key :: "strategy_manifest \<Rightarrow> string \<times> string" where
  "manifest_key m = (sm_strategy_id m, sm_version m)"

definition with_status :: "strategy_manifest \<Rightarrow> release_status \<Rightarrow> strategy_manifest" where
  "with_status m s = m\<lparr>sm_release_status := s\<rparr>"

definition manifest_to_payload :: "strategy_manifest \<Rightarrow> payload" where
  "manifest_to_payload m =
     [(''code_hash'', PStr (sm_code_hash m)), (''manifest_version'', PInt (sm_manifest_version m)),
      (''parameter_schema'', PList (map parameter_to_payload (sm_parameter_schema m))),
      (''release_status'', PStr (release_status_value (sm_release_status m))),
      (''required_data'', PList (map (PStr \<circ> data_requirement_value) (sm_required_data m))),
      (''risk_class'', PStr (risk_class_value (sm_risk_class m))), (''strategy_id'', PStr (sm_strategy_id m)),
      (''strategy_pack'', PStr (sm_strategy_pack m)),
      (''supported_brokers'', PList (map (PStr \<circ> broker_value) (sm_supported_brokers m))),
      (''supported_products'', PList (map PStr (sm_supported_products m))),
      (''supported_timeframes'', PList (map PInt (sm_supported_timeframes m))),
      (''validation_report_id'', PStr (sm_validation_report_id m)), (''version'', PStr (sm_version m)),
      (''warmup_candles'', PInt (sm_warmup_candles m))]"

fun string_list :: "pyval \<Rightarrow> string \<Rightarrow> exc + string list" where
  "string_list (PList vs) field = (if list_all is_str vs then Inr (map the_str vs)
     else Inl (ValueError (field @ '' must be a string array'')))"
| "string_list _ field = Inl (ValueError (field @ '' must be a string array''))"

fun timeframe_list :: "pyval \<Rightarrow> exc + int list" where
  "timeframe_list (PList vs) = (if list_all is_int vs then Inr (map the_int vs)
     else Inl (ValueError ''supported_timeframes must be an integer array''))"
| "timeframe_list _ = Inl (ValueError ''supported_timeframes must be an integer array'')"

fun parameter_list :: "pyval \<Rightarrow> exc + pyval list" where
  "parameter_list (PList vs) = Inr vs"
| "parameter_list _ = Inl (ValueError ''parameter_schema must be an array'')"

text \<open>\<open>tuple(f(x) for x in xs)\<close>: the first exception ends it.\<close>

fun map_raising :: "('a \<Rightarrow> exc + 'b) \<Rightarrow> 'a list \<Rightarrow> exc + 'b list" where
  "map_raising f [] = Inr []"
| "map_raising f (x # xs) = and_then (f x) (\<lambda>y. and_then (map_raising f xs) (\<lambda>ys. Inr (y # ys)))"

definition manifest_fields :: "string list" where
  "manifest_fields = [''code_hash'', ''manifest_version'', ''parameter_schema'', ''release_status'', ''required_data'',
     ''risk_class'', ''strategy_id'', ''strategy_pack'', ''supported_brokers'', ''supported_products'',
     ''supported_timeframes'', ''validation_report_id'', ''version'', ''warmup_candles'']"

fun manifest_from_payload :: "pyval \<Rightarrow> exc + strategy_manifest" where
  "manifest_from_payload (PDict d) =
     and_then (raise_if (set (map fst d) \<noteq> set manifest_fields) (ValueError ''manifest schema is invalid'')) (\<lambda>_.
     and_then (raise_if (\<not> list_all (\<lambda>f. is_str (get_item d f)) [''code_hash'', ''release_status'', ''risk_class'',
         ''strategy_id'', ''strategy_pack'', ''validation_report_id'', ''version''])
       (ValueError ''manifest string field has invalid type'')) (\<lambda>_.
     and_then (raise_if (\<not> is_int (get_item d ''manifest_version'') \<or> \<not> is_int (get_item d ''warmup_candles''))
       (ValueError ''manifest integer field has invalid type'')) (\<lambda>_.
     and_then (string_list (get_item d ''supported_brokers'') ''supported_brokers'') (\<lambda>brokers.
     and_then (string_list (get_item d ''supported_products'') ''supported_products'') (\<lambda>products.
     and_then (string_list (get_item d ''required_data'') ''required_data'') (\<lambda>requirements.
     and_then (timeframe_list (get_item d ''supported_timeframes'')) (\<lambda>timeframes.
     and_then (parameter_list (get_item d ''parameter_schema'')) (\<lambda>parameters.
     and_then (map_raising broker_of brokers) (\<lambda>supported_brokers.
     and_then (map_raising data_requirement_of requirements) (\<lambda>required_data.
     and_then (map_raising parameter_from_payload parameters) (\<lambda>parameter_schema.
     and_then (risk_class_of (the_str (get_item d ''risk_class''))) (\<lambda>risk.
     and_then (release_status_of (the_str (get_item d ''release_status''))) (\<lambda>status.
     StrategyManifest \<lparr>sm_manifest_version = the_int (get_item d ''manifest_version''),
       sm_strategy_id = the_str (get_item d ''strategy_id''), sm_version = the_str (get_item d ''version''),
       sm_code_hash = the_str (get_item d ''code_hash''), sm_supported_brokers = supported_brokers,
       sm_supported_products = products, sm_supported_timeframes = timeframes, sm_required_data = required_data,
       sm_warmup_candles = the_int (get_item d ''warmup_candles''), sm_parameter_schema = parameter_schema,
       sm_risk_class = risk, sm_validation_report_id = the_str (get_item d ''validation_report_id''),
       sm_release_status = status, sm_strategy_pack = the_str (get_item d ''strategy_pack'')\<rparr>)))))))))))))"
| "manifest_from_payload _ = Inl (ValueError ''manifest must be an object'')"

section \<open>Validation\<close>

datatype validation_stage = BACKTEST | WALK_FORWARD | REPLAY | PRACTICE

primrec stage_value :: "validation_stage \<Rightarrow> string" where
  "stage_value BACKTEST = ''BACKTEST''"
| "stage_value WALK_FORWARD = ''WALK_FORWARD''"
| "stage_value REPLAY = ''REPLAY''"
| "stage_value PRACTICE = ''PRACTICE''"

definition REQUIRED_STAGES :: "validation_stage list" where
  "REQUIRED_STAGES = [BACKTEST, WALK_FORWARD, REPLAY, PRACTICE]"

definition stage_of :: "string \<Rightarrow> exc + validation_stage" where
  "stage_of = enum_of ''ValidationStage'' (map (\<lambda>s. (s, stage_value s)) REQUIRED_STAGES)"

record validation_evidence =
  ve_evidence_id :: string
  ve_strategy_id :: string
  ve_strategy_version :: string
  ve_report_id :: string
  ve_stage :: validation_stage
  ve_approved :: bool
  ve_broker :: broker
  ve_product :: string
  ve_symbol :: string
  ve_timeframe_seconds :: int
  ve_dataset_id :: string
  ve_period_start :: datetime
  ve_period_end :: datetime
  ve_metrics :: "(string \<times> decimal) list"

definition ValidationEvidence :: "validation_evidence \<Rightarrow> exc + validation_evidence" where
  "ValidationEvidence v =
     and_then (require_aware_utc (ve_period_start v) ''period_start'') (\<lambda>_.
     and_then (require_aware_utc (ve_period_end v) ''period_end'') (\<lambda>_.
     and_then (require_nonblank [(''evidence_id'', ve_evidence_id v), (''strategy_id'', ve_strategy_id v),
       (''strategy_version'', ve_strategy_version v), (''report_id'', ve_report_id v), (''product'', ve_product v),
       (''symbol'', ve_symbol v), (''dataset_id'', ve_dataset_id v)]) (\<lambda>_.
     and_then (raise_if (instant (ve_period_end v) \<le> instant (ve_period_start v) \<or> ve_timeframe_seconds v \<le> 0)
       (ValueError ''validation period/timeframe is invalid'')) (\<lambda>_.
     and_then (let names = map fst (ve_metrics v) in
       raise_if (list_ex blank names \<or> length (remdups names) \<noteq> length names)
         (ValueError ''metric names must be unique and non-empty'')) (\<lambda>_.
     and_then (raise_if (list_ex (\<lambda>(_, x). x = Special) (ve_metrics v))
       (ValueError ''validation metrics must be finite decimals'')) (\<lambda>_.
     Inr v))))))"

record validation_report =
  vr_report_id :: string
  vr_strategy_id :: string
  vr_strategy_version :: string
  vr_code_hash :: string
  vr_stage :: validation_stage
  vr_is_approved :: bool
  vr_metrics_json :: string
  vr_dataset_hash :: string
  vr_created_at_utc :: datetime

definition ValidationReport :: "validation_report \<Rightarrow> exc + validation_report" where
  "ValidationReport r =
     and_then (require_aware_utc (vr_created_at_utc r) ''created_at_utc'') (\<lambda>_.
     and_then (require_nonblank [(''report_id'', vr_report_id r), (''strategy_id'', vr_strategy_id r),
       (''strategy_version'', vr_strategy_version r), (''code_hash'', vr_code_hash r),
       (''metrics_json'', vr_metrics_json r), (''dataset_hash'', vr_dataset_hash r)]) (\<lambda>_.
     and_then (raise_if (\<not> is_hex_digest (vr_code_hash r))
       (ValueError ''code_hash must be a 64-char lowercase hex string'')) (\<lambda>_.
     Inr r)))"

subsection \<open>The durable reports\<close>

record report_row =
  rrow_report_id :: string
  rrow_strategy_id :: string
  rrow_strategy_version :: string
  rrow_code_hash :: string
  rrow_stage :: string
  rrow_is_approved :: int
  rrow_metrics_json :: string
  rrow_dataset_hash :: string
  rrow_created_at_utc :: string

definition report_row_of :: "validation_report \<Rightarrow> report_row" where
  "report_row_of r = \<lparr>rrow_report_id = vr_report_id r, rrow_strategy_id = vr_strategy_id r,
     rrow_strategy_version = vr_strategy_version r, rrow_code_hash = vr_code_hash r,
     rrow_stage = stage_value (vr_stage r), rrow_is_approved = (if vr_is_approved r then 1 else 0),
     rrow_metrics_json = vr_metrics_json r, rrow_dataset_hash = vr_dataset_hash r,
     rrow_created_at_utc = isoformat (vr_created_at_utc r)\<rparr>"

text \<open>\<open>INSERT OR REPLACE\<close>: the row with the same key goes, the new row comes last.\<close>

definition save_report :: "validation_report \<Rightarrow> report_row list \<Rightarrow> report_row list" where
  "save_report r rows = filter (\<lambda>x. rrow_report_id x \<noteq> vr_report_id r) rows @ [report_row_of r]"

definition row_to_report :: "report_row \<Rightarrow> exc + validation_report" where
  "row_to_report row =
     and_then (fromisoformat (rrow_created_at_utc row)) (\<lambda>dt.
     and_then (stage_of (rrow_stage row)) (\<lambda>stage.
     ValidationReport \<lparr>vr_report_id = rrow_report_id row, vr_strategy_id = rrow_strategy_id row,
       vr_strategy_version = rrow_strategy_version row, vr_code_hash = rrow_code_hash row, vr_stage = stage,
       vr_is_approved = (rrow_is_approved row \<noteq> 0), vr_metrics_json = rrow_metrics_json row,
       vr_dataset_hash = rrow_dataset_hash row,
       vr_created_at_utc = (if utc_offset dt = None then dt\<lparr>utc_offset := Some 0\<rparr> else dt)\<rparr>))"

definition get_reports_for_strategy :: "string \<Rightarrow> string \<Rightarrow> report_row list \<Rightarrow> exc + validation_report list" where
  "get_reports_for_strategy sid ver rows = map_raising row_to_report (sort_key rrow_created_at_utc
     (filter (\<lambda>r. rrow_strategy_id r = sid \<and> rrow_strategy_version r = ver) rows))"

definition stored_stage_approved :: "report_row list \<Rightarrow> string \<Rightarrow> string \<Rightarrow> string \<Rightarrow> validation_stage \<Rightarrow> bool" where
  "stored_stage_approved rows sid ver code stage = list_ex (\<lambda>r. rrow_strategy_id r = sid \<and>
     rrow_strategy_version r = ver \<and> rrow_code_hash r = code \<and> rrow_stage r = stage_value stage \<and>
     rrow_is_approved r = 1) rows"

definition stored_release_eligible :: "report_row list \<Rightarrow> string \<Rightarrow> string \<Rightarrow> string \<Rightarrow> bool" where
  "stored_release_eligible rows sid ver code = list_all (stored_stage_approved rows sid ver code) REQUIRED_STAGES"

subsection \<open>The registry\<close>

record validation_registry =
  rg_evidence :: "(string \<times> validation_evidence) list"
  rg_reports :: "(string \<times> validation_report) list"
  rg_repo :: "report_row list option"

definition record_validation :: "validation_evidence \<Rightarrow> validation_registry \<Rightarrow> (exc + unit) \<times> validation_registry" where
  "record_validation v reg = (case map_of (rg_evidence reg) (ve_evidence_id v) of
     Some existing \<Rightarrow> if existing \<noteq> v then (Inl (ValueError ''conflicting validation evidence id''), reg)
       else (Inr (), reg\<lparr>rg_evidence := AList.update (ve_evidence_id v) v (rg_evidence reg)\<rparr>)
   | None \<Rightarrow> (Inr (), reg\<lparr>rg_evidence := AList.update (ve_evidence_id v) v (rg_evidence reg)\<rparr>))"

definition record_report :: "validation_report \<Rightarrow> validation_registry \<Rightarrow> validation_registry" where
  "record_report r reg = reg\<lparr>rg_repo := map_option (save_report r) (rg_repo reg),
     rg_reports := AList.update (vr_report_id r) r (rg_reports reg)\<rparr>"

text \<open>A body under \<open>with self._lock\<close>.\<close>

definition with_lock :: "bool \<Rightarrow> 'a \<Rightarrow> 'a option" where
  "with_lock held x = (if held then None else Some x)"

definition evidence_for ::
  "bool \<Rightarrow> validation_registry \<Rightarrow> string \<Rightarrow> string \<Rightarrow> string \<Rightarrow> validation_evidence list option" where
  "evidence_for held reg sid ver rid = with_lock held (filter (\<lambda>v. ve_strategy_id v = sid \<and>
     ve_strategy_version v = ver \<and> ve_report_id v = rid) (map snd (rg_evidence reg)))"

definition reports_for ::
  "bool \<Rightarrow> validation_registry \<Rightarrow> string \<Rightarrow> string \<Rightarrow> (exc + validation_report list) option" where
  "reports_for held reg sid ver = (case rg_repo reg of
     Some rows \<Rightarrow> Some (get_reports_for_strategy sid ver rows)
   | None \<Rightarrow> with_lock held (Inr (filter (\<lambda>r. vr_strategy_id r = sid \<and> vr_strategy_version r = ver)
       (map snd (rg_reports reg)))))"

definition is_stage_approved ::
  "bool \<Rightarrow> validation_registry \<Rightarrow> string \<Rightarrow> string \<Rightarrow> string \<Rightarrow> validation_stage \<Rightarrow> string option \<Rightarrow> bool option" where
  "is_stage_approved held reg sid ver code stage rid = (case rg_repo reg of
     Some rows \<Rightarrow> Some (stored_stage_approved rows sid ver code stage)
   | None \<Rightarrow> with_lock held
       (list_ex (\<lambda>r. vr_strategy_id r = sid \<and> vr_strategy_version r = ver \<and> vr_code_hash r = code \<and>
          vr_stage r = stage \<and> vr_is_approved r) (map snd (rg_reports reg)) \<or>
        list_ex (\<lambda>v. ve_strategy_id v = sid \<and> ve_strategy_version v = ver \<and> ve_stage v = stage \<and>
          ve_approved v \<and> (rid = None \<or> Some (ve_report_id v) = rid)) (map snd (rg_evidence reg))))"

text \<open>\<open>all(...)\<close> over calls that may not return.\<close>

fun all_returning :: "('a \<Rightarrow> bool option) \<Rightarrow> 'a list \<Rightarrow> bool option" where
  "all_returning f [] = Some True"
| "all_returning f (x # xs) = (case f x of None \<Rightarrow> None | Some False \<Rightarrow> Some False | Some True \<Rightarrow> all_returning f xs)"

function release_eligible_for_code ::
    "bool \<Rightarrow> validation_registry \<Rightarrow> string \<Rightarrow> string \<Rightarrow> string \<Rightarrow> string option \<Rightarrow> bool option"
  and release_eligible :: "bool \<Rightarrow> validation_registry \<Rightarrow> string \<Rightarrow> string \<Rightarrow> string \<Rightarrow> bool option" where
  "release_eligible_for_code held reg sid ver code rid = (case rg_repo reg of
     Some rows \<Rightarrow> Some (stored_release_eligible rows sid ver code)
   | None \<Rightarrow>
      (case (case rid of None \<Rightarrow> Some False | Some r \<Rightarrow> release_eligible held reg sid ver r) of
         None \<Rightarrow> None
       | Some True \<Rightarrow> Some True
       | Some False \<Rightarrow> all_returning (\<lambda>stage. is_stage_approved held reg sid ver code stage rid) REQUIRED_STAGES))"
| "release_eligible held reg sid ver rid = (case evidence_for held reg sid ver rid of
     None \<Rightarrow> None
   | Some evidence \<Rightarrow>
      if evidence \<noteq> [] then
        (let approved_stages = set (map ve_stage (filter ve_approved evidence));
             rejected_stages = set (map ve_stage (filter (\<lambda>v. \<not> ve_approved v) evidence)) in
         Some (approved_stages = set REQUIRED_STAGES \<and> rejected_stages = {}))
      else if held then None
      else (case map_of (rg_reports reg) rid of
          None \<Rightarrow> Some False
        | Some report \<Rightarrow> release_eligible_for_code True reg sid ver (vr_code_hash report) (Some rid)))"
  by pat_completeness auto
termination
  by (relation "measure (\<lambda>x. case x of Inl (held, _) \<Rightarrow> if held then 1 else 3
        | Inr (held, _) \<Rightarrow> (if held then 0 else 2 :: nat))") auto

declare release_eligible_for_code.simps [simp del] release_eligible.simps [simp del]

section \<open>The catalog\<close>

text \<open>An implementation is known to the catalog by its packaged bytes.\<close>

record catalog_entry =
  ce_manifest :: strategy_manifest
  ce_artifact_bytes :: string
  ce_artifact_hash :: string

record catalog =
  ct_validation :: validation_registry
  ct_entries :: "((string \<times> string) \<times> catalog_entry) list"

type_synonym catalog_result = "((exc + catalog_entry) \<times> catalog) option"

abbreviation catalog_error :: "string \<Rightarrow> exc" where
  "catalog_error reason \<equiv> StrategyCatalogError reason"

definition release_check :: "strategy_manifest \<Rightarrow> validation_registry \<Rightarrow> bool option" where
  "release_check m reg = release_eligible_for_code False reg (sm_strategy_id m) (sm_version m) (sm_code_hash m)
     (Some (sm_validation_report_id m))"

definition register_strategy ::
  "(string \<Rightarrow> string) \<Rightarrow> strategy_manifest \<Rightarrow> string \<Rightarrow> string \<Rightarrow> catalog \<Rightarrow> catalog_result" where
  "register_strategy sha m implementation_bytes artifact_bytes c =
     (if artifact_bytes = [] then Some (Inl (ValueError ''packaged strategy artifact cannot be empty''), c)
      else if implementation_bytes \<noteq> artifact_bytes then Some (Inl (catalog_error ''HG_STRATEGY_HASH_MISMATCH''), c)
      else let actual_hash = sha artifact_bytes in
      if actual_hash \<noteq> sm_code_hash m then Some (Inl (catalog_error ''HG_STRATEGY_HASH_MISMATCH''), c)
      else case (if sm_release_status m = RELEASED then release_check m (ct_validation c) else Some True) of
        None \<Rightarrow> None
      | Some False \<Rightarrow> Some (Inl (catalog_error ''HG_STRATEGY_VALIDATION_INCOMPLETE''), c)
      | Some True \<Rightarrow>
         (let entry = \<lparr>ce_manifest = m, ce_artifact_bytes = implementation_bytes, ce_artifact_hash = actual_hash\<rparr> in
          case map_of (ct_entries c) (manifest_key m) of
            Some existing \<Rightarrow>
              if ce_manifest existing = m \<and> ce_artifact_hash existing = actual_hash then Some (Inr existing, c)
              else Some (Inl (catalog_error ''HG_STRATEGY_MANIFEST_CONFLICT''), c)
          | None \<Rightarrow> Some (Inr entry, c\<lparr>ct_entries := AList.update (manifest_key m) entry (ct_entries c)\<rparr>)))"

fun next_status :: "release_status \<Rightarrow> release_status option" where
  "next_status DRAFT = Some BACKTESTED"
| "next_status BACKTESTED = Some WALK_FORWARD_VALIDATED"
| "next_status WALK_FORWARD_VALIDATED = Some REPLAY_VALIDATED"
| "next_status REPLAY_VALIDATED = Some PRACTICE_VALIDATED"
| "next_status PRACTICE_VALIDATED = Some RELEASED"
| "next_status _ = None"

fun status_stage :: "release_status \<Rightarrow> validation_stage option" where
  "status_stage BACKTESTED = Some BACKTEST"
| "status_stage WALK_FORWARD_VALIDATED = Some WALK_FORWARD"
| "status_stage REPLAY_VALIDATED = Some REPLAY"
| "status_stage PRACTICE_VALIDATED = Some PRACTICE"
| "status_stage _ = None"

definition allowed_status :: "release_status \<Rightarrow> release_status \<Rightarrow> bool" where
  "allowed_status old_status new_status \<longleftrightarrow> Some new_status = next_status old_status \<or>
     old_status = RELEASED \<and> new_status \<in> {SUSPENDED, RETIRED} \<or>
     old_status = SUSPENDED \<and> new_status \<in> {RELEASED, RETIRED}"

text \<open>The stage a status asks for, checked only when the registry has a repository.\<close>

definition stage_check :: "strategy_manifest \<Rightarrow> release_status \<Rightarrow> validation_registry \<Rightarrow> bool option" where
  "stage_check m new_status reg = (if rg_repo reg = None then Some True
     else case status_stage new_status of None \<Rightarrow> Some True
       | Some stage \<Rightarrow> is_stage_approved False reg (sm_strategy_id m) (sm_version m) (sm_code_hash m) stage
           (Some (sm_validation_report_id m)))"

definition transition :: "string \<Rightarrow> string \<Rightarrow> release_status \<Rightarrow> catalog \<Rightarrow> catalog_result" where
  "transition sid ver new_status c = (case map_of (ct_entries c) (sid, ver) of
     None \<Rightarrow> Some (Inl (catalog_error ''HG_STRATEGY_NOT_FOUND''), c)
   | Some current \<Rightarrow> (let m = ce_manifest current in
      if \<not> allowed_status (sm_release_status m) new_status
      then Some (Inl (catalog_error ''HG_STRATEGY_LIFECYCLE_INVALID''), c)
      else case stage_check m new_status (ct_validation c) of
        None \<Rightarrow> None
      | Some False \<Rightarrow> Some (Inl (catalog_error ''HG_STRATEGY_VALIDATION_INCOMPLETE''), c)
      | Some True \<Rightarrow>
         (case (if new_status = RELEASED then release_eligible_for_code False (ct_validation c) sid ver
                  (sm_code_hash m) (Some (sm_validation_report_id m)) else Some True) of
            None \<Rightarrow> None
          | Some False \<Rightarrow> Some (Inl (catalog_error ''HG_STRATEGY_VALIDATION_INCOMPLETE''), c)
          | Some True \<Rightarrow>
             (let updated = current\<lparr>ce_manifest := with_status m new_status\<rparr> in
              Some (Inr updated, c\<lparr>ct_entries := AList.update (sid, ver) updated (ct_entries c)\<rparr>)))))"

definition catalog_get :: "string \<Rightarrow> string \<Rightarrow> catalog \<Rightarrow> exc + catalog_entry" where
  "catalog_get sid ver c = (case map_of (ct_entries c) (sid, ver) of
     None \<Rightarrow> Inl (catalog_error ''HG_STRATEGY_NOT_FOUND'') | Some e \<Rightarrow> Inr e)"

definition is_signal_eligible :: "string \<Rightarrow> string \<Rightarrow> catalog \<Rightarrow> bool" where
  "is_signal_eligible sid ver c = (case catalog_get sid ver c of
     Inl _ \<Rightarrow> False | Inr e \<Rightarrow> sm_release_status (ce_manifest e) = RELEASED)"

definition strategy_pack_for :: "string \<Rightarrow> string \<Rightarrow> catalog \<Rightarrow> exc + string" where
  "strategy_pack_for sid ver c = and_then (catalog_get sid ver c) (\<lambda>e. Inr (sm_strategy_pack (ce_manifest e)))"

record runtime_context =
  rc_strategy_id :: string
  rc_strategy_version :: string
  rc_broker :: broker
  rc_account_id :: string
  rc_product :: string
  rc_symbol :: string
  rc_timeframe_seconds :: int
  rc_configuration_version :: string
  rc_parameters :: "(string \<times> string) list"

definition RuntimeContext :: "runtime_context \<Rightarrow> exc + runtime_context" where
  "RuntimeContext x =
     and_then (require_nonblank [(''strategy_id'', rc_strategy_id x), (''strategy_version'', rc_strategy_version x),
       (''account_id'', rc_account_id x), (''product'', rc_product x), (''symbol'', rc_symbol x),
       (''configuration_version'', rc_configuration_version x)]) (\<lambda>_.
     and_then (raise_if (rc_timeframe_seconds x \<le> 0) (ValueError ''timeframe_seconds must be positive'')) (\<lambda>_.
     and_then (let names = map fst (rc_parameters x) in
       raise_if (list_ex blank names \<or> length (remdups names) \<noteq> length names)
         (ValueError ''parameter names must be unique and non-empty'')) (\<lambda>_.
     Inr x)))"

definition activate ::
  "runtime_context \<Rightarrow> string list \<Rightarrow> data_requirement list \<Rightarrow> catalog \<Rightarrow> exc + catalog_entry" where
  "activate x entitled_packs available_data c =
     and_then (catalog_get (rc_strategy_id x) (rc_strategy_version x) c) (\<lambda>entry.
     let m = ce_manifest entry; status = sm_release_status m in
     and_then (raise_if (status = SUSPENDED) (catalog_error ''HG_STRATEGY_SUSPENDED'')) (\<lambda>_.
     and_then (raise_if (status = RETIRED) (catalog_error ''HG_STRATEGY_RETIRED'')) (\<lambda>_.
     and_then (raise_if (status \<noteq> RELEASED) (catalog_error ''HG_STRATEGY_NOT_RELEASED'')) (\<lambda>_.
     let provided_parameters = set (map fst (rc_parameters x));
         declared_parameters = set (map ps_name (sm_parameter_schema m));
         required_parameters = set (map ps_name (filter ps_required (sm_parameter_schema m))) in
     and_then (raise_if (sm_strategy_pack m \<notin> set entitled_packs) (catalog_error ''HG_ENTITLEMENT_MISSING'')) (\<lambda>_.
     and_then (raise_if (rc_broker x \<notin> set (sm_supported_brokers m) \<or> rc_product x \<notin> set (sm_supported_products m) \<or>
         rc_timeframe_seconds x \<notin> set (sm_supported_timeframes m) \<or>
         \<not> set (sm_required_data m) \<subseteq> set available_data \<or>
         \<not> provided_parameters \<subseteq> declared_parameters \<or> \<not> required_parameters \<subseteq> provided_parameters)
       (catalog_error ''HG_STRATEGY_INCOMPATIBLE'')) (\<lambda>_.
     Inr entry))))))"

section \<open>Manifests read back\<close>

lemma release_status_of_value [simp]: "release_status_of (release_status_value s) = Inr s"
  by (cases s) (simp_all add: release_status_of_def enum_of_def)

lemma risk_class_of_value [simp]: "risk_class_of (risk_class_value s) = Inr s"
  by (cases s) (simp_all add: risk_class_of_def enum_of_def)

lemma parameter_kind_of_value [simp]: "parameter_kind_of (parameter_kind_value s) = Inr s"
  by (cases s) (simp_all add: parameter_kind_of_def enum_of_def)

lemma data_requirement_of_value [simp]: "data_requirement_of (data_requirement_value s) = Inr s"
  by (cases s) (simp add: data_requirement_of_def data_requirement_value_def enum_of_def)

lemma stage_of_value [simp]: "stage_of (stage_value s) = Inr s"
  by (cases s) (simp_all add: stage_of_def REQUIRED_STAGES_def enum_of_def)

lemma map_raising_map: "(\<And>x. x \<in> set xs \<Longrightarrow> f (g x) = Inr x) \<Longrightarrow> map_raising f (map g xs) = Inr xs"
  by (induction xs) simp_all

lemma string_list_map [simp]: "string_list (PList (map PStr xs)) field = Inr xs"
  by (simp add: list_all_iff comp_def)

lemma string_list_values: "string_list (PList (map (PStr \<circ> f) xs)) field = Inr (map f xs)"
  using string_list_map [of "map f xs"] by simp

lemma timeframe_list_map [simp]: "timeframe_list (PList (map PInt xs)) = Inr xs"
  by (simp add: list_all_iff comp_def)

lemma parameter_roundtrip: "ParameterSpec p = Inr p \<Longrightarrow> parameter_from_payload (parameter_to_payload p) = Inr p"
  by (cases p) (simp add: parameter_to_payload_def insert_commute)

lemma manifest_eta: "\<lparr>sm_manifest_version = sm_manifest_version m, sm_strategy_id = sm_strategy_id m, sm_version =
     sm_version m, sm_code_hash = sm_code_hash m, sm_supported_brokers = sm_supported_brokers m,
     sm_supported_products = sm_supported_products m, sm_supported_timeframes = sm_supported_timeframes
     m, sm_required_data = sm_required_data m, sm_warmup_candles = sm_warmup_candles m,
     sm_parameter_schema = sm_parameter_schema m, sm_risk_class = sm_risk_class m,
     sm_validation_report_id = sm_validation_report_id m, sm_release_status = sm_release_status m,
     sm_strategy_pack = sm_strategy_pack m\<rparr> = m"
  by simp

text \<open>The payload of a manifest is read back as the same manifest.\<close>

lemma manifest_roundtrip:
  assumes "StrategyManifest m = Inr m" "\<And>p. p \<in> set (sm_parameter_schema m) \<Longrightarrow> ParameterSpec p = Inr p"
  shows "manifest_from_payload (PDict (manifest_to_payload m)) = Inr m"
proof -
  have lists: "map_raising broker_of (map broker_value (sm_supported_brokers m)) = Inr (sm_supported_brokers m)"
      "map_raising data_requirement_of (map data_requirement_value (sm_required_data m)) = Inr (sm_required_data m)"
      "map_raising parameter_from_payload (map parameter_to_payload (sm_parameter_schema m)) =
         Inr (sm_parameter_schema m)"
    using assms(2) by (simp_all add: map_raising_map parameter_roundtrip)
  have keys: "set (map fst (manifest_to_payload m)) = set manifest_fields"
    by (simp add: manifest_to_payload_def manifest_fields_def)
  have "manifest_from_payload (PDict (manifest_to_payload m)) = StrategyManifest m"
    by (simp only: manifest_from_payload.simps keys)
      (simp add: manifest_to_payload_def string_list_values lists manifest_eta
        del: string_list.simps timeframe_list.simps)
  then show ?thesis using assms(1) by simp
qed

section \<open>The release check\<close>

lemmas release_simps = release_eligible_for_code.simps release_eligible.simps evidence_for_def with_lock_def

lemma all_returning_Some: "(\<And>x. f x \<noteq> None) \<Longrightarrow> all_returning f xs = Some (list_all (\<lambda>x. f x = Some True) xs)"
  by (induction xs) (auto split: option.split bool.split)

text \<open>The lock taken twice: no evidence for the report, and a report in memory.\<close>

definition relocks :: "validation_registry \<Rightarrow> string \<Rightarrow> string \<Rightarrow> string \<Rightarrow> bool" where
  "relocks reg sid ver rid \<longleftrightarrow> rg_repo reg = None \<and> evidence_for False reg sid ver rid = Some [] \<and>
     map_of (rg_reports reg) rid \<noteq> None"

lemma release_eligible_held: "release_eligible True reg sid ver rid = None"
  by (simp add: release_simps)

lemma release_eligible_blocks: "release_eligible False reg sid ver rid = None \<longleftrightarrow> relocks reg sid ver rid"
proof (cases "map_of (rg_reports reg) rid")
  case (Some report)
  have "release_eligible_for_code True reg sid ver (vr_code_hash report) (Some rid) = None \<longleftrightarrow> rg_repo reg = None"
    by (simp add: release_eligible_for_code.simps release_eligible_held split: option.split)
  then show ?thesis
    by (simp add: release_eligible.simps relocks_def evidence_for_def with_lock_def Some Let_def)
qed (auto simp: release_eligible.simps relocks_def evidence_for_def with_lock_def Let_def)

lemma stage_approved_returns: "is_stage_approved False reg sid ver code stage rid \<noteq> None"
  by (simp add: is_stage_approved_def with_lock_def split: option.split)

lemma release_eligible_for_code_blocks:
  "release_eligible_for_code False reg sid ver code (Some rid) = None \<longleftrightarrow> relocks reg sid ver rid"
proof (cases "rg_repo reg")
  case None
  then show ?thesis
    using release_eligible_blocks [of reg sid ver rid]
    by (auto simp: release_eligible_for_code.simps all_returning_Some [OF stage_approved_returns] split: option.split bool.split)
qed (simp add: release_eligible_for_code.simps relocks_def)

text \<open>What a positive answer means: every stage was approved by a stored report, a report or evidence.\<close>

definition stage_validated ::
  "validation_registry \<Rightarrow> string \<Rightarrow> string \<Rightarrow> string \<Rightarrow> string \<Rightarrow> validation_stage \<Rightarrow> bool" where
  "stage_validated reg sid ver code rid stage \<longleftrightarrow>
     (case rg_repo reg of Some rows \<Rightarrow> stored_stage_approved rows sid ver code stage
      | None \<Rightarrow> (\<exists>r\<in>snd ` set (rg_reports reg). vr_strategy_id r = sid \<and> vr_strategy_version r = ver \<and>
            vr_code_hash r = code \<and> vr_stage r = stage \<and> vr_is_approved r) \<or>
          (\<exists>v\<in>snd ` set (rg_evidence reg). ve_strategy_id v = sid \<and> ve_strategy_version v = ver \<and>
            ve_report_id v = rid \<and> ve_stage v = stage \<and> ve_approved v))"

lemma all_stages: "stage \<in> set REQUIRED_STAGES"
  by (cases stage) (simp_all add: REQUIRED_STAGES_def)

lemma evidence_validates:
  assumes "rg_repo reg = None" "release_eligible False reg sid ver rid = Some True"
  shows "stage_validated reg sid ver code rid stage"
proof -
  let ?ev = "filter (\<lambda>v. ve_strategy_id v = sid \<and> ve_strategy_version v = ver \<and> ve_report_id v = rid) (map snd (rg_evidence reg))"
  have "?ev \<noteq> []"
  proof
    assume "?ev = []"
    then have "release_eligible False reg sid ver rid \<noteq> Some True"
      using assms(1) by (simp add: release_eligible.simps release_eligible_for_code.simps release_eligible_held
          evidence_for_def with_lock_def split: option.split)
    then show False using assms(2) by simp
  qed
  then have "set (map ve_stage (filter ve_approved ?ev)) = set REQUIRED_STAGES"
    using assms(2) by (simp add: release_eligible.simps evidence_for_def with_lock_def Let_def)
  then have "stage \<in> set (map ve_stage (filter ve_approved ?ev))" using all_stages by blast
  then show ?thesis using assms(1) by (auto simp: stage_validated_def)
qed

lemma release_needs_every_stage:
  assumes "release_eligible_for_code False reg sid ver code (Some rid) = Some True"
  shows "stage_validated reg sid ver code rid stage"
proof (cases "rg_repo reg")
  case None
  show ?thesis
  proof (cases "release_eligible False reg sid ver rid = Some True")
    case True
    then show ?thesis using None by (rule evidence_validates [rotated])
  next
    case False
    then have "is_stage_approved False reg sid ver code stage (Some rid) = Some True"
      using assms None all_stages [of stage]
      by (auto simp: release_eligible_for_code.simps all_returning_Some [OF stage_approved_returns] list_all_iff
          split: option.splits bool.splits)
    then show ?thesis
      using None by (auto simp: is_stage_approved_def with_lock_def stage_validated_def list_ex_iff)
  qed
next
  case (Some rows)
  then show ?thesis
    using assms all_stages [of stage]
    by (simp add: release_eligible_for_code.simps stored_release_eligible_def list_all_iff stage_validated_def)
qed

section \<open>The life cycle\<close>

definition status_successors :: "release_status \<Rightarrow> release_status list" where
  "status_successors s = filter (allowed_status s) [DRAFT, BACKTESTED, WALK_FORWARD_VALIDATED, REPLAY_VALIDATED,
     PRACTICE_VALIDATED, RELEASED, SUSPENDED, RETIRED]"

lemma status_successors_iff: "t \<in> set (status_successors s) \<longleftrightarrow> allowed_status s t"
  by (cases t) (simp_all add: status_successors_def)

interpretation release_status: lifecycle status_successors "\<lambda>s. s = RETIRED"
  by unfold_locales (simp add: status_successors_def allowed_status_def)

lemma transition_eq_Inr:
  assumes "transition sid ver s c = Some (Inr e, c')"
  obtains current where "map_of (ct_entries c) (sid, ver) = Some current"
    "allowed_status (sm_release_status (ce_manifest current)) s" "e = current\<lparr>ce_manifest := with_status (ce_manifest current) s\<rparr>"
    "c' = c\<lparr>ct_entries := AList.update (sid, ver) e (ct_entries c)\<rparr>"
    "s = RELEASED \<Longrightarrow> release_eligible_for_code False (ct_validation c) sid ver (sm_code_hash (ce_manifest current))
       (Some (sm_validation_report_id (ce_manifest current))) = Some True"
  using assms that by (auto simp: transition_def Let_def split: option.splits if_splits bool.splits)

lemma transition_Inl: "transition sid ver s c = Some (Inl x, c') \<Longrightarrow> c' = c"
  by (auto simp: transition_def Let_def split: option.splits if_splits bool.splits)

text \<open>A strategy is released only when every stage is validated for it.\<close>

lemma released_is_validated:
  assumes "transition sid ver RELEASED c = Some (Inr e, c')"
  shows "stage_validated (ct_validation c) sid ver (sm_code_hash (ce_manifest e)) (sm_validation_report_id (ce_manifest e)) stage"
proof -
  from assms obtain current where "e = current\<lparr>ce_manifest := with_status (ce_manifest current) RELEASED\<rparr>"
      "release_eligible_for_code False (ct_validation c) sid ver (sm_code_hash (ce_manifest current))
       (Some (sm_validation_report_id (ce_manifest current))) = Some True"
    by (rule transition_eq_Inr) blast
  then show ?thesis using release_needs_every_stage by (simp add: with_status_def)
qed

text \<open>Only a released strategy of an entitled pack is activated.\<close>

lemma activate_guard:
  "activate x packs available c = Inr e \<Longrightarrow> catalog_get (rc_strategy_id x) (rc_strategy_version x) c = Inr e \<and>
   sm_release_status (ce_manifest e) = RELEASED \<and> sm_strategy_pack (ce_manifest e) \<in> set packs \<and>
   rc_broker x \<in> set (sm_supported_brokers (ce_manifest e)) \<and>
   is_signal_eligible (rc_strategy_id x) (rc_strategy_version x) c"
  by (auto simp: activate_def Let_def raises is_signal_eligible_def)

section \<open>Every entry is the code it was validated as\<close>

definition entry_ok :: "(string \<Rightarrow> string) \<Rightarrow> (string \<times> string) \<times> catalog_entry \<Rightarrow> bool" where
  "entry_ok sha ke \<longleftrightarrow> manifest_key (ce_manifest (snd ke)) = fst ke \<and>
     ce_artifact_hash (snd ke) = sm_code_hash (ce_manifest (snd ke)) \<and>
     sha (ce_artifact_bytes (snd ke)) = ce_artifact_hash (snd ke)"

definition catalog_ok :: "(string \<Rightarrow> string) \<Rightarrow> catalog \<Rightarrow> bool" where
  "catalog_ok sha c \<longleftrightarrow> (\<forall>ke\<in>set (ct_entries c). entry_ok sha ke) \<and> distinct (map fst (ct_entries c))"

lemma set_update_subset: "set (AList.update k v al) \<subseteq> insert (k, v) (set al)"
  by (induction al) auto

lemma catalog_ok_update:
  assumes "catalog_ok sha c" "entry_ok sha (k, e)"
  shows "catalog_ok sha (c\<lparr>ct_entries := AList.update k e (ct_entries c)\<rparr>)"
  using assms set_update_subset [of k e "ct_entries c"] by (auto simp: catalog_ok_def distinct_update)

lemma register_strategy_ok:
  assumes "catalog_ok sha c" "register_strategy sha m impl bytes c = Some (r, c')"
  shows "catalog_ok sha c'"
proof (cases "c' = c")
  case False
  then have "impl = bytes" "sha bytes = sm_code_hash m" "c' = c\<lparr>ct_entries := AList.update (manifest_key m)
      \<lparr>ce_manifest = m, ce_artifact_bytes = impl, ce_artifact_hash = sha bytes\<rparr> (ct_entries c)\<rparr>"
    using assms(2) by (auto simp: register_strategy_def Let_def split: if_splits option.splits bool.splits)
  then show ?thesis
    using assms(1) by (auto intro!: catalog_ok_update simp: entry_ok_def)
qed (use assms in simp)

lemma transition_ok:
  assumes "catalog_ok sha c" "transition sid ver s c = Some (r, c')"
  shows "catalog_ok sha c'"
proof (cases r)
  case (Inl x)
  then show ?thesis using assms transition_Inl [of sid ver s c x c'] by simp
next
  case (Inr e)
  show ?thesis
  proof (rule transition_eq_Inr [OF assms(2) [unfolded Inr]])
    fix current
    assume t: "map_of (ct_entries c) (sid, ver) = Some current"
      "e = current\<lparr>ce_manifest := with_status (ce_manifest current) s\<rparr>"
      "c' = c\<lparr>ct_entries := AList.update (sid, ver) e (ct_entries c)\<rparr>"
    have "entry_ok sha ((sid, ver), current)"
      using assms(1) map_of_SomeD [OF t(1)] by (simp add: catalog_ok_def)
    then have "entry_ok sha ((sid, ver), e)"
      by (simp add: t(2) entry_ok_def with_status_def manifest_key_def)
    then show ?thesis using assms(1) t(3) catalog_ok_update by simp
  qed
qed

inductive catalog_step :: "(string \<Rightarrow> string) \<Rightarrow> catalog \<Rightarrow> catalog \<Rightarrow> bool" for sha where
  registered: "register_strategy sha m impl bytes c = Some (r, c') \<Longrightarrow> catalog_step sha c c'"
| moved: "transition sid ver s c = Some (r, c') \<Longrightarrow> catalog_step sha c c'"
| evidence: "catalog_step sha c (c\<lparr>ct_validation := snd (record_validation v (ct_validation c))\<rparr>)"
| reported: "catalog_step sha c (c\<lparr>ct_validation := record_report rep (ct_validation c)\<rparr>)"

lemma catalog_step_ok:
  assumes "catalog_ok sha s" "catalog_step sha s t"
  shows "catalog_ok sha t"
  using assms(2)
proof (cases rule: catalog_step.cases)
  case registered
  then show ?thesis using assms(1) register_strategy_ok by blast
next
  case moved
  then show ?thesis using assms(1) transition_ok by blast
qed (use assms(1) in \<open>simp_all add: catalog_ok_def\<close>)

definition catalog_init :: "catalog \<Rightarrow> bool" where
  "catalog_init c \<longleftrightarrow> ct_entries c = []"

interpretation catalog_runs: invariant_system catalog_init "catalog_step sha" "catalog_ok sha" for sha
proof
  show "catalog_ok sha s" if "catalog_init s" for s
    using that by (simp add: catalog_init_def catalog_ok_def)
  show "catalog_ok sha t" if "catalog_ok sha s" "catalog_step sha s t" for s t
    using that by (rule catalog_step_ok)
qed

text \<open>
  In every catalog that a run of the methods leads to, an entry is stored under the key of its manifest,
  and the hash of its packaged bytes is the hash the manifest declares.
\<close>

lemma catalog_entries_authentic:
  assumes "reach catalog_init (catalog_step sha) c" "catalog_get sid ver c = Inr e"
  shows "manifest_key (ce_manifest e) = (sid, ver) \<and> sha (ce_artifact_bytes e) = sm_code_hash (ce_manifest e)"
  using catalog_runs.reach_inv [OF assms(1)] assms(2)
  by (auto simp: catalog_get_def catalog_ok_def entry_ok_def split: option.splits dest!: map_of_SomeD)

text \<open>
  C15: when the release of a strategy returns. Asking the catalog to release a registered strategy that is
  practice validated or suspended never returns exactly when the registry has no repository, holds no
  evidence for the manifest's validation report and has a report recorded under that identifier: the check
  then takes the lock of the registry a second time. In every other case the request is answered.
\<close>

theorem release_request_blocks:
  "transition sid ver RELEASED c = None \<longleftrightarrow>
   (\<exists>current. map_of (ct_entries c) (sid, ver) = Some current \<and>
      sm_release_status (ce_manifest current) \<in> {PRACTICE_VALIDATED, SUSPENDED} \<and>
      rg_repo (ct_validation c) = None \<and>
      evidence_for False (ct_validation c) sid ver (sm_validation_report_id (ce_manifest current)) = Some [] \<and>
      map_of (rg_reports (ct_validation c)) (sm_validation_report_id (ce_manifest current)) \<noteq> None)"
proof (cases "map_of (ct_entries c) (sid, ver)")
  case (Some current)
  let ?m = "ce_manifest current" and ?reg = "ct_validation c"
  have "allowed_status (sm_release_status ?m) RELEASED \<longleftrightarrow> sm_release_status ?m \<in> {PRACTICE_VALIDATED, SUSPENDED}"
    by (cases "sm_release_status ?m") (simp_all add: allowed_status_def)
  moreover have "stage_check ?m RELEASED ?reg = Some True"
    by (simp add: stage_check_def)
  ultimately have "transition sid ver RELEASED c = None \<longleftrightarrow> sm_release_status ?m \<in> {PRACTICE_VALIDATED, SUSPENDED} \<and>
      release_eligible_for_code False ?reg sid ver (sm_code_hash ?m) (Some (sm_validation_report_id ?m)) = None"
    by (auto simp: transition_def Some Let_def split: option.split bool.split)
  then show ?thesis
    by (simp add: Some release_eligible_for_code_blocks relocks_def)
qed (simp add: transition_def)

end
