(* ===== verification/Spec2Isabelle.thy ===== *)
theory Spec2Isabelle
  imports CycleProps TickBuffer MarketScheduler Protocol Journal Catalog
begin

text \<open>
  Verification of the core of the trading desktop for Deriv and IQ Option.

  \<^bold>\<open>The program.\<close> A Core process takes trading intents, checks them against a risk ledger and a
  health gate, stores an intent with its risk reservation, an outgoing command and an order in one
  transaction of a critical SQLite database, hands commands to broker workers, and follows every
  order to its end by broker events and by reconciliation with the broker. Beside it a market data
  pipeline turns ticks into closed candles, stores them, keeps a health state per series and
  schedules backfills; a decision journal records what strategies decided; a catalog says which
  strategies may run; and processes talk to each other in framed envelopes.

  \<^bold>\<open>How code is modelled.\<close> A Python function is a HOL function of its arguments. A method is a
  function from the state of its object to a result and the new state; the state is a record with
  the attributes of the class, an enumeration is a datatype, a dictionary is a map or an association
  list in insertion order, a table is the list of its rows in the order of insertion, and a
  transaction gives back the old tables when it raises. A result that may be an exception has type
  \<^typ>\<open>exc + 'a\<close>, with one constructor of \<^typ>\<open>exc\<close> per exception class. Integers are unbounded as
  in Python, bytes are words of eight bits, decimals are rationals rounded where the decimal context
  rounds them, seconds of clocks are rationals, and text is a list of characters. Clocks, random samples,
  SHA-256, the canonical JSON text of a value, injected faults, and the answers of broker workers are
  arguments. Locks are not modelled, with one exception: the lock of the validation registry, which
  one call can try to take a second time.

  \<^bold>\<open>Shared theories.\<close>
  \<^item> \<open>Prelude\<close>: exceptions and sequencing, string methods, untyped values, tables, and the locales
    \<open>invariant_system\<close>, \<open>history_system\<close>, \<open>simulation\<close> and \<open>lifecycle\<close> that the state machines below
    interpret.
  \<^item> \<open>DateTime\<close>, \<open>Decimals\<close>: the parts of \<open>datetime\<close> and \<open>decimal\<close> the program uses, with the
    round trip of ISO timestamps and the bounds of rounding.
  \<^item> \<open>Domain\<close>, \<open>Evidence\<close>: \<open>packages/domain/models.py\<close>, \<open>packages/domain/symbols.py\<close> and the
    evidence of \<open>packages/protocol/messages.py\<close>; checks of the constructors and payloads.

  \<^bold>\<open>The critical database.\<close>
  \<^item> \<open>Database\<close>: the tables and constraints of \<open>packages/persistence/migrations.py\<close>.
  \<^item> \<open>Writer\<close>, \<open>WriterDigit\<close>, \<open>WriterEvents\<close>, \<open>WriterReconciliation\<close>, \<open>WriterQueues\<close>: the public
    methods of \<open>SingleDatabaseWriter\<close> in \<open>packages/persistence/writer.py\<close>.
  \<^item> \<open>WriterInv\<close>: the invariant of the financial tables, what no run undoes, and the refinement of an
    abstract machine that holds at most one exposure per account. \<open>Scenario\<close> is a concrete run on
    which the properties are instantiated.
  \<^item> \<open>WriterProps\<close>, \<open>EventProps\<close>, \<open>OutboxProps\<close>, \<open>ReconciliationProps\<close>: a reservation is active exactly
    while its order is open, one exposure per account, no message is claimed twice, a finished order
    is final, profit and loss count once, replayed events change nothing, orders are stored
    atomically within the limits, recovery marks what it cannot know, and an order is closed as never
    submitted only on confirmed absence. They also show the states in which a claim or a recovery
    raises for good.

  \<^bold>\<open>The Core.\<close>
  \<^item> \<open>HealthGate\<close>, \<open>Allocation\<close>, \<open>RiskLedger\<close>, \<open>Reader\<close>: \<open>apps/core/health.py\<close>,
    \<open>packages/portfolio_allocation/martingale.py\<close> with \<open>apps/core/digit_risk_config.py\<close>,
    \<open>apps/core/risk.py\<close>, \<open>packages/persistence/reader.py\<close>.
  \<^item> \<open>Core\<close>, \<open>Reconciler\<close>, \<open>Runtime\<close>: \<open>apps/core/coordinator.py\<close>, \<open>recovery.py\<close>, \<open>broker_events.py\<close>,
    \<open>reconciliation.py\<close>, \<open>reconciliation_scheduler.py\<close> and \<open>runtime.py\<close>, on one state that holds
    writer, gate and ledger.
  \<^item> \<open>CoreInv\<close>: every run of the Core is a run of the writer. \<open>GateStays\<close>: which blockers the Core lifts
    by itself.
  \<^item> \<open>RiskProps\<close>, \<open>CoreProps\<close>, \<open>CycleProps\<close>: bounds of stakes, what a reservation guarantees, the gate
    answers with its reasons, the check in memory is as strict as the one in the store, outcomes of a
    dispatch, failing closed, blockers that hold, orders that are stored, events that count once, the
    number of reconciliation attempts, and when a cycle lifts a blocker.

  \<^bold>\<open>Market data.\<close>
  \<^item> \<open>TickBuffer\<close>: \<open>packages/market_data/tick_ring_buffer.py\<close>; the running counts of the ring are those
    of the plain list of the last ticks.
  \<^item> \<open>CandleStore\<close>: candles, the store in memory and the SQLite repository
    (\<open>packages/market_data\<close>, \<open>packages/persistence/candle_repository.py\<close>); both interpret the locale
    \<open>candle_log\<close>, so they give the same answers, and a durable series is well formed.
  \<^item> \<open>LiveCandles\<close>: the aggregator of \<open>packages/market_pipeline/live.py\<close>; its candles summarise runs of
    ticks.
  \<^item> \<open>MarketGate\<close>: \<open>health.py\<close>, \<open>clock.py\<close> and \<open>planner.py\<close> of \<open>packages/market_pipeline\<close>; a series is
    dispatched only after a recovery of its current connection, requests stay inside the batch size
    and the horizon, and a request after the last durable candle advances.
  \<^item> \<open>MarketScheduler\<close>: \<open>packages/market_pipeline/scheduler.py\<close>; delays are bounded, and with slow
    ticks only the first series are served.

  \<^bold>\<open>Messages, journal, catalog.\<close>
  \<^item> \<open>Protocol\<close>: \<open>framing.py\<close>, \<open>envelope.py\<close> and \<open>codec.py\<close> of \<open>packages/protocol\<close>; frames survive
    any cutting of the stream, and the document of an envelope is read back.
  \<^item> \<open>Journal\<close>: \<open>packages/audit\<close> and \<open>packages/persistence/journal_repository.py\<close>; what was appended
    verifies, and a rewritten run is detected unless the hash function collides.
  \<^item> \<open>Catalog\<close>: \<open>packages/strategy_catalog\<close> and \<open>packages/persistence/validation_repository.py\<close>;
    manifests are read back, a release needs every stage, entries are authentic, and a request to
    release blocks in exactly one situation.

  \<^bold>\<open>Bounds and termination.\<close> No function of the model runs on fuel. Loops of the code are structural
  recursions on the list they walk, or have a measure: the bytes still to read in \<open>receive_exact\<close>, the
  attempts left in the reconciliation loop, the lock in \<open>release_eligible\<close>. A call that never returns
  has the value \<open>None\<close>. Character codes are below 256, which covers the ASCII identifiers the code
  compares; nothing depends on larger code points.

  \<^bold>\<open>Not modelled.\<close>
  \<^item> Threads, processes, sockets and timers: the wiring of the Core (\<open>apps/core\<close> beyond the files
    above), launcher, updater, supervisors and the pumps that call the modelled operations. Their
    order of calls is arbitrary in the theorems on runs.
  \<^item> Broker workers and adapters (\<open>apps/deriv_worker\<close>, \<open>apps/iqoption_worker\<close>, \<open>packages/brokers\<close>):
    vendor protocols over the network. A worker is an argument with arbitrary answers.
  \<^item> The user interface, logging, diagnostics and retention.
  \<^item> Strategies, signal arbitration and the sequential test: statistics on floating-point numbers.
  \<^item> Authentication, licensing and secrets: their meaning lies in signatures and the platform vault.
  \<^item> The text of JSON documents, the migrations that run on a file, backups, replay, and the PostgreSQL
    and Redis stores.
  \<^item> The other typed messages of \<open>packages/protocol\<close>, which are data classes with field checks, and the
    coordinator, dispatcher and router of \<open>packages/market_pipeline\<close>, which compose the modelled parts
    with a broker pump and strategy workers.
\<close>

end
